(* ===== verification/Prelude.thy ===== *)
theory Prelude
  imports Main "HOL-Library.Sublist"
begin

text \<open>
  Shared vocabulary of the development. A Python call that may raise returns a value of the
  sum type \<open>'e + 'a\<close> (\<open>Inl\<close> the exception); a call that also acts on the outside world
  (network, clock, terminal, file system) is a function from the world to a result and the
  next world. \<open>bind_res\<close> and \<open>bind_io\<close> sequence them the way Python statements are
  sequenced: the first exception ends the block. The collections at the top carry the facts
  that the component proofs share.
\<close>

named_theorems result_simps "equations and case splits of fallible results"
named_theorems io_simps "equations of the effect combinators"
named_theorems gate_simps "when the pieces of a verify gate report nothing"

section \<open>Fallible results\<close>

definition bind_res :: "'e + 'a \<Rightarrow> ('a \<Rightarrow> 'e + 'b) \<Rightarrow> 'e + 'b" where
  "bind_res m f = (case m of Inl e \<Rightarrow> Inl e | Inr x \<Rightarrow> f x)"

lemma bind_res_Inl [simp, result_simps]: "bind_res (Inl e) f = Inl e"
  by (simp add: bind_res_def)

lemma bind_res_Inr [simp, result_simps]: "bind_res (Inr x) f = f x"
  by (simp add: bind_res_def)

lemma bind_res_eq_Inr [result_simps]:
  "bind_res m f = Inr y \<longleftrightarrow> (\<exists>x. m = Inr x \<and> f x = Inr y)"
  by (cases m) simp_all

lemma bind_res_eq_Inl [result_simps]:
  "bind_res m f = Inl e \<longleftrightarrow> m = Inl e \<or> (\<exists>x. m = Inr x \<and> f x = Inl e)"
  by (cases m) simp_all

lemma bind_res_assoc: "bind_res (bind_res m f) g = bind_res m (\<lambda>x. bind_res (f x) g)"
  by (cases m) simp_all

text \<open>A loop that maps a fallible function over a list and stops at the first exception.\<close>

fun map_res :: "('a \<Rightarrow> 'e + 'b) \<Rightarrow> 'a list \<Rightarrow> 'e + 'b list" where
  "map_res f [] = Inr []"
| "map_res f (x # xs) = bind_res (f x) (\<lambda>y. bind_res (map_res f xs) (\<lambda>ys. Inr (y # ys)))"

lemma map_res_all_Inr: "(\<And>x. x \<in> set xs \<Longrightarrow> f x = Inr (g x)) \<Longrightarrow> map_res f xs = Inr (map g xs)"
  by (induction xs) simp_all

lemma map_res_length: "map_res f xs = Inr ys \<Longrightarrow> length ys = length xs"
  by (induction xs arbitrary: ys) (auto simp: result_simps)

section \<open>Effects\<close>

type_synonym ('w, 'e, 'a) io = "'w \<Rightarrow> ('e + 'a) \<times> 'w"

definition return_io :: "'a \<Rightarrow> ('w, 'e, 'a) io" where
  "return_io x = (\<lambda>w. (Inr x, w))"

definition raise_io :: "'e \<Rightarrow> ('w, 'e, 'a) io" where
  "raise_io e = (\<lambda>w. (Inl e, w))"

definition lift_io :: "'e + 'a \<Rightarrow> ('w, 'e, 'a) io" where
  "lift_io r = (\<lambda>w. (r, w))"

definition bind_io :: "('w, 'e, 'a) io \<Rightarrow> ('a \<Rightarrow> ('w, 'e, 'b) io) \<Rightarrow> ('w, 'e, 'b) io" where
  "bind_io m f = (\<lambda>w. case m w of (Inl e, w') \<Rightarrow> (Inl e, w') | (Inr x, w') \<Rightarrow> f x w')"

text \<open>\<open>try_io m h\<close> is \<open>try: m / except: h\<close>; \<open>finally_io m c\<close> runs \<open>c\<close> on both paths.\<close>

definition try_io :: "('w, 'e, 'a) io \<Rightarrow> ('e \<Rightarrow> ('w, 'e, 'a) io) \<Rightarrow> ('w, 'e, 'a) io" where
  "try_io m h = (\<lambda>w. case m w of (Inl e, w') \<Rightarrow> h e w' | (Inr x, w') \<Rightarrow> (Inr x, w'))"

definition finally_io :: "('w, 'e, 'a) io \<Rightarrow> ('w \<Rightarrow> 'w) \<Rightarrow> ('w, 'e, 'a) io" where
  "finally_io m c = (\<lambda>w. case m w of (r, w') \<Rightarrow> (r, c w'))"

lemma return_io_app [simp, io_simps]: "return_io x w = (Inr x, w)"
  by (simp add: return_io_def)

lemma raise_io_app [simp, io_simps]: "raise_io e w = (Inl e, w)"
  by (simp add: raise_io_def)

lemma lift_io_app [simp, io_simps]: "lift_io r w = (r, w)"
  by (simp add: lift_io_def)

lemma bind_io_Inr [io_simps]: "m w = (Inr x, w') \<Longrightarrow> bind_io m f w = f x w'"
  by (simp add: bind_io_def)

lemma bind_io_Inl [io_simps]: "m w = (Inl e, w') \<Longrightarrow> bind_io m f w = (Inl e, w')"
  by (simp add: bind_io_def)

lemma bind_io_return [simp]: "bind_io (return_io x) f = f x"
  by (rule ext) (simp add: bind_io_def)

lemma bind_io_raise [simp]: "bind_io (raise_io e) f = raise_io e"
  by (rule ext) (simp add: bind_io_def)

lemma bind_io_lift: "bind_io (lift_io r) f w = (case r of Inl e \<Rightarrow> (Inl e, w) | Inr x \<Rightarrow> f x w)"
  by (simp add: bind_io_def split: sum.splits)

lemma bind_io_eq_Inr:
  "bind_io m f w = (Inr y, w'') \<longleftrightarrow> (\<exists>x w'. m w = (Inr x, w') \<and> f x w' = (Inr y, w''))"
  by (auto simp: bind_io_def split: prod.splits sum.splits)

lemma bind_io_eq_Inl:
  "bind_io m f w = (Inl e, w'') \<longleftrightarrow>
     m w = (Inl e, w'') \<or> (\<exists>x w'. m w = (Inr x, w') \<and> f x w' = (Inl e, w''))"
  by (auto simp: bind_io_def split: prod.splits sum.splits)

lemma bind_io_assoc: "bind_io (bind_io m f) g = bind_io m (\<lambda>x. bind_io (f x) g)"
  by (rule ext) (auto simp: bind_io_def split: prod.splits sum.splits)

section \<open>Mapping an effect over a list\<close>

fun map_io :: "('a \<Rightarrow> ('w, 'e, 'b) io) \<Rightarrow> 'a list \<Rightarrow> ('w, 'e, 'b list) io" where
  "map_io f [] = return_io []"
| "map_io f (x # xs) = bind_io (f x) (\<lambda>y. bind_io (map_io f xs) (\<lambda>ys. return_io (y # ys)))"

lemma map_io_all_Inr:
  "(\<And>x w. x \<in> set xs \<Longrightarrow> fst (f x w) = Inr (g x)) \<Longrightarrow> \<exists>w'. map_io f xs w = (Inr (map g xs), w')"
proof (induction xs arbitrary: w)
  case Nil
  show ?case by simp
next
  case (Cons x xs)
  have "fst (f x w) = Inr (g x)" using Cons.prems [of x w] by simp
  then obtain w1 where w1: "f x w = (Inr (g x), w1)" by (metis prod.collapse)
  have "\<And>y w. y \<in> set xs \<Longrightarrow> fst (f y w) = Inr (g y)" using Cons.prems by simp
  then obtain w2 where "map_io f xs w1 = (Inr (map g xs), w2)" using Cons.IH by blast
  with w1 show ?case by (simp add: bind_io_def)
qed

section \<open>What an operation leaves alone\<close>

text \<open>\<open>keeps f m\<close>: whatever \<open>m\<close> does and however it ends, the part \<open>f\<close> of the world is as before.\<close>

named_theorems keeps_intros "an operation keeps a part of the world"

definition keeps :: "('w \<Rightarrow> 's) \<Rightarrow> ('w, 'e, 'a) io \<Rightarrow> bool" where
  "keeps f m \<longleftrightarrow> (\<forall>w. f (snd (m w)) = f w)"

lemma keepsD: "keeps f m \<Longrightarrow> m w = (r, w') \<Longrightarrow> f w' = f w"
  unfolding keeps_def by (metis snd_conv)

lemma keeps_return [keeps_intros]: "keeps f (return_io x)"
  and keeps_raise [keeps_intros]: "keeps f (raise_io e)"
  and keeps_lift [keeps_intros]: "keeps f (lift_io r)"
  by (simp_all add: keeps_def)

lemma keeps_bind [keeps_intros]: "keeps f m \<Longrightarrow> (\<And>x. keeps f (g x)) \<Longrightarrow> keeps f (bind_io m g)"
  by (auto simp: keeps_def bind_io_def split: prod.splits sum.splits) (metis snd_conv)+

lemma keeps_try [keeps_intros]: "keeps f m \<Longrightarrow> (\<And>e. keeps f (h e)) \<Longrightarrow> keeps f (try_io m h)"
  by (auto simp: keeps_def try_io_def split: prod.splits sum.splits) (metis snd_conv)+

lemma keeps_finally [keeps_intros]: "keeps f m \<Longrightarrow> (\<And>w. f (c w) = f w) \<Longrightarrow> keeps f (finally_io m c)"
  by (auto simp: keeps_def finally_io_def split: prod.splits) (metis snd_conv)

lemma keeps_if [keeps_intros]: "(b \<Longrightarrow> keeps f m) \<Longrightarrow> (\<not> b \<Longrightarrow> keeps f n) \<Longrightarrow> keeps f (if b then m else n)"
  by simp

lemma keeps_let [keeps_intros]: "(\<And>x. keeps f (g x)) \<Longrightarrow> keeps f (let x = v in g x)"
  by (simp add: Let_def)

lemma keeps_prod [keeps_intros]: "(\<And>a b. keeps f (g a b)) \<Longrightarrow> keeps f (case p of (a, b) \<Rightarrow> g a b)"
  by (cases p) simp

lemma keeps_option [keeps_intros]:
  "keeps f m \<Longrightarrow> (\<And>x. keeps f (g x)) \<Longrightarrow> keeps f (case y of None \<Rightarrow> m | Some x \<Rightarrow> g x)"
  by (cases y) simp_all

lemma keeps_map [keeps_intros]: "(\<And>x. keeps f (g x)) \<Longrightarrow> keeps f (map_io g xs)"
  by (induction xs) (auto intro!: keeps_intros)

section \<open>Lists\<close>

lemma filter_length_one: "length (filter P xs) = 1 \<longleftrightarrow> (\<exists>x. filter P xs = [x])"
  by (cases "filter P xs") auto

lemma filter_singletonD: "filter P xs = [x] \<Longrightarrow> x \<in> set xs \<and> P x"
proof -
  assume "filter P xs = [x]"
  then have "x \<in> set (filter P xs)" by simp
  then show ?thesis by simp
qed

lemma concat_map_eq_Nil [gate_simps]: "concat (map f xs) = [] \<longleftrightarrow> (\<forall>x \<in> set xs. f x = [])"
  by (induction xs) auto

lemma if_list_eq_Nil [gate_simps]: "(if b then x # xs else []) = [] \<longleftrightarrow> \<not> b"
  by simp

lemma sum_list_map_filter_split:
  fixes f :: "'a \<Rightarrow> 'b::comm_monoid_add"
  shows "sum_list (map f xs) = sum_list (map f (filter P xs)) + sum_list (map f (filter (\<lambda>x. \<not> P x) xs))"
  by (induction xs) (auto simp: ac_simps)

section \<open>Codecs\<close>

text \<open>
  The contract between a writer and the reader of its output: what was encoded decodes to
  itself. Codecs compose, and an encoder with a decoder never maps two values to one image.
\<close>

locale codec =
  fixes enc :: "'a \<Rightarrow> 'e + 'b"
    and dec :: "'b \<Rightarrow> 'e + 'a"
  assumes dec_enc: "enc x = Inr y \<Longrightarrow> dec y = Inr x"
begin

lemma enc_inject: "enc x = Inr z \<Longrightarrow> enc y = Inr z \<Longrightarrow> x = y"
  using dec_enc [of x z] dec_enc [of y z] by simp

lemma round_trip: "bind_res (enc x) dec = (case enc x of Inl e \<Rightarrow> Inl e | Inr _ \<Rightarrow> Inr x)"
  by (cases "enc x") (simp_all add: dec_enc)

lemma codec_then:
  "codec enc2 dec2 \<Longrightarrow>
   codec (\<lambda>x. bind_res (enc x) enc2) (\<lambda>z. bind_res (dec2 z) dec)"
  by unfold_locales (auto simp: bind_res_eq_Inr codec.dec_enc dec_enc)

end

end
