(* ===== verification/Errors.thy ===== *)
theory Errors
  imports Prelude
begin

text \<open>
  The ways an operation of the wallet ends other than by returning. A \<open>problem\<close> is one line
  of a verify gate's report: the constructor is the message, its arguments are the values the
  message interpolates. An \<open>abort\<close> is the reason carried by the exception \<open>SwapAborted\<close>,
  and \<open>pyexc\<close> holds the exceptions that the modelled code raises or lets through; their
  message texts are reduced to a tag and the numbers they show.
\<close>

datatype problem =
    QuoteExpired int int
  | OutputCount string string nat
  | OpReturnCount nat
  | MemoTooLong nat
  | MemoNotUtf8
  | OpReturnMemo "nat list" string
  | ForeignChange "string option"
  | MemoMissesDestination string string
  | NegativeFee int
  | FeeExceeds int int
  | UnexpectedOpReturn
  | TextDiffers string string string
  | IntDiffers string int int
  | UnexpectedText string string
  | UnexpectedInt string int
  | Undecodable string
  | TokenTxValue
  | WrongChainId

text \<open>
  \<open>TextDiffers what got want\<close> and \<open>IntDiffers what got want\<close> are the messages of the form
  "WHAT got != want"; \<open>UnexpectedText\<close> and \<open>UnexpectedInt\<close> those of the form "must carry
  no WHAT, got ..."; \<open>OutputCount role address n\<close> is "expected exactly one output to ROLE
  ADDRESS, found n".
\<close>

datatype abort =
    NotTradable string
  | QuoteRejected string
  | QuoteOverTolerance string int
  | BelowMinimum int int
  | NoMemo
  | NoVault string
  | LpPaused string
  | GateRefused "problem list"
  | NoBackend

datatype pyexc =
    SwapAborted abort
  | InsufficientFunds string "int list"
  | ThorchainError string
  | BroadcastError string
  | KeystoreError string
  | HttpError string
  | ValueError string
  | KeyError string
  | IndexError
  | RuntimeError string
  | NotImplementedError
  | SystemExit string
  | OtherError string
  | OutOfModel string

text \<open>
  \<open>OtherError\<close> carries the class name of an exception that no handler of the modelled code
  names (\<open>TypeError\<close>, \<open>OverflowError\<close>, \<open>AssertionError\<close>, ...). \<open>OutOfModel\<close> is not a
  Python exception: it marks a response whose field has another JSON type than the dataclass
  annotation says, which Python would store as it is. The custom exceptions and
  \<open>NotImplementedError\<close> are subclasses of \<open>RuntimeError\<close>.
\<close>

definition is_runtime_error :: "pyexc \<Rightarrow> bool" where
  "is_runtime_error e =
     (case e of SwapAborted _ \<Rightarrow> True | InsufficientFunds _ _ \<Rightarrow> True | ThorchainError _ \<Rightarrow> True
      | BroadcastError _ \<Rightarrow> True | KeystoreError _ \<Rightarrow> True | RuntimeError _ \<Rightarrow> True
      | NotImplementedError \<Rightarrow> True | _ \<Rightarrow> False)"

type_synonym 'a res = "pyexc + 'a"
type_synonym ('w, 'a) pyio = "('w, pyexc, 'a) io"

definition require :: "bool \<Rightarrow> pyexc \<Rightarrow> unit res" where
  "require b e = (if b then Inr () else Inl e)"

lemma require_simps [simp, result_simps]:
  "require b e = Inr u \<longleftrightarrow> b"
  "require b e = Inl e' \<longleftrightarrow> \<not> b \<and> e' = e"
  by (auto simp: require_def)

end
