(* ===== verification/PyCodec.thy ===== *)
theory PyCodec
  imports PyText
begin

text \<open>
  Conversions between text, numbers and bytes: \<open>str(n)\<close> and \<open>int(s)\<close>, \<open>bytes.hex\<close> and
  \<open>bytes.fromhex\<close>, \<open>str.encode\<close> and the strict \<open>bytes.decode("utf-8")\<close>. Each pair comes
  with its round trip.
\<close>

section \<open>Decimal text\<close>

definition digit_char :: "nat \<Rightarrow> char" where
  "digit_char d = char_of (48 + d)"

definition digit_of :: "char \<Rightarrow> nat option" where
  "digit_of c = (if 48 \<le> code c \<and> code c \<le> 57 then Some (code c - 48) else None)"

lemma digit_of_digit_char [simp]: "d < 10 \<Longrightarrow> digit_of (digit_char d) = Some d"
  by (simp add: digit_of_def digit_char_def)

fun str_nat :: "nat \<Rightarrow> string" where
  "str_nat n = (if n < 10 then [digit_char n] else str_nat (n div 10) @ [digit_char (n mod 10)])"

declare str_nat.simps [simp del]

lemma digit_char_numeral:
  "digit_char 0 = CHR ''0''" "digit_char 1 = CHR ''1''" "digit_char (Suc 0) = CHR ''1''"
  "digit_char 2 = CHR ''2''" "digit_char 3 = CHR ''3''" "digit_char 4 = CHR ''4''"
  "digit_char 5 = CHR ''5''" "digit_char 6 = CHR ''6''" "digit_char 7 = CHR ''7''"
  "digit_char 8 = CHR ''8''" "digit_char 9 = CHR ''9''"
  by code_simp+

lemma replicate_numeral_eq: "replicate (numeral k) x = x # replicate (pred_numeral k) x"
  by (simp add: numeral_eq_Suc)

lemmas str_nat_eval = str_nat.simps digit_char_numeral replicate_numeral_eq

definition str_int :: "int \<Rightarrow> string" where
  "str_int z = (if z < 0 then CHR ''-'' # str_nat (nat (- z)) else str_nat (nat z))"

text \<open>
  \<open>int(s)\<close>: surrounding whitespace, one sign, digits with single underscores between them;
  more than 4300 digits raise \<open>ValueError\<close> as malformed text does.
\<close>

definition is_space :: "char \<Rightarrow> bool" where
  "is_space c = (let n = code c in 9 \<le> n \<and> n \<le> 13 \<or> 28 \<le> n \<and> n \<le> 32 \<or> n = 133 \<or> n = 160)"

definition strip :: "string \<Rightarrow> string" where
  "strip s = rev (dropWhile is_space (rev (dropWhile is_space s)))"

fun digits_value :: "nat \<Rightarrow> string \<Rightarrow> nat option" where
  "digits_value acc [] = Some acc"
| "digits_value acc (c # s) =
     (case digit_of c of
        Some d \<Rightarrow> digits_value (10 * acc + d) s
      | None \<Rightarrow>
          if c = CHR ''_'' then
            (case s of [] \<Rightarrow> None
             | e # r \<Rightarrow> (case digit_of e of None \<Rightarrow> None | Some d \<Rightarrow> digits_value (10 * acc + d) r))
          else None)"

definition parse_digits :: "string \<Rightarrow> nat option" where
  "parse_digits s =
     (case s of [] \<Rightarrow> None
      | c # r \<Rightarrow> if digit_of c = None \<or> 4300 < length (filter (\<lambda>x. digit_of x \<noteq> None) s) then None
                else digits_value 0 s)"

definition parse_int :: "string \<Rightarrow> int option" where
  "parse_int s =
     (case strip s of
        [] \<Rightarrow> None
      | c # r \<Rightarrow>
          if c = CHR ''-'' then map_option (\<lambda>n. - int n) (parse_digits r)
          else if c = CHR ''+'' then map_option int (parse_digits r)
          else map_option int (parse_digits (c # r)))"

lemma str_nat_nonempty [simp]: "str_nat n \<noteq> []"
  by (subst str_nat.simps) simp

lemma str_nat_digits: "c \<in> set (str_nat n) \<Longrightarrow> \<exists>d < 10. c = digit_char d"
proof (induction n rule: str_nat.induct)
  case (1 n)
  show ?case
  proof (cases "n < 10")
    case True
    with "1.prems" have "c = digit_char n" by (simp add: str_nat.simps [of n])
    with True show ?thesis by blast
  next
    case False
    with "1.prems" have "c \<in> set (str_nat (n div 10)) \<or> c = digit_char (n mod 10)"
      by (auto simp: str_nat.simps [of n])
    with False "1.IH" show ?thesis by (metis mod_less_divisor zero_less_numeral)
  qed
qed

lemma digits_value_append:
  "\<forall>c \<in> set s. \<exists>d < 10. c = digit_char d \<Longrightarrow>
   digits_value acc (s @ t) = (case digits_value acc s of None \<Rightarrow> None | Some v \<Rightarrow> digits_value v t)"
proof (induction s arbitrary: acc)
  case Nil
  then show ?case by simp
next
  case (Cons c s)
  then obtain d where "d < 10" "c = digit_char d" by auto
  with Cons show ?case by simp
qed

lemma digits_value_str_nat: "digits_value 0 (str_nat n) = Some n"
proof (induction n rule: str_nat.induct)
  case (1 n)
  show ?case
  proof (cases "n < 10")
    case True
    then show ?thesis by (simp add: str_nat.simps [of n])
  next
    case False
    have "digits_value 0 (str_nat n) =
        digits_value 0 (str_nat (n div 10) @ [digit_char (n mod 10)])"
      using False by (simp add: str_nat.simps [of n])
    also have "\<dots> = digits_value (n div 10) [digit_char (n mod 10)]"
      using "1.IH" False str_nat_digits by (subst digits_value_append) auto
    also have "\<dots> = Some n" by simp
    finally show ?thesis .
  qed
qed

lemma str_nat_inject [simp]: "str_nat m = str_nat n \<longleftrightarrow> m = n"
  by (metis digits_value_str_nat option.inject)

lemma not_digit_not_in: "digit_of c = None \<Longrightarrow> c \<notin> set (str_nat n)"
  using str_nat_digits [of c n] by auto

lemma str_nat_not_minus: "CHR ''-'' \<notin> set (str_nat n)"
proof
  assume "CHR ''-'' \<in> set (str_nat n)"
  then obtain d where "d < 10" "CHR ''-'' = digit_char d" using str_nat_digits by blast
  then have "digit_of (CHR ''-'') = Some d" by simp
  then show False by (simp add: digit_of_def code_def)
qed

lemma str_int_inject [simp]: "str_int a = str_int b \<longleftrightarrow> a = b"
proof
  assume eq: "str_int a = str_int b"
  have hd: "hd (str_nat n) \<noteq> CHR ''-''" for n
    using str_nat_not_minus [of n] hd_in_set [OF str_nat_nonempty [of n]] by metis
  show "a = b"
  proof (cases "a < 0")
    case True
    show ?thesis
    proof (cases "b < 0")
      case True
      with eq \<open>a < 0\<close> show ?thesis by (simp add: str_int_def)
    next
      case False
      with eq True show ?thesis using hd [of "nat b"] by (simp add: str_int_def) (metis list.sel(1))
    qed
  next
    case False
    show ?thesis
    proof (cases "b < 0")
      case True
      with eq False show ?thesis using hd [of "nat a"] by (simp add: str_int_def)
    next
      case nb: False
      with eq False show ?thesis by (simp add: str_int_def)
    qed
  qed
qed simp

lemma digit_not_space: "d < 10 \<Longrightarrow> \<not> is_space (digit_char d)"
  by (simp add: is_space_def digit_char_def Let_def)

lemma strip_no_space:
  assumes "\<forall>c \<in> set s. \<not> is_space c"
  shows "strip s = s"
proof -
  have "dropWhile is_space t = t" if "set t = set s" for t
    using that assms by (cases t) auto
  then show ?thesis by (simp add: strip_def)
qed

lemma str_nat_no_space: "c \<in> set (str_nat n) \<Longrightarrow> \<not> is_space c"
  using str_nat_digits digit_not_space by metis

lemma digits_count: "length (filter (\<lambda>x. digit_of x \<noteq> None) (str_nat n)) = length (str_nat n)"
proof -
  have "filter (\<lambda>x. digit_of x \<noteq> None) (str_nat n) = str_nat n"
  proof (rule filter_True, rule ballI)
    fix x assume "x \<in> set (str_nat n)"
    then obtain d where "d < 10" "x = digit_char d" using str_nat_digits by blast
    then show "digit_of x \<noteq> None" by simp
  qed
  then show ?thesis by simp
qed

lemma parse_digits_str_nat: "length (str_nat n) \<le> 4300 \<Longrightarrow> parse_digits (str_nat n) = Some n"
proof -
  assume len: "length (str_nat n) \<le> 4300"
  obtain c r where s: "str_nat n = c # r" by (cases "str_nat n") auto
  then obtain d where "d < 10" "c = digit_char d" using str_nat_digits [of c n] by auto
  then have "digit_of c \<noteq> None" by simp
  moreover have "\<not> 4300 < length (filter (\<lambda>x. digit_of x \<noteq> None) (str_nat n))"
    using len by (simp only: digits_count)
  ultimately show ?thesis
    using digits_value_str_nat [of n] unfolding parse_digits_def s by simp
qed

lemma parse_int_str_int:
  assumes "length (str_nat (nat \<bar>n\<bar>)) \<le> 4300"
  shows "parse_int (str_int n) = Some n"
proof (cases "n < 0")
  case True
  have "\<forall>c \<in> set (CHR ''-'' # str_nat (nat (- n))). \<not> is_space c"
    using str_nat_no_space by (auto simp: is_space_def code_def)
  then have "strip (str_int n) = CHR ''-'' # str_nat (nat (- n))"
    using True strip_no_space by (simp add: str_int_def)
  then show ?thesis using True assms by (simp add: parse_int_def parse_digits_str_nat)
next
  case False
  have "strip (str_int n) = str_nat (nat n)"
    using False strip_no_space str_nat_no_space by (simp add: str_int_def)
  moreover obtain c r where s: "str_nat (nat n) = c # r" by (cases "str_nat (nat n)") auto
  moreover have "c \<noteq> CHR ''-'' \<and> c \<noteq> CHR ''+''"
  proof -
    obtain d where "d < 10" "c = digit_char d" using str_nat_digits [of c "nat n"] s by auto
    then have "digit_of c \<noteq> None" by simp
    then show ?thesis by (auto simp: digit_of_def code_def)
  qed
  moreover have "parse_digits (str_nat (nat n)) = Some (nat n)"
    using assms False by (intro parse_digits_str_nat) simp
  ultimately show ?thesis using False by (simp add: parse_int_def)
qed

lemma length_str_nat: "n < 10 ^ k \<Longrightarrow> 0 < k \<Longrightarrow> length (str_nat n) \<le> k"
proof (induction k arbitrary: n)
  case (Suc k)
  show ?case
  proof (cases "n < 10")
    case True
    then show ?thesis by (simp add: str_nat.simps [of n])
  next
    case False
    with Suc.prems have "n div 10 < 10 ^ k" "0 < k" by (auto simp: less_mult_imp_div_less gr0_conv_Suc)
       (cases k; simp)
    with Suc.IH False show ?thesis by (simp add: str_nat.simps [of n])
  qed
qed simp

text \<open>Amounts of at most 256 bits, as the chains count them, print and parse back.\<close>

definition is_amount :: "int \<Rightarrow> bool" where
  "is_amount n \<longleftrightarrow> \<bar>n\<bar> < 2 ^ 256"

lemma parse_int_amount: "is_amount n \<Longrightarrow> parse_int (str_int n) = Some n"
proof -
  assume "is_amount n"
  then have "nat \<bar>n\<bar> < 2 ^ 256" unfolding is_amount_def by (simp add: nat_less_iff)
  also have "(2 :: nat) ^ 256 < 10 ^ 78" by simp
  finally have "length (str_nat (nat \<bar>n\<bar>)) \<le> 78" by (rule length_str_nat) simp
  then show ?thesis by (intro parse_int_str_int) simp
qed

section \<open>Hexadecimal text\<close>

definition hex_char :: "nat \<Rightarrow> char" where
  "hex_char n = (if n < 10 then char_of (48 + n) else char_of (87 + n))"

definition hex_value :: "char \<Rightarrow> nat option" where
  "hex_value c =
     (let n = code c
      in if 48 \<le> n \<and> n \<le> 57 then Some (n - 48)
         else if 97 \<le> n \<and> n \<le> 102 then Some (n - 87)
         else if 65 \<le> n \<and> n \<le> 70 then Some (n - 55) else None)"

definition hex_byte :: "byte \<Rightarrow> string" where
  "hex_byte b = [hex_char (unat b div 16), hex_char (unat b mod 16)]"

definition hex_of_bytes :: "bytes \<Rightarrow> string" where
  "hex_of_bytes bs = concat (map hex_byte bs)"

definition is_ascii_space :: "char \<Rightarrow> bool" where
  "is_ascii_space c = (let n = code c in 9 \<le> n \<and> n \<le> 13 \<or> n = 32)"

text \<open>\<open>bytes.fromhex\<close> skips ASCII whitespace between bytes.\<close>

fun bytes_fromhex :: "string \<Rightarrow> bytes option" where
  "bytes_fromhex [] = Some []"
| "bytes_fromhex [c] = (if is_ascii_space c then Some [] else None)"
| "bytes_fromhex (c # d # s) =
     (if is_ascii_space c then bytes_fromhex (d # s)
      else case hex_value c of
        None \<Rightarrow> None
      | Some h \<Rightarrow>
          (case hex_value d of
             None \<Rightarrow> None
           | Some l \<Rightarrow> map_option (\<lambda>bs. word_of_nat (16 * h + l) # bs) (bytes_fromhex s)))"

lemma hex_value_char [simp]: "n < 16 \<Longrightarrow> hex_value (hex_char n) = Some n"
  by (auto simp: hex_value_def hex_char_def Let_def)

lemma hex_char_not_space [simp]: "n < 16 \<Longrightarrow> \<not> is_ascii_space (hex_char n)"
  by (auto simp: hex_char_def is_ascii_space_def Let_def)

lemma unat_byte_less [simp]: "unat (b :: byte) < 256"
  using unsigned_less [of b] by simp

lemma byte_div_16 [simp]: "unat (b :: byte) div 16 < 16"
  using unat_byte_less [of b] by linarith

lemma bytes_fromhex_hex_byte:
  "bytes_fromhex (hex_byte b @ s) = map_option (\<lambda>bs. b # bs) (bytes_fromhex s)"
proof -
  have "word_of_nat (16 * (unat b div 16) + unat b mod 16) = b" by simp
  then show ?thesis by (simp add: hex_byte_def)
qed

lemma bytes_fromhex_hex [simp]: "bytes_fromhex (hex_of_bytes bs) = Some bs"
  by (induction bs) (simp_all add: hex_of_bytes_def bytes_fromhex_hex_byte)

lemma hex_of_bytes_inject [simp]: "hex_of_bytes a = hex_of_bytes b \<longleftrightarrow> a = b"
  by (metis bytes_fromhex_hex option.inject)

lemma hex_of_bytes_Nil [simp]: "hex_of_bytes [] = []"
  by (simp add: hex_of_bytes_def)

lemma length_hex_of_bytes [simp]: "length (hex_of_bytes bs) = 2 * length bs"
  by (induction bs) (simp_all add: hex_of_bytes_def hex_byte_def)

lemma lower_char_hex_char [simp]: "n < 16 \<Longrightarrow> lower_char (hex_char n) = hex_char n"
  by (auto simp: lower_char_def hex_char_def Let_def)

lemma lower_hex_of_bytes [simp]: "lower (hex_of_bytes bs) = hex_of_bytes bs"
  by (induction bs) (simp_all add: hex_of_bytes_def hex_byte_def)

lemma lower_char_hex_value [simp]: "hex_value (lower_char c) = hex_value c"
proof -
  have "code c < 256" by simp
  then show ?thesis by (auto simp: lower_char_def hex_value_def Let_def)
qed

lemma lower_char_is_ascii_space [simp]: "is_ascii_space (lower_char c) = is_ascii_space c"
proof -
  have "code c < 256" by simp
  then show ?thesis by (auto simp: lower_char_def is_ascii_space_def Let_def)
qed

lemma bytes_fromhex_lower [simp]: "bytes_fromhex (lower s) = bytes_fromhex s"
  by (induction s rule: bytes_fromhex.induct) (simp_all split: option.splits)

lemma hex_of_bytes_append: "hex_of_bytes (a @ b) = hex_of_bytes a @ hex_of_bytes b"
  by (simp add: hex_of_bytes_def)

section \<open>UTF-8\<close>

definition utf8_char :: "char \<Rightarrow> bytes" where
  "utf8_char c =
     (let n = code c
      in if n < 128 then [word_of_nat n] else [word_of_nat (192 + n div 64), word_of_nat (128 + n mod 64)])"

definition utf8_encode :: "string \<Rightarrow> bytes" where
  "utf8_encode s = concat (map utf8_char s)"

definition in_range :: "nat \<Rightarrow> byte \<Rightarrow> nat \<Rightarrow> bool" where
  "in_range lo b hi \<longleftrightarrow> lo \<le> unat b \<and> unat b \<le> hi"

text \<open>
  The strict decoder: lead bytes C2-DF, E0-EF and F0-F4, continuation bytes 80-BF, with the
  second byte narrowed after E0, ED, F0 and F4 (no overlong forms, no surrogates, nothing
  beyond 10FFFF).
\<close>

definition second_lo :: "byte \<Rightarrow> nat" where
  "second_lo b = (if unat b = 224 then 160 else if unat b = 240 then 144 else 128)"

definition second_hi :: "byte \<Rightarrow> nat" where
  "second_hi b = (if unat b = 237 then 159 else if unat b = 244 then 143 else 191)"

fun utf8_decode :: "bytes \<Rightarrow> nat list option" where
  "utf8_decode [] = Some []"
| "utf8_decode (b # bs) =
     (if unat b < 128 then map_option (\<lambda>t. unat b # t) (utf8_decode bs)
      else if in_range 194 b 223 then
        (case bs of
           c # r \<Rightarrow>
             if in_range 128 c 191
             then map_option (\<lambda>t. (unat b mod 32 * 64 + unat c mod 64) # t) (utf8_decode r)
             else None
         | _ \<Rightarrow> None)
      else if in_range 224 b 239 then
        (case bs of
           c # d # r \<Rightarrow>
             if in_range (second_lo b) c (second_hi b) \<and> in_range 128 d 191
             then map_option (\<lambda>t. (unat b mod 16 * 4096 + unat c mod 64 * 64 + unat d mod 64) # t)
                    (utf8_decode r)
             else None
         | _ \<Rightarrow> None)
      else if in_range 240 b 244 then
        (case bs of
           c # d # e # r \<Rightarrow>
             if in_range (second_lo b) c (second_hi b) \<and> in_range 128 d 191 \<and> in_range 128 e 191
             then map_option (\<lambda>t. (unat b mod 8 * 262144 + unat c mod 64 * 4096
                                  + unat d mod 64 * 64 + unat e mod 64) # t) (utf8_decode r)
             else None
         | _ \<Rightarrow> None)
      else None)"

lemma unat_small_byte: "n < 256 \<Longrightarrow> unat (word_of_nat n :: byte) = n"
  by (simp add: unat_of_nat take_bit_eq_mod)

lemma utf8_decode_char:
  "utf8_decode (utf8_char c @ bs) = map_option (\<lambda>t. code c # t) (utf8_decode bs)"
proof (cases "code c < 128")
  case True
  then show ?thesis by (simp add: utf8_char_def unat_small_byte)
next
  case False
  define n where "n = code c"
  have n: "128 \<le> n" "n < 256" using False by (simp_all add: n_def)
  have low: "(128 + n mod 64) mod 64 = n mod 64"
  proof -
    have "(128 + n mod 64) mod 64 = (128 mod 64 + n) mod 64" by (simp only: mod_simps)
    then show ?thesis by simp
  qed
  have high: "(192 + n div 64) mod 32 = n div 64"
  proof -
    from n have "2 \<le> n div 64" "n div 64 < 4" by (simp_all add: less_eq_div_iff_mult_less_eq div_less_iff_less_mult)
    then have "n div 64 = 2 \<or> n div 64 = 3" by arith
    then show ?thesis by auto
  qed
  have "(192 + n div 64) mod 32 * 64 + (128 + n mod 64) mod 64 = n"
    unfolding low high by (rule div_mult_mod_eq)
  moreover have "2 \<le> n div 64" "n div 64 < 4"
    using n by (simp_all add: less_eq_div_iff_mult_less_eq div_less_iff_less_mult)
  moreover have "n mod 64 < 64" by simp
  moreover define b d where "b = (word_of_nat (192 + n div 64) :: byte)"
    and "d = (word_of_nat (128 + n mod 64) :: byte)"
  ultimately have u: "unat b = 192 + n div 64" "unat d = 128 + n mod 64"
    and lead: "in_range 194 b 223" "\<not> unat b < 128" "in_range 128 d 191"
    and code: "unat b mod 32 * 64 + unat d mod 64 = n"
    by (simp_all only: unat_small_byte in_range_def) simp_all
  have "utf8_char c = [b, d]"
    using False by (simp add: utf8_char_def Let_def b_def d_def n_def)
  with lead code show ?thesis by (simp add: n_def)
qed

lemma utf8_decode_encode [simp]: "utf8_decode (utf8_encode s) = Some (map code s)"
  by (induction s) (simp_all add: utf8_encode_def utf8_decode_char)

lemma map_code_inject [simp]: "map code s = map code t \<longleftrightarrow> s = t"
  by (simp add: inj_map_eq_map inj_def)

lemma utf8_encode_inject [simp]: "utf8_encode s = utf8_encode t \<longleftrightarrow> s = t"
  by (metis map_code_inject option.inject utf8_decode_encode)

text \<open>Strict decoding is injective: bytes that decode to a text are the encoding of it.\<close>

lemma two_byte_value:
  fixes b c :: nat
  assumes "194 \<le> b" "b \<le> 223" "128 \<le> c" "c \<le> 191" "b mod 32 * 64 + c mod 64 = n" "n < 256"
  shows "128 \<le> n \<and> 192 + n div 64 = b \<and> 128 + n mod 64 = c"
proof -
  have "b mod 32 = b - 192" using assms(1,2) by (simp add: mod_if)
  moreover have "c mod 64 = c - 128" using assms(3,4) by (simp add: mod_if)
  ultimately have n: "n = (b - 192) * 64 + (c - 128)" using assms(5) by simp
  have "c - 128 < 64" using assms(4) by simp
  then have "n div 64 = b - 192" "n mod 64 = c - 128" by (simp_all add: n)
  moreover have "128 \<le> n" using assms(1,3) by (simp add: n)
  ultimately show ?thesis using assms(1,3) by simp
qed

lemma three_byte_value:
  fixes b c :: nat
  assumes "224 \<le> b" "b \<le> 239" "c \<le> 191" "(if b = 224 then 160 else 128) \<le> c"
  shows "2048 \<le> b mod 16 * 4096 + c mod 64 * 64 + d"
proof (cases "b = 224")
  case True
  then have "c mod 64 = c - 128" "160 \<le> c" using assms by (simp_all add: mod_if)
  then show ?thesis by (simp add: True)
next
  case False
  then have "b mod 16 = b - 224" using assms(1,2) by (simp add: mod_if)
  then show ?thesis using False assms(1) by simp
qed

lemma four_byte_value:
  fixes b c :: nat
  assumes "240 \<le> b" "b \<le> 244" "c \<le> 191" "(if b = 240 then 144 else 128) \<le> c"
  shows "65536 \<le> b mod 8 * 262144 + c mod 64 * 4096 + d"
proof (cases "b = 240")
  case True
  then have "c mod 64 = c - 128" "144 \<le> c" using assms by (simp_all add: mod_if)
  then show ?thesis by (simp add: True)
next
  case False
  then have "b mod 8 = b - 240" using assms(1,2) by (simp add: mod_if)
  then show ?thesis using False assms(1) by simp
qed

lemma code_less_256: "code c < 256"
  by (simp add: code_def)

lemma word_of_nat_unat_eq: "unat b = n \<Longrightarrow> (word_of_nat n :: byte) = b"
  by (drule sym) simp

lemma utf8_char_two:
  assumes "in_range 194 b 223" "in_range 128 c 191" "unat b mod 32 * 64 + unat c mod 64 = code x"
  shows "utf8_char x = [b, c]"
proof -
  have v: "128 \<le> code x \<and> 192 + code x div 64 = unat b \<and> 128 + code x mod 64 = unat c"
    using assms code_less_256 [of x] by (intro two_byte_value) (simp_all add: in_range_def)
  then have "\<not> code x < 128" by simp
  then show ?thesis using v by (simp add: utf8_char_def Let_def word_of_nat_unat_eq)
qed

lemma utf8_encode_Cons: "utf8_encode (x # xs) = utf8_char x @ utf8_encode xs"
  by (simp add: utf8_encode_def)

lemma utf8_decode_SomeD: "utf8_decode d = Some (map code s) \<Longrightarrow> d = utf8_encode s"
proof (induction d arbitrary: s rule: utf8_decode.induct)
  case 1
  then show ?case by (simp add: utf8_encode_def)
next
  case (2 b bs)
  consider (one) "unat b < 128" | (two) "in_range 194 b 223" | (three) "in_range 224 b 239"
    | (four) "in_range 240 b 244"
    using "2.prems" by (auto split: if_splits)
  then show ?case
  proof cases
    case one
    then obtain x xs where "s = x # xs" "unat b = code x" "utf8_decode bs = Some (map code xs)"
      using "2.prems" by (cases s) auto
    then show ?thesis using "2.IH"(1) [OF one] one
      by (simp add: utf8_encode_Cons utf8_char_def Let_def word_of_nat_unat_eq)
  next
    case two
    then have b: "\<not> unat b < 128" by (simp add: in_range_def)
    obtain c r where c: "bs = c # r" "in_range 128 c 191"
      using "2.prems" two b by (auto split: list.splits if_splits)
    then obtain x xs where "s = x # xs" "unat b mod 32 * 64 + unat c mod 64 = code x"
      "utf8_decode r = Some (map code xs)"
      using "2.prems" two b by (cases s) auto
    then show ?thesis using "2.IH"(2) [OF b two] c two
      by (simp add: utf8_encode_Cons utf8_char_two)
  next
    case three
    then have b: "\<not> unat b < 128" "\<not> in_range 194 b 223" by (simp_all add: in_range_def)
    obtain c d r where c: "bs = c # d # r" "in_range (second_lo b) c (second_hi b)"
      using "2.prems" three b by (auto split: list.splits if_splits)
    then obtain x xs where "unat b mod 16 * 4096 + unat c mod 64 * 64 + unat d mod 64 = code x"
      using "2.prems" three b by (cases s) (auto split: if_splits)
    moreover have "2048 \<le> unat b mod 16 * 4096 + unat c mod 64 * 64 + unat d mod 64"
      using c(2) three by (intro three_byte_value) (auto simp: in_range_def second_lo_def second_hi_def split: if_splits)
    ultimately show ?thesis using code_less_256 [of x] by simp
  next
    case four
    then have b: "\<not> unat b < 128" "\<not> in_range 194 b 223" "\<not> in_range 224 b 239" by (simp_all add: in_range_def)
    obtain c d e r where c: "bs = c # d # e # r" "in_range (second_lo b) c (second_hi b)"
      using "2.prems" four b by (auto split: list.splits if_splits)
    then obtain x xs where
      "unat b mod 8 * 262144 + unat c mod 64 * 4096 + (unat d mod 64 * 64 + unat e mod 64) = code x"
      using "2.prems" four b by (cases s) (auto simp: add.assoc split: if_splits)
    moreover have "65536 \<le> unat b mod 8 * 262144 + unat c mod 64 * 4096 + (unat d mod 64 * 64 + unat e mod 64)"
      using c(2) four by (intro four_byte_value) (auto simp: in_range_def second_lo_def second_hi_def split: if_splits)
    ultimately show ?thesis using code_less_256 [of x] by simp
  qed
qed

lemma utf8_decode_iff [simp]: "utf8_decode d = Some (map code s) \<longleftrightarrow> d = utf8_encode s"
  using utf8_decode_SomeD by auto

lemma utf8_encode_Nil [simp]: "utf8_encode [] = []"
  by (simp add: utf8_encode_def)

lemma utf8_encode_append: "utf8_encode (a @ b) = utf8_encode a @ utf8_encode b"
  by (simp add: utf8_encode_def)

lemma utf8_char_length: "length (utf8_char c) = (if code c < 128 then 1 else 2)"
  by (simp add: utf8_char_def Let_def)

end
