(* ===== verification/Float64.thy ===== *)
theory Float64
  imports PyCodec Complex_Main "HOL-Library.Log_Nat"
begin

text \<open>
  Python's \<open>float\<close>: a finite IEEE 754 binary64 value is the rational number it denotes, and
  every operation is the exact rational operation followed by \<open>f64\<close>, rounding to nearest
  with ties to even at 53 significant bits (exponent at least -1074). An integer operand is
  converted with \<open>f64\<close> first; the quotient of two integers is rounded once, as Python does.
  Infinities, NaN and the sign of zero are not represented: a result of magnitude
  \<open>2 ^ 1024\<close> or more is an error where the code would raise on it.
\<close>

section \<open>Rounding to an integer, ties to even\<close>

definition round_even :: "rat \<Rightarrow> int" where
  "round_even x =
     (let f = \<lfloor>x\<rfloor>; r = x - of_int f
      in if r < 1 / 2 then f else if 1 / 2 < r then f + 1 else if even f then f else f + 1)"

lemma round_even_of_int [simp]: "round_even (of_int n) = n"
  by (simp add: round_even_def)

lemma round_even_0 [simp]: "round_even 0 = 0"
  using round_even_of_int [of 0] by simp

lemma round_even_error: "\<bar>of_int (round_even x) - x\<bar> \<le> 1 / 2"
proof -
  define f where "f = \<lfloor>x\<rfloor>"
  have "of_int f \<le> x" "x < of_int f + 1" unfolding f_def by linarith+
  then show ?thesis unfolding round_even_def Let_def f_def [symmetric] by (auto simp: abs_if)
qed

lemma round_even_unique: "\<bar>of_int n - x\<bar> < 1 / 2 \<Longrightarrow> round_even x = n"
proof -
  assume "\<bar>of_int n - x\<bar> < 1 / 2"
  moreover have "\<bar>of_int (round_even x) - x\<bar> \<le> 1 / 2" by (rule round_even_error)
  ultimately have "\<bar>of_int (round_even x) - of_int n :: rat\<bar> < 1" by linarith
  then have "of_int \<bar>round_even x - n\<bar> < (1 :: rat)" by simp
  then have "\<bar>round_even x - n\<bar> < 1" by linarith
  then show ?thesis by simp
qed

lemma round_even_mono: "x \<le> y \<Longrightarrow> round_even x \<le> round_even y"
proof -
  assume le: "x \<le> y"
  then have f: "\<lfloor>x\<rfloor> \<le> \<lfloor>y\<rfloor>" by (rule floor_mono)
  have b: "of_int \<lfloor>x\<rfloor> \<le> x" "of_int \<lfloor>y\<rfloor> \<le> y" by simp_all
  have upper: "round_even x \<le> \<lfloor>x\<rfloor> + 1" and lower: "\<lfloor>y\<rfloor> \<le> round_even y"
    by (auto simp: round_even_def Let_def)
  show ?thesis
  proof (cases "\<lfloor>x\<rfloor> = \<lfloor>y\<rfloor>")
    case True
    with le show ?thesis by (auto simp: round_even_def Let_def)
  next
    case False
    with f upper lower show ?thesis by linarith
  qed
qed

lemma round_even_minus [simp]: "round_even (- x) = - round_even x"
proof (cases "of_int \<lfloor>x\<rfloor> = x")
  case True
  define n where "n = \<lfloor>x\<rfloor>"
  have "x = of_int n" using True unfolding n_def by (rule sym)
  then show ?thesis by (metis of_int_minus round_even_of_int)
next
  case False
  then have "\<lfloor>- x\<rfloor> = - \<lfloor>x\<rfloor> - 1"
    by (metis add.commute add_uminus_conv_diff ceiling_altdef ceiling_def minus_add_distrib minus_minus)
  then show ?thesis by (auto simp: round_even_def Let_def)
qed

lemma round_even_nonneg: "0 \<le> x \<Longrightarrow> 0 \<le> round_even x"
  using round_even_mono [of 0 x] by simp

section \<open>The binary exponent\<close>

definition ilog2 :: "rat \<Rightarrow> int" where
  "ilog2 x =
     (let (n, d) = quotient_of x; k = bitlen n - bitlen d
      in if 2 powi k * of_int d \<le> (of_int n :: rat) then k else k - 1)"

lemma bitlen_powi_bounds:
  assumes "0 < n"
  shows "2 powi (bitlen n - 1) \<le> (of_int n :: rat)" and "(of_int n :: rat) < 2 powi bitlen n"
proof -
  have pos: "1 \<le> bitlen n" using assms by (simp add: bitlen_alt_def)
  have "2 ^ nat (bitlen n - 1) \<le> n" "n < 2 ^ nat (bitlen n)"
    using bitlen_bounds [OF assms] by auto
  then have "of_int (2 ^ nat (bitlen n - 1)) \<le> (of_int n :: rat)"
    and "(of_int n :: rat) < of_int (2 ^ nat (bitlen n))"
    by (simp_all only: of_int_le_iff of_int_less_iff)
  with pos show "2 powi (bitlen n - 1) \<le> (of_int n :: rat)" and "(of_int n :: rat) < 2 powi bitlen n"
    by (simp_all add: power_int_def)
qed

lemma ilog2_bounds:
  assumes "0 < x"
  shows "2 powi ilog2 x \<le> x" and "x < 2 powi (ilog2 x + 1)"
proof -
  obtain n d where q: "quotient_of x = (n, d)" by (cases "quotient_of x")
  then have d: "0 < d" and x: "x = of_int n / of_int d"
    using quotient_of_denom_pos quotient_of_div by blast+
  with assms have n: "0 < n" by (simp add: zero_less_divide_iff)
  define k where "k = bitlen n - bitlen d"
  note bn = bitlen_powi_bounds [OF n] and bd = bitlen_powi_bounds [OF d]
  have il: "ilog2 x = (if 2 powi k * of_int d \<le> (of_int n :: rat) then k else k - 1)"
    by (simp add: ilog2_def q k_def)
  have "2 powi (k - 1) * of_int d < (2 powi (k - 1) * 2 powi bitlen d :: rat)"
    using bd(2) by simp
  also have "\<dots> = 2 powi (bitlen n - 1)"
    by (simp add: k_def flip: power_int_add)
  finally have lo: "2 powi (k - 1) * of_int d < (of_int n :: rat)" using bn(1) by linarith
  have "(of_int n :: rat) < 2 powi (k + 1) * 2 powi (bitlen d - 1)"
    using bn(2) by (simp add: k_def flip: power_int_add)
  also have "\<dots> \<le> 2 powi (k + 1) * of_int d"
    using bd(1) by simp
  finally have hi: "(of_int n :: rat) < 2 powi (k + 1) * of_int d" .
  show "2 powi ilog2 x \<le> x"
    unfolding il using d lo by (simp add: x pos_le_divide_eq)
  show "x < 2 powi (ilog2 x + 1)"
    unfolding il using d hi by (simp add: x pos_divide_less_eq)
qed

lemma ilog2_less_iff: "0 < x \<Longrightarrow> ilog2 x < k \<longleftrightarrow> x < 2 powi k"
proof
  assume x: "0 < x"
  { assume "ilog2 x < k"
    then have "(2 :: rat) powi (ilog2 x + 1) \<le> 2 powi k" by (intro power_int_increasing) auto
    with ilog2_bounds(2) [OF x] show "x < 2 powi k" by linarith }
  { assume "x < 2 powi k"
    with ilog2_bounds(1) [OF x] have "(2 :: rat) powi ilog2 x < 2 powi k" by linarith
    then show "ilog2 x < k"
      by (metis linorder_not_less power_int_increasing one_le_numeral zero_neq_numeral) }
qed

lemma ilog2_mono: "0 < x \<Longrightarrow> x \<le> y \<Longrightarrow> ilog2 x \<le> ilog2 y"
  using ilog2_less_iff [of x "ilog2 y + 1"] ilog2_bounds(2) [of y] by fastforce

section \<open>Rounding to binary64\<close>

definition ulp_exp :: "rat \<Rightarrow> int" where
  "ulp_exp x = max (ilog2 \<bar>x\<bar> - 52) (- 1074)"

definition f64 :: "rat \<Rightarrow> rat" where
  "f64 x =
     (if x = 0 then 0
      else let e = ulp_exp x in of_int (round_even (x / 2 powi e)) * 2 powi e)"

lemma f64_0 [simp]: "f64 0 = 0"
  by (simp add: f64_def)

lemma ulp_exp_minus [simp]: "ulp_exp (- x) = ulp_exp x"
  by (simp add: ulp_exp_def)

lemma f64_minus [simp]: "f64 (- x) = - f64 x"
  by (simp add: f64_def Let_def)

lemma f64_nonneg: "0 \<le> x \<Longrightarrow> 0 \<le> f64 x"
  by (simp add: f64_def Let_def round_even_nonneg)

lemma f64_error: "\<bar>f64 x - x\<bar> \<le> 2 powi ulp_exp x / 2"
proof (cases "x = 0")
  case False
  define p :: rat where "p = 2 powi ulp_exp x"
  have p: "0 < p" by (simp add: p_def)
  have "f64 x - x = (of_int (round_even (x / p)) - x / p) * p"
    using False p by (simp add: f64_def Let_def p_def field_simps)
  then have "\<bar>f64 x - x\<bar> = \<bar>of_int (round_even (x / p)) - x / p\<bar> * p"
    using p by (simp add: abs_mult)
  also have "\<dots> \<le> 1 / 2 * p"
    using p round_even_error by (intro mult_right_mono) auto
  finally show ?thesis by (simp add: p_def)
qed simp

lemma powi_nonneg_of_int: "0 \<le> k \<Longrightarrow> (2 :: rat) powi k = of_int (2 ^ nat k)"
  by (simp add: power_int_def)

lemma f64_exact:
  assumes x: "x = of_int m * 2 powi e" and m: "\<bar>m\<bar> < 2 ^ 53" and e: "- 1074 \<le> e"
  shows "f64 x = x"
proof (cases "x = 0")
  case False
  have "\<bar>x\<bar> = of_int \<bar>m\<bar> * 2 powi e" by (simp add: x abs_mult)
  also have "\<dots> < of_int (2 ^ 53) * 2 powi e"
    using m by (intro mult_strict_right_mono) (simp_all only: of_int_less_iff, simp)
  also have "\<dots> = 2 powi (e + 53)" by (simp add: power_int_add)
  finally have "ilog2 \<bar>x\<bar> < e + 53" using False by (simp add: ilog2_less_iff)
  then have le: "ulp_exp x \<le> e" using e by (simp add: ulp_exp_def)
  have "x / 2 powi ulp_exp x = of_int m * 2 powi (e - ulp_exp x)"
    by (simp add: x power_int_diff)
  also have "\<dots> = of_int (m * 2 ^ nat (e - ulp_exp x))"
    using le by (simp add: powi_nonneg_of_int)
  finally have int: "x / 2 powi ulp_exp x = of_int (m * 2 ^ nat (e - ulp_exp x))" .
  have "of_int (round_even (x / 2 powi ulp_exp x)) = x / 2 powi ulp_exp x"
    unfolding int round_even_of_int ..
  with False show ?thesis by (simp add: f64_def Let_def)
qed simp

lemma f64_of_int: "\<bar>n\<bar> < 2 ^ 53 \<Longrightarrow> f64 (of_int n) = of_int n"
  by (rule f64_exact [of _ n 0]) simp_all

lemma f64_mono_pos:
  assumes "0 < x" "x \<le> y"
  shows "f64 x \<le> f64 y"
proof -
  have y: "0 < y" using assms by linarith
  have kl: "ilog2 x \<le> ilog2 y" using assms by (rule ilog2_mono)
  define a b where "a = ulp_exp x" and "b = ulp_exp y"
  have ab: "a \<le> b" using kl assms y by (simp add: a_def b_def ulp_exp_def)
  have fx: "f64 x = of_int (round_even (x / 2 powi a)) * 2 powi a"
    and fy: "f64 y = of_int (round_even (y / 2 powi b)) * 2 powi b"
    using assms y by (simp_all add: f64_def a_def b_def Let_def)
  show ?thesis
  proof (cases "a = b")
    case True
    then have "x / 2 powi a \<le> y / 2 powi b" using assms by (simp add: divide_right_mono)
    with True show ?thesis by (simp add: fx fy round_even_mono)
  next
    case False
    with ab have lt: "a < b" by simp
    define k where "k = ilog2 y"
    have b: "b = k - 52" and kx: "ilog2 x < k"
      using lt assms y kl by (auto simp: a_def b_def k_def ulp_exp_def max_def split: if_splits)
    have "x / 2 powi a \<le> 2 powi k / 2 powi a"
      using kx assms(1) by (intro divide_right_mono) (simp_all add: ilog2_less_iff less_imp_le)
    also have "\<dots> = 2 powi (k - a)" by (simp add: power_int_diff)
    also have "\<dots> = of_int (2 ^ nat (k - a))" using lt b by (intro powi_nonneg_of_int) simp
    finally have "round_even (x / 2 powi a) \<le> 2 ^ nat (k - a)"
      using round_even_mono round_even_of_int by metis
    then have "of_int (round_even (x / 2 powi a)) \<le> (of_int (2 ^ nat (k - a)) :: rat)"
      by (simp only: of_int_le_iff)
    also have "\<dots> = 2 powi (k - a)" using lt b by (intro powi_nonneg_of_int [symmetric]) simp
    finally have "f64 x \<le> 2 powi (k - a) * 2 powi a" by (simp add: fx)
    then have x: "f64 x \<le> 2 powi k" by (simp flip: power_int_add)
    have "2 powi k / 2 powi b \<le> y / 2 powi b"
      using ilog2_bounds(1) [OF y] by (intro divide_right_mono) (simp_all add: k_def)
    moreover have "2 powi k / 2 powi b = (of_int (2 ^ 52) :: rat)"
      by (simp add: b flip: power_int_diff)
    ultimately have "2 ^ 52 \<le> round_even (y / 2 powi b)"
      using round_even_mono round_even_of_int by metis
    then have "(of_int (2 ^ 52) :: rat) * 2 powi b \<le> f64 y"
      unfolding fy by (intro mult_right_mono) (simp_all only: of_int_le_iff, simp)
    moreover have "(of_int (2 ^ 52) :: rat) * 2 powi b = 2 powi k"
      by (simp add: b power_int_diff)
    ultimately show ?thesis using x by simp
  qed
qed

lemma f64_mono: "x \<le> y \<Longrightarrow> f64 x \<le> f64 y"
proof -
  assume le: "x \<le> y"
  consider "0 < x" | "x \<le> 0" "0 \<le> y" | "y < 0" by linarith
  then show ?thesis
  proof cases
    case 1
    then show ?thesis using le by (rule f64_mono_pos)
  next
    case 2
    then have "f64 x \<le> 0" using f64_nonneg [of "- x"] by simp
    also have "0 \<le> f64 y" using 2 by (simp add: f64_nonneg)
    finally show ?thesis .
  next
    case 3
    with le show ?thesis using f64_mono_pos [of "- y" "- x"] by simp
  qed
qed

section \<open>Arithmetic and formatting\<close>

text \<open>\<open>a / b\<close> on integers is rounded once; a mixed product converts the integer first.\<close>

definition int_truediv :: "int \<Rightarrow> int \<Rightarrow> rat" where
  "int_truediv a b = f64 (of_int a / of_int b)"

definition fmul :: "rat \<Rightarrow> rat \<Rightarrow> rat" where
  "fmul a b = f64 (a * b)"

definition fadd :: "rat \<Rightarrow> rat \<Rightarrow> rat" where
  "fadd a b = f64 (a + b)"

definition fsub :: "rat \<Rightarrow> rat \<Rightarrow> rat" where
  "fsub a b = f64 (a - b)"

definition fdiv :: "rat \<Rightarrow> rat \<Rightarrow> rat" where
  "fdiv a b = f64 (a / b)"

definition pad_zero :: "nat \<Rightarrow> string \<Rightarrow> string" where
  "pad_zero k s = replicate (k - length s) (CHR ''0'') @ s"

text \<open>\<open>f"{x:.kf}"\<close>: the exact binary value rounded to \<open>k\<close> decimals, ties to even.\<close>

definition decimal_text :: "nat \<Rightarrow> bool \<Rightarrow> nat \<Rightarrow> string" where
  "decimal_text k neg n =
     (if neg then ''-'' else []) @ str_nat (n div 10 ^ k) @
     (if k = 0 then [] else CHR ''.'' # pad_zero k (str_nat (n mod 10 ^ k)))"

definition fmt_fixed :: "nat \<Rightarrow> rat \<Rightarrow> string" where
  "fmt_fixed k x = decimal_text k (x < 0) (nat (round_even (\<bar>x\<bar> * 10 ^ k)))"

text \<open>
  The amount lines print \<open>units / 1e8\<close> with eight decimals. Below \<open>2 ^ 26\<close> whole units the
  printed text is the exact amount: the rounding error is at most \<open>2 ^ -28\<close>.
\<close>

lemma round_units_exact:
  assumes "0 \<le> n" "n < 2 ^ 26 * 10 ^ 8"
  shows "round_even (\<bar>f64 (of_int n / 10 ^ 8)\<bar> * 10 ^ 8) = n"
proof (cases "n = 0")
  case False
  define x :: rat where "x = of_int n / 10 ^ 8"
  have x: "0 < x" using assms False by (simp add: x_def)
  have "(of_int n :: rat) < of_int (2 ^ 26 * 10 ^ 8)" using assms(2) by (simp only: of_int_less_iff)
  then have "x < 2 powi 26" by (simp add: x_def)
  then have "ilog2 x < 26" by (simp only: ilog2_less_iff [OF x])
  then have "ulp_exp x \<le> - 27" using x by (simp add: ulp_exp_def)
  then have "(2 :: rat) powi ulp_exp x \<le> 2 powi (- 27)" by (intro power_int_increasing) auto
  with f64_error [of x] have "\<bar>f64 x - x\<bar> \<le> 2 powi (- 27) / 2" by linarith
  then have err: "\<bar>f64 x - x\<bar> * 10 ^ 8 < 1 / 2" by (simp add: power_int_minus)
  have "\<bar>of_int n - \<bar>f64 x\<bar> * 10 ^ 8\<bar> = \<bar>f64 x - x\<bar> * 10 ^ 8"
  proof -
    have "of_int n - \<bar>f64 x\<bar> * 10 ^ 8 = (x - f64 x) * 10 ^ 8"
      using x f64_nonneg [of x] by (simp add: x_def algebra_simps)
    then have "\<bar>of_int n - \<bar>f64 x\<bar> * 10 ^ 8\<bar> = \<bar>x - f64 x\<bar> * \<bar>10 ^ 8\<bar>"
      by (simp only: abs_mult)
    then show ?thesis by (simp add: abs_minus_commute)
  qed
  with err show ?thesis by (intro round_even_unique) (simp add: x_def)
qed simp

lemma fmt_units_exact:
  assumes "\<bar>n\<bar> < 2 ^ 26 * 10 ^ 8"
  shows "fmt_fixed 8 (int_truediv n (10 ^ 8)) = decimal_text 8 (n < 0) (nat \<bar>n\<bar>)"
proof -
  have r: "round_even (\<bar>f64 (of_int \<bar>n\<bar> / 10 ^ 8)\<bar> * 10 ^ 8) = \<bar>n\<bar>"
    using assms by (intro round_units_exact) simp_all
  define y :: rat where "y = f64 (of_int \<bar>n\<bar> / 10 ^ 8)"
  have y: "round_even (\<bar>y\<bar> * 10 ^ 8) = \<bar>n\<bar>" "0 \<le> y"
    using r by (simp_all add: y_def f64_nonneg)
  have quot: "int_truediv n (10 ^ 8) = (if n < 0 then - y else y)"
    by (simp add: int_truediv_def y_def flip: f64_minus)
  have "n < 0 \<Longrightarrow> y \<noteq> 0" using y(1) by auto
  with y show ?thesis unfolding fmt_fixed_def quot by auto
qed

end
