(* ===== verification/Json.thy ===== *)
theory Json
  imports Errors Float64 "HOL-Library.AList"
begin

text \<open>
  JSON values as \<open>json.loads\<close> returns them and the ways the code reads them: a \<open>dict\<close> is
  the list of its items in insertion order, \<open>d[k]\<close> raises \<open>KeyError\<close>, \<open>d.get(k, v)\<close>
  defaults, \<open>int(x)\<close> accepts integers, booleans, floats and decimal strings. A field whose
  dataclass annotation is \<open>str\<close> must hold a JSON string here; Python would store any value.
  Also the response object of the HTTP library: its status, text and the outcomes of its
  \<open>json()\<close> and \<open>raise_for_status()\<close> methods are fields that the library determines.
\<close>

section \<open>Values\<close>

datatype json =
    JNull
  | JBool bool
  | JInt int
  | JFloat rat
  | JStr string
  | JArr "json list"
  | JObj "(string \<times> json) list"

type_synonym dict = "(string \<times> json) list"

fun truthy :: "json \<Rightarrow> bool" where
  "truthy JNull = False"
| "truthy (JBool b) = b"
| "truthy (JInt i) = (i \<noteq> 0)"
| "truthy (JFloat r) = (r \<noteq> 0)"
| "truthy (JStr s) = (s \<noteq> [])"
| "truthy (JArr xs) = (xs \<noteq> [])"
| "truthy (JObj d) = (d \<noteq> [])"

definition trunc :: "rat \<Rightarrow> int" where
  "trunc r = (if r < 0 then - \<lfloor>- r\<rfloor> else \<lfloor>r\<rfloor>)"

fun py_int :: "json \<Rightarrow> int res" where
  "py_int JNull = Inl (OtherError ''TypeError'')"
| "py_int (JBool b) = Inr (if b then 1 else 0)"
| "py_int (JInt i) = Inr i"
| "py_int (JFloat r) = Inr (trunc r)"
| "py_int (JStr s) = (case parse_int s of None \<Rightarrow> Inl (ValueError ''int'') | Some i \<Rightarrow> Inr i)"
| "py_int (JArr xs) = Inl (OtherError ''TypeError'')"
| "py_int (JObj d) = Inl (OtherError ''TypeError'')"

text \<open>\<open>str(x)\<close> of the scalar values; the text of a float, a list or a dict is not used.\<close>

fun py_str :: "json \<Rightarrow> string" where
  "py_str JNull = ''None''"
| "py_str (JBool b) = (if b then ''True'' else ''False'')"
| "py_str (JInt i) = str_int i"
| "py_str (JStr s) = s"
| "py_str _ = []"

fun as_str :: "json \<Rightarrow> string res" where
  "as_str (JStr s) = Inr s"
| "as_str _ = Inl (OutOfModel ''str'')"

fun as_opt_str :: "json \<Rightarrow> string option res" where
  "as_opt_str (JStr s) = Inr (Some s)"
| "as_opt_str JNull = Inr None"
| "as_opt_str _ = Inl (OutOfModel ''str | None'')"

definition as_int :: "json \<Rightarrow> int res" where
  "as_int j = (case j of JInt i \<Rightarrow> Inr i | _ \<Rightarrow> Inl (OutOfModel ''int''))"

fun as_obj :: "json \<Rightarrow> dict res" where
  "as_obj (JObj d) = Inr d"
| "as_obj _ = Inl (OtherError ''TypeError'')"

text \<open>\<open>int(text, 16)\<close>: whitespace, a sign, an optional \<open>0x\<close>, digits.\<close>

fun hex_digits :: "int \<Rightarrow> string \<Rightarrow> int option" where
  "hex_digits acc [] = Some acc"
| "hex_digits acc (c # s) =
     (case hex_value c of
        Some d \<Rightarrow> hex_digits (16 * acc + int d) s
      | None \<Rightarrow>
          if c = CHR ''_'' \<and> s \<noteq> [] \<and> hd s \<noteq> CHR ''_'' then hex_digits acc s else None)"

definition parse_hex_body :: "string \<Rightarrow> int option" where
  "parse_hex_body s =
     (let t = (if lower (take 2 s) = ''0x'' then drop 2 s else s)
      in case t of
           [] \<Rightarrow> None
         | c # r \<Rightarrow>
             if c = CHR ''_'' \<and> t = s then None else hex_digits 0 t)"

definition parse_hex_int :: "string \<Rightarrow> int option" where
  "parse_hex_int s =
     (case strip s of
        [] \<Rightarrow> None
      | c # r \<Rightarrow>
          if c = CHR ''-'' then map_option uminus (parse_hex_body r)
          else if c = CHR ''+'' then parse_hex_body r
          else parse_hex_body (c # r))"

definition hex_int :: "json \<Rightarrow> int res" where
  "hex_int j =
     (case j of
        JStr s \<Rightarrow> (case parse_hex_int s of None \<Rightarrow> Inl (ValueError ''int'') | Some n \<Rightarrow> Inr n)
      | _ \<Rightarrow> Inl (OtherError ''TypeError''))"

section \<open>Dictionaries\<close>

definition item :: "dict \<Rightarrow> string \<Rightarrow> json res" where
  "item d k = (case map_of d k of None \<Rightarrow> Inl (KeyError k) | Some v \<Rightarrow> Inr v)"

definition dget :: "dict \<Rightarrow> string \<Rightarrow> json \<Rightarrow> json" where
  "dget d k v = (case map_of d k of None \<Rightarrow> v | Some x \<Rightarrow> x)"

definition str_item :: "dict \<Rightarrow> string \<Rightarrow> string res" where
  "str_item d k = bind_res (item d k) as_str"

definition int_item :: "dict \<Rightarrow> string \<Rightarrow> int res" where
  "int_item d k = bind_res (item d k) py_int"

definition get_str :: "dict \<Rightarrow> string \<Rightarrow> string res" where
  "get_str d k = as_str (dget d k (JStr []))"

definition get_int :: "dict \<Rightarrow> string \<Rightarrow> int res" where
  "get_int d k = py_int (dget d k (JInt 0))"

definition get_opt_str :: "dict \<Rightarrow> string \<Rightarrow> string option res" where
  "get_opt_str d k = as_opt_str (dget d k JNull)"

definition get_flag :: "dict \<Rightarrow> string \<Rightarrow> bool" where
  "get_flag d k = truthy (dget d k (JBool False))"

named_theorems dict_simps "reading a field of a concrete dictionary"

lemmas dict_access = item_def dget_def str_item_def int_item_def get_str_def get_int_def
  get_opt_str_def get_flag_def

lemma int_item_missing: "map_of d k = None \<Longrightarrow> int_item d k = Inl (KeyError k)"
  by (simp add: int_item_def item_def)

lemma str_item_missing: "map_of d k = None \<Longrightarrow> str_item d k = Inl (KeyError k)"
  by (simp add: str_item_def item_def)

lemma get_flag_absent [simp]: "map_of d k = None \<Longrightarrow> \<not> get_flag d k"
  by (simp add: get_flag_def dget_def)

text \<open>Assigning a key of an insertion-ordered dictionary: \<open>AList.update\<close>.\<close>

lemma dict_set_lookup: "map_of (AList.update k v d) = (map_of d)(k \<mapsto> v)"
  by (rule update_conv')

section \<open>Text in bytes\<close>

text \<open>\<open>bytes.decode()\<close>; a character beyond code point 255 has no value of the model.\<close>

definition decode_utf8 :: "bytes \<Rightarrow> string res" where
  "decode_utf8 bs =
     (case utf8_decode bs of
        None \<Rightarrow> Inl (ValueError ''utf-8'')
      | Some cps \<Rightarrow>
          if \<forall>n \<in> set cps. n < 256 then Inr (map char_of cps) else Inl (OutOfModel ''code point''))"

lemma decode_utf8_encode [simp]: "decode_utf8 (utf8_encode s) = Inr s"
  by (simp add: decode_utf8_def comp_def)

section \<open>HTTP responses\<close>

record response =
  resp_status :: int
  resp_text :: string
  resp_json :: "json res"
  resp_raise :: "unit res"

definition is_http_error :: "pyexc \<Rightarrow> bool" where
  "is_http_error e = (case e of HttpError _ \<Rightarrow> True | _ \<Rightarrow> False)"

text \<open>The library's \<open>JSONDecodeError\<close> is both a request exception and a \<open>ValueError\<close>.\<close>

definition is_value_error :: "pyexc \<Rightarrow> bool" where
  "is_value_error e =
     (case e of ValueError _ \<Rightarrow> True | HttpError s \<Rightarrow> s = ''JSONDecodeError'' | _ \<Rightarrow> False)"

end
