(* ===== verification/Thorchain.thy ===== *)
theory Thorchain
  imports Json
begin

text \<open>
  \<open>thorchain.py\<close>: the typed view of the THORChain/Maya REST API. The parsers are total
  functions from JSON to a result; the client operations are effects over the HTTP getter of
  \<open>net.HttpClient\<close>, which is an argument.
\<close>

definition THORCHAIN_UNIT :: int where
  "THORCHAIN_UNIT = 100000000"

definition DEFAULT_TOLERANCE_BPS :: int where
  "DEFAULT_TOLERANCE_BPS = 300"

section \<open>Chain status\<close>

record chain_status =
  cs_chain :: string
  cs_gas_rate :: int
  cs_gas_rate_units :: string
  cs_outbound_fee :: int
  cs_dust_threshold :: int
  cs_halted :: bool
  cs_global_trading_paused :: bool
  cs_chain_trading_paused :: bool
  cs_address :: string
  cs_router :: "string option"

definition tradable :: "chain_status \<Rightarrow> bool" where
  "tradable s \<longleftrightarrow> \<not> (cs_halted s \<or> cs_global_trading_paused s \<or> cs_chain_trading_paused s)"

definition parse_chain_status :: "dict \<Rightarrow> chain_status res" where
  "parse_chain_status entry =
     bind_res (get_str entry ''chain'') (\<lambda>chain.
     bind_res (get_int entry ''gas_rate'') (\<lambda>gas_rate.
     bind_res (get_str entry ''gas_rate_units'') (\<lambda>units.
     bind_res (get_int entry ''outbound_fee'') (\<lambda>outbound_fee.
     bind_res (get_int entry ''dust_threshold'') (\<lambda>dust.
     bind_res (get_str entry ''address'') (\<lambda>address.
     bind_res (get_opt_str entry ''router'') (\<lambda>router.
       Inr \<lparr>cs_chain = chain, cs_gas_rate = gas_rate, cs_gas_rate_units = units,
            cs_outbound_fee = outbound_fee, cs_dust_threshold = dust,
            cs_halted = get_flag entry ''halted'',
            cs_global_trading_paused = get_flag entry ''global_trading_paused'',
            cs_chain_trading_paused = get_flag entry ''chain_trading_paused'',
            cs_address = address, cs_router = router\<rparr>)))))))"

type_synonym chain_table = "(string \<times> chain_status) list"

fun parse_entries :: "chain_table \<Rightarrow> json list \<Rightarrow> chain_table res" where
  "parse_entries table [] = Inr table"
| "parse_entries table (JObj entry # rest) =
     bind_res (parse_chain_status entry) (\<lambda>s. parse_entries (AList.update (cs_chain s) s table) rest)"
| "parse_entries table (_ # rest) = Inl (OtherError ''AttributeError'')"

definition parse_inbound_addresses :: "json list \<Rightarrow> chain_table res" where
  "parse_inbound_addresses payload = parse_entries [] payload"

section \<open>Quotes\<close>

record swap_fees =
  sf_asset :: string
  sf_outbound :: int
  sf_affiliate :: int
  sf_liquidity :: int
  sf_total :: int
  sf_slippage_bps :: int
  sf_total_bps :: int

record swap_quote =
  q_inbound_address :: string
  q_expected_amount_out :: int
  q_memo :: "string option"
  q_fees :: swap_fees
  q_recommended_min_amount_in :: int
  q_expiry :: int
  q_dust_threshold :: int
  q_recommended_gas_rate :: int
  q_gas_rate_units :: string
  q_router :: "string option"
  q_max_streaming_quantity :: int
  q_streaming_swap_blocks :: int
  q_total_swap_seconds :: int
  q_raw :: dict

definition parse_fees :: "dict \<Rightarrow> swap_fees res" where
  "parse_fees fees =
     bind_res (str_item fees ''asset'') (\<lambda>asset.
     bind_res (int_item fees ''outbound'') (\<lambda>outbound.
     bind_res (int_item fees ''affiliate'') (\<lambda>affiliate.
     bind_res (int_item fees ''liquidity'') (\<lambda>liquidity.
     bind_res (int_item fees ''total'') (\<lambda>fee_total.
     bind_res (int_item fees ''slippage_bps'') (\<lambda>slippage.
     bind_res (int_item fees ''total_bps'') (\<lambda>total_bps.
       Inr \<lparr>sf_asset = asset, sf_outbound = outbound, sf_affiliate = affiliate,
            sf_liquidity = liquidity, sf_total = fee_total, sf_slippage_bps = slippage,
            sf_total_bps = total_bps\<rparr>)))))))"

definition parse_quote_fields :: "dict \<Rightarrow> swap_quote res" where
  "parse_quote_fields payload =
     bind_res (item payload ''fees'') (\<lambda>fees.
     bind_res (str_item payload ''inbound_address'') (\<lambda>inbound.
     bind_res (int_item payload ''expected_amount_out'') (\<lambda>expected.
     bind_res (get_opt_str payload ''memo'') (\<lambda>memo.
     bind_res (bind_res (as_obj fees) parse_fees) (\<lambda>swap_fees.
     bind_res (int_item payload ''recommended_min_amount_in'') (\<lambda>min_in.
     bind_res (int_item payload ''expiry'') (\<lambda>expiry.
     bind_res (int_item payload ''dust_threshold'') (\<lambda>dust.
     bind_res (int_item payload ''recommended_gas_rate'') (\<lambda>gas_rate.
     bind_res (str_item payload ''gas_rate_units'') (\<lambda>gas_units.
     bind_res (get_opt_str payload ''router'') (\<lambda>router.
     bind_res (get_int payload ''max_streaming_quantity'') (\<lambda>max_streaming.
     bind_res (get_int payload ''streaming_swap_blocks'') (\<lambda>blocks.
     bind_res (get_int payload ''total_swap_seconds'') (\<lambda>seconds.
       Inr \<lparr>q_inbound_address = inbound, q_expected_amount_out = expected, q_memo = memo,
            q_fees = swap_fees, q_recommended_min_amount_in = min_in, q_expiry = expiry,
            q_dust_threshold = dust, q_recommended_gas_rate = gas_rate,
            q_gas_rate_units = gas_units, q_router = router,
            q_max_streaming_quantity = max_streaming, q_streaming_swap_blocks = blocks,
            q_total_swap_seconds = seconds, q_raw = payload\<rparr>))))))))))))))"

definition parse_quote :: "dict \<Rightarrow> swap_quote res" where
  "parse_quote payload =
     (case map_of payload ''error'' of
        Some e \<Rightarrow> Inl (ThorchainError (py_str e))
      | None \<Rightarrow> parse_quote_fields payload)"

section \<open>Amounts as floats\<close>

definition finite_float :: "rat \<Rightarrow> rat res" where
  "finite_float x = (if 2 ^ 1024 \<le> \<bar>x\<bar> then Inl (OutOfModel ''inf'') else Inr x)"

definition py_truediv :: "int \<Rightarrow> int \<Rightarrow> rat res" where
  "py_truediv a b =
     (if b = 0 then Inl (OtherError ''ZeroDivisionError'')
      else if 2 ^ 1024 \<le> \<bar>int_truediv a b\<bar> then Inl (OtherError ''OverflowError'')
      else Inr (int_truediv a b))"

definition float_of_int :: "int \<Rightarrow> rat res" where
  "float_of_int n =
     (if 2 ^ 1024 \<le> \<bar>f64 (of_int n)\<bar> then Inl (OtherError ''OverflowError'') else Inr (f64 (of_int n)))"

text \<open>\<open>f"{n / unit:.8f}"\<close>.\<close>

definition units_text :: "int \<Rightarrow> string res" where
  "units_text n = map_sum id (fmt_fixed 8) (py_truediv n THORCHAIN_UNIT)"

definition breakdown :: "swap_fees \<Rightarrow> string \<Rightarrow> string list res" where
  "breakdown fees symbol =
     bind_res (units_text (sf_liquidity fees)) (\<lambda>liq.
     bind_res (units_text (sf_outbound fees)) (\<lambda>out.
     bind_res (if sf_affiliate fees \<noteq> 0
               then map_sum id (\<lambda>t. [''  affiliate      '' @ t @ '' '' @ symbol])
                      (units_text (sf_affiliate fees))
               else Inr []) (\<lambda>aff.
     bind_res (units_text (sf_total fees)) (\<lambda>tot.
       Inr ([''  slip/swap fee  '' @ liq @ '' '' @ symbol @ ''  ('' @ str_int (sf_slippage_bps fees) @ '' bps)'',
             ''  outbound fee   '' @ out @ '' '' @ symbol @ ''  (flat)''] @ aff @
            [''  quoted total   '' @ tot @ '' '' @ symbol @ ''  ('' @ str_int (sf_total_bps fees) @
             '' bps of input)''])))))"

section \<open>Pools and liquidity positions\<close>

record pool_depth =
  pd_asset :: string
  pd_balance_asset :: int
  pd_balance_protocol :: int

definition asset_per_protocol :: "pool_depth \<Rightarrow> rat res" where
  "asset_per_protocol p =
     (if pd_balance_protocol p = 0 then Inr 0 else py_truediv (pd_balance_asset p) (pd_balance_protocol p))"

definition zero_text :: json where
  "zero_text = JStr ''0''"

definition parse_pool_depth :: "dict \<Rightarrow> pool_depth res" where
  "parse_pool_depth payload =
     (let protocol = dget payload ''balance_rune'' (dget payload ''balance_cacao'' zero_text)
      in bind_res (get_str payload ''asset'') (\<lambda>asset.
         bind_res (py_int (dget payload ''balance_asset'' zero_text)) (\<lambda>balance.
         bind_res (py_int protocol) (\<lambda>prot.
           Inr \<lparr>pd_asset = asset, pd_balance_asset = balance, pd_balance_protocol = prot\<rparr>))))"

record liquidity_position =
  lp_pool :: string
  lp_asset_address :: string
  lp_units :: int
  lp_asset_redeem_value :: int
  lp_pending_asset :: int
  lp_protocol_redeem_value :: int
  lp_asset_deposit_value :: int
  lp_protocol_deposit_value :: int

definition parse_position :: "dict \<Rightarrow> liquidity_position res" where
  "parse_position payload =
        (let redeem = dget payload ''rune_redeem_value'' (dget payload ''cacao_redeem_value'' zero_text);
             deposit = dget payload ''rune_deposit_value'' (dget payload ''cacao_deposit_value'' zero_text)
         in bind_res (get_str payload ''asset'') (\<lambda>pool.
            bind_res (get_str payload ''asset_address'') (\<lambda>addr.
            bind_res (py_int (dget payload ''units'' zero_text)) (\<lambda>units.
            bind_res (py_int (dget payload ''asset_redeem_value'' zero_text)) (\<lambda>asset_redeem.
            bind_res (py_int (dget payload ''pending_asset'' zero_text)) (\<lambda>pending.
            bind_res (py_int redeem) (\<lambda>protocol_redeem.
            bind_res (py_int (dget payload ''asset_deposit_value'' zero_text)) (\<lambda>asset_deposit.
            bind_res (py_int deposit) (\<lambda>protocol_deposit.
              Inr \<lparr>lp_pool = pool, lp_asset_address = addr, lp_units = units,
                   lp_asset_redeem_value = asset_redeem, lp_pending_asset = pending,
                   lp_protocol_redeem_value = protocol_redeem,
                   lp_asset_deposit_value = asset_deposit,
                   lp_protocol_deposit_value = protocol_deposit\<rparr>)))))))))"

definition parse_liquidity_provider :: "dict \<Rightarrow> liquidity_position option res" where
  "parse_liquidity_provider payload =
     (if map_of payload ''error'' \<noteq> None then Inr None
      else bind_res (parse_position payload) (\<lambda>pos.
        Inr (if \<not> (lp_asset_redeem_value pos \<noteq> 0 \<or> lp_pending_asset pos \<noteq> 0
                   \<or> lp_protocol_redeem_value pos \<noteq> 0)
             then None else Some pos)))"

text \<open>
  \<open>LiquidityPosition.format\<close>: \<open>price\<close> is asset units per unit of RUNE/CACAO, \<open>None\<close> when
  no pool price is known.
\<close>

definition in_asset :: "rat option \<Rightarrow> int \<Rightarrow> rat res" where
  "in_asset price v =
     bind_res (float_of_int v) (\<lambda>f.
     bind_res (finite_float (fmul f (case price of None \<Rightarrow> 0 | Some p \<Rightarrow> p))) (\<lambda>m.
       finite_float (fdiv m (of_int THORCHAIN_UNIT))))"

definition lp_head :: "liquidity_position \<Rightarrow> string \<Rightarrow> rat option \<Rightarrow> rat \<Rightarrow> string res" where
  "lp_head pos protocol price asset_side =
     (if price \<noteq> None \<and> lp_protocol_redeem_value pos \<noteq> 0 then
        bind_res (in_asset price (lp_protocol_redeem_value pos)) (\<lambda>side.
        bind_res (finite_float (fadd asset_side side)) (\<lambda>tot.
          Inr (''~'' @ fmt_fixed 8 tot @ '' redeemable ('' @ fmt_fixed 8 asset_side @ '' asset + '' @
               fmt_fixed 8 side @ '' via '' @ protocol @ '')'')))
      else if lp_protocol_redeem_value pos \<noteq> 0 then
        Inr (fmt_fixed 8 asset_side @ '' redeemable (plus a '' @ protocol @ ''-side value not counted)'')
      else Inr (fmt_fixed 8 asset_side @ '' redeemable''))"

definition lp_extras :: "liquidity_position \<Rightarrow> rat option \<Rightarrow> string list res" where
  "lp_extras pos price =
     bind_res
       (if price \<noteq> None \<and> (lp_asset_deposit_value pos \<noteq> 0 \<or> lp_protocol_deposit_value pos \<noteq> 0) then
          bind_res (py_truediv (lp_asset_deposit_value pos) THORCHAIN_UNIT) (\<lambda>a.
          bind_res (in_asset price (lp_protocol_deposit_value pos)) (\<lambda>b.
          bind_res (finite_float (fadd a b)) (\<lambda>deposited.
            Inr [''deposited ~'' @ fmt_fixed 8 deposited])))
        else Inr []) (\<lambda>dep.
     bind_res
       (if lp_pending_asset pos \<noteq> 0
        then map_sum id (\<lambda>t. [''+'' @ t @ '' pending'']) (units_text (lp_pending_asset pos))
        else Inr []) (\<lambda>pending.
       Inr (dep @ pending)))"

fun join :: "string \<Rightarrow> string list \<Rightarrow> string" where
  "join sep [] = []"
| "join sep [x] = x"
| "join sep (x # xs) = x @ sep @ join sep xs"

definition lp_format :: "liquidity_position \<Rightarrow> string \<Rightarrow> string \<Rightarrow> rat option \<Rightarrow> string res" where
  "lp_format pos source protocol price =
     bind_res (py_truediv (lp_asset_redeem_value pos) THORCHAIN_UNIT) (\<lambda>asset_side.
     bind_res (lp_head pos protocol price asset_side) (\<lambda>head.
     bind_res (lp_extras pos price) (\<lambda>extras.
       Inr (''  +LP '' @ source @ '' '' @ lp_pool pos @ '': '' @ head @
            (if extras \<noteq> [] then ''; '' @ join ''; '' extras else [])))))"

section \<open>The client\<close>

definition normalize_txid :: "string \<Rightarrow> string" where
  "normalize_txid txid = removeprefix ''0X'' (removeprefix ''0x'' txid)"

type_synonym 'w http_get = "string \<Rightarrow> dict \<Rightarrow> (string \<times> string) list \<Rightarrow> ('w, response) pyio"

record thor_client =
  tc_base_url :: string
  tc_path_prefix :: string
  tc_headers :: "(string \<times> string) list"

definition thorchain_client :: "string \<Rightarrow> string option \<Rightarrow> string \<Rightarrow> thor_client" where
  "thorchain_client base_url client_id path_prefix =
     \<lparr>tc_base_url = rstrip_char (CHR ''/'') base_url, tc_path_prefix = path_prefix,
      tc_headers = (case client_id of None \<Rightarrow> [] | Some c \<Rightarrow> if c = [] then [] else [(''x-client-id'', c)])\<rparr>"

definition endpoint :: "thor_client \<Rightarrow> string \<Rightarrow> string" where
  "endpoint c path = tc_base_url c @ ''/'' @ tc_path_prefix c @ ''/'' @ path"

definition fetch :: "'w http_get \<Rightarrow> thor_client \<Rightarrow> string \<Rightarrow> dict \<Rightarrow> ('w, response) pyio" where
  "fetch get c path params = get (endpoint c path) params (tc_headers c)"

definition checked_json :: "response \<Rightarrow> json res" where
  "checked_json r = bind_res (resp_raise r) (\<lambda>_. resp_json r)"

definition as_list :: "json \<Rightarrow> json list res" where
  "as_list j = (case j of JArr xs \<Rightarrow> Inr xs | _ \<Rightarrow> Inl (OutOfModel ''list''))"

definition as_dict :: "json \<Rightarrow> dict res" where
  "as_dict j = (case j of JObj d \<Rightarrow> Inr d | _ \<Rightarrow> Inl (OutOfModel ''dict''))"

definition inbound_addresses :: "'w http_get \<Rightarrow> thor_client \<Rightarrow> ('w, chain_table) pyio" where
  "inbound_addresses get c =
     bind_io (fetch get c ''inbound_addresses'' []) (\<lambda>resp.
       lift_io (bind_res (bind_res (checked_json resp) as_list) parse_inbound_addresses))"

definition tx_status :: "'w http_get \<Rightarrow> thor_client \<Rightarrow> string \<Rightarrow> ('w, json) pyio" where
  "tx_status get c txid =
     bind_io (fetch get c (''tx/status/'' @ normalize_txid txid) []) (\<lambda>resp. lift_io (checked_json resp))"

definition liquidity_provider ::
    "'w http_get \<Rightarrow> thor_client \<Rightarrow> string \<Rightarrow> string \<Rightarrow> ('w, liquidity_position option) pyio" where
  "liquidity_provider get c pool address =
     bind_io (fetch get c (''pool/'' @ pool @ ''/liquidity_provider/'' @ address) []) (\<lambda>resp.
       if resp_status resp = 404 then return_io None
       else lift_io (bind_res (bind_res (checked_json resp) as_dict) parse_liquidity_provider))"

definition pool_depth_of :: "'w http_get \<Rightarrow> thor_client \<Rightarrow> string \<Rightarrow> ('w, pool_depth) pyio" where
  "pool_depth_of get c asset =
     bind_io (fetch get c (''pool/'' @ asset) []) (\<lambda>resp.
       lift_io (bind_res (bind_res (checked_json resp) as_dict) parse_pool_depth))"

definition mimir :: "'w http_get \<Rightarrow> thor_client \<Rightarrow> ('w, dict) pyio" where
  "mimir get c =
     bind_io (fetch get c ''mimir'' []) (\<lambda>resp. lift_io (bind_res (checked_json resp) as_dict))"

definition opt_param :: "string \<Rightarrow> int option \<Rightarrow> dict" where
  "opt_param k v = (case v of None \<Rightarrow> [] | Some n \<Rightarrow> [(k, JInt n)])"

definition quote_params ::
    "string \<Rightarrow> string \<Rightarrow> int \<Rightarrow> string option \<Rightarrow> int option \<Rightarrow> int option \<Rightarrow> int option \<Rightarrow> dict" where
  "quote_params from_asset to_asset amount destination interval quantity tolerance =
     [(''from_asset'', JStr from_asset), (''to_asset'', JStr to_asset), (''amount'', JInt amount)] @
     (case destination of None \<Rightarrow> [] | Some d \<Rightarrow> [(''destination'', JStr d)]) @
     opt_param ''streaming_interval'' interval @
     opt_param ''streaming_quantity'' quantity @
     opt_param ''tolerance_bps'' tolerance"

definition read_quote :: "response \<Rightarrow> swap_quote res" where
  "read_quote resp =
     bind_res
       (if 400 \<le> resp_status resp then
          (case resp_json resp of
             Inl e \<Rightarrow> if is_value_error e then resp_raise resp else Inl e
           | Inr payload \<Rightarrow>
               bind_res (as_dict payload) (\<lambda>d.
                 Inl (ThorchainError (py_str (dget d ''error'' (JStr (resp_text resp)))))))
        else Inr ()) (\<lambda>_.
     bind_res (bind_res (resp_json resp) as_dict) parse_quote)"

definition quote_swap ::
    "'w http_get \<Rightarrow> thor_client \<Rightarrow> string \<Rightarrow> string \<Rightarrow> int \<Rightarrow> string option \<Rightarrow>
     int option \<Rightarrow> int option \<Rightarrow> int option \<Rightarrow> ('w, swap_quote) pyio" where
  "quote_swap get c from_asset to_asset amount destination interval quantity tolerance =
     bind_io (fetch get c ''quote/swap''
         (quote_params from_asset to_asset amount destination interval quantity tolerance)) (\<lambda>resp.
       lift_io (read_quote resp))"

section \<open>Reading quotes\<close>

definition opt_text :: "string option \<Rightarrow> json" where
  "opt_text t = (case t of None \<Rightarrow> JNull | Some s \<Rightarrow> JStr s)"

definition fees_json :: "swap_fees \<Rightarrow> dict" where
  "fees_json f =
     [(''asset'', JStr (sf_asset f)), (''outbound'', JStr (str_int (sf_outbound f))),
      (''affiliate'', JStr (str_int (sf_affiliate f))), (''liquidity'', JStr (str_int (sf_liquidity f))),
      (''total'', JStr (str_int (sf_total f))), (''slippage_bps'', JInt (sf_slippage_bps f)),
      (''total_bps'', JInt (sf_total_bps f))]"

text \<open>The answer of a node for a quote: amounts as decimal strings, counters as numbers.\<close>

definition quote_json :: "swap_quote \<Rightarrow> dict" where
  "quote_json q =
     [(''inbound_address'', JStr (q_inbound_address q)),
      (''fees'', JObj (fees_json (q_fees q))),
      (''router'', opt_text (q_router q)),
      (''expiry'', JInt (q_expiry q)),
      (''memo'', opt_text (q_memo q)),
      (''dust_threshold'', JStr (str_int (q_dust_threshold q))),
      (''recommended_min_amount_in'', JStr (str_int (q_recommended_min_amount_in q))),
      (''recommended_gas_rate'', JStr (str_int (q_recommended_gas_rate q))),
      (''gas_rate_units'', JStr (q_gas_rate_units q)),
      (''expected_amount_out'', JStr (str_int (q_expected_amount_out q))),
      (''max_streaming_quantity'', JInt (q_max_streaming_quantity q)),
      (''streaming_swap_blocks'', JInt (q_streaming_swap_blocks q)),
      (''total_swap_seconds'', JInt (q_total_swap_seconds q))]"

lemma as_opt_str_opt_text [simp]: "as_opt_str (opt_text t) = Inr t"
  by (cases t) (simp_all add: opt_text_def)

definition fee_amounts :: "swap_fees \<Rightarrow> int list" where
  "fee_amounts f = [sf_outbound f, sf_affiliate f, sf_liquidity f, sf_total f]"

definition quote_amounts :: "swap_quote \<Rightarrow> int list" where
  "quote_amounts q =
     [q_expected_amount_out q, q_recommended_min_amount_in q, q_dust_threshold q,
      q_recommended_gas_rate q] @ fee_amounts (q_fees q)"

lemma py_int_amount: "is_amount n \<Longrightarrow> py_int (JStr (str_int n)) = Inr n"
  by (simp add: parse_int_amount)

lemma parse_fees_json: "list_all is_amount (fee_amounts f) \<Longrightarrow> parse_fees (fees_json f) = Inr f"
  by (simp add: parse_fees_def fees_json_def fee_amounts_def dict_access py_int_amount del: py_int.simps(5))

lemma quote_json_parses:
  assumes "list_all is_amount (quote_amounts q)"
  shows "parse_quote (quote_json q) = Inr (q\<lparr>q_raw := quote_json q\<rparr>)"
proof -
  have fees: "parse_fees (fees_json (q_fees q)) = Inr (q_fees q)"
    using assms by (intro parse_fees_json) (simp add: quote_amounts_def)
  have "map_of (quote_json q) ''error'' = None" by (simp add: quote_json_def)
  moreover have "item (quote_json q) ''fees'' = Inr (JObj (fees_json (q_fees q)))"
    by (simp add: quote_json_def item_def)
  moreover have "str_item (quote_json q) ''inbound_address'' = Inr (q_inbound_address q)"
    "int_item (quote_json q) ''expected_amount_out'' = Inr (q_expected_amount_out q)"
    "get_opt_str (quote_json q) ''memo'' = Inr (q_memo q)"
    "int_item (quote_json q) ''recommended_min_amount_in'' = Inr (q_recommended_min_amount_in q)"
    "int_item (quote_json q) ''expiry'' = Inr (q_expiry q)"
    "int_item (quote_json q) ''dust_threshold'' = Inr (q_dust_threshold q)"
    "int_item (quote_json q) ''recommended_gas_rate'' = Inr (q_recommended_gas_rate q)"
    "str_item (quote_json q) ''gas_rate_units'' = Inr (q_gas_rate_units q)"
    "get_opt_str (quote_json q) ''router'' = Inr (q_router q)"
    "get_int (quote_json q) ''max_streaming_quantity'' = Inr (q_max_streaming_quantity q)"
    "get_int (quote_json q) ''streaming_swap_blocks'' = Inr (q_streaming_swap_blocks q)"
    "get_int (quote_json q) ''total_swap_seconds'' = Inr (q_total_swap_seconds q)"
    using assms
    by (simp_all add: quote_json_def quote_amounts_def dict_access py_int_amount del: py_int.simps(5))
  ultimately show ?thesis by (simp add: parse_quote_def parse_quote_fields_def fees)
qed

text \<open>C32. Parsing reads back every field of the answer a node gives for a quote, for all quotes:
  string-typed amounts of up to 256 bits become integers and a missing memo or router stays
  missing.\<close>

theorem quote_round_trip:
  assumes "list_all is_amount (quote_amounts q)"
  shows "parse_quote (quote_json q) = Inr (q\<lparr>q_raw := quote_json q\<rparr>)"
  using assms by (rule quote_json_parses)

definition example_quote :: swap_quote where
  "example_quote =
     \<lparr>q_inbound_address = ''bc1vault'', q_expected_amount_out = 149000000, q_memo = Some ''=:ETH.ETH:0xab'',
      q_fees = \<lparr>sf_asset = ''ETH.ETH'', sf_outbound = 100000, sf_affiliate = 0, sf_liquidity = 30000,
        sf_total = 130000, sf_slippage_bps = 2, sf_total_bps = 9\<rparr>,
      q_recommended_min_amount_in = 10000, q_expiry = 2000, q_dust_threshold = 1000,
      q_recommended_gas_rate = 5, q_gas_rate_units = ''satsperbyte'', q_router = None,
      q_max_streaming_quantity = 0, q_streaming_swap_blocks = 0, q_total_swap_seconds = 0, q_raw = []\<rparr>"

theorem quote_round_trip_witness:
  "parse_quote (quote_json example_quote) = Inr (example_quote\<lparr>q_raw := quote_json example_quote\<rparr>)"
  by (rule quote_round_trip) (simp add: example_quote_def quote_amounts_def fee_amounts_def is_amount_def)













section \<open>Inbound addresses\<close>

text \<open>The reference reading of the address list: the last entry for a chain counts.\<close>

fun last_status :: "string \<Rightarrow> json list \<Rightarrow> chain_status option" where
  "last_status c [] = None"
| "last_status c (j # js) =
     (case last_status c js of
        Some s \<Rightarrow> Some s
      | None \<Rightarrow>
          (case j of
             JObj e \<Rightarrow>
               (case parse_chain_status e of
                  Inr s \<Rightarrow> if cs_chain s = c then Some s else None
                | Inl _ \<Rightarrow> None)
           | _ \<Rightarrow> None))"

lemma parse_entries_lookup:
  "parse_entries table js = Inr result \<Longrightarrow>
   map_of result c = (case last_status c js of None \<Rightarrow> map_of table c | Some s \<Rightarrow> Some s)"
proof (induction table js rule: parse_entries.induct)
  case (2 table entry rest)
  then obtain s where s: "parse_chain_status entry = Inr s"
    and r: "parse_entries (AList.update (cs_chain s) s table) rest = Inr result"
    by (auto simp: bind_res_eq_Inr)
  from "2.IH" [OF r] s show ?case by (auto simp: dict_set_lookup split: option.splits)
qed simp_all

lemma parse_chain_status_flags:
  "parse_chain_status e = Inr s \<Longrightarrow>
   tradable s \<longleftrightarrow> \<not> get_flag e ''halted'' \<and> \<not> get_flag e ''global_trading_paused''
     \<and> \<not> get_flag e ''chain_trading_paused''"
  unfolding parse_chain_status_def bind_res_eq_Inr by (elim exE conjE) (auto simp: tradable_def)

lemma last_status_origin:
  "last_status c js = Some s \<Longrightarrow> \<exists>e. JObj e \<in> set js \<and> parse_chain_status e = Inr s \<and> cs_chain s = c"
  by (induction js) (auto split: option.splits json.splits sum.splits if_splits)

text \<open>The table of chains is the last entry of the answer for each chain, and a chain in it
  counts as tradable exactly when that entry sets none of its three halt and pause flags.\<close>

theorem inbound_addresses_last_wins:
  assumes "parse_inbound_addresses payload = Inr table"
  shows "map_of table c = last_status c payload
    \<and> (\<forall>s. map_of table c = Some s \<longrightarrow>
         (\<exists>e. JObj e \<in> set payload \<and> parse_chain_status e = Inr s \<and>
            (tradable s \<longleftrightarrow> \<not> get_flag e ''halted'' \<and> \<not> get_flag e ''global_trading_paused''
               \<and> \<not> get_flag e ''chain_trading_paused'')))"
proof (intro conjI allI impI)
  show t: "map_of table c = last_status c payload"
    using parse_entries_lookup [of "[]" payload table c] assms
    by (simp add: parse_inbound_addresses_def split: option.splits)
  fix s assume "map_of table c = Some s"
  with t obtain e where "JObj e \<in> set payload" "parse_chain_status e = Inr s"
    using last_status_origin [of c payload s] by auto
  with parse_chain_status_flags [of e s]
  show "\<exists>e. JObj e \<in> set payload \<and> parse_chain_status e = Inr s \<and>
      (tradable s \<longleftrightarrow> \<not> get_flag e ''halted'' \<and> \<not> get_flag e ''global_trading_paused''
         \<and> \<not> get_flag e ''chain_trading_paused'')"
    by (intro exI [of _ e] conjI)
qed

definition example_entry :: "bool \<Rightarrow> dict" where
  "example_entry h = [(''chain'', JStr ''BTC''), (''gas_rate'', JInt 12), (''halted'', JBool h),
     (''address'', JStr ''bc1vault'')]"

theorem inbound_addresses_last_wins_witness:
  "\<exists>table. parse_inbound_addresses [JObj (example_entry False), JObj (example_entry True)] = Inr table
     \<and> map_option tradable (map_of table ''BTC'') = Some False"
proof -
  let ?p = "[JObj (example_entry False), JObj (example_entry True)]"
  have e: "\<exists>s. parse_chain_status (example_entry h) = Inr s \<and> cs_chain s = ''BTC'' \<and> (tradable s \<longleftrightarrow> \<not> h)" for h
    by (simp add: example_entry_def parse_chain_status_def dict_access tradable_def)
  obtain table where t: "parse_inbound_addresses ?p = Inr table"
    using e [of False] e [of True] by (auto simp: parse_inbound_addresses_def)
  have "map_option tradable (last_status ''BTC'' ?p) = Some False"
    using e [of True] by auto
  then have "map_option tradable (map_of table ''BTC'') = Some False"
    by (simp only: inbound_addresses_last_wins [OF t, THEN conjunct1])
  with t show ?thesis by blast
qed

text \<open>A degraded entry that carries nothing but the name of its chain is read as a tradable
  chain without a vault address and without a dust threshold: absent flags do not pause it.\<close>

theorem degraded_entry_is_tradable:
  "\<exists>s. parse_inbound_addresses [JObj [(''chain'', JStr c)]] = Inr [(c, s)]
     \<and> tradable s \<and> cs_address s = [] \<and> cs_dust_threshold s = 0 \<and> cs_router s = None"
  by (simp add: parse_inbound_addresses_def parse_chain_status_def dict_access tradable_def)

section \<open>Quotes over HTTP\<close>

lemma read_quote_Inr:
  "read_quote r = Inr q \<Longrightarrow> resp_status r < 400 \<and> (\<exists>d. resp_json r = Inr (JObj d) \<and> parse_quote d = Inr q)"
  by (cases "400 \<le> resp_status r"; cases "resp_json r")
     (auto simp: read_quote_def bind_res_eq_Inr as_dict_def split: json.splits if_splits)

text \<open>Asking for a quote performs one request, to the quote endpoint with exactly the
  requested parameters; a quote comes back only from an answer with a status below 400 whose
  body parses, and an error status with a JSON object always raises \<open>ThorchainError\<close>.\<close>

theorem quote_swap_sound:
  assumes "quote_swap get c from_asset to_asset amount destination interval quantity tolerance w = (r, w')"
  shows "\<exists>answer. get (endpoint c ''quote/swap'')
        (quote_params from_asset to_asset amount destination interval quantity tolerance)
        (tc_headers c) w = (answer, w')
    \<and> (\<forall>q. r = Inr q \<longrightarrow> (\<exists>resp d. answer = Inr resp \<and> resp_status resp < 400
         \<and> resp_json resp = Inr (JObj d) \<and> parse_quote d = Inr q))
    \<and> (\<forall>resp d. answer = Inr resp \<longrightarrow> 400 \<le> resp_status resp \<longrightarrow> resp_json resp = Inr (JObj d) \<longrightarrow>
         r = Inl (ThorchainError (py_str (dget d ''error'' (JStr (resp_text resp))))))"
proof -
  let ?g = "get (endpoint c ''quote/swap'')
      (quote_params from_asset to_asset amount destination interval quantity tolerance) (tc_headers c) w"
  obtain answer w'' where g: "?g = (answer, w'')" by (cases ?g)
  with assms have w: "w'' = w'" and r: "r = bind_res answer read_quote"
    by (cases answer; simp add: quote_swap_def fetch_def bind_io_def)+
  have e: "read_quote resp = Inl (ThorchainError (py_str (dget d ''error'' (JStr (resp_text resp)))))"
    if "400 \<le> resp_status resp" "resp_json resp = Inr (JObj d)" for resp d
    using that by (simp add: read_quote_def as_dict_def)
  from g w r e read_quote_Inr show ?thesis by (cases answer) auto
qed

definition example_client :: thor_client where
  "example_client = thorchain_client ''https://node/'' None ''thorchain''"

theorem quote_swap_sound_witness:
  "quote_swap (\<lambda>url params headers w.
       (Inr \<lparr>resp_status = 400, resp_text = ''bad'', resp_json = Inr (JObj [(''error'', JStr ''no pool'')]),
             resp_raise = Inl (HttpError ''400'')\<rparr>, w))
     example_client ''BTC.BTC'' ''ETH.ETH'' 1000 None None None None () =
   (Inl (ThorchainError ''no pool''), ())"
proof -
  let ?get = "\<lambda>url params headers w. (Inr \<lparr>resp_status = 400, resp_text = ''bad'',
      resp_json = Inr (JObj [(''error'', JStr ''no pool'')]), resp_raise = Inl (HttpError ''400'')\<rparr>, w)"
  obtain r w' where q: "quote_swap ?get example_client ''BTC.BTC'' ''ETH.ETH'' 1000 None None None None () = (r, w')"
    by (cases "quote_swap ?get example_client ''BTC.BTC'' ''ETH.ETH'' 1000 None None None None ()")
  from quote_swap_sound [OF q] have "r = Inl (ThorchainError ''no pool'')"
    by (auto simp: dget_def)
  with q show ?thesis by simp
qed

section \<open>What the fee lines show\<close>

definition shown_units :: "int \<Rightarrow> string" where
  "shown_units n = decimal_text 8 (n < 0) (nat \<bar>n\<bar>)"

lemma units_text_exact:
  assumes "\<bar>n\<bar> < 2 ^ 26 * 10 ^ 8"
  shows "units_text n = Inr (shown_units n)"
proof -
  have "\<bar>of_int n / 10 ^ 8 :: rat\<bar> \<le> 2 ^ 26"
  proof -
    have "\<bar>of_int n :: rat\<bar> = of_int \<bar>n\<bar>" by simp
    also have "\<dots> \<le> of_int (2 ^ 26 * 10 ^ 8)" using assms by (subst of_int_le_iff) simp
    finally show ?thesis by (simp add: abs_divide field_simps)
  qed
  then have u: "of_int n / 10 ^ 8 \<le> (2 ^ 26 :: rat)" and l: "- (2 ^ 26 :: rat) \<le> of_int n / 10 ^ 8"
    by linarith+
  note f64_mono [OF u] f64_mono [OF l]
  moreover have "f64 (2 ^ 26) = 2 ^ 26" using f64_of_int [of "2 ^ 26"] by simp
  ultimately have b: "\<bar>int_truediv n (10 ^ 8)\<bar> \<le> 2 ^ 26"
    by (simp add: int_truediv_def abs_le_iff)
  have "(2 ^ 26 :: rat) < 2 ^ 1024" by (rule power_strict_increasing) simp_all
  with b have "\<not> 2 ^ 1024 \<le> \<bar>int_truediv n (10 ^ 8)\<bar>" by linarith
  moreover have "THORCHAIN_UNIT = 10 ^ 8" by (simp add: THORCHAIN_UNIT_def)
  ultimately have "py_truediv n THORCHAIN_UNIT = Inr (int_truediv n (10 ^ 8))"
    unfolding py_truediv_def by (simp only: if_False) simp
  then show ?thesis using fmt_units_exact [OF assms] by (simp add: units_text_def shown_units_def)
qed

text \<open>C39. For fees below \<open>2 ^ 26\<close> whole units of the destination asset the itemised lines show
  the exact amounts, digit by digit, although they are computed in floating point; the affiliate
  line appears exactly when there is an affiliate fee.\<close>

theorem breakdown_exact:
  assumes "\<forall>n \<in> set (fee_amounts f). \<bar>n\<bar> < 2 ^ 26 * 10 ^ 8"
  shows "breakdown f symbol = Inr (
     [''  slip/swap fee  '' @ shown_units (sf_liquidity f) @ '' '' @ symbol @ ''  ('' @
        str_int (sf_slippage_bps f) @ '' bps)'',
      ''  outbound fee   '' @ shown_units (sf_outbound f) @ '' '' @ symbol @ ''  (flat)''] @
     (if sf_affiliate f \<noteq> 0 then [''  affiliate      '' @ shown_units (sf_affiliate f) @ '' '' @ symbol]
      else []) @
     [''  quoted total   '' @ shown_units (sf_total f) @ '' '' @ symbol @ ''  ('' @
        str_int (sf_total_bps f) @ '' bps of input)''])"
proof -
  have "units_text (sf_liquidity f) = Inr (shown_units (sf_liquidity f))"
    "units_text (sf_outbound f) = Inr (shown_units (sf_outbound f))"
    "units_text (sf_affiliate f) = Inr (shown_units (sf_affiliate f))"
    "units_text (sf_total f) = Inr (shown_units (sf_total f))"
    using assms by (intro units_text_exact; simp add: fee_amounts_def)+
  then show ?thesis by (simp add: breakdown_def)
qed

theorem breakdown_exact_witness:
  "\<exists>lines. breakdown (q_fees example_quote) ''ETH'' = Inr lines
     \<and> last lines = ''  quoted total   0.00130000 ETH  (9 bps of input)''"
proof -
  have "\<forall>n \<in> set (fee_amounts (q_fees example_quote)). \<bar>n\<bar> < 2 ^ 26 * 10 ^ 8"
    by (simp add: example_quote_def fee_amounts_def)
  note breakdown_exact [OF this, of "''ETH''"]
  moreover have "shown_units (sf_total (q_fees example_quote)) = ''0.00130000''"
    by (simp add: example_quote_def shown_units_def decimal_text_def str_nat_eval pad_zero_def)
  moreover have "str_int (sf_total_bps (q_fees example_quote)) = ''9''"
    by (simp add: example_quote_def str_int_def str_nat_eval)
  ultimately show ?thesis by simp
qed

section \<open>Liquidity positions\<close>

text \<open>Maya's name of a protocol-side field.\<close>

definition rekey :: "string \<Rightarrow> string \<Rightarrow> string \<Rightarrow> string \<Rightarrow> string \<Rightarrow> string" where
  "rekey a a' b b' k = (if k = a then a' else if k = b then b' else k)"

definition maya_key :: "string \<Rightarrow> string" where
  "maya_key = rekey ''rune_redeem_value'' ''cacao_redeem_value'' ''rune_deposit_value'' ''cacao_deposit_value''"

definition maya_payload :: "dict \<Rightarrow> dict" where
  "maya_payload d = map (\<lambda>(k, v). (maya_key k, v)) d"

lemma rekey_eq:
  assumes "distinct [a, b, a', b']"
  shows "rekey a a' b b' k \<noteq> a" "rekey a a' b b' k \<noteq> b"
    "rekey a a' b b' k = a' \<longleftrightarrow> k = a \<or> k = a'" "rekey a a' b b' k = b' \<longleftrightarrow> k = b \<or> k = b'"
    "c \<notin> {a, b, a', b'} \<Longrightarrow> rekey a a' b b' k = c \<longleftrightarrow> k = c"
  using assms by (auto simp: rekey_def)

lemma maya_keys_distinct:
  "distinct [''rune_redeem_value'', ''rune_deposit_value'', ''cacao_redeem_value'', ''cacao_deposit_value'']"
  by code_simp

lemmas maya_key_eq = rekey_eq(1-4) [OF maya_keys_distinct, folded maya_key_def]
lemmas maya_key_other = rekey_eq(5) [OF maya_keys_distinct, folded maya_key_def]

lemma map_of_maya_payload:
  "map_of (maya_payload d) c =
     (case filter (\<lambda>(k, v). maya_key k = c) d of [] \<Rightarrow> None | kv # _ \<Rightarrow> Some (snd kv))"
  by (induction d) (auto simp: maya_payload_def)

lemma map_of_filter_head:
  "map_of d c = (case filter (\<lambda>(k, v). k = c) d of [] \<Rightarrow> None | kv # _ \<Rightarrow> Some (snd kv))"
  by (induction d) auto

lemma maya_lookup_other:
  assumes "c \<notin> {''rune_redeem_value'', ''rune_deposit_value'', ''cacao_redeem_value'', ''cacao_deposit_value''}"
  shows "map_of (maya_payload d) c = map_of d c"
  by (subst map_of_maya_payload, subst map_of_filter_head) (simp only: maya_key_other [OF assms])

lemma maya_lookup_rune:
  "map_of (maya_payload d) ''rune_redeem_value'' = None"
  "map_of (maya_payload d) ''rune_deposit_value'' = None"
  by (simp_all add: map_of_maya_payload maya_key_eq)

lemma filter_absent_key:
  "b \<notin> fst ` set d \<Longrightarrow> filter (\<lambda>(k, v). k = a \<or> k = b) d = filter (\<lambda>(k, v). k = a) d"
  by (intro filter_cong) (auto simp: image_iff)

lemma maya_lookup_cacao:
  "''cacao_redeem_value'' \<notin> fst ` set d \<Longrightarrow>
     map_of (maya_payload d) ''cacao_redeem_value'' = map_of d ''rune_redeem_value''"
  "''cacao_deposit_value'' \<notin> fst ` set d \<Longrightarrow>
     map_of (maya_payload d) ''cacao_deposit_value'' = map_of d ''rune_deposit_value''"
  by (subst map_of_maya_payload, subst map_of_filter_head, simp only: maya_key_eq filter_absent_key not_False_eq_True)+

lemma maya_position:
  assumes "''cacao_redeem_value'' \<notin> fst ` set d" "''cacao_deposit_value'' \<notin> fst ` set d"
  shows "parse_position (maya_payload d) = parse_position d"
proof -
  have "map_of d ''cacao_redeem_value'' = None" "map_of d ''cacao_deposit_value'' = None"
    using assms by (simp_all add: map_of_eq_None_iff)
  then show ?thesis
    by (simp add: parse_position_def dget_def get_str_def maya_lookup_other maya_lookup_rune
        maya_lookup_cacao assms)
qed

text \<open>A liquidity position is reported exactly when the answer carries no error, its fields
  parse and something in it is redeemable or pending; and THORChain's and Maya's names for the
  protocol side of the same position give the same report.\<close>

theorem liquidity_position_reported:
  assumes "''cacao_redeem_value'' \<notin> fst ` set payload" "''cacao_deposit_value'' \<notin> fst ` set payload"
  shows "(parse_liquidity_provider payload = Inr (Some pos) \<longleftrightarrow>
      map_of payload ''error'' = None \<and> parse_position payload = Inr pos
      \<and> (lp_asset_redeem_value pos \<noteq> 0 \<or> lp_pending_asset pos \<noteq> 0 \<or> lp_protocol_redeem_value pos \<noteq> 0))
    \<and> parse_liquidity_provider (maya_payload payload) = parse_liquidity_provider payload"
  using maya_position [OF assms] maya_lookup_other [of "''error''" payload]
  by (auto simp: parse_liquidity_provider_def bind_res_eq_Inr split: if_splits)

theorem liquidity_position_reported_witness:
  "parse_liquidity_provider (maya_payload [(''units'', JInt 5), (''rune_redeem_value'', JInt 7)]) =
     parse_liquidity_provider [(''units'', JInt 5), (''rune_redeem_value'', JInt 7)]"
  by (rule liquidity_position_reported [THEN conjunct2]) simp_all

end
