(* ===== verification/Coins.thy ===== *)
theory Coins
  imports Float64 "HOL-Library.Multiset"
begin

text \<open>
  \<open>chains/coins.py\<close>: the OP_RETURN script codec, the size and fee estimate of a P2WPKH
  transaction, the sweep amounts and the greedy coin selection. Amounts are satoshis (\<open>int\<close>),
  the fee rate is a float, and \<open>ceil(vsize * fee_rate)\<close> is computed in binary64 as the code
  does. The lemmas show that the codec is a round trip, that a selection balances inputs
  against outputs, and that the greedy loop fails only when no set of coins could pay.
\<close>

section \<open>Constants and data\<close>

definition OP_RETURN_MAX_BYTES :: nat where "OP_RETURN_MAX_BYTES = 80"
definition OP_PUSHDATA1 :: nat where "OP_PUSHDATA1 = 76"
definition OP_RETURN_OPCODE :: nat where "OP_RETURN_OPCODE = 106"
definition TX_OVERHEAD_VB :: int where "TX_OVERHEAD_VB = 11"
definition P2WPKH_INPUT_VB :: int where "P2WPKH_INPUT_VB = 68"
definition P2WPKH_OUTPUT_VB :: int where "P2WPKH_OUTPUT_VB = 31"
definition DUST_P2WPKH :: int where "DUST_P2WPKH = 294"

lemmas coin_constants =
  OP_RETURN_MAX_BYTES_def OP_PUSHDATA1_def OP_RETURN_OPCODE_def
  TX_OVERHEAD_VB_def P2WPKH_INPUT_VB_def P2WPKH_OUTPUT_VB_def DUST_P2WPKH_def

record utxo =
  utxo_txid :: string
  utxo_vout :: int
  utxo_value :: int
  utxo_address :: string
  utxo_path :: "string option"

record selection =
  sel_utxos :: "utxo list"
  sel_fee :: int
  sel_change :: int

abbreviation total_value :: "utxo list \<Rightarrow> int" where
  "total_value us \<equiv> sum_list (map utxo_value us)"

section \<open>The OP_RETURN codec\<close>

definition encode_op_return :: "bytes \<Rightarrow> bytes res" where
  "encode_op_return data =
     (if OP_RETURN_MAX_BYTES < length data then Inl (ValueError ''OP_RETURN data too long'')
      else if length data < OP_PUSHDATA1
      then Inr ([word_of_nat OP_RETURN_OPCODE, word_of_nat (length data)] @ data)
      else Inr ([word_of_nat OP_RETURN_OPCODE, word_of_nat OP_PUSHDATA1, word_of_nat (length data)]
                @ data))"

definition decode_op_return :: "bytes \<Rightarrow> bytes res" where
  "decode_op_return script =
     (case script of
        [] \<Rightarrow> Inl (ValueError ''not an OP_RETURN script'')
      | op # rest \<Rightarrow>
          if unat op \<noteq> OP_RETURN_OPCODE then Inl (ValueError ''not an OP_RETURN script'')
          else case rest of
            [] \<Rightarrow> Inl (ValueError ''OP_RETURN script carries no data push'')
          | push # body \<Rightarrow>
              if unat push = OP_PUSHDATA1
              then case body of
                [] \<Rightarrow> Inl (ValueError ''truncated OP_PUSHDATA1 OP_RETURN script'')
              | n # payload \<Rightarrow> Inr (take (unat n) payload)
              else Inr (take (unat push) body))"

lemma decode_encode_op_return:
  "encode_op_return data = Inr script \<Longrightarrow> decode_op_return script = Inr data"
  by (auto simp: encode_op_return_def decode_op_return_def coin_constants unat_small_byte
      simp del: word_of_nat_eq_0_iff split: if_splits)

interpretation op_return: codec encode_op_return decode_op_return
  by unfold_locales (rule decode_encode_op_return)

lemma encode_op_return_ok: "length data \<le> 80 \<Longrightarrow> \<exists>script. encode_op_return data = Inr script"
  by (simp add: encode_op_return_def coin_constants)

section \<open>Size and fee\<close>

definition op_return_vb :: "int \<Rightarrow> int" where
  "op_return_vb data_len = 8 + 1 + 2 + data_len"

definition estimate_vsize :: "int \<Rightarrow> int \<Rightarrow> int \<Rightarrow> int" where
  "estimate_vsize n_inputs n_p2wpkh_outputs op_return_len =
     (let vsize = TX_OVERHEAD_VB + n_inputs * P2WPKH_INPUT_VB + n_p2wpkh_outputs * P2WPKH_OUTPUT_VB
      in if op_return_len \<noteq> 0 then vsize + op_return_vb op_return_len else vsize)"

text \<open>\<open>math.ceil(vsize * fee_rate)\<close>, which raises on an infinite product.\<close>

definition vsize_fee :: "int \<Rightarrow> rat \<Rightarrow> int res" where
  "vsize_fee vsize fee_rate =
     (let p = fmul (f64 (of_int vsize)) fee_rate
      in if 2 ^ 1024 \<le> \<bar>p\<bar> then Inl (OtherError ''OverflowError'') else Inr \<lceil>p\<rceil>)"

lemma estimate_vsize_mono:
  "m \<le> n \<Longrightarrow> a \<le> b \<Longrightarrow> estimate_vsize m a l \<le> estimate_vsize n b l"
  by (simp add: estimate_vsize_def Let_def coin_constants)

lemma estimate_vsize_nonneg: "0 \<le> n \<Longrightarrow> 0 \<le> a \<Longrightarrow> 0 \<le> l \<Longrightarrow> 0 \<le> estimate_vsize n a l"
  by (simp add: estimate_vsize_def Let_def coin_constants op_return_vb_def)

lemma vsize_product_mono:
  "0 \<le> r \<Longrightarrow> v \<le> w \<Longrightarrow> fmul (f64 (of_int v)) r \<le> fmul (f64 (of_int w)) r"
  by (auto simp: fmul_def intro!: f64_mono mult_right_mono)

lemma vsize_product_nonneg: "0 \<le> r \<Longrightarrow> 0 \<le> v \<Longrightarrow> 0 \<le> fmul (f64 (of_int v)) r"
  by (simp add: fmul_def f64_nonneg)

lemma vsize_fee_mono:
  assumes "vsize_fee v r = Inr a" "vsize_fee w r = Inr b" "0 \<le> r" "v \<le> w"
  shows "a \<le> b"
  using assms vsize_product_mono [of r v w]
  by (auto simp: vsize_fee_def Let_def split: if_splits intro: ceiling_mono)

lemma vsize_fee_finite:
  assumes "vsize_fee w r = Inr b" "0 \<le> r" "0 \<le> v" "v \<le> w"
  shows "\<exists>a. vsize_fee v r = Inr a"
  using assms vsize_product_mono [of r v w] vsize_product_nonneg [of r v]
  by (auto simp: vsize_fee_def Let_def split: if_splits)

lemma vsize_fee_nonneg:
  assumes "vsize_fee v r = Inr a" "0 \<le> r" "0 \<le> v"
  shows "0 \<le> a"
  using assms vsize_product_nonneg [of r v]
  by (auto simp: vsize_fee_def Let_def split: if_splits)

text \<open>A product that binary64 represents is not rounded at all.\<close>

lemma vsize_fee_exact:
  assumes "\<bar>v\<bar> < 2 ^ 53" "r = of_int m * 2 powi e" "\<bar>v * m\<bar> < 2 ^ 53" "- 1074 \<le> e" "e \<le> 0"
  shows "vsize_fee v r = Inr \<lceil>of_int v * r\<rceil>"
proof -
  have prod: "of_int v * r = of_int (v * m) * 2 powi e" using assms(2) by simp
  have "f64 (of_int v * r) = of_int v * r"
    using f64_exact [OF prod] assms by simp
  then have p: "fmul (f64 (of_int v)) r = of_int v * r"
    using assms(1) by (simp add: fmul_def f64_of_int)
  have "(2 :: rat) powi e \<le> 1"
    using assms(5) power_int_increasing [of e 0 "2 :: rat"] by simp
  then have "\<bar>of_int v * r\<bar> \<le> of_int \<bar>v * m\<bar> * 1"
    unfolding prod abs_mult by (intro mult_mono) (simp_all add: abs_mult)
  also have "\<dots> < of_int (2 ^ 53)" using assms(3) by (simp only: mult_1_right of_int_less_iff)
  finally have "\<bar>of_int v * r\<bar> < 2 ^ 1024" by (rule less_trans) simp
  then show ?thesis by (simp add: vsize_fee_def p)
qed

section \<open>Sweeps\<close>

definition sweep_amount :: "int \<Rightarrow> int \<Rightarrow> rat \<Rightarrow> int \<Rightarrow> int \<Rightarrow> (int \<times> int) res" where
  "sweep_amount total_in n_inputs fee_rate memo_len dust =
     bind_res (vsize_fee (estimate_vsize n_inputs 1 memo_len) fee_rate) (\<lambda>fee.
       let send = total_in - fee
       in if send < dust then Inl (InsufficientFunds ''sweep'' [total_in, fee]) else Inr (send, fee))"

definition token_sweep_amount :: "int \<Rightarrow> nat \<Rightarrow> int res" where
  "token_sweep_amount balance decimals =
     (let amount = balance * 10 ^ 8 div 10 ^ decimals
      in if amount \<le> 0 then Inl (InsufficientFunds ''token sweep'' [balance]) else Inr amount)"

section \<open>Coin selection\<close>

text \<open>One round of the loop: the coins chosen so far either fund the output or they do not.\<close>

definition try_fund ::
    "int \<Rightarrow> rat \<Rightarrow> int \<Rightarrow> int \<Rightarrow> utxo list \<Rightarrow> int \<Rightarrow> selection option res" where
  "try_fund send_amount fee_rate memo_len dust chosen total_in =
     bind_res (vsize_fee (estimate_vsize (int (length chosen)) 2 memo_len) fee_rate) (\<lambda>fee_with_change.
       let change = total_in - send_amount - fee_with_change
       in if dust \<le> change
          then Inr (Some \<lparr>sel_utxos = chosen, sel_fee = fee_with_change, sel_change = change\<rparr>)
          else
            bind_res (vsize_fee (estimate_vsize (int (length chosen)) 1 memo_len) fee_rate) (\<lambda>fee_no_change.
              if send_amount + fee_no_change \<le> total_in
              then Inr (Some \<lparr>sel_utxos = chosen, sel_fee = total_in - send_amount, sel_change = 0\<rparr>)
              else Inr None))"

fun select_loop ::
    "int \<Rightarrow> rat \<Rightarrow> int \<Rightarrow> int \<Rightarrow> utxo list \<Rightarrow> int \<Rightarrow> utxo list \<Rightarrow> selection res" where
  "select_loop send_amount fee_rate memo_len dust chosen total_in [] =
     Inl (InsufficientFunds ''select_coins'' [total_in, send_amount])"
| "select_loop send_amount fee_rate memo_len dust chosen total_in (u # rest) =
     (let chosen' = chosen @ [u]; total_in' = total_in + utxo_value u
      in bind_res (try_fund send_amount fee_rate memo_len dust chosen' total_in') (\<lambda>r.
           case r of
             Some sel \<Rightarrow> Inr sel
           | None \<Rightarrow> select_loop send_amount fee_rate memo_len dust chosen' total_in' rest))"

definition largest_first :: "utxo list \<Rightarrow> utxo list" where
  "largest_first us = sort_key (\<lambda>u. - utxo_value u) us"

definition select_coins :: "utxo list \<Rightarrow> int \<Rightarrow> rat \<Rightarrow> int \<Rightarrow> int \<Rightarrow> selection res" where
  "select_coins utxos send_amount fee_rate memo_len dust =
     select_loop send_amount fee_rate memo_len dust [] 0 (largest_first utxos)"

section \<open>Correctness of the selection\<close>

text \<open>
  \<open>pays cs\<close> is the abstract criterion: the coins \<open>cs\<close> cover the amount and the fee of a
  transaction that spends exactly them, without change.
\<close>

definition pays :: "int \<Rightarrow> rat \<Rightarrow> int \<Rightarrow> utxo list \<Rightarrow> bool" where
  "pays send_amount fee_rate memo_len cs \<longleftrightarrow>
     cs \<noteq> [] \<and>
     (case vsize_fee (estimate_vsize (int (length cs)) 1 memo_len) fee_rate of
        Inl _ \<Rightarrow> False | Inr fee \<Rightarrow> send_amount + fee \<le> total_value cs)"

definition well_funded :: "int \<Rightarrow> rat \<Rightarrow> int \<Rightarrow> int \<Rightarrow> selection \<Rightarrow> bool" where
  "well_funded send_amount fee_rate memo_len dust sel \<longleftrightarrow>
     total_value (sel_utxos sel) = send_amount + sel_fee sel + sel_change sel \<and>
     (\<exists>fee2. vsize_fee (estimate_vsize (int (length (sel_utxos sel))) 2 memo_len) fee_rate = Inr fee2 \<and>
        (dust \<le> sel_change sel \<and> sel_fee sel = fee2 \<or>
         sel_change sel = 0 \<and> sel_fee sel < fee2 + dust \<and>
         (\<exists>fee1. vsize_fee (estimate_vsize (int (length (sel_utxos sel))) 1 memo_len) fee_rate = Inr fee1 \<and>
                 fee1 \<le> sel_fee sel)))"

lemma try_fund_Some:
  assumes "try_fund a r l d cs (total_value cs) = Inr (Some sel)"
  shows "sel_utxos sel = cs \<and> well_funded a r l d sel"
  using assms by (auto simp: try_fund_def well_funded_def result_simps Let_def split: if_splits)

lemma try_fund_None:
  assumes "try_fund a r l d cs (total_value cs) = Inr None"
  shows "\<not> pays a r l cs"
  using assms by (auto simp: try_fund_def pays_def result_simps Let_def split: if_splits)

lemma well_funded_pays:
  assumes "well_funded a r l d sel" "sel_utxos sel \<noteq> []" "0 \<le> r" "0 \<le> d" "0 \<le> l"
  shows "pays a r l (sel_utxos sel)"
proof -
  let ?v = "\<lambda>n. estimate_vsize (int (length (sel_utxos sel))) n l"
  obtain fee2 where f2: "vsize_fee (?v 2) r = Inr fee2"
    using assms(1) by (auto simp: well_funded_def)
  obtain fee1 where f1: "vsize_fee (?v 1) r = Inr fee1"
    using vsize_fee_finite [OF f2 assms(3)] estimate_vsize_nonneg estimate_vsize_mono assms(5) by force
  have "fee1 \<le> fee2"
    using vsize_fee_mono [OF f1 f2 assms(3)] estimate_vsize_mono by simp
  with f1 f2 assms show ?thesis
    by (auto simp: well_funded_def pays_def)
qed

lemma try_fund_finite:
  assumes "vsize_fee (estimate_vsize (int n) 2 l) r = Inr f" "length cs \<le> n" "0 \<le> r" "0 \<le> l"
  shows "\<exists>x. try_fund a r l d cs t = Inr x"
proof -
  have fin: "\<exists>g. vsize_fee (estimate_vsize (int (length cs)) k l) r = Inr g" if "0 \<le> k" "k \<le> 2" for k
    using vsize_fee_finite [OF assms(1,3)] that assms(2,4)
    by (meson estimate_vsize_mono estimate_vsize_nonneg of_nat_0_le_iff of_nat_le_iff)
  from fin [of 1] fin [of 2] show ?thesis
    by (auto simp: try_fund_def Let_def)
qed

lemma select_loop_Cons:
  "select_loop a r l d cs (total_value cs) (u # us) =
     bind_res (try_fund a r l d (cs @ [u]) (total_value (cs @ [u]))) (\<lambda>x.
       case x of Some sel \<Rightarrow> Inr sel
       | None \<Rightarrow> select_loop a r l d (cs @ [u]) (total_value (cs @ [u])) us)"
proof -
  have "total_value cs + utxo_value u = total_value (cs @ [u])" by simp
  then show ?thesis by (simp only: select_loop.simps(2) Let_def)
qed

declare select_loop.simps(2) [simp del]

lemma select_loop_Inr:
  assumes "select_loop a r l d cs (total_value cs) us = Inr sel"
  shows "\<exists>n. 0 < n \<and> n \<le> length us \<and> sel_utxos sel = cs @ take n us \<and> well_funded a r l d sel
     \<and> (\<forall>m. 0 < m \<and> m < n \<longrightarrow> \<not> pays a r l (cs @ take m us))"
  using assms
proof (induction us arbitrary: cs)
  case Nil
  then show ?case by simp
next
  case (Cons u us)
  note step = Cons.prems [unfolded select_loop_Cons]
  then obtain x where x: "try_fund a r l d (cs @ [u]) (total_value (cs @ [u])) = Inr x"
    by (auto simp only: bind_res_eq_Inr)
  show ?case
  proof (cases x)
    case (Some s)
    with step x have "s = sel" by simp
    with try_fund_Some [of a r l d "cs @ [u]"] x Some
    have "sel_utxos sel = cs @ take 1 (u # us) \<and> well_funded a r l d sel" by simp
    then show ?thesis by (intro exI [of _ 1]) auto
  next
    case None
    with step x have "select_loop a r l d (cs @ [u]) (total_value (cs @ [u])) us = Inr sel"
      by simp
    from Cons.IH [OF this] obtain n where n: "0 < n" "n \<le> length us"
      "sel_utxos sel = (cs @ [u]) @ take n us" "well_funded a r l d sel"
      and short: "\<And>m. 0 < m \<Longrightarrow> m < n \<Longrightarrow> \<not> pays a r l ((cs @ [u]) @ take m us)" by blast
    have first: "\<not> pays a r l (cs @ [u])" using try_fund_None x None by simp
    have "\<not> pays a r l (cs @ take m (u # us))" if "0 < m" "m < Suc n" for m
      using that short [of "m - 1"] first by (cases "m = 1") (auto simp: take_Cons')
    with n show ?thesis by (intro exI [of _ "Suc n"]) simp
  qed
qed

lemma select_loop_insufficient:
  assumes "select_loop a r l d cs (total_value cs) us = Inl (InsufficientFunds m xs)"
    and "0 < n" "n \<le> length us"
  shows "\<not> pays a r l (cs @ take n us)"
  using assms
proof (induction us arbitrary: cs n)
  case Nil
  then show ?case by simp
next
  case (Cons u us)
  have noterr: "vsize_fee v r \<noteq> Inl (InsufficientFunds m xs)" for v
    by (simp add: vsize_fee_def Let_def)
  then have "try_fund a r l d (cs @ [u]) t \<noteq> Inl (InsufficientFunds m xs)" for t
    by (auto simp: try_fund_def result_simps Let_def)
  with Cons.prems(1) [unfolded select_loop_Cons] obtain x
    where x: "try_fund a r l d (cs @ [u]) (total_value (cs @ [u])) = Inr x"
      and y: "(case x of Some sel \<Rightarrow> Inr sel
               | None \<Rightarrow> select_loop a r l d (cs @ [u]) (total_value (cs @ [u])) us)
              = Inl (InsufficientFunds m xs)"
    unfolding bind_res_eq_Inl by blast
  have "x = None" using y by (cases x) simp_all
  with x y have none: "try_fund a r l d (cs @ [u]) (total_value (cs @ [u])) = Inr None"
    and rest: "select_loop a r l d (cs @ [u]) (total_value (cs @ [u])) us = Inl (InsufficientFunds m xs)"
    by simp_all
  show ?case
  proof (cases "n = 1")
    case True
    with try_fund_None [OF none] show ?thesis by simp
  next
    case False
    with Cons.prems have "0 < n - 1" "n - 1 \<le> length us" by simp_all
    from Cons.IH [OF rest this] Cons.prems(2) show ?thesis by (simp add: take_Cons')
  qed
qed

lemma select_loop_error:
  assumes "vsize_fee (estimate_vsize (int k) 2 l) r = Inr f" "length cs + length us \<le> k"
    and "0 \<le> r" "0 \<le> l" "select_loop a r l d cs t us = Inl e"
  shows "\<exists>xs. e = InsufficientFunds ''select_coins'' xs"
  using assms
proof (induction us arbitrary: cs t)
  case (Cons u us)
  have len: "length (cs @ [u]) \<le> k" using Cons.prems(2) by simp
  obtain x where "try_fund a r l d (cs @ [u]) (t + utxo_value u) = Inr x"
    using try_fund_finite [OF Cons.prems(1) len Cons.prems(3,4)] by blast
  with Cons.prems(5) have "select_loop a r l d (cs @ [u]) (t + utxo_value u) us = Inl e"
    by (auto simp: select_loop.simps Let_def split: option.splits)
  with Cons.IH [of "cs @ [u]"] Cons.prems show ?case by simp
qed auto

text \<open>
  No set of \<open>k\<close> coins is worth more than the \<open>k\<close> largest ones, so a prefix of the sorted
  list is the best candidate of its size.
\<close>

lemma take_largest_dominates:
  assumes "sorted (map (\<lambda>u. - utxo_value u) us)" "mset cs \<subseteq># mset us"
  shows "total_value cs \<le> total_value (take (length cs) us)"
  using assms
proof (induction us arbitrary: cs)
  case Nil
  then show ?case by simp
next
  case (Cons u us)
  show ?case
  proof (cases cs)
    case (Cons c0 cs0)
    define c where "c = (if u \<in> set cs then u else c0)"
    have c: "c \<in> set cs" using Cons by (simp add: c_def)
    then have "c \<in> set (u # us)"
      using Cons.prems(2) by (metis mset_subset_eqD set_mset_mset)
    with Cons.prems(1) have le: "utxo_value c \<le> utxo_value u" by auto
    have sub: "mset (remove1 c cs) \<subseteq># mset us"
    proof (cases "u \<in> set cs")
      case True
      then have "c = u" by (simp add: c_def)
      with Cons.prems(2) show ?thesis by (simp add: subset_eq_diff_conv)
    next
      case False
      have "mset cs \<subseteq># mset us"
      proof (rule mset_subset_eqI)
        fix x
        from Cons.prems(2) have "count (mset cs) x \<le> count (mset (u # us)) x"
          by (rule mset_subset_eq_count)
        moreover from False have "count (mset cs) u = 0" by (simp add: count_eq_zero_iff)
        ultimately show "count (mset cs) x \<le> count (mset us) x"
          by (metis count_add_mset le0 mset.simps(2))
      qed
      then show ?thesis
        using subset_mset.order_trans [OF diff_subset_eq_self] by simp
    qed
    have len: "length cs = Suc (length (remove1 c cs))"
      using c by (metis length_Suc_conv length_remove1 One_nat_def Suc_pred length_pos_if_in_set)
    have split: "total_value cs = utxo_value c + total_value (remove1 c cs)"
      using c by (simp add: sum_list_map_remove1)
    have "total_value (remove1 c cs) \<le> total_value (take (length (remove1 c cs)) us)"
      using Cons.IH [OF _ sub] Cons.prems(1) by simp
    with le show ?thesis unfolding len split by simp
  qed simp
qed


lemma mset_largest_first [simp]: "mset (largest_first us) = mset us"
  by (simp add: largest_first_def)

lemma length_largest_first [simp]: "length (largest_first us) = length us"
  by (simp add: largest_first_def)

lemma largest_first_eq_Nil [simp]: "largest_first us = [] \<longleftrightarrow> us = []"
  by (metis length_0_conv length_largest_first)

lemma sorted_largest_first: "sorted (map (\<lambda>u. - utxo_value u) (largest_first us))"
  by (simp add: largest_first_def)

lemma pays_prefix:
  assumes "pays a r l cs" "mset cs \<subseteq># mset us"
  shows "pays a r l (take (length cs) (largest_first us))"
proof -
  have len: "length cs \<le> length us" using assms(2) by (simp add: size_mset_mono flip: size_mset)
  have "total_value cs \<le> total_value (take (length cs) (largest_first us))"
    using assms(2) by (intro take_largest_dominates sorted_largest_first) simp
  with len assms(1) show ?thesis
    by (auto simp: pays_def min_def split: sum.splits)
qed

lemma take_largest_subset: "mset (take n (largest_first us)) \<subseteq># mset us"
  by (metis append_take_drop_id mset_append mset_largest_first mset_subset_eq_add_left)

lemma select_coins_balance:
  assumes "select_coins utxos amount fee_rate memo_len dust = Inr sel" "0 \<le> dust"
  shows "total_value (sel_utxos sel) = amount + sel_fee sel + sel_change sel
    \<and> 0 \<le> sel_change sel \<and> mset (sel_utxos sel) \<subseteq># mset utxos"
proof -
  obtain n where "sel_utxos sel = take n (largest_first utxos)" "well_funded amount fee_rate memo_len dust sel"
    using select_loop_Inr [of amount fee_rate memo_len dust "[]" "largest_first utxos" sel] assms(1)
    by (auto simp: select_coins_def)
  then show ?thesis using take_largest_subset [of n utxos] assms(2) by (auto simp: well_funded_def)
qed

section \<open>A concrete wallet\<close>

text \<open>Three coins and a rate of 2.5 sat/vB, for the closed instances of the properties.\<close>

definition example_utxo :: "int \<Rightarrow> utxo" where
  "example_utxo v = \<lparr>utxo_txid = ''aa'', utxo_vout = 0, utxo_value = v, utxo_address = ''bc1qown'',
                     utxo_path = None\<rparr>"

definition example_utxos :: "utxo list" where
  "example_utxos = [example_utxo 30000, example_utxo 100000, example_utxo 50000]"

lemma example_fee:
  assumes "0 \<le> v" "v < 1000"
  shows "vsize_fee v (5 / 2) = Inr \<lceil>of_int v * (5 / 2 :: rat)\<rceil>"
  using assms by (intro vsize_fee_exact [where m = 5 and e = "- 1"]) (simp_all add: power_int_minus)

lemma example_fees:
  "vsize_fee (estimate_vsize 1 1 20) (5 / 2) = Inr 353"
  "vsize_fee (estimate_vsize 1 2 20) (5 / 2) = Inr 430"
  "vsize_fee (estimate_vsize 2 2 20) (5 / 2) = Inr 600"
  "vsize_fee (estimate_vsize 3 2 20) (5 / 2) = Inr 770"
  by (simp_all add: example_fee estimate_vsize_def op_return_vb_def coin_constants ceiling_eq_iff)

lemma example_utxo_value [simp]: "utxo_value (example_utxo v) = v"
  by (simp add: example_utxo_def)

lemma example_largest_first:
  "largest_first example_utxos = [example_utxo 100000, example_utxo 50000, example_utxo 30000]"
  by (simp add: largest_first_def example_utxos_def example_utxo_def)

lemma example_selection:
  "select_coins example_utxos 120000 (5 / 2) 20 294 =
     Inr \<lparr>sel_utxos = [example_utxo 100000, example_utxo 50000], sel_fee = 600, sel_change = 29400\<rparr>"
  by (simp add: select_coins_def example_largest_first select_loop.simps try_fund_def example_fees)

section \<open>Properties\<close>

text \<open>C9. Encoding a memo as an OP_RETURN script and decoding the script gives the memo back for
  every memo of at most 80 bytes, across both push forms; a longer one is refused.\<close>

theorem op_return_round_trip:
  "bind_res (encode_op_return data) decode_op_return =
     (if length data \<le> 80 then Inr data else Inl (ValueError ''OP_RETURN data too long''))"
proof (cases "length data \<le> 80")
  case True
  then obtain script where "encode_op_return data = Inr script" using encode_op_return_ok by blast
  with True show ?thesis by (simp add: op_return.dec_enc)
next
  case False
  then show ?thesis by (simp add: encode_op_return_def coin_constants)
qed

text \<open>C7. A coin selection that succeeds spends the shortest prefix of the largest-first list that
  covers amount plus fee; its inputs equal amount plus fee plus change, the change is zero or at
  least the dust limit, and the fee is the computed fee of that very transaction, or less than
  one dust limit above the fee with change.\<close>

theorem select_coins_sound:
  assumes "select_coins utxos send_amount fee_rate memo_len dust = Inr sel"
  shows "\<exists>n. 0 < n \<and> n \<le> length utxos \<and> sel_utxos sel = take n (largest_first utxos)
    \<and> well_funded send_amount fee_rate memo_len dust sel
    \<and> (\<forall>m. 0 < m \<and> m < n \<longrightarrow> \<not> pays send_amount fee_rate memo_len (take m (largest_first utxos)))"
  using assms select_loop_Inr [of send_amount fee_rate memo_len dust "[]" "largest_first utxos" sel]
  by (auto simp: select_coins_def)

theorem select_coins_sound_witness:
  "\<exists>n. 0 < n \<and> n \<le> length example_utxos
    \<and> [example_utxo 100000, example_utxo 50000] = take n (largest_first example_utxos)
    \<and> well_funded 120000 (5 / 2) 20 294
         \<lparr>sel_utxos = [example_utxo 100000, example_utxo 50000], sel_fee = 600, sel_change = 29400\<rparr>"
  using select_coins_sound [OF example_selection] by auto

text \<open>C8. Coin selection fails for lack of funds exactly when no set of the available coins, of
  any size and in any order, covers the amount plus the fee of spending that set: the greedy
  order never misses a way to pay (non-negative fee rate, finite fee estimates).\<close>

theorem select_coins_complete:
  assumes "0 \<le> fee_rate" "0 \<le> memo_len" "0 \<le> dust"
    and "vsize_fee (estimate_vsize (int (length utxos)) 2 memo_len) fee_rate = Inr finite_fee"
  shows "(\<exists>sel. select_coins utxos send_amount fee_rate memo_len dust = Inr sel) \<longleftrightarrow>
     (\<exists>cs. mset cs \<subseteq># mset utxos \<and> pays send_amount fee_rate memo_len cs)"
    (is "?L \<longleftrightarrow> ?R")
proof
  assume ?L
  then obtain sel n where n: "0 < n" "n \<le> length utxos" "sel_utxos sel = take n (largest_first utxos)"
    and w: "well_funded send_amount fee_rate memo_len dust sel"
    using select_coins_sound by metis
  from n have "sel_utxos sel \<noteq> []" by auto
  then have "pays send_amount fee_rate memo_len (sel_utxos sel)"
    by (rule well_funded_pays [OF w]) (rule assms)+
  then show ?R using take_largest_subset n(3) by metis
next
  assume ?R
  then obtain cs where cs: "mset cs \<subseteq># mset utxos" "pays send_amount fee_rate memo_len cs" by blast
  show ?L
  proof (rule ccontr)
    assume "\<not> ?L"
    then obtain e where e: "select_coins utxos send_amount fee_rate memo_len dust = Inl e"
      by (cases "select_coins utxos send_amount fee_rate memo_len dust") auto
    then have "select_loop send_amount fee_rate memo_len dust [] 0 (largest_first utxos) = Inl e"
      by (simp add: select_coins_def)
    then have "\<exists>xs. e = InsufficientFunds ''select_coins'' xs"
      by (rule select_loop_error [OF assms(4) _ assms(1,2), rotated]) simp
    then obtain xs where "e = InsufficientFunds ''select_coins'' xs" ..
    moreover have "0 < length cs" using cs(2) by (auto simp: pays_def)
    moreover have "length cs \<le> length utxos" using cs(1) by (simp add: size_mset_mono flip: size_mset)
    ultimately have "\<not> pays send_amount fee_rate memo_len (take (length cs) (largest_first utxos))"
      using e select_loop_insufficient [of send_amount fee_rate memo_len dust "[]" "largest_first utxos"]
      by (auto simp: select_coins_def)
    with pays_prefix [OF cs(2,1)] show False by contradiction
  qed
qed

theorem select_coins_complete_witness:
  "\<exists>cs. mset cs \<subseteq># mset example_utxos \<and> pays 120000 (5 / 2) 20 cs"
proof -
  have "vsize_fee (estimate_vsize (int (length example_utxos)) 2 20) (5 / 2) = Inr 770"
    by (simp add: example_utxos_def example_fees)
  then show ?thesis
    using select_coins_complete [of "5 / 2" 20 294 example_utxos 770 120000] example_selection by simp
qed

text \<open>A sweep that succeeds leaves nothing over: amount plus fee is the whole balance, the
  amount is not dust and the fee is the estimate for that many inputs and one output; it is
  refused exactly when the remainder is below the dust limit.\<close>

theorem sweep_amount_exact:
  assumes "vsize_fee (estimate_vsize n_inputs 1 memo_len) fee_rate = Inr fee"
  shows "sweep_amount balance n_inputs fee_rate memo_len dust =
    (if dust \<le> balance - fee then Inr (balance - fee, fee)
     else Inl (InsufficientFunds ''sweep'' [balance, fee]))"
  using assms by (simp add: sweep_amount_def Let_def)

theorem sweep_amount_exact_witness:
  "sweep_amount 100000 1 (5 / 2) 20 294 = Inr (99647, 353)"
  using sweep_amount_exact [OF example_fees(1), of 100000 294] by simp

text \<open>The size estimate of the memo output (8 value bytes, one length byte and the script) is
  exact for memos below 76 bytes and one byte short from 76 bytes on, where the script needs the
  three-byte push: a sweep that assumes the 80-byte maximum underestimates its own size.\<close>

theorem op_return_estimate_exact_iff:
  assumes "encode_op_return data = Inr script"
  shows "8 + 1 + int (length script) - op_return_vb (int (length data)) =
     (if length data < 76 then 0 else 1)"
  using assms by (auto simp: encode_op_return_def op_return_vb_def coin_constants split: if_splits)

theorem op_return_estimate_exact_iff_witness:
  "\<exists>script. encode_op_return (replicate 80 0) = Inr script
     \<and> 8 + 1 + int (length script) - op_return_vb 80 = 1"
proof -
  obtain script where e: "encode_op_return (replicate 80 0) = Inr script"
    using encode_op_return_ok [of "replicate 80 0"] by auto
  with op_return_estimate_exact_iff [OF e] show ?thesis by auto
qed

end
