(* ===== verification/Verify.thy ===== *)
theory Verify
  imports Coins
begin

text \<open>
  \<open>verify.py\<close>: the pre-broadcast gates. Each gate takes the neutral fields of an unsigned
  transaction and the plan it should carry out, and returns the list of problems in the order
  the code appends them; the empty list means that the transaction may be signed. For every
  gate an independent predicate says what a safe transaction is, and a lemma shows that the
  gate reports nothing exactly for safe transactions.
\<close>

definition WEI_PER_THORCHAIN_UNIT :: int where
  "WEI_PER_THORCHAIN_UNIT = 10 ^ 10"

text \<open>The contract of a gate: an empty report is the same as safety.\<close>

locale verify_gate =
  fixes report :: "'tx \<Rightarrow> problem list"
    and safe :: "'tx \<Rightarrow> bool"
  assumes report_empty: "report tx = [] \<longleftrightarrow> safe tx"
begin

lemma refused_iff_unsafe: "report tx \<noteq> [] \<longleftrightarrow> \<not> safe tx"
  by (simp add: report_empty)

lemma unsafe_has_reason: "\<not> safe tx \<Longrightarrow> \<exists>p ps. report tx = p # ps"
  by (cases "report tx") (simp_all add: report_empty)

end

section \<open>The memo must pay the destination\<close>

definition memo_pays_destination :: "string \<Rightarrow> string \<Rightarrow> bool" where
  "memo_pays_destination destination memo =
     (if destination = [] then True
      else if contains destination memo then True
      else if prefix ''0x'' (lower destination) then contains (lower destination) (lower memo)
      else False)"

lemma memo_pays_blank [simp]: "memo_pays_destination [] memo"
  by (simp add: memo_pays_destination_def)

lemma memo_pays_infix: "memo_pays_destination d (a @ d @ b)"
  by (auto simp: memo_pays_destination_def)

section \<open>Bitcoin transactions\<close>

record tx_output =
  out_address :: "string option"
  out_value :: int
  out_data :: "bytes option"

record swap_plan =
  sp_inbound_address :: string
  sp_amount :: int
  sp_memo :: string
  sp_expiry :: int
  sp_destination :: string

definition expired_problems :: "int \<Rightarrow> int \<Rightarrow> problem list" where
  "expired_problems now expiry = (if expiry \<le> now then [QuoteExpired now expiry] else [])"

definition paid_outputs :: "string \<Rightarrow> tx_output list \<Rightarrow> tx_output list" where
  "paid_outputs payee outputs = filter (\<lambda>o'. out_address o' = Some payee) outputs"

definition payee_problems :: "string \<Rightarrow> string \<Rightarrow> int \<Rightarrow> tx_output list \<Rightarrow> problem list" where
  "payee_problems role payee amount outputs =
     (case paid_outputs payee outputs of
        [o'] \<Rightarrow> if out_value o' \<noteq> amount then [IntDiffers (role @ '' output amount'') (out_value o') amount] else []
      | os \<Rightarrow> [OutputCount role payee (length os)])"

definition op_return_problems :: "string \<Rightarrow> tx_output list \<Rightarrow> problem list" where
  "op_return_problems memo outputs =
     (case filter (\<lambda>o'. out_data o' \<noteq> None) outputs of
        [o'] \<Rightarrow>
          (case out_data o' of
             None \<Rightarrow> []
           | Some d \<Rightarrow>
               (if OP_RETURN_MAX_BYTES < length d then [MemoTooLong (length d)] else []) @
               (case utf8_decode d of
                  None \<Rightarrow> [MemoNotUtf8]
                | Some decoded \<Rightarrow>
                    if decoded \<noteq> map code memo then [OpReturnMemo decoded memo] else []))
      | os \<Rightarrow> [OpReturnCount (length os)])"

definition change_problems :: "string \<Rightarrow> string set \<Rightarrow> tx_output list \<Rightarrow> problem list" where
  "change_problems payee owned outputs =
     concat (map (\<lambda>o'.
       if out_data o' \<noteq> None \<or> out_address o' = Some payee then []
       else case out_address o' of
         None \<Rightarrow> [ForeignChange None]
       | Some a \<Rightarrow> if a \<notin> owned then [ForeignChange (Some a)] else []) outputs)"

definition destination_problems :: "string \<Rightarrow> string \<Rightarrow> problem list" where
  "destination_problems destination memo =
     (if \<not> memo_pays_destination destination memo then [MemoMissesDestination memo destination] else [])"

definition fee_problems :: "int \<Rightarrow> int \<Rightarrow> problem list" where
  "fee_problems fee max_fee =
     (if fee < 0 then [NegativeFee fee] else if max_fee < fee then [FeeExceeds fee max_fee] else [])"

definition verify_btc_swap ::
    "tx_output list \<Rightarrow> int \<Rightarrow> swap_plan \<Rightarrow> string set \<Rightarrow> int \<Rightarrow> int \<Rightarrow> problem list" where
  "verify_btc_swap outputs fee plan owned_addresses now max_fee =
     expired_problems now (sp_expiry plan) @
     payee_problems ''vault'' (sp_inbound_address plan) (sp_amount plan) outputs @
     op_return_problems (sp_memo plan) outputs @
     change_problems (sp_inbound_address plan) owned_addresses outputs @
     destination_problems (sp_destination plan) (sp_memo plan) @
     fee_problems fee max_fee"

record send_plan =
  snd_recipient :: string
  snd_amount :: int

definition verify_btc_send ::
    "tx_output list \<Rightarrow> int \<Rightarrow> send_plan \<Rightarrow> string set \<Rightarrow> int \<Rightarrow> problem list" where
  "verify_btc_send outputs fee plan owned_addresses max_fee =
     payee_problems ''recipient'' (snd_recipient plan) (snd_amount plan) outputs @
     (if \<exists>o' \<in> set outputs. out_data o' \<noteq> None then [UnexpectedOpReturn] else []) @
     change_problems (snd_recipient plan) owned_addresses outputs @
     fee_problems fee max_fee"

section \<open>TRON transactions\<close>

record tron_swap_plan =
  tsp_inbound_address :: string
  tsp_amount_sun :: int
  tsp_memo :: string
  tsp_expiry :: int
  tsp_destination :: string

text \<open>\<open>expect_text what got want\<close> is \<open>if got != want: problems.append(...)\<close>.\<close>

definition expect_text :: "string \<Rightarrow> string \<Rightarrow> string \<Rightarrow> problem list" where
  "expect_text what got want = (if got \<noteq> want then [TextDiffers what got want] else [])"

definition expect_lower :: "string \<Rightarrow> string \<Rightarrow> string \<Rightarrow> problem list" where
  "expect_lower what got want = (if lower got \<noteq> lower want then [TextDiffers what got want] else [])"

definition expect_int :: "string \<Rightarrow> int \<Rightarrow> int \<Rightarrow> problem list" where
  "expect_int what got want = (if got \<noteq> want then [IntDiffers what got want] else [])"

definition expect_zero :: "string \<Rightarrow> int \<Rightarrow> problem list" where
  "expect_zero what got = (if got \<noteq> 0 then [UnexpectedInt what got] else [])"

definition expect_no_text :: "string \<Rightarrow> string \<Rightarrow> problem list" where
  "expect_no_text what got = (if got \<noteq> [] then [UnexpectedText what got] else [])"

definition verify_tron_swap ::
    "string \<Rightarrow> string \<Rightarrow> int \<Rightarrow> string \<Rightarrow> tron_swap_plan \<Rightarrow> int \<Rightarrow> problem list" where
  "verify_tron_swap contract_type to_address amount_sun memo plan now =
     expired_problems now (tsp_expiry plan) @
     expect_text ''contract type'' contract_type ''TransferContract'' @
     expect_text ''vault'' to_address (tsp_inbound_address plan) @
     expect_int ''amount sun'' amount_sun (tsp_amount_sun plan) @
     expect_text ''memo'' memo (tsp_memo plan) @
     destination_problems (tsp_destination plan) (tsp_memo plan)"

record tron_token_swap_plan =
  ttsp_inbound_address :: string
  ttsp_token :: string
  ttsp_amount :: int
  ttsp_memo :: string
  ttsp_expiry :: int
  ttsp_destination :: string

definition verify_tron_token_swap ::
    "string \<Rightarrow> string \<Rightarrow> string \<Rightarrow> int \<Rightarrow> int \<Rightarrow> string \<Rightarrow> tron_token_swap_plan \<Rightarrow> int \<Rightarrow> problem list" where
  "verify_tron_token_swap contract_type trigger_to recipient transfer_amount trx_value memo plan now =
     expired_problems now (ttsp_expiry plan) @
     expect_text ''contract type'' contract_type ''TriggerSmartContract'' @
     expect_text ''token contract'' trigger_to (ttsp_token plan) @
     expect_text ''vault'' recipient (ttsp_inbound_address plan) @
     expect_int ''transfer amount'' transfer_amount (ttsp_amount plan) @
     expect_zero ''TRX value'' trx_value @
     expect_text ''memo'' memo (ttsp_memo plan) @
     destination_problems (ttsp_destination plan) (ttsp_memo plan)"

section \<open>Ethereum transactions\<close>

record eth_swap_plan =
  esp_inbound_address :: string
  esp_amount_wei :: int
  esp_memo :: string
  esp_expiry :: int
  esp_chain_id :: int
  esp_destination :: string

definition gas_problems :: "int \<Rightarrow> int \<Rightarrow> int \<Rightarrow> problem list" where
  "gas_problems gas max_fee_per_gas max_fee_wei =
     (let total_fee = gas * max_fee_per_gas
      in if max_fee_wei < total_fee then [FeeExceeds total_fee max_fee_wei] else [])"

definition verify_eth_swap ::
    "string \<Rightarrow> int \<Rightarrow> string \<Rightarrow> int \<Rightarrow> int \<Rightarrow> int \<Rightarrow> eth_swap_plan \<Rightarrow> int \<Rightarrow> int \<Rightarrow> problem list" where
  "verify_eth_swap to value data chain_id gas max_fee_per_gas plan now max_fee_wei =
     expired_problems now (esp_expiry plan) @
     expect_lower ''vault'' to (esp_inbound_address plan) @
     expect_int ''value'' value (esp_amount_wei plan) @
     expect_lower ''calldata'' data (''0x'' @ hex_of_bytes (utf8_encode (esp_memo plan))) @
     expect_int ''chainId'' chain_id (esp_chain_id plan) @
     destination_problems (esp_destination plan) (esp_memo plan) @
     gas_problems gas max_fee_per_gas max_fee_wei"

section \<open>Plain sends\<close>

record eth_send_plan =
  es_recipient :: string
  es_amount_wei :: int
  es_chain_id :: int

definition verify_eth_send ::
    "string \<Rightarrow> int \<Rightarrow> string \<Rightarrow> int \<Rightarrow> int \<Rightarrow> int \<Rightarrow> eth_send_plan \<Rightarrow> int \<Rightarrow> problem list" where
  "verify_eth_send to value data chain_id gas max_fee_per_gas plan max_fee_wei =
     expect_lower ''recipient'' to (es_recipient plan) @
     expect_int ''value'' value (es_amount_wei plan) @
     (if data \<notin> {''0x'', ''''} then [UnexpectedText ''calldata'' data] else []) @
     expect_int ''chainId'' chain_id (es_chain_id plan) @
     gas_problems gas max_fee_per_gas max_fee_wei"

record eth_token_send_plan =
  ets_token :: string
  ets_recipient :: string
  ets_amount :: int
  ets_chain_id :: int

definition verify_eth_token_send ::
    "string \<Rightarrow> int \<Rightarrow> int \<Rightarrow> string \<Rightarrow> int \<Rightarrow> int \<Rightarrow> int \<Rightarrow> eth_token_send_plan \<Rightarrow> int \<Rightarrow> problem list" where
  "verify_eth_token_send to value chain_id recipient transfer_amount gas max_fee_per_gas plan max_fee_wei =
     expect_lower ''token contract'' to (ets_token plan) @
     (if value \<noteq> 0 then [UnexpectedInt ''ETH value'' value] else []) @
     expect_lower ''recipient'' recipient (ets_recipient plan) @
     expect_int ''transfer amount'' transfer_amount (ets_amount plan) @
     expect_int ''chainId'' chain_id (ets_chain_id plan) @
     gas_problems gas max_fee_per_gas max_fee_wei"

record tron_send_plan =
  ts_recipient :: string
  ts_amount_sun :: int

definition verify_tron_send ::
    "string \<Rightarrow> string \<Rightarrow> int \<Rightarrow> string \<Rightarrow> tron_send_plan \<Rightarrow> problem list" where
  "verify_tron_send contract_type to_address amount_sun memo plan =
     expect_text ''contract type'' contract_type ''TransferContract'' @
     expect_text ''recipient'' to_address (ts_recipient plan) @
     expect_int ''amount sun'' amount_sun (ts_amount_sun plan) @
     expect_no_text ''memo'' memo"

record tron_token_send_plan =
  tts_token :: string
  tts_recipient :: string
  tts_amount :: int

definition verify_tron_token_send ::
    "string \<Rightarrow> string \<Rightarrow> string \<Rightarrow> int \<Rightarrow> int \<Rightarrow> string \<Rightarrow> tron_token_send_plan \<Rightarrow> problem list" where
  "verify_tron_token_send contract_type trigger_to recipient transfer_amount trx_value memo plan =
     expect_text ''contract type'' contract_type ''TriggerSmartContract'' @
     expect_text ''token contract'' trigger_to (tts_token plan) @
     expect_text ''recipient'' recipient (tts_recipient plan) @
     expect_int ''transfer amount'' transfer_amount (tts_amount plan) @
     expect_zero ''TRX value'' trx_value @
     expect_no_text ''memo'' memo"

section \<open>What a safe transaction is\<close>

text \<open>
  The specifications speak about the transaction itself: \<open>sole P Q xs\<close> says that exactly one
  element of \<open>xs\<close> satisfies \<open>P\<close>, and that this one satisfies \<open>Q\<close>.
\<close>

definition sole :: "('a \<Rightarrow> bool) \<Rightarrow> ('a \<Rightarrow> bool) \<Rightarrow> 'a list \<Rightarrow> bool" where
  "sole P Q xs \<longleftrightarrow>
     (\<exists>pre x post. xs = pre @ x # post \<and> P x \<and> Q x \<and> (\<forall>y \<in> set (pre @ post). \<not> P y))"

lemma filter_eq_singleton:
  "filter P xs = [x] \<longleftrightarrow> (\<exists>pre post. xs = pre @ x # post \<and> P x \<and> (\<forall>y \<in> set (pre @ post). \<not> P y))"
proof
  assume "filter P xs = [x]"
  then show "\<exists>pre post. xs = pre @ x # post \<and> P x \<and> (\<forall>y \<in> set (pre @ post). \<not> P y)"
  proof -
    assume "filter P xs = [x]"
    then obtain us vs where u: "xs = us @ x # vs" "\<forall>u \<in> set us. \<not> P u" "P x" "[] = filter P vs"
      using filter_eq_ConsD [of P xs x "[]"] by blast
    then have "\<forall>y \<in> set (us @ vs). \<not> P y" by (metis Un_iff filter_empty_conv set_append)
    with u show ?thesis by blast
  qed
next
  assume "\<exists>pre post. xs = pre @ x # post \<and> P x \<and> (\<forall>y \<in> set (pre @ post). \<not> P y)"
  then show "filter P xs = [x]" by (auto simp: filter_empty_conv)
qed

lemma sole_filter: "sole P Q xs \<longleftrightarrow> (\<exists>x. filter P xs = [x] \<and> Q x)"
  unfolding sole_def filter_eq_singleton by blast

definition pays_exactly :: "string \<Rightarrow> int \<Rightarrow> tx_output list \<Rightarrow> bool" where
  "pays_exactly payee amount outputs \<longleftrightarrow>
     sole (\<lambda>o'. out_address o' = Some payee) (\<lambda>o'. out_value o' = amount) outputs"

definition carries_memo :: "string \<Rightarrow> tx_output list \<Rightarrow> bool" where
  "carries_memo memo outputs \<longleftrightarrow>
     length (utf8_encode memo) \<le> OP_RETURN_MAX_BYTES \<and>
     sole (\<lambda>o'. out_data o' \<noteq> None) (\<lambda>o'. out_data o' = Some (utf8_encode memo)) outputs"

definition change_is_owned :: "string \<Rightarrow> string set \<Rightarrow> tx_output list \<Rightarrow> bool" where
  "change_is_owned payee owned outputs \<longleftrightarrow>
     (\<forall>o' \<in> set outputs. out_data o' = None \<longrightarrow> out_address o' \<in> Some ` insert payee owned)"

definition btc_swap_safe ::
    "tx_output list \<Rightarrow> int \<Rightarrow> swap_plan \<Rightarrow> string set \<Rightarrow> int \<Rightarrow> int \<Rightarrow> bool" where
  "btc_swap_safe outputs fee plan owned now max_fee \<longleftrightarrow>
     now < sp_expiry plan \<and>
     pays_exactly (sp_inbound_address plan) (sp_amount plan) outputs \<and>
     carries_memo (sp_memo plan) outputs \<and>
     change_is_owned (sp_inbound_address plan) owned outputs \<and>
     memo_pays_destination (sp_destination plan) (sp_memo plan) \<and>
     0 \<le> fee \<and> fee \<le> max_fee"

definition btc_send_safe :: "tx_output list \<Rightarrow> int \<Rightarrow> send_plan \<Rightarrow> string set \<Rightarrow> int \<Rightarrow> bool" where
  "btc_send_safe outputs fee plan owned max_fee \<longleftrightarrow>
     pays_exactly (snd_recipient plan) (snd_amount plan) outputs \<and>
     (\<forall>o' \<in> set outputs. out_data o' = None \<and> out_address o' \<in> Some ` insert (snd_recipient plan) owned) \<and>
     0 \<le> fee \<and> fee \<le> max_fee"

lemma expired_problems_Nil [gate_simps]: "expired_problems now e = [] \<longleftrightarrow> now < e"
  by (simp add: expired_problems_def not_le)

lemma payee_problems_Nil [gate_simps]:
  "payee_problems role payee amount outputs = [] \<longleftrightarrow> pays_exactly payee amount outputs"
  unfolding payee_problems_def paid_outputs_def pays_exactly_def sole_filter
  by (auto split: list.splits)

lemma op_return_problems_Nil [gate_simps]: "op_return_problems memo outputs = [] \<longleftrightarrow> carries_memo memo outputs"
proof (cases "\<exists>o' d. filter (\<lambda>o'. out_data o' \<noteq> None) outputs = [o'] \<and> out_data o' = Some d")
  case True
  then obtain o' d where f: "filter (\<lambda>o'. out_data o' \<noteq> None) outputs = [o']" "out_data o' = Some d"
    by blast
  show ?thesis
  proof (cases "utf8_decode d")
    case None
    then have "d \<noteq> utf8_encode memo" by auto
    then show ?thesis
      using None f by (simp add: op_return_problems_def carries_memo_def sole_filter)
  next
    case (Some cs)
    then have "cs = map code memo \<longleftrightarrow> d = utf8_encode memo"
      using utf8_decode_iff [of d memo] by auto
    then show ?thesis
      using Some f unfolding op_return_problems_def carries_memo_def sole_filter
      by (cases "d = utf8_encode memo") simp_all
  qed
next
  case False
  have n: "filter (\<lambda>o'. out_data o' \<noteq> None) outputs \<noteq> [o']" for o'
  proof
    assume f: "filter (\<lambda>o'. out_data o' \<noteq> None) outputs = [o']"
    then obtain d where "out_data o' = Some d" using filter_singletonD [OF f] by blast
    with f False show False by blast
  qed
  have "op_return_problems memo outputs \<noteq> []"
  proof (cases "filter (\<lambda>o'. out_data o' \<noteq> None) outputs")
    case Nil
    then show ?thesis by (simp add: op_return_problems_def)
  next
    case (Cons a as)
    then show ?thesis using n [of a] by (cases as) (simp_all add: op_return_problems_def)
  qed
  with n show ?thesis by (simp add: carries_memo_def sole_filter)
qed

lemma change_problems_Nil [gate_simps]:
  "change_problems payee owned outputs = [] \<longleftrightarrow> change_is_owned payee owned outputs"
proof -
  have "((if out_data x \<noteq> None \<or> out_address x = Some payee then []
          else case out_address x of None \<Rightarrow> [ForeignChange None]
            | Some a \<Rightarrow> if a \<notin> owned then [ForeignChange (Some a)] else []) = [])
        \<longleftrightarrow> (out_data x = None \<longrightarrow> out_address x \<in> Some ` insert payee owned)" for x :: tx_output
    by (cases "out_address x") auto
  then show ?thesis
    unfolding change_problems_def change_is_owned_def concat_map_eq_Nil by simp
qed

lemma destination_problems_Nil [gate_simps]:
  "destination_problems d memo = [] \<longleftrightarrow> memo_pays_destination d memo"
  by (simp add: destination_problems_def)

lemma fee_problems_Nil [gate_simps]: "fee_problems fee max_fee = [] \<longleftrightarrow> 0 \<le> fee \<and> fee \<le> max_fee"
  by (auto simp: fee_problems_def)

lemma gas_problems_Nil [gate_simps]: "gas_problems g f m = [] \<longleftrightarrow> g * f \<le> m"
  by (auto simp: gas_problems_def Let_def)

lemma expect_Nil [gate_simps]:
  "expect_text what s t = [] \<longleftrightarrow> s = t"
  "expect_lower what s t = [] \<longleftrightarrow> lower s = lower t"
  "expect_int what m n = [] \<longleftrightarrow> m = n"
  "expect_zero what n = [] \<longleftrightarrow> n = 0"
  "expect_no_text what s = [] \<longleftrightarrow> s = []"
  by (simp_all add: expect_text_def expect_lower_def expect_int_def expect_zero_def expect_no_text_def)

interpretation btc_swap_gate: verify_gate
  "\<lambda>(outputs, fee, plan, owned, now, max_fee). verify_btc_swap outputs fee plan owned now max_fee"
  "\<lambda>(outputs, fee, plan, owned, now, max_fee). btc_swap_safe outputs fee plan owned now max_fee"
  by unfold_locales (auto simp: verify_btc_swap_def btc_swap_safe_def gate_simps)

lemma btc_send_safe_alt:
  "btc_send_safe outputs fee plan owned max_fee \<longleftrightarrow>
     pays_exactly (snd_recipient plan) (snd_amount plan) outputs \<and>
     (\<forall>o' \<in> set outputs. out_data o' = None) \<and>
     change_is_owned (snd_recipient plan) owned outputs \<and> 0 \<le> fee \<and> fee \<le> max_fee"
  by (auto simp: btc_send_safe_def change_is_owned_def)

interpretation btc_send_gate: verify_gate
  "\<lambda>(outputs, fee, plan, owned, max_fee). verify_btc_send outputs fee plan owned max_fee"
  "\<lambda>(outputs, fee, plan, owned, max_fee). btc_send_safe outputs fee plan owned max_fee"
  by unfold_locales (auto simp: verify_btc_send_def btc_send_safe_alt gate_simps)

text \<open>A hex spelling of bytes after \<open>0x\<close>, in either case of the letters.\<close>

definition spells_hex :: "bytes \<Rightarrow> string \<Rightarrow> bool" where
  "spells_hex bs s \<longleftrightarrow> lower s = ''0x'' @ hex_of_bytes bs"

definition same_hex_address :: "string \<Rightarrow> string \<Rightarrow> bool" where
  "same_hex_address a b \<longleftrightarrow> lower a = lower b"

definition eth_swap_safe ::
    "string \<Rightarrow> int \<Rightarrow> string \<Rightarrow> int \<Rightarrow> int \<Rightarrow> int \<Rightarrow> eth_swap_plan \<Rightarrow> int \<Rightarrow> int \<Rightarrow> bool" where
  "eth_swap_safe to value data chain_id gas max_fee_per_gas plan now max_fee_wei \<longleftrightarrow>
     now < esp_expiry plan \<and>
     same_hex_address to (esp_inbound_address plan) \<and>
     value = esp_amount_wei plan \<and>
     spells_hex (utf8_encode (esp_memo plan)) data \<and>
     chain_id = esp_chain_id plan \<and>
     memo_pays_destination (esp_destination plan) (esp_memo plan) \<and>
     gas * max_fee_per_gas \<le> max_fee_wei"

lemma lower_0x: "lower ''0x'' = ''0x''"
  by code_simp

lemma lower_hex_prefix [simp]: "lower (''0x'' @ hex_of_bytes bs) = ''0x'' @ hex_of_bytes bs"
  by (simp only: lower_append lower_0x lower_hex_of_bytes)

lemma spells_hex_decodes:
  assumes "spells_hex bs s"
  shows "bytes_fromhex (drop 2 s) = Some bs"
proof -
  have "drop 2 (lower s) = hex_of_bytes bs" using assms by (simp add: spells_hex_def)
  then have "lower (drop 2 s) = hex_of_bytes bs" by (simp add: lower_def drop_map)
  then show ?thesis by (metis bytes_fromhex_hex bytes_fromhex_lower)
qed

interpretation eth_swap_gate: verify_gate
  "\<lambda>(to, val, data, cid, gas, mfpg, plan, now, m). verify_eth_swap to val data cid gas mfpg plan now m"
  "\<lambda>(to, val, data, cid, gas, mfpg, plan, now, m). eth_swap_safe to val data cid gas mfpg plan now m"
proof unfold_locales
  have "verify_eth_swap to val data cid gas mfpg plan now m = []
      \<longleftrightarrow> eth_swap_safe to val data cid gas mfpg plan now m" for to val data cid gas mfpg plan now m
    unfolding verify_eth_swap_def eth_swap_safe_def spells_hex_def same_hex_address_def
    by (simp only: append_is_Nil_conv gate_simps lower_hex_prefix)
  then show "((case tx of (to, val, data, cid, gas, mfpg, plan, now, m) \<Rightarrow>
        verify_eth_swap to val data cid gas mfpg plan now m) = []) =
      (case tx of (to, val, data, cid, gas, mfpg, plan, now, m) \<Rightarrow>
        eth_swap_safe to val data cid gas mfpg plan now m)" for tx
    by (simp split: prod.splits)
qed

definition tron_swap_safe ::
    "string \<Rightarrow> string \<Rightarrow> int \<Rightarrow> string \<Rightarrow> tron_swap_plan \<Rightarrow> int \<Rightarrow> bool" where
  "tron_swap_safe contract_type to_address amount_sun memo plan now \<longleftrightarrow>
     now < tsp_expiry plan \<and> contract_type = ''TransferContract'' \<and>
     to_address = tsp_inbound_address plan \<and> amount_sun = tsp_amount_sun plan \<and>
     memo = tsp_memo plan \<and> memo_pays_destination (tsp_destination plan) memo"

definition tron_token_swap_safe ::
    "string \<Rightarrow> string \<Rightarrow> string \<Rightarrow> int \<Rightarrow> int \<Rightarrow> string \<Rightarrow> tron_token_swap_plan \<Rightarrow> int \<Rightarrow> bool" where
  "tron_token_swap_safe contract_type trigger_to recipient amount trx_value memo plan now \<longleftrightarrow>
     now < ttsp_expiry plan \<and> contract_type = ''TriggerSmartContract'' \<and>
     trigger_to = ttsp_token plan \<and> recipient = ttsp_inbound_address plan \<and>
     amount = ttsp_amount plan \<and> trx_value = 0 \<and>
     memo = ttsp_memo plan \<and> memo_pays_destination (ttsp_destination plan) memo"

interpretation tron_swap_gate: verify_gate
  "\<lambda>(ct, to, sun, memo, plan, now). verify_tron_swap ct to sun memo plan now"
  "\<lambda>(ct, to, sun, memo, plan, now). tron_swap_safe ct to sun memo plan now"
  by unfold_locales (auto simp: verify_tron_swap_def tron_swap_safe_def gate_simps)

interpretation tron_token_swap_gate: verify_gate
  "\<lambda>(ct, tr, to, amt, trx, memo, plan, now). verify_tron_token_swap ct tr to amt trx memo plan now"
  "\<lambda>(ct, tr, to, amt, trx, memo, plan, now). tron_token_swap_safe ct tr to amt trx memo plan now"
  by unfold_locales (auto simp: verify_tron_token_swap_def tron_token_swap_safe_def gate_simps)

definition eth_send_safe ::
    "string \<Rightarrow> int \<Rightarrow> string \<Rightarrow> int \<Rightarrow> int \<Rightarrow> int \<Rightarrow> eth_send_plan \<Rightarrow> int \<Rightarrow> bool" where
  "eth_send_safe to value data chain_id gas max_fee_per_gas plan max_fee_wei \<longleftrightarrow>
     same_hex_address to (es_recipient plan) \<and> value = es_amount_wei plan \<and>
     data \<in> {''0x'', ''''} \<and> chain_id = es_chain_id plan \<and> gas * max_fee_per_gas \<le> max_fee_wei"

definition eth_token_send_safe ::
    "string \<Rightarrow> int \<Rightarrow> int \<Rightarrow> string \<Rightarrow> int \<Rightarrow> int \<Rightarrow> int \<Rightarrow> eth_token_send_plan \<Rightarrow> int \<Rightarrow> bool" where
  "eth_token_send_safe to value chain_id recipient amount gas max_fee_per_gas plan max_fee_wei \<longleftrightarrow>
     same_hex_address to (ets_token plan) \<and> value = 0 \<and>
     same_hex_address recipient (ets_recipient plan) \<and> amount = ets_amount plan \<and>
     chain_id = ets_chain_id plan \<and> gas * max_fee_per_gas \<le> max_fee_wei"

definition tron_send_safe :: "string \<Rightarrow> string \<Rightarrow> int \<Rightarrow> string \<Rightarrow> tron_send_plan \<Rightarrow> bool" where
  "tron_send_safe contract_type to_address amount_sun memo plan \<longleftrightarrow>
     contract_type = ''TransferContract'' \<and> to_address = ts_recipient plan \<and>
     amount_sun = ts_amount_sun plan \<and> memo = []"

definition tron_token_send_safe ::
    "string \<Rightarrow> string \<Rightarrow> string \<Rightarrow> int \<Rightarrow> int \<Rightarrow> string \<Rightarrow> tron_token_send_plan \<Rightarrow> bool" where
  "tron_token_send_safe contract_type trigger_to recipient amount trx_value memo plan \<longleftrightarrow>
     contract_type = ''TriggerSmartContract'' \<and> trigger_to = tts_token plan \<and>
     recipient = tts_recipient plan \<and> amount = tts_amount plan \<and> trx_value = 0 \<and> memo = []"

interpretation eth_send_gate: verify_gate
  "\<lambda>(to, val, data, cid, gas, mfpg, plan, m). verify_eth_send to val data cid gas mfpg plan m"
  "\<lambda>(to, val, data, cid, gas, mfpg, plan, m). eth_send_safe to val data cid gas mfpg plan m"
  by unfold_locales (auto simp: verify_eth_send_def eth_send_safe_def same_hex_address_def gate_simps)

interpretation eth_token_send_gate: verify_gate
  "\<lambda>(to, val, cid, rcp, amt, gas, mfpg, plan, m). verify_eth_token_send to val cid rcp amt gas mfpg plan m"
  "\<lambda>(to, val, cid, rcp, amt, gas, mfpg, plan, m). eth_token_send_safe to val cid rcp amt gas mfpg plan m"
  by unfold_locales (auto simp: verify_eth_token_send_def eth_token_send_safe_def same_hex_address_def gate_simps)

interpretation tron_send_gate: verify_gate
  "\<lambda>(ct, to, sun, memo, plan). verify_tron_send ct to sun memo plan"
  "\<lambda>(ct, to, sun, memo, plan). tron_send_safe ct to sun memo plan"
  by unfold_locales (auto simp: verify_tron_send_def tron_send_safe_def gate_simps)

interpretation tron_token_send_gate: verify_gate
  "\<lambda>(ct, tr, to, amt, trx, memo, plan). verify_tron_token_send ct tr to amt trx memo plan"
  "\<lambda>(ct, tr, to, amt, trx, memo, plan). tron_token_send_safe ct tr to amt trx memo plan"
  by unfold_locales (auto simp: verify_tron_token_send_def tron_token_send_safe_def gate_simps)

lemmas swap_gate_facts = btc_swap_gate.report_empty eth_swap_gate.report_empty
  tron_swap_gate.report_empty tron_token_swap_gate.report_empty

lemmas send_gate_facts = btc_send_gate.report_empty eth_send_gate.report_empty
  eth_token_send_gate.report_empty tron_send_gate.report_empty tron_token_send_gate.report_empty

section \<open>Properties\<close>

text \<open>The value of the outputs that satisfy \<open>P\<close>.\<close>

definition value_where :: "(tx_output \<Rightarrow> bool) \<Rightarrow> tx_output list \<Rightarrow> int" where
  "value_where P outputs = (\<Sum>o'\<leftarrow>filter P outputs. out_value o')"

lemma value_where_split:
  "value_where P outputs =
     value_where (\<lambda>o'. P o' \<and> Q o') outputs + value_where (\<lambda>o'. P o' \<and> \<not> Q o') outputs"
  unfolding value_where_def
  using sum_list_map_filter_split [of out_value "filter P outputs" Q] by (simp add: conj_commute)

lemma value_where_cong:
  "(\<And>o'. o' \<in> set outputs \<Longrightarrow> P o' = Q o') \<Longrightarrow> value_where P outputs = value_where Q outputs"
  unfolding value_where_def by (metis (mono_tags, lifting) filter_cong)

lemma value_where_pays_exactly:
  "pays_exactly payee amount outputs \<Longrightarrow> value_where (\<lambda>o'. out_address o' = Some payee) outputs = amount"
  by (auto simp: pays_exactly_def sole_filter value_where_def)

definition example_vault_output :: tx_output where
  "example_vault_output = \<lparr>out_address = Some ''vault'', out_value = 50000, out_data = None\<rparr>"

definition example_change_output :: tx_output where
  "example_change_output = \<lparr>out_address = Some ''mine'', out_value = 40000, out_data = None\<rparr>"

definition example_memo_output :: tx_output where
  "example_memo_output = \<lparr>out_address = None, out_value = 0, out_data = Some (utf8_encode ''=:e:dst'')\<rparr>"

definition example_swap_plan :: swap_plan where
  "example_swap_plan = \<lparr>sp_inbound_address = ''vault'', sp_amount = 50000, sp_memo = ''=:e:dst'',
     sp_expiry = 1000, sp_destination = ''dst''\<rparr>"

lemmas example_btc_defs = example_vault_output_def example_change_output_def example_memo_output_def
  example_swap_plan_def

text \<open>C6. The Bitcoin swap gate passes exactly the safe transactions: the quote has not expired,
  one output pays the vault and it pays the planned amount, one data output exists and holds
  exactly the UTF-8 bytes of the memo, at most 80, every other output is owned by the wallet,
  the memo names the destination and the fee is within its bounds.\<close>

theorem btc_swap_gate_exact:
  "verify_btc_swap outputs fee plan owned now max_fee = [] \<longleftrightarrow>
     btc_swap_safe outputs fee plan owned now max_fee"
  using btc_swap_gate.report_empty [of "(outputs, fee, plan, owned, now, max_fee)"] by simp

text \<open>C10. Of a transaction that passes the Bitcoin swap gate, the value that goes to anybody but
  the wallet is the planned amount plus whatever the memo output burns, so everything else the
  outputs carry comes back to owned addresses (data outputs pay no address and the vault is not
  one of the wallet's own addresses).\<close>

theorem btc_swap_value_leaving:
  assumes "verify_btc_swap outputs fee plan owned now max_fee = []"
    and "sp_inbound_address plan \<notin> owned"
    and "\<forall>o' \<in> set outputs. out_data o' \<noteq> None \<longrightarrow> out_address o' = None"
  shows "value_where (\<lambda>o'. out_address o' \<notin> Some ` owned) outputs =
      sp_amount plan + value_where (\<lambda>o'. out_data o' \<noteq> None) outputs"
proof -
  let ?vault = "\<lambda>o'. out_address o' = Some (sp_inbound_address plan)"
  let ?foreign = "\<lambda>o'. out_address o' \<notin> Some ` owned"
  from assms(1) have safe: "btc_swap_safe outputs fee plan owned now max_fee"
    using btc_swap_gate.report_empty [of "(outputs, fee, plan, owned, now, max_fee)"] by simp
  then have "value_where ?vault outputs = sp_amount plan"
    by (intro value_where_pays_exactly) (simp add: btc_swap_safe_def)
  moreover have "value_where (\<lambda>o'. ?foreign o' \<and> ?vault o') outputs = value_where ?vault outputs"
    using assms(2) by (intro value_where_cong) auto
  moreover have "value_where (\<lambda>o'. ?foreign o' \<and> \<not> ?vault o') outputs =
      value_where (\<lambda>o'. out_data o' \<noteq> None) outputs"
  proof (rule value_where_cong)
    fix o' assume o': "o' \<in> set outputs"
    then have "out_data o' = None \<longrightarrow> out_address o' \<in> Some ` insert (sp_inbound_address plan) owned"
      using safe by (simp add: btc_swap_safe_def change_is_owned_def)
    then show "(?foreign o' \<and> \<not> ?vault o') = (out_data o' \<noteq> None)" using assms(3) o' by auto
  qed
  ultimately show ?thesis using value_where_split [of ?foreign outputs ?vault] by simp
qed

theorem btc_swap_value_leaving_witness:
  "value_where (\<lambda>o'. out_address o' \<notin> Some ` {''mine''})
      [example_vault_output, example_memo_output, example_change_output] = 50000"
proof -
  have "verify_btc_swap [example_vault_output, example_memo_output, example_change_output]
      500 example_swap_plan {''mine''} 10 1000 = []"
    by code_simp
  from btc_swap_value_leaving [OF this] show ?thesis
    by (simp add: example_btc_defs value_where_def)
qed

text \<open>\<open>set_burn v\<close> moves \<open>v\<close> satoshis into every data output that pays no address.\<close>

definition set_burn :: "int \<Rightarrow> tx_output \<Rightarrow> tx_output" where
  "set_burn v o' = (if out_data o' \<noteq> None \<and> out_address o' = None then o'\<lparr>out_value := v\<rparr> else o')"

lemma set_burn_fields [simp]:
  "out_data (set_burn v o') = out_data o'" "out_address (set_burn v o') = out_address o'"
  "out_address o' = Some a \<Longrightarrow> set_burn v o' = o'"
  by (simp_all add: set_burn_def)

lemma payee_problems_set_burn:
  "payee_problems role payee amount (map (set_burn v) outputs) = payee_problems role payee amount outputs"
proof -
  have "filter (\<lambda>o'. out_address o' = Some payee) (map (set_burn v) outputs) =
      filter (\<lambda>o'. out_address o' = Some payee) outputs"
    by (induction outputs) simp_all
  then show ?thesis by (simp add: payee_problems_def paid_outputs_def)
qed

lemma op_return_problems_set_burn:
  "op_return_problems memo (map (set_burn v) outputs) = op_return_problems memo outputs"
proof -
  have "filter (\<lambda>o'. out_data o' \<noteq> None) (map (set_burn v) outputs) =
      map (set_burn v) (filter (\<lambda>o'. out_data o' \<noteq> None) outputs)"
    by (induction outputs) simp_all
  then show ?thesis
    unfolding op_return_problems_def
    by (cases "filter (\<lambda>o'. out_data o' \<noteq> None) outputs") (simp_all split: list.splits)
qed

lemma change_problems_set_burn:
  "change_problems payee owned (map (set_burn v) outputs) = change_problems payee owned outputs"
  by (induction outputs) (simp_all add: change_problems_def)

text \<open>The Bitcoin swap gate does not look at the value of the memo output: its report is the
  same whatever number of satoshis the OP_RETURN output burns.\<close>

theorem btc_swap_gate_ignores_burn:
  "verify_btc_swap (map (set_burn v) outputs) fee plan owned now max_fee =
     verify_btc_swap outputs fee plan owned now max_fee"
  by (simp add: verify_btc_swap_def payee_problems_set_burn op_return_problems_set_burn
      change_problems_set_burn)

text \<open>C26. The Ethereum deposit gate passes exactly the safe deposits, and the calldata of a
  transaction it passes decodes from hex to the bytes of the memo.\<close>

theorem eth_swap_gate_exact:
  "(verify_eth_swap to val data chain_id gas max_fee_per_gas plan now max_fee_wei = [] \<longleftrightarrow>
      eth_swap_safe to val data chain_id gas max_fee_per_gas plan now max_fee_wei) \<and>
   (eth_swap_safe to val data chain_id gas max_fee_per_gas plan now max_fee_wei \<longrightarrow>
      bytes_fromhex (drop 2 data) = Some (utf8_encode (esp_memo plan)))"
  using eth_swap_gate.report_empty
      [of "(to, val, data, chain_id, gas, max_fee_per_gas, plan, now, max_fee_wei)"]
  by (auto simp: eth_swap_safe_def spells_hex_decodes)

definition example_eth_plan :: eth_swap_plan where
  "example_eth_plan = \<lparr>esp_inbound_address = ''0xab'', esp_amount_wei = 7, esp_memo = ''=:b'',
     esp_expiry = 100, esp_chain_id = 1, esp_destination = ''b''\<rparr>"

theorem eth_swap_gate_exact_witness:
  "bytes_fromhex (drop 2 ''0x3D3A62'') = Some (utf8_encode (esp_memo example_eth_plan))"
proof -
  have "eth_swap_safe ''0xAB'' 7 ''0x3D3A62'' 1 21000 10 example_eth_plan 99 1000000"
    by code_simp
  then show ?thesis using eth_swap_gate_exact by blast
qed

text \<open>C27. The two TRON deposit gates pass exactly the safe deposits of TRX and of a TRC-20 token.\<close>

theorem tron_swap_gates_exact:
  "(verify_tron_swap ct to sun memo plan now = [] \<longleftrightarrow> tron_swap_safe ct to sun memo plan now) \<and>
   (verify_tron_token_swap ct' trigger rcpt amt trx memo' tplan now = [] \<longleftrightarrow>
      tron_token_swap_safe ct' trigger rcpt amt trx memo' tplan now)"
  using tron_swap_gate.report_empty [of "(ct, to, sun, memo, plan, now)"]
    tron_token_swap_gate.report_empty [of "(ct', trigger, rcpt, amt, trx, memo', tplan, now)"]
  by simp

text \<open>C28. The gates of plain sends (Bitcoin, ETH, ERC-20, TRX and TRC-20) pass exactly the safe
  sends: the exact amount to the exact recipient, and no memo, calldata or value riding along.\<close>

theorem send_gates_exact:
  "(verify_btc_send outputs fee plan owned max_fee = [] \<longleftrightarrow> btc_send_safe outputs fee plan owned max_fee) \<and>
   (verify_eth_send to val data cid gas mfpg eplan m = [] \<longleftrightarrow> eth_send_safe to val data cid gas mfpg eplan m) \<and>
   (verify_eth_token_send to val cid rcpt amt gas mfpg etplan m = [] \<longleftrightarrow>
      eth_token_send_safe to val cid rcpt amt gas mfpg etplan m) \<and>
   (verify_tron_send ct to sun memo tplan = [] \<longleftrightarrow> tron_send_safe ct to sun memo tplan) \<and>
   (verify_tron_token_send ct to rcpt amt trx memo ttplan = [] \<longleftrightarrow>
      tron_token_send_safe ct to rcpt amt trx memo ttplan)"
  using btc_send_gate.report_empty [of "(outputs, fee, plan, owned, max_fee)"]
    eth_send_gate.report_empty [of "(to, val, data, cid, gas, mfpg, eplan, m)"]
    eth_token_send_gate.report_empty [of "(to, val, cid, rcpt, amt, gas, mfpg, etplan, m)"]
    tron_send_gate.report_empty [of "(ct, to, sun, memo, tplan)"]
    tron_token_send_gate.report_empty [of "(ct, to, rcpt, amt, trx, memo, ttplan)"]
  by simp

text \<open>The destination check is a substring test: a memo whose payout field (the third) names
  somebody else passes when the wallet's address only occurs as the affiliate field.\<close>

theorem memo_check_accepts_other_payee:
  "memo_pays_destination mine (''=:BTC.BTC:'' @ other @ '':0/1/0:'' @ mine) \<and>
   (CHR '':'' \<notin> set other \<longrightarrow> split_all CHR '':'' (''=:BTC.BTC:'' @ other @ '':0/1/0:'' @ mine) ! 2 = other)"
proof -
  have "memo_pays_destination mine ((''=:BTC.BTC:'' @ other @ '':0/1/0:'') @ mine @ [])"
    by (rule memo_pays_infix)
  moreover have "split_all CHR '':'' (''='' @ CHR '':'' # ''BTC.BTC'' @ CHR '':'' # other @ CHR '':'' # ''0/1/0:'' @ mine) ! 2 = other"
    if "CHR '':'' \<notin> set other"
    using that by (subst split_all_append_sep, simp, subst split_all_append_sep, simp,
      subst split_all_append_sep, simp) simp
  ultimately show ?thesis by simp
qed

theorem memo_check_accepts_other_payee_witness:
  "split_all CHR '':'' ''=:BTC.BTC:thief:0/1/0:me'' ! 2 = ''thief''"
  using memo_check_accepts_other_payee [of "''me''" "''thief''"] by simp

end
