(* ===== verification/Swap.thy ===== *)
theory Swap
  imports Thorchain Verify
begin

text \<open>
  \<open>swap.py\<close> and \<open>liquidity.py\<close>: the chain-agnostic half of a swap or of a liquidity
  deposit. The THORChain client and the chain adapter are records of operations, as the
  protocols \<open>ThorchainLike\<close> and \<open>SwapSource\<close> are; the locale \<open>swap_source\<close> states
  what an adapter promises, and the client's safety lemma is proved once under it. The
  keyword arguments that the orchestrator passes through to the adapter are already applied
  in the adapter's operations.
\<close>

section \<open>Liquidity memos\<close>

definition MAX_BASIS_POINTS :: int where
  "MAX_BASIS_POINTS = 10000"

definition add_liquidity_memo :: "string \<Rightarrow> string" where
  "add_liquidity_memo pool = ''+:'' @ pool"

definition withdraw_liquidity_memo :: "string \<Rightarrow> int \<Rightarrow> string res" where
  "withdraw_liquidity_memo pool basis_points =
     (if \<not> (1 \<le> basis_points \<and> basis_points \<le> MAX_BASIS_POINTS) then Inl (ValueError ''basis_points'')
      else Inr (''-:'' @ pool @ '':'' @ str_int basis_points))"

section \<open>Requests, prepared swaps and the two protocols\<close>

record swap_request =
  rq_from_asset :: string
  rq_to_asset :: string
  rq_amount :: int
  rq_destination :: string

record ('b, 'p) prepared =
  pr_quote :: "swap_quote option"
  pr_built :: 'b
  pr_plan :: 'p
  pr_problems :: "problem list"

definition prepared_safe :: "('b, 'p) prepared \<Rightarrow> bool" where
  "prepared_safe p \<longleftrightarrow> pr_problems p = []"

record ('b, 'p) swap_result =
  sr_prepared :: "('b, 'p) prepared"
  sr_txid :: "string option"
  sr_broadcast :: bool

type_synonym 'w quote_op =
  "string \<Rightarrow> string \<Rightarrow> int \<Rightarrow> string option \<Rightarrow> int option \<Rightarrow> int option \<Rightarrow> int option \<Rightarrow> ('w, swap_quote) pyio"

record 'w thorchain_like =
  tl_inbound_addresses :: "('w, chain_table) pyio"
  tl_quote_swap :: "'w quote_op"
  tl_mimir :: "('w, dict) pyio"

record ('w, 'b, 'p, 'raw) source_adapter =
  ad_chain :: string
  ad_build_and_verify :: "swap_quote \<Rightarrow> swap_request \<Rightarrow> int \<Rightarrow> ('w, ('b, 'p) prepared) pyio"
  ad_build_and_verify_deposit :: "string \<Rightarrow> string \<Rightarrow> int \<Rightarrow> int \<Rightarrow> ('w, ('b, 'p) prepared) pyio"
  ad_sign :: "'b \<Rightarrow> ('w, 'raw list) pyio"
  ad_broadcast :: "'raw list \<Rightarrow> ('w, string) pyio"

definition thorchain_of :: "'w http_get \<Rightarrow> thor_client \<Rightarrow> 'w thorchain_like" where
  "thorchain_of get c =
     \<lparr>tl_inbound_addresses = inbound_addresses get c, tl_quote_swap = quote_swap get c,
      tl_mimir = mimir get c\<rparr>"

section \<open>The orchestrator\<close>

definition explain_quote_error :: "string \<Rightarrow> int \<Rightarrow> abort" where
  "explain_quote_error msg tolerance_bps =
     (if contains ''price limit'' msg then QuoteOverTolerance msg tolerance_bps else QuoteRejected msg)"

definition tradable_status :: "string \<Rightarrow> chain_table \<Rightarrow> chain_status res" where
  "tradable_status chain table =
     (case map_of table chain of
        None \<Rightarrow> Inl (SwapAborted (NotTradable chain))
      | Some s \<Rightarrow> if \<not> tradable s then Inl (SwapAborted (NotTradable chain)) else Inr s)"

text \<open>A streaming swap is quoted without a tolerance.\<close>

definition asked_tolerance :: "int option \<Rightarrow> int \<Rightarrow> int option" where
  "asked_tolerance interval tolerance_bps = (if interval \<noteq> None then None else Some tolerance_bps)"

definition quoted ::
    "'w thorchain_like \<Rightarrow> swap_request \<Rightarrow> int \<Rightarrow> int option \<Rightarrow> int option \<Rightarrow> ('w, swap_quote) pyio" where
  "quoted thorchain request tolerance_bps interval quantity =
     try_io
       (tl_quote_swap thorchain (rq_from_asset request) (rq_to_asset request) (rq_amount request)
          (Some (rq_destination request)) interval quantity
          (asked_tolerance interval tolerance_bps))
       (\<lambda>e. case e of
          ThorchainError msg \<Rightarrow> raise_io (SwapAborted (explain_quote_error msg tolerance_bps))
        | _ \<Rightarrow> raise_io e)"

definition accept_quote :: "swap_request \<Rightarrow> swap_quote \<Rightarrow> unit res" where
  "accept_quote request q =
     (if rq_amount request < q_recommended_min_amount_in q then
        Inl (SwapAborted (BelowMinimum (rq_amount request) (q_recommended_min_amount_in q)))
      else if q_memo q \<in> {None, Some []} then Inl (SwapAborted NoMemo)
      else Inr ())"

definition prepare_swap ::
    "'w thorchain_like \<Rightarrow> ('w, 'b, 'p, 'raw) source_adapter \<Rightarrow> swap_request \<Rightarrow> int \<Rightarrow> int \<Rightarrow>
     int option \<Rightarrow> int option \<Rightarrow> ('w, ('b, 'p) prepared) pyio" where
  "prepare_swap thorchain adapter request now tolerance_bps interval quantity =
     bind_io (tl_inbound_addresses thorchain) (\<lambda>table.
     bind_io (lift_io (tradable_status (ad_chain adapter) table)) (\<lambda>_.
     bind_io (quoted thorchain request tolerance_bps interval quantity) (\<lambda>q.
     bind_io (lift_io (accept_quote request q)) (\<lambda>_.
       ad_build_and_verify adapter q request now))))"

text \<open>\<open>int(mimir.get(key, 0) or 0) >= 1\<close>, for the first of the three keys that is set.\<close>

definition mimir_level :: "dict \<Rightarrow> string \<Rightarrow> int res" where
  "mimir_level m key = (let v = dget m key (JInt 0) in py_int (if truthy v then v else JInt 0))"

definition pause_keys :: "string \<Rightarrow> string list" where
  "pause_keys pool =
     [''PAUSELP'', ''PAUSELP'' @ split_head CHR ''.'' pool,
      ''PAUSELPDEPOSIT-'' @ replace_char CHR ''.'' CHR ''-'' pool]"

fun first_pause :: "dict \<Rightarrow> string list \<Rightarrow> string option res" where
  "first_pause m [] = Inr None"
| "first_pause m (key # keys) =
     bind_res (mimir_level m key) (\<lambda>n. if 1 \<le> n then Inr (Some key) else first_pause m keys)"

definition lp_deposit_pause_reason :: "dict \<Rightarrow> string \<Rightarrow> string option res" where
  "lp_deposit_pause_reason m pool = first_pause m (pause_keys pool)"

definition memo_pool :: "string \<Rightarrow> string" where
  "memo_pool memo = (if CHR '':'' \<in> set memo then split_all CHR '':'' memo ! 1 else [])"

definition check_lp_open :: "'w thorchain_like \<Rightarrow> string \<Rightarrow> ('w, unit) pyio" where
  "check_lp_open thorchain memo =
     (if prefix ''+'' memo then
        bind_io (tl_mimir thorchain) (\<lambda>m.
        bind_io (lift_io (lp_deposit_pause_reason m (memo_pool memo))) (\<lambda>reason.
          case reason of
            None \<Rightarrow> return_io ()
          | Some key \<Rightarrow> if key = [] then return_io () else raise_io (SwapAborted (LpPaused key))))
      else return_io ())"

definition prepare_liquidity ::
    "'w thorchain_like \<Rightarrow> ('w, 'b, 'p, 'raw) source_adapter \<Rightarrow> string \<Rightarrow> int option \<Rightarrow> int \<Rightarrow>
     ('w, ('b, 'p) prepared) pyio" where
  "prepare_liquidity thorchain adapter memo amount now =
     bind_io (tl_inbound_addresses thorchain) (\<lambda>table.
     bind_io (lift_io (tradable_status (ad_chain adapter) table)) (\<lambda>s.
     bind_io (lift_io (require (cs_address s \<noteq> []) (SwapAborted (NoVault (ad_chain adapter))))) (\<lambda>_.
     bind_io (check_lp_open thorchain memo) (\<lambda>_.
       ad_build_and_verify_deposit adapter (cs_address s) memo
         (case amount of None \<Rightarrow> cs_dust_threshold s | Some a \<Rightarrow> a) now))))"

definition execute_swap ::
    "('b, 'p) prepared \<Rightarrow> ('w, 'b, 'p, 'raw) source_adapter \<Rightarrow> bool \<Rightarrow> ('w, ('b, 'p) swap_result) pyio" where
  "execute_swap prepared adapter confirm =
     (if \<not> prepared_safe prepared then raise_io (SwapAborted (GateRefused (pr_problems prepared)))
      else if \<not> confirm then
        return_io \<lparr>sr_prepared = prepared, sr_txid = None, sr_broadcast = False\<rparr>
      else
        bind_io (ad_sign adapter (pr_built prepared)) (\<lambda>raws.
        bind_io (ad_broadcast adapter raws) (\<lambda>txid.
          return_io \<lparr>sr_prepared = prepared, sr_txid = Some txid, sr_broadcast = True\<rparr>)))"

section \<open>What a prepared swap went through\<close>

lemma tradable_status_Inr [result_simps]:
  "tradable_status chain table = Inr s \<longleftrightarrow> map_of table chain = Some s \<and> tradable s"
  by (auto simp: tradable_status_def split: option.splits)

lemma tradable_status_Inl:
  "tradable_status chain table = Inl e \<longleftrightarrow>
     e = SwapAborted (NotTradable chain) \<and> (\<forall>s. map_of table chain = Some s \<longrightarrow> \<not> tradable s)"
  by (auto simp: tradable_status_def split: option.splits)

lemma accept_quote_Inr [result_simps]:
  "accept_quote rq q = Inr u \<longleftrightarrow>
     q_recommended_min_amount_in q \<le> rq_amount rq \<and> q_memo q \<notin> {None, Some []}"
  by (auto simp: accept_quote_def)

lemma quoted_Inr:
  "quoted t rq tol i n w = (Inr q, w') \<longleftrightarrow>
     tl_quote_swap t (rq_from_asset rq) (rq_to_asset rq) (rq_amount rq) (Some (rq_destination rq)) i n
       (asked_tolerance i tol) w = (Inr q, w')"
  by (auto simp: quoted_def try_io_def split: prod.splits sum.splits pyexc.splits)

lemma lift_io_eq: "lift_io r w = (r', w') \<longleftrightarrow> r = r' \<and> w' = w"
  by auto

lemma prepare_swap_Inr:
  "prepare_swap t a rq now tol i n w = (Inr p, w') \<longleftrightarrow>
     (\<exists>table w1 s q w2. tl_inbound_addresses t w = (Inr table, w1)
        \<and> map_of table (ad_chain a) = Some s \<and> tradable s
        \<and> quoted t rq tol i n w1 = (Inr q, w2)
        \<and> q_recommended_min_amount_in q \<le> rq_amount rq \<and> q_memo q \<notin> {None, Some []}
        \<and> ad_build_and_verify a q rq now w2 = (Inr p, w'))"
  unfolding prepare_swap_def bind_io_eq_Inr lift_io_eq
  by (simp add: result_simps)

text \<open>
  The contract of a chain adapter. \<open>carries built q rq\<close> is the chain's own statement that the
  unsigned transaction does what the quote and the request ask for; the adapter promises it for
  everything its gate lets through.
\<close>

definition quote_memo :: "swap_quote \<Rightarrow> string" where
  "quote_memo q = (case q_memo q of None \<Rightarrow> [] | Some m \<Rightarrow> m)"

locale swap_source =
  fixes build :: "swap_quote \<Rightarrow> swap_request \<Rightarrow> int \<Rightarrow> ('w, ('b, 'p) prepared) pyio"
    and carries :: "'b \<Rightarrow> swap_quote \<Rightarrow> swap_request \<Rightarrow> bool"
  assumes build_carries:
    "build q rq now w = (Inr p, w') \<Longrightarrow> prepared_safe p \<Longrightarrow>
     now < q_expiry q \<and> carries (pr_built p) q rq
       \<and> memo_pays_destination (rq_destination rq) (quote_memo q)"
begin

lemma prepared_swap_carries:
  assumes "prepare_swap t a rq now tol i n w = (Inr p, w')" "ad_build_and_verify a = build"
    and "prepared_safe p"
  shows "\<exists>q. q_recommended_min_amount_in q \<le> rq_amount rq \<and> q_memo q \<notin> {None, Some []}
    \<and> now < q_expiry q \<and> carries (pr_built p) q rq
    \<and> memo_pays_destination (rq_destination rq) (quote_memo q)"
  using assms build_carries unfolding prepare_swap_Inr by (elim exE conjE) (metis (no_types))

lemma broadcast_swap_carries:
  assumes "prepare_swap t a rq now tol i n w = (Inr p, w')" "ad_build_and_verify a = build"
    and "execute_swap p a' confirm w'' = (Inr r, w3)"
  shows "sr_prepared r = p \<and> (\<exists>q. q_recommended_min_amount_in q \<le> rq_amount rq
    \<and> q_memo q \<notin> {None, Some []} \<and> now < q_expiry q \<and> carries (pr_built p) q rq
    \<and> memo_pays_destination (rq_destination rq) (quote_memo q))"
proof -
  from assms(3) have "prepared_safe p" "sr_prepared r = p"
    by (auto simp: execute_swap_def bind_io_eq_Inr split: if_splits)
  with prepared_swap_carries [OF assms(1,2)] show ?thesis by blast
qed

end

text \<open>An adapter that also hands out the quote it built from, which is what the caller shows.\<close>

locale quoting_source = swap_source +
  assumes build_quotes: "build q rq now w = (Inr p, w') \<Longrightarrow> pr_quote p = Some q"
begin

lemma prepared_swap_quotes:
  assumes "prepare_swap t a rq now tol i n w = (Inr p, w')" "ad_build_and_verify a = build"
    and "prepared_safe p"
  shows "\<exists>q. pr_quote p = Some q \<and> q_recommended_min_amount_in q \<le> rq_amount rq
    \<and> q_memo q \<notin> {None, Some []} \<and> now < q_expiry q \<and> carries (pr_built p) q rq
    \<and> memo_pays_destination (rq_destination rq) (quote_memo q)"
proof -
  from assms(1) obtain q w2 where q: "q_recommended_min_amount_in q \<le> rq_amount rq"
    "q_memo q \<notin> {None, Some []}" "ad_build_and_verify a q rq now w2 = (Inr p, w')"
    unfolding prepare_swap_Inr by blast
  with assms(2) have b: "build q rq now w2 = (Inr p, w')" by simp
  from q(1,2) build_carries [OF b assms(3)] build_quotes [OF b] show ?thesis by blast
qed

end

locale deposit_source =
  fixes deposit :: "string \<Rightarrow> string \<Rightarrow> int \<Rightarrow> int \<Rightarrow> ('w, ('b, 'p) prepared) pyio"
    and delivers :: "'b \<Rightarrow> string \<Rightarrow> string \<Rightarrow> int \<Rightarrow> bool"
  assumes deposit_delivers:
    "deposit vault memo amount now w = (Inr p, w') \<Longrightarrow> prepared_safe p \<Longrightarrow>
     delivers (pr_built p) vault memo amount"
begin

lemma prepared_deposit_delivers:
  assumes "prepare_liquidity t a memo amount now w = (Inr p, w')"
    and "ad_build_and_verify_deposit a = deposit" "prepared_safe p"
  shows "\<exists>table w1 s. tl_inbound_addresses t w = (Inr table, w1) \<and> map_of table (ad_chain a) = Some s
    \<and> tradable s \<and> cs_address s \<noteq> []
    \<and> delivers (pr_built p) (cs_address s) memo (case amount of None \<Rightarrow> cs_dust_threshold s | Some n \<Rightarrow> n)"
  using assms deposit_delivers
  unfolding prepare_liquidity_def bind_io_eq_Inr lift_io_eq
  by (elim exE conjE) (auto simp: result_simps)

end

text \<open>An adapter whose plan of a deposit names its vault and amount, which is what the caller shows.\<close>

locale planned_deposit_source = deposit_source +
  fixes planned :: "'b \<Rightarrow> string \<Rightarrow> int \<Rightarrow> bool"
  assumes deposit_planned: "deposit vault memo amount now w = (Inr p, w') \<Longrightarrow> planned (pr_plan p) vault amount"
begin

lemma prepared_deposit_planned:
  assumes "prepare_liquidity t a memo amount now w = (Inr p, w')"
    and "ad_build_and_verify_deposit a = deposit" "prepared_safe p"
  obtains table w1 s n where "tl_inbound_addresses t w = (Inr table, w1)" "map_of table (ad_chain a) = Some s"
    "tradable s" "n = (case amount of None \<Rightarrow> cs_dust_threshold s | Some n \<Rightarrow> n)"
    "delivers (pr_built p) (cs_address s) memo n" "planned (pr_plan p) (cs_address s) n"
proof -
  from assms(1) obtain table w1 s w2 where s: "tl_inbound_addresses t w = (Inr table, w1)"
    "map_of table (ad_chain a) = Some s" "tradable s"
    and d: "ad_build_and_verify_deposit a (cs_address s) memo
      (case amount of None \<Rightarrow> cs_dust_threshold s | Some a \<Rightarrow> a) now w2 = (Inr p, w')"
    unfolding prepare_liquidity_def bind_io_eq_Inr lift_io_eq
    by (elim exE conjE) (auto simp: result_simps)
  from d assms(2) have d': "deposit (cs_address s) memo
      (case amount of None \<Rightarrow> cs_dust_threshold s | Some a \<Rightarrow> a) now w2 = (Inr p, w')" by simp
  show ?thesis
    using that [OF s refl deposit_delivers [OF d' assms(3)] deposit_planned [OF d']] .
qed

end

text \<open>
  A plain send has no quote: what its gate lets through pays the recipient the amount that was
  asked for.
\<close>

locale send_source =
  fixes send :: "string \<Rightarrow> int \<Rightarrow> string \<Rightarrow> ('w, ('b, 'p) prepared) pyio"
    and pays :: "'b \<Rightarrow> string \<Rightarrow> int \<Rightarrow> string \<Rightarrow> bool"
  assumes send_pays:
    "send recipient amount asset w = (Inr p, w') \<Longrightarrow> prepared_safe p \<Longrightarrow>
     pays (pr_built p) recipient amount asset"
begin

lemma executed_send_pays:
  assumes "send recipient amount asset w = (Inr p, w')" "execute_swap p a confirm w'' = (Inr r, w3)"
  shows "sr_prepared r = p \<and> pays (pr_built p) recipient amount asset"
proof -
  from assms(2) have "prepared_safe p" "sr_prepared r = p"
    by (auto simp: execute_swap_def bind_io_eq_Inr split: if_splits)
  with send_pays [OF assms(1)] show ?thesis by blast
qed

end

section \<open>Liquidity deposits\<close>

lemma first_pause_Inr_None:
  "first_pause m ks = Inr None \<longleftrightarrow> (\<forall>k \<in> set ks. \<exists>n. mimir_level m k = Inr n \<and> n < 1)"
  by (induction ks) (auto simp: bind_res_eq_Inr not_le)

lemma first_pause_Inr_Some:
  "first_pause m ks = Inr (Some key) \<longleftrightarrow>
     (\<exists>pre post n. ks = pre @ key # post \<and> mimir_level m key = Inr n \<and> 1 \<le> n
        \<and> (\<forall>k \<in> set pre. \<exists>n. mimir_level m k = Inr n \<and> n < 1))"
proof (induction ks)
  case (Cons k ks)
  show ?case
  proof (cases "\<exists>n. mimir_level m k = Inr n \<and> n < 1")
    case True
    then have "first_pause m (k # ks) = first_pause m ks" by auto
    moreover have "(\<exists>pre post n. k # ks = pre @ key # post \<and> mimir_level m key = Inr n \<and> 1 \<le> n
          \<and> (\<forall>k \<in> set pre. \<exists>n. mimir_level m k = Inr n \<and> n < 1)) \<longleftrightarrow>
        (\<exists>pre post n. ks = pre @ key # post \<and> mimir_level m key = Inr n \<and> 1 \<le> n
          \<and> (\<forall>k \<in> set pre. \<exists>n. mimir_level m k = Inr n \<and> n < 1))" (is "?A \<longleftrightarrow> ?B")
    proof
      assume ?A
      then obtain pre post n where p: "k # ks = pre @ key # post" "mimir_level m key = Inr n" "1 \<le> n"
        "\<forall>k \<in> set pre. \<exists>n. mimir_level m k = Inr n \<and> n < 1" by blast
      with True obtain pre' where "pre = k # pre'" by (cases pre) auto
      with p show ?B by (metis Cons_eq_appendI list.inject list.set_intros(2))
    next
      assume ?B
      then obtain pre post n where "ks = pre @ key # post" "mimir_level m key = Inr n" "1 \<le> n"
        "\<forall>k \<in> set pre. \<exists>n. mimir_level m k = Inr n \<and> n < 1" by blast
      with True show ?A by (intro exI [of _ "k # pre"] exI [of _ post] exI [of _ n]) auto
    qed
    ultimately show ?thesis using Cons.IH by simp
  next
    case False
    then show ?thesis
      by (auto simp: bind_res_eq_Inr Cons_eq_append_conv not_less)
  qed
qed simp

lemma pause_keys_nonempty: "[] \<notin> set (pause_keys pool)"
  by (simp add: pause_keys_def Let_def)

lemma prepare_liquidity_open:
  assumes "tl_inbound_addresses t w = (Inr table, w1)" "map_of table (ad_chain a) = Some s"
    "tradable s" "cs_address s \<noteq> []"
  shows "prepare_liquidity t a memo amount now w =
    bind_io (check_lp_open t memo) (\<lambda>_. ad_build_and_verify_deposit a (cs_address s) memo
      (case amount of None \<Rightarrow> cs_dust_threshold s | Some n \<Rightarrow> n) now) w1"
  using assms by (simp add: prepare_liquidity_def bind_io_def tradable_status_def require_def)

lemma memo_pool_add: "CHR '':'' \<notin> set pool \<Longrightarrow> memo_pool (add_liquidity_memo pool) = pool"
  using split_all_append_sep [of "CHR '':''" "''+''" pool]
  by (simp add: memo_pool_def add_liquidity_memo_def split_all_no_sep)

section \<open>Properties\<close>

text \<open>C11. Nothing is signed or broadcast unless the verify gate passed and the caller confirmed:
  in every other case the world is left as it was. A successful run reports a broadcast exactly
  when it was confirmed, and then it signed the prepared transaction and broadcast those very
  signatures.\<close>

theorem execute_swap_acts_only_when_safe:
  assumes "execute_swap p a confirm w = (r, w')"
  shows "(w' \<noteq> w \<longrightarrow> prepared_safe p \<and> confirm)
    \<and> (\<not> prepared_safe p \<longrightarrow> r = Inl (SwapAborted (GateRefused (pr_problems p))))
    \<and> (\<forall>res. r = Inr res \<longrightarrow> sr_prepared res = p \<and> sr_broadcast res = confirm
         \<and> (if confirm then (\<exists>raws w1 txid. ad_sign a (pr_built p) w = (Inr raws, w1)
              \<and> ad_broadcast a raws w1 = (Inr txid, w') \<and> sr_txid res = Some txid)
            else sr_txid res = None))"
proof (cases "prepared_safe p")
  case False
  with assms show ?thesis by (auto simp: execute_swap_def)
next
  case True
  show ?thesis
  proof (cases confirm)
    case True
    with \<open>prepared_safe p\<close> assms show ?thesis
      by (auto simp: execute_swap_def bind_io_eq_Inr)
  next
    case False
    with True assms show ?thesis by (auto simp: execute_swap_def)
  qed
qed

text \<open>A small adapter over a world that lists what was broadcast.\<close>

definition example_request :: swap_request where
  "example_request = \<lparr>rq_from_asset = ''BTC.BTC'', rq_to_asset = ''ETH.ETH'', rq_amount = 50000,
     rq_destination = ''0xab''\<rparr>"

definition example_prepared :: "problem list \<Rightarrow> (nat, unit) prepared" where
  "example_prepared ps = \<lparr>pr_quote = None, pr_built = 7, pr_plan = (), pr_problems = ps\<rparr>"

definition example_adapter :: "(nat list, nat, unit, nat) source_adapter" where
  "example_adapter =
     \<lparr>ad_chain = ''BTC'',
      ad_build_and_verify = (\<lambda>q rq now. return_io (example_prepared [])),
      ad_build_and_verify_deposit = (\<lambda>v m n now. return_io (example_prepared [])),
      ad_sign = (\<lambda>b. return_io [b]),
      ad_broadcast = (\<lambda>raws w. (Inr ''txid'', raws @ w))\<rparr>"

lemmas example_adapter_defs = example_adapter_def example_prepared_def example_request_def

theorem execute_swap_acts_only_when_safe_witness:
  "\<exists>r. execute_swap (example_prepared []) example_adapter True [] = (Inr r, [7]) \<and> sr_broadcast r"
proof -
  have e: "execute_swap (example_prepared []) example_adapter True [] =
      (Inr \<lparr>sr_prepared = example_prepared [], sr_txid = Some ''txid'', sr_broadcast = True\<rparr>, [7])"
    by (simp add: execute_swap_def example_adapter_defs prepared_safe_def bind_io_def)
  from execute_swap_acts_only_when_safe [OF e] e show ?thesis by blast
qed

text \<open>C25. The refusals of a swap before anything is built: an unlisted or paused chain aborts before
  a quote is asked for; a quote the node rejects becomes an abort that names the tolerance when
  the price limit was the reason; a quote below the recommended minimum aborts with both numbers.\<close>

theorem prepare_swap_refuses:
  assumes "tl_inbound_addresses t w = (Inr table, w1)"
  shows "prepare_swap t a rq now tol i n w =
    (if \<forall>s. map_of table (ad_chain a) = Some s \<longrightarrow> \<not> tradable s
     then (Inl (SwapAborted (NotTradable (ad_chain a))), w1)
     else case tl_quote_swap t (rq_from_asset rq) (rq_to_asset rq) (rq_amount rq)
            (Some (rq_destination rq)) i n (asked_tolerance i tol) w1 of
         (Inl (ThorchainError msg), w2) \<Rightarrow>
           (Inl (SwapAborted (if contains ''price limit'' msg then QuoteOverTolerance msg tol
                              else QuoteRejected msg)), w2)
       | (Inl e, w2) \<Rightarrow> (Inl e, w2)
       | (Inr q, w2) \<Rightarrow>
           if rq_amount rq < q_recommended_min_amount_in q then
             (Inl (SwapAborted (BelowMinimum (rq_amount rq) (q_recommended_min_amount_in q))), w2)
           else if q_memo q \<in> {None, Some []} then (Inl (SwapAborted NoMemo), w2)
           else ad_build_and_verify a q rq now w2)"
proof (cases "\<forall>s. map_of table (ad_chain a) = Some s \<longrightarrow> \<not> tradable s")
  case True
  then have "tradable_status (ad_chain a) table = Inl (SwapAborted (NotTradable (ad_chain a)))"
    by (simp add: tradable_status_Inl)
  with True assms show ?thesis by (simp add: prepare_swap_def bind_io_def)
next
  case False
  then obtain s where "tradable_status (ad_chain a) table = Inr s"
    by (auto simp: tradable_status_def)
  with False assms have p: "prepare_swap t a rq now tol i n w =
      bind_io (quoted t rq tol i n) (\<lambda>q. bind_io (lift_io (accept_quote rq q)) (\<lambda>_.
        ad_build_and_verify a q rq now)) w1"
    by (simp add: prepare_swap_def bind_io_def)
  obtain answer w2 where q: "tl_quote_swap t (rq_from_asset rq) (rq_to_asset rq) (rq_amount rq)
      (Some (rq_destination rq)) i n (asked_tolerance i tol) w1 = (answer, w2)"
    by (cases "tl_quote_swap t (rq_from_asset rq) (rq_to_asset rq) (rq_amount rq)
      (Some (rq_destination rq)) i n (asked_tolerance i tol) w1")
  note facts = q bind_io_def quoted_def try_io_def explain_quote_error_def accept_quote_def
  show ?thesis
  proof (cases answer)
    case (Inl e)
    show ?thesis
      unfolding if_not_P [OF False] p by (cases e) (simp_all add: Inl facts)
  next
    case (Inr q')
    show ?thesis unfolding if_not_P [OF False] p by (simp add: Inr facts)
  qed
qed

definition example_status :: chain_status where
  "example_status = \<lparr>cs_chain = ''BTC'', cs_gas_rate = 5, cs_gas_rate_units = ''satsperbyte'',
     cs_outbound_fee = 1000, cs_dust_threshold = 1000, cs_halted = False,
     cs_global_trading_paused = False, cs_chain_trading_paused = False,
     cs_address = ''bc1vault'', cs_router = None\<rparr>"

definition example_thorchain :: "pyexc + swap_quote \<Rightarrow> dict \<Rightarrow> nat list thorchain_like" where
  "example_thorchain answer m =
     \<lparr>tl_inbound_addresses = return_io [(''BTC'', example_status)],
      tl_quote_swap = (\<lambda>a b n d i k t. lift_io answer), tl_mimir = return_io m\<rparr>"

theorem prepare_swap_refuses_witness:
  "prepare_swap (example_thorchain (Inl (ThorchainError ''emit less than price limit'')) [])
     example_adapter example_request 10 300 None None [] =
   (Inl (SwapAborted (QuoteOverTolerance ''emit less than price limit'' 300)), [])"
proof -
  have c: "contains ''price limit'' ''emit less than price limit''" by code_simp
  have t: "tl_inbound_addresses (example_thorchain (Inl (ThorchainError ''emit less than price limit'')) []) []
      = (Inr [(''BTC'', example_status)], [])"
    by (simp add: example_thorchain_def)
  show ?thesis
    by (subst prepare_swap_refuses [OF t])
       (simp add: c example_thorchain_def example_adapter_def example_status_def tradable_def)
qed

text \<open>C31. An add-liquidity deposit is refused, before anything is built, exactly while one of the
  three mimir toggles for its pool is at least one, and the reason names the first such toggle;
  a withdrawal for a legal share never looks at the toggles.\<close>

theorem liquidity_pause_gate:
  assumes "tl_inbound_addresses t w = (Inr table, w1)" "map_of table (ad_chain a) = Some s"
    and "tradable s" "cs_address s \<noteq> []" "CHR '':'' \<notin> set pool"
    and "tl_mimir t w1 = (Inr m, w2)" "\<forall>k \<in> set (pause_keys pool). \<exists>n. mimir_level m k = Inr n"
  shows "prepare_liquidity t a (add_liquidity_memo pool) amount now w =
      (case filter (\<lambda>k. \<exists>n \<ge> 1. mimir_level m k = Inr n) (pause_keys pool) of
         [] \<Rightarrow> ad_build_and_verify_deposit a (cs_address s) (''+:'' @ pool)
                 (case amount of None \<Rightarrow> cs_dust_threshold s | Some n \<Rightarrow> n) now w2
       | key # _ \<Rightarrow> (Inl (SwapAborted (LpPaused key)), w2))
    \<and> (\<forall>bps memo. withdraw_liquidity_memo pool bps = Inr memo \<longrightarrow>
         prepare_liquidity t a memo amount now w =
           ad_build_and_verify_deposit a (cs_address s) memo
             (case amount of None \<Rightarrow> cs_dust_threshold s | Some n \<Rightarrow> n) now w1)"
proof -
  have fp: "first_pause m ks = Inr (case filter (\<lambda>k. \<exists>n \<ge> 1. mimir_level m k = Inr n) ks of
      [] \<Rightarrow> None | key # _ \<Rightarrow> Some key)"
    if "\<forall>k \<in> set ks. \<exists>n. mimir_level m k = Inr n" for ks
    using that by (induction ks) auto
  define found where "found = filter (\<lambda>k. \<exists>n \<ge> 1. mimir_level m k = Inr n) (pause_keys pool)"
  have lp: "lp_deposit_pause_reason m pool = Inr (case found of [] \<Rightarrow> None | key # _ \<Rightarrow> Some key)"
    using fp [OF assms(7)] by (simp add: lp_deposit_pause_reason_def found_def)
  have ne: "[] \<notin> set found" using pause_keys_nonempty [of pool] by (auto simp: found_def)
  have "prefix ''+'' (add_liquidity_memo pool)" by (simp add: add_liquidity_memo_def)
  with lp ne assms(6) have c: "check_lp_open t (add_liquidity_memo pool) w1 =
      (case found of [] \<Rightarrow> (Inr (), w2) | key # _ \<Rightarrow> (Inl (SwapAborted (LpPaused key)), w2))"
    by (cases found) (auto simp: check_lp_open_def bind_io_def memo_pool_add [OF assms(5)])
  have "check_lp_open t memo w1 = (Inr (), w1)" if "withdraw_liquidity_memo pool bps = Inr memo" for bps memo
    using that by (auto simp: check_lp_open_def withdraw_liquidity_memo_def split: if_splits)
  with c show ?thesis
    unfolding prepare_liquidity_open [OF assms(1-4)] found_def [symmetric]
    by (auto simp: bind_io_def add_liquidity_memo_def split: list.splits)
qed

theorem liquidity_pause_gate_witness:
  "prepare_liquidity (example_thorchain (Inl NotImplementedError) [(''PAUSELPBTC'', JInt 1)])
     example_adapter (add_liquidity_memo ''BTC.BTC'') None 10 [] =
   (Inl (SwapAborted (LpPaused ''PAUSELPBTC'')), [])"
proof -
  let ?m = "[(''PAUSELPBTC'', JInt 1)]"
  let ?t = "example_thorchain (Inl NotImplementedError) ?m"
  have k: "pause_keys ''BTC.BTC'' = [''PAUSELP'', ''PAUSELPBTC'', ''PAUSELPDEPOSIT-BTC-BTC'']"
    by code_simp
  have l: "mimir_level ?m ''PAUSELP'' = Inr 0" "mimir_level ?m ''PAUSELPBTC'' = Inr 1"
    "mimir_level ?m ''PAUSELPDEPOSIT-BTC-BTC'' = Inr 0"
    by (simp_all add: mimir_level_def dget_def)
  have "tl_inbound_addresses ?t [] = (Inr [(''BTC'', example_status)], [])" "tl_mimir ?t [] = (Inr ?m, [])"
    "map_of [(''BTC'', example_status)] (ad_chain example_adapter) = Some example_status"
    "tradable example_status" "cs_address example_status \<noteq> []"
    "CHR '':'' \<notin> set ''BTC.BTC''" "\<forall>k \<in> set (pause_keys ''BTC.BTC''). \<exists>n. mimir_level ?m k = Inr n"
    by (simp_all add: example_thorchain_def example_adapter_def example_status_def tradable_def k l)
  then show ?thesis
    using liquidity_pause_gate [of ?t "[]" "[(''BTC'', example_status)]" "[]" example_adapter
        example_status "''BTC.BTC''" ?m "[]" None 10] by (simp add: k l)
qed

end
