(* ===== verification/Backends.thy ===== *)
theory Backends
  imports Swap
begin

text \<open>
  \<open>backends.py\<close>: the THORChain and Maya networks as interchangeable quote sources, and the
  choice of the one that pays the most. The environment is a partial map of variables; the HTTP
  getter is an argument as in \<open>Thorchain\<close>.
\<close>

record backend =
  be_name :: string
  be_client :: thor_client

definition DEFAULT_THORNODE :: string where
  "DEFAULT_THORNODE = ''https://thornode.thorchain.network''"

definition DEFAULT_MAYANODE :: string where
  "DEFAULT_MAYANODE = ''https://mayanode.mayachain.info''"

type_synonym environ = "string \<Rightarrow> string option"

text \<open>\<open>os.environ.get(name) or default\<close>.\<close>

definition env_or :: "environ \<Rightarrow> string \<Rightarrow> string \<Rightarrow> string" where
  "env_or env name dflt = (case env name of None \<Rightarrow> dflt | Some v \<Rightarrow> if v = [] then dflt else v)"

definition default_backends :: "environ \<Rightarrow> backend list" where
  "default_backends env =
     [\<lparr>be_name = ''thorchain'',
       be_client = thorchain_client (env_or env ''CRYPTOSWAP_WALLET_THORNODE'' DEFAULT_THORNODE) None ''thorchain''\<rparr>,
      \<lparr>be_name = ''maya'',
       be_client = thorchain_client (env_or env ''CRYPTOSWAP_WALLET_MAYANODE'' DEFAULT_MAYANODE) None ''mayachain''\<rparr>]"

definition get_backend :: "environ \<Rightarrow> string \<Rightarrow> backend res" where
  "get_backend env name =
     (case find (\<lambda>b. be_name b = name) (default_backends env) of
        None \<Rightarrow> Inl (ValueError ''unknown backend'')
      | Some b \<Rightarrow> Inr b)"

text \<open>
  The keyword arguments of a selection quote: interval, quantity and tolerance, where a
  streaming quote drops the tolerance and a missing tolerance is the client's default.
\<close>

definition selection_terms ::
    "int option \<Rightarrow> int option \<Rightarrow> int option \<Rightarrow> int option \<times> int option \<times> int option" where
  "selection_terms tolerance_bps interval quantity =
     (if interval \<noteq> None then (interval, quantity, None)
      else if tolerance_bps \<noteq> None then (None, None, tolerance_bps)
      else (None, None, Some DEFAULT_TOLERANCE_BPS))"

definition quote_from ::
    "'w http_get \<Rightarrow> string \<Rightarrow> string \<Rightarrow> int \<Rightarrow> string option \<Rightarrow> int option \<times> int option \<times> int option \<Rightarrow>
     backend \<Rightarrow> ('w, swap_quote) pyio" where
  "quote_from get from_asset to_asset amount destination terms b =
     (case terms of (interval, quantity, tolerance) \<Rightarrow>
        quote_swap get (be_client b) from_asset to_asset amount destination interval quantity tolerance)"

definition is_thorchain_error :: "pyexc \<Rightarrow> bool" where
  "is_thorchain_error e = (case e of ThorchainError _ \<Rightarrow> True | _ \<Rightarrow> False)"

definition eligible :: "int \<Rightarrow> swap_quote \<Rightarrow> bool" where
  "eligible amount q \<longleftrightarrow> q_memo q \<notin> {None, Some []} \<and> q_recommended_min_amount_in q \<le> amount"

fun gather_loop ::
    "(backend \<Rightarrow> ('w, swap_quote) pyio) \<Rightarrow> int \<Rightarrow> backend list \<Rightarrow> ('w, (backend \<times> swap_quote) list) pyio" where
  "gather_loop ask amount [] w = (Inr [], w)"
| "gather_loop ask amount (b # bs) w =
     (case ask b w of
        (Inl e, w') \<Rightarrow>
          if is_thorchain_error e \<or> is_http_error e then gather_loop ask amount bs w' else (Inl e, w')
      | (Inr q, w') \<Rightarrow>
          (case gather_loop ask amount bs w' of
             (Inl e, w'') \<Rightarrow> (Inl e, w'')
           | (Inr rest, w'') \<Rightarrow> (Inr (if eligible amount q then (b, q) # rest else rest), w'')))"

definition gather_quotes ::
    "'w http_get \<Rightarrow> backend list \<Rightarrow> string \<Rightarrow> string \<Rightarrow> int \<Rightarrow> string option \<Rightarrow> int option \<Rightarrow>
     int option \<Rightarrow> int option \<Rightarrow> ('w, (backend \<times> swap_quote) list) pyio" where
  "gather_quotes get backends from_asset to_asset amount destination tolerance_bps interval quantity =
     gather_loop
       (quote_from get from_asset to_asset amount destination
          (selection_terms tolerance_bps interval quantity)) amount backends"

text \<open>Python's \<open>max\<close> with a key: the first of the largest, \<open>ValueError\<close> on no elements.\<close>

fun max_by :: "('a \<Rightarrow> int) \<Rightarrow> 'a \<Rightarrow> 'a list \<Rightarrow> 'a" where
  "max_by key best [] = best"
| "max_by key best (x # xs) = max_by key (if key best < key x then x else best) xs"

definition best_quote :: "(backend \<times> swap_quote) list \<Rightarrow> (backend \<times> swap_quote) res" where
  "best_quote results =
     (case results of
        [] \<Rightarrow> Inl (ValueError ''max'')
      | r # rs \<Rightarrow> Inr (max_by (\<lambda>pair. q_expected_amount_out (snd pair)) r rs))"

section \<open>Properties\<close>

text \<open>\<open>m\<close> is the first largest element of \<open>xs\<close>.\<close>

definition first_max :: "('a \<Rightarrow> int) \<Rightarrow> 'a \<Rightarrow> 'a list \<Rightarrow> bool" where
  "first_max key m xs \<longleftrightarrow>
     (\<exists>pre post. xs = pre @ m # post \<and> (\<forall>y \<in> set pre. key y < key m) \<and> (\<forall>y \<in> set post. key y \<le> key m))"

lemma first_max_single: "first_max key x [x]"
  unfolding first_max_def by (intro exI [of _ "[]"]) simp

lemma first_max_le: "first_max key m xs \<Longrightarrow> y \<in> set xs \<Longrightarrow> key y \<le> key m"
  unfolding first_max_def by (auto simp: order.order_iff_strict)

lemma first_max_push:
  assumes "first_max key m (y # ys)" "key x < key y"
  shows "first_max key m (x # y # ys)"
proof -
  have "key x < key m" using first_max_le [OF assms(1), of y] assms(2) by simp
  moreover obtain pre post where "y # ys = pre @ m # post" "\<forall>z \<in> set pre. key z < key m"
    "\<forall>z \<in> set post. key z \<le> key m" using assms(1) by (auto simp: first_max_def)
  ultimately show ?thesis unfolding first_max_def
    by (intro exI [of _ "x # pre"] exI [of _ post]) simp
qed

lemma first_max_insert:
  assumes "first_max key m (x # ys)" "\<not> key x < key y"
  shows "first_max key m (x # y # ys)"
proof -
  obtain pre post where p: "x # ys = pre @ m # post" "\<forall>z \<in> set pre. key z < key m"
    "\<forall>z \<in> set post. key z \<le> key m" using assms(1) by (auto simp: first_max_def)
  show ?thesis
  proof (cases pre)
    case Nil
    with p assms(2) show ?thesis unfolding first_max_def
      by (intro exI [of _ "[]"] exI [of _ "y # ys"]) simp
  next
    case (Cons z zs)
    with p assms(2) show ?thesis unfolding first_max_def
      by (intro exI [of _ "x # y # zs"] exI [of _ post]) auto
  qed
qed

lemma max_by_first_max: "first_max key (max_by key x xs) (x # xs)"
proof (induction xs arbitrary: x)
  case Nil
  show ?case by (simp add: first_max_single)
next
  case (Cons y ys)
  show ?case
  proof (cases "key x < key y")
    case True
    then show ?thesis using first_max_push [OF Cons.IH [of y] True] by simp
  next
    case False
    then show ?thesis using first_max_insert [OF Cons.IH [of x] False] by simp
  qed
qed

lemma gather_loop_eligible:
  "gather_loop ask amount bs w = (Inr results, w') \<Longrightarrow> (b, q) \<in> set results \<Longrightarrow>
   b \<in> set bs \<and> eligible amount q \<and> (\<exists>v v'. ask b v = (Inr q, v'))"
  by (induction ask amount bs w arbitrary: results rule: gather_loop.induct)
     (auto split: prod.splits sum.splits if_splits; blast)+

lemma gather_loop_order:
  "gather_loop ask amount bs w = (Inr results, w') \<Longrightarrow> subseq (map fst results) bs"
  by (induction ask amount bs w arbitrary: results rule: gather_loop.induct)
     (auto split: prod.splits sum.splits if_splits)

text \<open>Every backend asked in turn, each on the network as the one before it left it.\<close>

fun ask_all ::
    "(backend \<Rightarrow> ('w, swap_quote) pyio) \<Rightarrow> backend list \<Rightarrow> 'w \<Rightarrow> (backend \<times> swap_quote res) list \<times> 'w" where
  "ask_all ask [] w = ([], w)"
| "ask_all ask (b # bs) w =
     (let (r, w1) = ask b w; (rs, w2) = ask_all ask bs w1 in ((b, r) # rs, w2))"

text \<open>The answers that compete: a quote with a memo whose minimum the amount reaches.\<close>

definition competing :: "int \<Rightarrow> backend \<times> swap_quote res \<Rightarrow> (backend \<times> swap_quote) list" where
  "competing amount a =
     (case snd a of
        Inl e \<Rightarrow> []
      | Inr q \<Rightarrow> if (\<exists>m. q_memo q = Some m \<and> m \<noteq> []) \<and> amount \<ge> q_recommended_min_amount_in q then [(fst a, q)] else [])"

lemma eligible_iff: "eligible amount q \<longleftrightarrow> (\<exists>m. q_memo q = Some m \<and> m \<noteq> []) \<and> q_recommended_min_amount_in q \<le> amount"
  by (cases "q_memo q") (auto simp: eligible_def)

lemma gather_loop_asks_all:
  "gather_loop ask amount bs w = (Inr results, w') \<Longrightarrow>
   results = concat (map (competing amount) (fst (ask_all ask bs w))) \<and> snd (ask_all ask bs w) = w'
   \<and> (\<forall>b e. (b, Inl e) \<in> set (fst (ask_all ask bs w)) \<longrightarrow> is_thorchain_error e \<or> is_http_error e)"
proof (induction bs arbitrary: results w)
  case (Cons b bs)
  obtain r w1 where a: "ask b w = (r, w1)" by fastforce
  show ?case
  proof (cases r)
    case (Inl e)
    with Cons.prems a have "gather_loop ask amount bs w1 = (Inr results, w')" "is_thorchain_error e \<or> is_http_error e"
      by (auto split: if_splits)
    from Cons.IH [OF this(1)] this(2) show ?thesis
      by (auto simp: a Inl competing_def split: prod.split)
  next
    case (Inr q)
    with Cons.prems a obtain rest where "gather_loop ask amount bs w1 = (Inr rest, w')"
      "results = (if eligible amount q then (b, q) # rest else rest)"
      by (auto split: sum.splits prod.splits)
    from Cons.IH [OF this(1)] this(2) show ?thesis
      by (auto simp: a Inr competing_def eligible_iff split: prod.split)
  qed
qed simp

text \<open>C30. Every backend is asked, in the order of the list; one that refuses or fails over HTTP, that
  answers without a memo or that wants a larger amount is passed over, and all the others compete:
  the route is the quote with the largest expected output among them, the earlier backend on a
  tie.\<close>

theorem best_route:
  assumes "gather_quotes get backends from_asset to_asset amount destination tol interval quantity w
      = (Inr results, w')"
    and "best_quote results = Inr (b, q)"
  shows "(let (answers, net) = ask_all (quote_from get from_asset to_asset amount destination
            (selection_terms tol interval quantity)) backends w
          in results = concat (map (competing amount) answers) \<and> net = w'
             \<and> (\<forall>b' e. (b', Inl e) \<in> set answers \<longrightarrow> is_thorchain_error e \<or> is_http_error e))
    \<and> b \<in> set backends \<and> subseq (map fst results) backends
    \<and> q_memo q \<notin> {None, Some []} \<and> q_recommended_min_amount_in q \<le> amount
    \<and> first_max (\<lambda>pair. q_expected_amount_out (snd pair)) (b, q) results"
proof -
  let ?key = "\<lambda>pair :: backend \<times> swap_quote. q_expected_amount_out (snd pair)"
  obtain r rs where r: "results = r # rs" "max_by ?key r rs = (b, q)"
    using assms(2) by (auto simp: best_quote_def split: list.splits)
  have m: "first_max ?key (b, q) results" using max_by_first_max [of ?key r rs] by (simp only: r)
  then have "(b, q) \<in> set results" by (auto simp: first_max_def)
  with gather_loop_eligible [OF assms(1) [unfolded gather_quotes_def]]
    gather_loop_order [OF assms(1) [unfolded gather_quotes_def]]
    gather_loop_asks_all [OF assms(1) [unfolded gather_quotes_def]] m
  show ?thesis by (auto simp: eligible_def Let_def case_prod_unfold)
qed

definition example_backends :: "backend list" where
  "example_backends = default_backends (\<lambda>_. None)"

theorem best_route_witness:
  "\<exists>results w'. gather_quotes (\<lambda>url ps hs w. (if w = (0 :: nat) then Inl (HttpError ''timeout'')
         else Inr \<lparr>resp_status = 200, resp_text = [], resp_json = Inr (JObj (quote_json example_quote)),
                  resp_raise = Inr ()\<rparr>, w + 1))
       example_backends ''BTC.BTC'' ''ETH.ETH'' 50000 None None None None 0 = (Inr results, w')
     \<and> map (be_name \<circ> fst) results = [''maya''] \<and> (\<exists>q. best_quote results = Inr (example_backends ! 1, q))"
proof -
  let ?get = "\<lambda>url ps hs w. (if w = (0 :: nat) then Inl (HttpError ''timeout'')
         else Inr \<lparr>resp_status = 200, resp_text = [], resp_json = Inr (JObj (quote_json example_quote)),
                  resp_raise = Inr ()\<rparr>, w + 1)"
  let ?q = "example_quote\<lparr>q_raw := quote_json example_quote\<rparr>"
  have q: "parse_quote (quote_json example_quote) = Inr ?q"
    by (rule quote_json_parses) (simp add: example_quote_def quote_amounts_def fee_amounts_def is_amount_def)
  have g: "gather_quotes ?get example_backends ''BTC.BTC'' ''ETH.ETH'' 50000 None None None None 0 =
      (Inr [(example_backends ! 1, ?q)], 2)"
    using q by (simp add: gather_quotes_def example_backends_def default_backends_def quote_from_def
        selection_terms_def quote_swap_def fetch_def bind_io_def read_quote_def as_dict_def
        is_http_error_def eligible_def example_quote_def)
  have b: "best_quote [(example_backends ! 1, ?q)] = Inr (example_backends ! 1, ?q)"
    by (simp add: best_quote_def)
  from best_route [OF g b] g b show ?thesis
    by (simp add: example_backends_def default_backends_def)
qed

end
