(* ===== verification/Addresses.thy ===== *)
theory Addresses
  imports Errors PyText
begin

text \<open>
  \<open>addresses.py\<close>: the per-chain acceptance rules for a payout address. A rule is a list of
  alternatives, each an lead followed by a bounded run of characters of a class; like the
  source's patterns, which end in \<open>$\<close>, an alternative also matches in front of one final
  newline.
\<close>

section \<open>Character classes and rules\<close>

definition is_b58 :: "char \<Rightarrow> bool" where
  "is_b58 c \<longleftrightarrow> c \<in> set ''123456789ABCDEFGHJKLMNPQRSTUVWXYZabcdefghijkmnopqrstuvwxyz''"

definition is_b32 :: "char \<Rightarrow> bool" where
  "is_b32 c \<longleftrightarrow> c \<in> set ''abcdefghijklmnopqrstuvwxyz0123456789''"

definition is_hex :: "char \<Rightarrow> bool" where
  "is_hex c \<longleftrightarrow> c \<in> set ''0123456789abcdefABCDEF''"

datatype lead = Lit string | OneOf string | LitOneOf string string

definition after_lit :: "string \<Rightarrow> string \<Rightarrow> string option" where
  "after_lit p s = (if prefix p s then Some (drop (length p) s) else None)"

definition after_one :: "string \<Rightarrow> string \<Rightarrow> string option" where
  "after_one cs s = (case s of [] \<Rightarrow> None | c # r \<Rightarrow> if c \<in> set cs then Some r else None)"

fun after_lead :: "lead \<Rightarrow> string \<Rightarrow> string option" where
  "after_lead (Lit p) s = after_lit p s"
| "after_lead (OneOf cs) s = after_one cs s"
| "after_lead (LitOneOf p cs) s = (case after_lit p s of None \<Rightarrow> None | Some r \<Rightarrow> after_one cs r)"

record alternative =
  alt_lead :: lead
  alt_class :: "char \<Rightarrow> bool"
  alt_min :: nat
  alt_max :: nat

definition alt :: "lead \<Rightarrow> (char \<Rightarrow> bool) \<Rightarrow> nat \<Rightarrow> nat \<Rightarrow> alternative" where
  "alt opn cls lo hi = \<lparr>alt_lead = opn, alt_class = cls, alt_min = lo, alt_max = hi\<rparr>"

definition newline :: char where
  "newline = CHR 0x0A"

definition run :: "alternative \<Rightarrow> string \<Rightarrow> bool" where
  "run a s \<longleftrightarrow> list_all (alt_class a) s \<and> alt_min a \<le> length s \<and> length s \<le> alt_max a"

text \<open>The body of an alternative up to \<open>$\<close>: the end of the text or a final newline.\<close>

definition body :: "alternative \<Rightarrow> string \<Rightarrow> bool" where
  "body a s \<longleftrightarrow> run a s \<or> (s \<noteq> [] \<and> last s = newline \<and> run a (butlast s))"

definition alt_match :: "string \<Rightarrow> alternative \<Rightarrow> bool" where
  "alt_match s a = (case after_lead (alt_lead a) s of None \<Rightarrow> False | Some r \<Rightarrow> body a r)"

definition rules :: "(string \<times> alternative list) list" where
  "rules =
     [(''BTC'', [alt (Lit ''bc1'') is_b32 11 71, alt (OneOf ''13'') is_b58 24 34]),
      (''LTC'', [alt (Lit ''ltc1'') is_b32 11 71, alt (OneOf ''LM3'') is_b58 24 34]),
      (''DOGE'', [alt (OneOf ''DA9'') is_b58 24 34]),
      (''BCH'', [alt (LitOneOf ''bitcoincash:'' ''qp'') is_b32 40 60,
                 alt (LitOneOf ''bitcoincash:'' ''13'') is_b58 24 34,
                 alt (OneOf ''qp'') is_b32 40 60, alt (OneOf ''13'') is_b58 24 34]),
      (''DASH'', [alt (OneOf ''X7'') is_b58 24 34]),
      (''ETH'', [alt (Lit ''0x'') is_hex 40 40]),
      (''TRON'', [alt (Lit ''T'') is_b58 33 33])]"

datatype address_problem = EmptyAddress | ImplausibleAddress string string

definition validate_destination_address :: "string \<Rightarrow> string \<Rightarrow> address_problem option" where
  "validate_destination_address chain address =
     (if address = [] then Some EmptyAddress
      else case map_of rules chain of
        None \<Rightarrow> None
      | Some alts \<Rightarrow>
          if \<not> list_ex (alt_match address) alts then Some (ImplausibleAddress address chain) else None)"

section \<open>Properties\<close>

text \<open>An alternative without its end anchor: lead and body, and nothing after them.\<close>

definition plain_match :: "string \<Rightarrow> alternative \<Rightarrow> bool" where
  "plain_match s a \<longleftrightarrow> (\<exists>r. after_lead (alt_lead a) s = Some r \<and> run a r)"

fun lead_text :: "lead \<Rightarrow> string" where
  "lead_text (Lit p) = p"
| "lead_text (OneOf cs) = cs"
| "lead_text (LitOneOf p cs) = p @ cs"

lemma after_lit_snoc:
  "c \<notin> set p \<Longrightarrow> after_lit p (s @ [c]) = map_option (\<lambda>r. r @ [c]) (after_lit p s)"
  using prefix_length_le [of p s] by (auto simp: after_lit_def prefix_snoc)

lemma after_one_snoc:
  "c \<notin> set cs \<Longrightarrow> after_one cs (s @ [c]) = map_option (\<lambda>r. r @ [c]) (after_one cs s)"
  by (cases s) (simp_all add: after_one_def)

lemma after_lead_snoc:
  "c \<notin> set (lead_text l) \<Longrightarrow> after_lead l (s @ [c]) = map_option (\<lambda>r. r @ [c]) (after_lead l s)"
  by (cases l) (simp_all add: after_lit_snoc after_one_snoc split: option.splits)

lemma after_lit_suffix: "after_lit p s = Some r \<Longrightarrow> suffix r s"
  by (auto simp: after_lit_def suffix_drop split: if_splits)

lemma after_one_suffix: "after_one cs s = Some r \<Longrightarrow> suffix r s"
  by (auto simp: after_one_def suffix_Cons split: list.splits if_splits)

lemma after_lead_suffix: "after_lead l s = Some r \<Longrightarrow> suffix r s"
  using suffix_order.trans
  by (cases l) (auto dest: after_lit_suffix after_one_suffix split: option.splits)

lemma after_lead_last:
  "after_lead l s = Some r \<Longrightarrow> r \<noteq> [] \<Longrightarrow> last r = last s \<and> s \<noteq> []"
  using after_lead_suffix [of l s r] by (auto simp: suffix_def)

definition newline_free :: "alternative \<Rightarrow> bool" where
  "newline_free a \<longleftrightarrow> \<not> alt_class a newline \<and> newline \<notin> set (lead_text (alt_lead a))"

lemma classes_no_newline: "\<not> is_b58 newline" "\<not> is_b32 newline" "\<not> is_hex newline"
  by (simp_all add: is_b58_def is_b32_def is_hex_def newline_def)

lemma rules_newline_free: "list_all (\<lambda>(c, alts). list_all newline_free alts) rules"
  by (simp add: rules_def alt_def newline_free_def classes_no_newline) (simp add: newline_def)

lemma rule_newline_free: "map_of rules chain = Some alts \<Longrightarrow> a \<in> set alts \<Longrightarrow> newline_free a"
  using rules_newline_free by (auto simp: list_all_iff dest!: map_of_SomeD)

lemma run_no_newline: "newline_free a \<Longrightarrow> run a s \<Longrightarrow> newline \<notin> set s"
  by (auto simp: newline_free_def run_def list_all_iff)

lemma alt_match_iff:
  assumes "newline_free a"
  shows "alt_match s a \<longleftrightarrow> plain_match s a \<or> (\<exists>t. s = t @ [newline] \<and> plain_match t a)"
proof
  assume "alt_match s a"
  then obtain r where r: "after_lead (alt_lead a) s = Some r" "body a r"
    by (auto simp: alt_match_def split: option.splits)
  show "plain_match s a \<or> (\<exists>t. s = t @ [newline] \<and> plain_match t a)"
  proof (cases "run a r")
    case True
    with r show ?thesis by (auto simp: plain_match_def)
  next
    case False
    with r have b: "r \<noteq> []" "last r = newline" "run a (butlast r)" by (auto simp: body_def)
    with after_lead_last [OF r(1)] have s: "s = butlast s @ [newline]" by (metis append_butlast_last_id)
    have "map_option (\<lambda>r. r @ [newline]) (after_lead (alt_lead a) (butlast s)) = Some r"
      using after_lead_snoc [of newline "alt_lead a" "butlast s"] s r(1) assms
      by (simp add: newline_free_def)
    then have "after_lead (alt_lead a) (butlast s) = Some (butlast r)" by auto
    with b(3) s show ?thesis by (metis plain_match_def)
  qed
next
  assume "plain_match s a \<or> (\<exists>t. s = t @ [newline] \<and> plain_match t a)"
  then show "alt_match s a"
    using assms by (auto simp: plain_match_def alt_match_def body_def after_lead_snoc newline_free_def)
qed

text \<open>
  What the addresses of each chain look like, written out: the letters by their ASCII codes, the
  forms by their first characters and their lengths.
\<close>

definition base58_letter :: "char \<Rightarrow> bool" where
  "base58_letter c \<longleftrightarrow> (let n = of_char c :: nat in
     0x31 \<le> n \<and> n \<le> 0x39 \<or> 0x41 \<le> n \<and> n \<le> 0x48 \<or> 0x4A \<le> n \<and> n \<le> 0x4E \<or> 0x50 \<le> n \<and> n \<le> 0x5A
     \<or> 0x61 \<le> n \<and> n \<le> 0x6B \<or> 0x6D \<le> n \<and> n \<le> 0x7A)"

definition lower_or_digit :: "char \<Rightarrow> bool" where
  "lower_or_digit c \<longleftrightarrow> (let n = of_char c :: nat in 0x61 \<le> n \<and> n \<le> 0x7A \<or> 0x30 \<le> n \<and> n \<le> 0x39)"

definition hex_letter :: "char \<Rightarrow> bool" where
  "hex_letter c \<longleftrightarrow> (let n = of_char c :: nat in
     0x30 \<le> n \<and> n \<le> 0x39 \<or> 0x61 \<le> n \<and> n \<le> 0x66 \<or> 0x41 \<le> n \<and> n \<le> 0x46)"

definition spelled_with :: "(char \<Rightarrow> bool) \<Rightarrow> nat \<Rightarrow> nat \<Rightarrow> string \<Rightarrow> bool" where
  "spelled_with P lo hi r \<longleftrightarrow> lo \<le> length r \<and> length r \<le> hi \<and> (\<forall>c \<in> set r. P c)"

text \<open>A legacy address: one leading character, then 24 to 34 of base 58.\<close>

definition legacy_form :: "string \<Rightarrow> string \<Rightarrow> bool" where
  "legacy_form firsts s \<longleftrightarrow> (\<exists>c r. s = c # r \<and> c \<in> set firsts \<and> spelled_with base58_letter 24 34 r)"

definition segwit_form :: "string \<Rightarrow> string \<Rightarrow> bool" where
  "segwit_form hrp s \<longleftrightarrow> (\<exists>r. s = hrp @ ''1'' @ r \<and> spelled_with lower_or_digit 11 71 r)"

definition cash_form :: "string \<Rightarrow> bool" where
  "cash_form s \<longleftrightarrow> (\<exists>c r. s = c # r \<and> c \<in> set ''qp'' \<and> spelled_with lower_or_digit 40 60 r) \<or> legacy_form ''13'' s"

definition ruled_chains :: "string list" where
  "ruled_chains = [''BTC'', ''LTC'', ''DOGE'', ''BCH'', ''DASH'', ''ETH'', ''TRON'']"

definition looks_like :: "string \<Rightarrow> string \<Rightarrow> bool" where
  "looks_like chain s \<longleftrightarrow>
     chain = ''BTC'' \<and> (segwit_form ''bc'' s \<or> legacy_form ''13'' s)
   \<or> chain = ''LTC'' \<and> (segwit_form ''ltc'' s \<or> legacy_form ''LM3'' s)
   \<or> chain = ''DOGE'' \<and> legacy_form ''DA9'' s
   \<or> chain = ''BCH'' \<and> (cash_form s \<or> (\<exists>r. s = ''bitcoincash:'' @ r \<and> cash_form r))
   \<or> chain = ''DASH'' \<and> legacy_form ''X7'' s
   \<or> chain = ''ETH'' \<and> (\<exists>r. s = ''0x'' @ r \<and> spelled_with hex_letter 40 40 r)
   \<or> chain = ''TRON'' \<and> (\<exists>r. s = ''T'' @ r \<and> spelled_with base58_letter 33 33 r)"

lemma char_by_code: "c = d \<longleftrightarrow> of_char c = (of_char d :: nat)"
  by (simp add: of_char_eq_iff)

lemma between_upt: "lo \<le> n \<and> n \<le> hi \<longleftrightarrow> n \<in> set [lo ..< Suc hi]"
  by auto

lemma classes_spelled: "is_b58 = base58_letter" "is_b32 = lower_or_digit" "is_hex = hex_letter"
  unfolding fun_eq_iff is_b58_def is_b32_def is_hex_def base58_letter_def lower_or_digit_def hex_letter_def Let_def
    list.set insert_iff empty_iff char_by_code
  by (simp_all add: between_upt del: set_upt)

lemma run_spelled: "run (alt l P lo hi) r \<longleftrightarrow> spelled_with P lo hi r"
  by (auto simp: run_def alt_def spelled_with_def list_all_iff)

lemma plain_match_alt:
  "plain_match s (alt (Lit p) P lo hi) \<longleftrightarrow> (\<exists>r. s = p @ r \<and> spelled_with P lo hi r)"
  "plain_match s (alt (OneOf cs) P lo hi) \<longleftrightarrow> (\<exists>c r. s = c # r \<and> c \<in> set cs \<and> spelled_with P lo hi r)"
  "plain_match s (alt (LitOneOf p cs) P lo hi) \<longleftrightarrow> (\<exists>c r. s = p @ c # r \<and> c \<in> set cs \<and> spelled_with P lo hi r)"
  unfolding plain_match_def run_spelled
  by (auto simp: alt_def after_lit_def after_one_def prefix_def split: option.splits list.splits)

lemma looks_like_rules:
  "map_of rules chain = Some alts \<Longrightarrow> looks_like chain s \<longleftrightarrow> list_ex (plain_match s) alts"
  unfolding rules_def map_of.simps
  by (auto simp: looks_like_def plain_match_alt classes_spelled legacy_form_def segwit_form_def cash_form_def
      split: if_splits)

lemma ruled_iff: "map_of rules chain = None \<longleftrightarrow> chain \<notin> set ruled_chains"
  by (auto simp: rules_def ruled_chains_def)

text \<open>C34. An address passes for one of the seven chains with a rule exactly when it has one of the
  forms of that chain, or one followed by a single newline, which the pattern's end anchor lets
  through; for any other chain every address but the empty one passes.\<close>

theorem address_rule_exact:
  "validate_destination_address chain address = None \<longleftrightarrow>
     (if chain \<in> set ruled_chains
      then looks_like chain address \<or> (\<exists>t. address = t @ [CHR 0x0A] \<and> looks_like chain t)
      else address \<noteq> [])"
proof (cases "map_of rules chain")
  case None
  then show ?thesis using ruled_iff [of chain] by (simp add: validate_destination_address_def)
next
  case (Some alts)
  have m: "list_ex (alt_match address) alts \<longleftrightarrow>
      list_ex (plain_match address) alts \<or> (\<exists>t. address = t @ [newline] \<and> list_ex (plain_match t) alts)"
    using alt_match_iff rule_newline_free [OF Some] by (auto simp: list_ex_iff)
  have "\<not> looks_like chain []"
    by (auto simp: looks_like_def segwit_form_def legacy_form_def cash_form_def)
  moreover have "chain \<in> set ruled_chains" using ruled_iff [of chain] Some by simp
  ultimately show ?thesis
    using Some m looks_like_rules [OF Some] by (auto simp: validate_destination_address_def newline_def)
qed

end
