(* ===== verification/Scan.thy ===== *)
theory Scan
  imports Errors PyCodec
begin

text \<open>
  \<open>chains/scan.py\<close>: gap-limit scanning of an account. \<open>derive\<close> and \<open>probe\<close> are injected
  as in the source; the addresses of one window are probed in order here, where the source
  uses a thread pool whose results it consumes in that order. The outer loop runs for as long
  as it keeps finding used addresses, so the model takes fuel, one unit per window, and
  returns \<open>None\<close> when it runs out; \<open>scan_finds_used\<close> shows how much is enough.
\<close>

definition DEFAULT_GAP_LIMIT :: nat where
  "DEFAULT_GAP_LIMIT = 20"

definition DEFAULT_WINDOW :: nat where
  "DEFAULT_WINDOW = 10"

type_synonym 'i scan_record = "string \<times> string \<times> 'i"

definition hd_path :: "string \<Rightarrow> nat \<Rightarrow> nat \<Rightarrow> string" where
  "hd_path account branch index = account @ ''/'' @ str_nat branch @ ''/'' @ str_nat index"

definition scan_window ::
    "(string \<Rightarrow> string res) \<Rightarrow> (string \<Rightarrow> ('w, 'i) pyio) \<Rightarrow> string \<Rightarrow> nat \<Rightarrow> nat \<Rightarrow> nat \<Rightarrow>
     ('w, 'i scan_record list) pyio" where
  "scan_window derive probe account branch index window =
     (let paths = map (hd_path account branch) [index..<index + window]
      in bind_io (lift_io (map_res derive paths)) (\<lambda>addresses.
         bind_io (map_io probe addresses) (\<lambda>infos.
           return_io (zip paths (zip addresses infos)))))"

definition note_record ::
    "('i \<Rightarrow> bool) \<Rightarrow> nat \<times> 'i scan_record list \<Rightarrow> 'i scan_record \<Rightarrow> nat \<times> 'i scan_record list" where
  "note_record has_history acc r =
     (case acc of (gap, found) \<Rightarrow>
        if has_history (snd (snd r)) then (0, found @ [r]) else (gap + 1, found))"

fun scan_branch ::
    "nat \<Rightarrow> (string \<Rightarrow> string res) \<Rightarrow> (string \<Rightarrow> ('w, 'i) pyio) \<Rightarrow> ('i \<Rightarrow> bool) \<Rightarrow> string \<Rightarrow> nat \<Rightarrow> nat \<Rightarrow>
     nat \<Rightarrow> nat \<Rightarrow> nat \<Rightarrow> 'i scan_record list \<Rightarrow> 'w \<Rightarrow> (('i scan_record list) res \<times> 'w) option" where
  "scan_branch fuel derive probe hist account branch gap_limit window gap index found w =
     (if gap < gap_limit then
        (case fuel of
           0 \<Rightarrow> None
         | Suc fuel' \<Rightarrow>
             (case scan_window derive probe account branch index window w of
                (Inl e, w') \<Rightarrow> Some (Inl e, w')
              | (Inr rs, w') \<Rightarrow>
                  (case foldl (note_record hist) (gap, found) rs of
                     (gap', found') \<Rightarrow>
                       scan_branch fuel' derive probe hist account branch gap_limit window
                         gap' (index + window) found' w')))
      else Some (Inr found, w))"

declare scan_branch.simps [simp del]

fun scan_branches ::
    "nat \<Rightarrow> (string \<Rightarrow> string res) \<Rightarrow> (string \<Rightarrow> ('w, 'i) pyio) \<Rightarrow> ('i \<Rightarrow> bool) \<Rightarrow> string \<Rightarrow> nat \<Rightarrow> nat \<Rightarrow>
     nat list \<Rightarrow> 'i scan_record list \<Rightarrow> 'w \<Rightarrow> (('i scan_record list) res \<times> 'w) option" where
  "scan_branches fuel derive probe hist account gap_limit window [] found w = Some (Inr found, w)"
| "scan_branches fuel derive probe hist account gap_limit window (b # bs) found w =
     (case scan_branch fuel derive probe hist account b gap_limit window 0 0 found w of
        None \<Rightarrow> None
      | Some (Inl e, w') \<Rightarrow> Some (Inl e, w')
      | Some (Inr found', w') \<Rightarrow>
          scan_branches fuel derive probe hist account gap_limit window bs found' w')"

definition scan_account ::
    "nat \<Rightarrow> (string \<Rightarrow> string res) \<Rightarrow> (string \<Rightarrow> ('w, 'i) pyio) \<Rightarrow> ('i \<Rightarrow> bool) \<Rightarrow> string \<Rightarrow> nat \<Rightarrow>
     nat list \<Rightarrow> nat \<Rightarrow> 'w \<Rightarrow> (('i scan_record list) res \<times> 'w) option" where
  "scan_account fuel derive probe hist account gap_limit branches window w =
     scan_branches fuel derive probe hist account gap_limit window branches [] w"

section \<open>How far a scan looks\<close>

text \<open>The number of unused indices right before \<open>n\<close>.\<close>

fun trail :: "(nat \<Rightarrow> bool) \<Rightarrow> nat \<Rightarrow> nat" where
  "trail used 0 = 0"
| "trail used (Suc n) = (if used n then 0 else Suc (trail used n))"

lemma trail_ge_iff: "L \<le> trail used n \<longleftrightarrow> L \<le> n \<and> (\<forall>i. n - L \<le> i \<and> i < n \<longrightarrow> \<not> used i)"
proof (induction n arbitrary: L)
  case (Suc n)
  show ?case
  proof (cases L)
    case (Suc L')
    then show ?thesis using Suc.IH [of L'] by (auto simp: less_Suc_eq intro: exI [of _ n])
  qed auto
qed auto

lemma trail_unused: "(\<And>i. N \<le> i \<Longrightarrow> \<not> used i) \<Longrightarrow> N + d \<le> n \<Longrightarrow> d \<le> trail used n"
  by (subst trail_ge_iff) auto

text \<open>Answers that do not change while the scan runs.\<close>

definition settled :: "(string \<Rightarrow> ('w, 'i) pyio) \<Rightarrow> (string \<Rightarrow> 'i) \<Rightarrow> bool" where
  "settled probe info \<longleftrightarrow> (\<forall>a w. fst (probe a w) = Inr (info a))"

definition entry_at :: "(string \<Rightarrow> string) \<Rightarrow> (string \<Rightarrow> 'i) \<Rightarrow> string \<Rightarrow> nat \<Rightarrow> nat \<Rightarrow> 'i scan_record" where
  "entry_at addr info account branch i =
     (let p = hd_path account branch i in (p, addr p, info (addr p)))"

definition used_at :: "('i \<Rightarrow> bool) \<Rightarrow> (string \<Rightarrow> string) \<Rightarrow> (string \<Rightarrow> 'i) \<Rightarrow> string \<Rightarrow> nat \<Rightarrow> nat \<Rightarrow> bool" where
  "used_at hist addr info account branch i = hist (snd (snd (entry_at addr info account branch i)))"

lemma scan_window_settled:
  assumes "settled probe info" "derive = (\<lambda>p. Inr (addr p))"
  shows "\<exists>w'. scan_window derive probe account branch index window w =
    (Inr (map (entry_at addr info account branch) [index..<index + window]), w')"
proof -
  let ?paths = "map (hd_path account branch) [index..<index + window]"
  have d: "map_res derive ?paths = Inr (map addr ?paths)"
    using assms(2) by (intro map_res_all_Inr) simp
  have "fst (probe a w) = Inr (info a)" for a w
    using assms(1) by (simp add: settled_def)
  then obtain w' where p: "map_io probe (map addr ?paths) w = (Inr (map info (map addr ?paths)), w')"
    using map_io_all_Inr [of "map addr ?paths" probe info w] by blast
  have "zip ?paths (zip (map addr ?paths) (map info (map addr ?paths))) =
      map (entry_at addr info account branch) [index..<index + window]"
    by (simp add: zip_map_map zip_same_conv_map entry_at_def Let_def comp_def)
  with d p show ?thesis by (simp add: scan_window_def Let_def bind_io_def)
qed

lemma note_records:
  assumes "a \<le> b"
  shows "foldl (note_record hist) (trail (used_at hist addr info account branch) a, found)
      (map (entry_at addr info account branch) [a..<b]) =
    (trail (used_at hist addr info account branch) b,
     found @ map (entry_at addr info account branch) (filter (used_at hist addr info account branch) [a..<b]))"
  using assms
proof (induction b rule: dec_induct)
  case base
  show ?case by simp
next
  case (step n)
  then show ?case by (simp add: note_record_def used_at_def)
qed

text \<open>
  The first multiple of the window at which the last \<open>L\<close> indices are all unused is where the
  scan of a branch stops.
\<close>

definition stops_at :: "(nat \<Rightarrow> bool) \<Rightarrow> nat \<Rightarrow> nat \<Rightarrow> nat \<Rightarrow> bool" where
  "stops_at used L window m \<longleftrightarrow>
     L \<le> trail used (window * m) \<and> (\<forall>j < m. trail used (window * j) < L)"

lemma scan_branch_settled:
  assumes s: "settled probe info" "derive = (\<lambda>p. Inr (addr p))"
    and used: "used = used_at hist addr info account branch"
    and unused: "\<And>i. N \<le> i \<Longrightarrow> \<not> used i" and window: "0 < window"
    and fuel: "N + L \<le> fuel + k" and before: "\<forall>j < k. trail used (window * j) < L"
  shows "\<exists>m w'. stops_at used L window m \<and>
    scan_branch fuel derive probe hist account branch L window (trail used (window * k)) (window * k)
      (found @ map (entry_at addr info account branch) (filter used [0..<window * k])) w =
    Some (Inr (found @ map (entry_at addr info account branch) (filter used [0..<window * m])), w')"
  using fuel before
proof (induction fuel arbitrary: k w)
  case 0
  have "N + L \<le> window * k" using 0(1) window by (metis add_0 le_trans mult.commute nat_mult_1_right
        mult_le_mono2 Suc_leI One_nat_def)
  then have "L \<le> trail used (window * k)" using unused by (rule trail_unused [rotated])
  with 0(2) show ?case
    by (intro exI [of _ k] exI [of _ w]) (simp add: stops_at_def scan_branch.simps)
next
  case (Suc fuel)
  show ?case
  proof (cases "L \<le> trail used (window * k)")
    case True
    with Suc.prems(2) show ?thesis
      by (intro exI [of _ k] exI [of _ w]) (simp add: stops_at_def scan_branch.simps)
  next
    case False
    obtain w1 where w1: "scan_window derive probe account branch (window * k) window w =
        (Inr (map (entry_at addr info account branch) [window * k..<window * k + window]), w1)"
      using scan_window_settled [OF s] by blast
    have n: "foldl (note_record hist)
        (trail used (window * k),
         found @ map (entry_at addr info account branch) (filter used [0..<window * k]))
        (map (entry_at addr info account branch) [window * k..<window * k + window]) =
      (trail used (window * Suc k),
       found @ map (entry_at addr info account branch) (filter used [0..<window * Suc k]))"
    proof -
      have "[0..<window * Suc k] = [0..<window * k] @ [window * k..<window * k + window]"
        using upt_add_eq_append [of 0 "window * k" window] by (simp add: add.commute)
      moreover have "window * Suc k = window * k + window" by simp
      ultimately show ?thesis
        using note_records [of "window * k" "window * k + window" hist addr info account branch
            "found @ map (entry_at addr info account branch) (filter used [0..<window * k])"]
        by (simp only: used le_add1 filter_append map_append append_assoc)
    qed
    have "N + L \<le> fuel + Suc k" "\<forall>j < Suc k. trail used (window * j) < L"
      using Suc.prems False by (auto simp: less_Suc_eq)
    note IH = Suc.IH [OF this, of w1]
    have eq: "window * k + window = window * Suc k" by simp
    have gap: "trail used (window * k) < L" using False by simp
    show ?thesis
      using IH
      by (subst scan_branch.simps) (simp only: gap if_True nat.case w1 prod.case sum.case n [unfolded eq] eq)
  qed
qed

lemma scan_branch_from_start:
  assumes "settled probe info" "derive = (\<lambda>p. Inr (addr p))"
    and "\<And>i. N \<le> i \<Longrightarrow> \<not> used_at hist addr info account branch i" "0 < window" "N + L \<le> fuel"
  shows "\<exists>m w'. stops_at (used_at hist addr info account branch) L window m \<and>
    scan_branch fuel derive probe hist account branch L window 0 0 found w =
    Some (Inr (found @ map (entry_at addr info account branch)
      (filter (used_at hist addr info account branch) [0..<window * m])), w')"
  using scan_branch_settled [OF assms(1,2) refl assms(3,4), where fuel = fuel and k = 0 and found = found
      and w = w and L = L] assms(5) by simp

definition branch_found ::
    "('i \<Rightarrow> bool) \<Rightarrow> (string \<Rightarrow> string) \<Rightarrow> (string \<Rightarrow> 'i) \<Rightarrow> string \<Rightarrow> nat \<Rightarrow> nat \<Rightarrow> 'i scan_record list" where
  "branch_found hist addr info account n branch =
     map (entry_at addr info account branch) (filter (used_at hist addr info account branch) [0..<n])"

lemma scan_branches_settled:
  assumes "settled probe info" "derive = (\<lambda>p. Inr (addr p))" "0 < window" "N + L \<le> fuel"
    and "\<forall>b \<in> set branches. \<forall>i \<ge> N. \<not> used_at hist addr info account b i"
  shows "\<exists>m w'. (\<forall>b \<in> set branches. stops_at (used_at hist addr info account b) L window (m b)) \<and>
    scan_branches fuel derive probe hist account L window branches found w =
    Some (Inr (found @ concat (map (\<lambda>b. branch_found hist addr info account (window * m b) b) branches)), w')"
  using assms(5)
proof (induction branches arbitrary: found w)
  case Nil
  show ?case by simp
next
  case (Cons b bs)
  have "\<not> used_at hist addr info account b i" if "N \<le> i" for i
    using Cons.prems that by simp
  from scan_branch_from_start [OF assms(1,2) this assms(3,4), where found = found and w = w]
  obtain mb w1 where b: "stops_at (used_at hist addr info account b) L window mb"
    "scan_branch fuel derive probe hist account b L window 0 0 found w =
      Some (Inr (found @ branch_found hist addr info account (window * mb) b), w1)"
    by (auto simp: branch_found_def)
  have rest: "\<forall>c \<in> set bs. \<forall>i \<ge> N. \<not> used_at hist addr info account c i"
    using Cons.prems by simp
  have stop_unique: "m' = mb" if "stops_at (used_at hist addr info account b) L window m'" for m'
    using that b(1) unfolding stops_at_def by (metis leD linorder_neqE_nat)
  from Cons.IH [OF rest, of "found @ branch_found hist addr info account (window * mb) b" w1]
  obtain m w2 where m: "\<forall>c \<in> set bs. stops_at (used_at hist addr info account c) L window (m c)"
    "scan_branches fuel derive probe hist account L window bs
       (found @ branch_found hist addr info account (window * mb) b) w1 =
     Some (Inr ((found @ branch_found hist addr info account (window * mb) b)
       @ concat (map (\<lambda>b. branch_found hist addr info account (window * m b) b) bs)), w2)"
    by blast
  define m' where "m' = m(b := mb)"
  have m'b: "m' b = mb" by (simp add: m'_def)
  have m'c: "m' c = m c" if "c \<in> set bs" for c using that m(1) stop_unique by (auto simp: m'_def)
  have "concat (map (\<lambda>c. branch_found hist addr info account (window * m' c) c) bs) =
      concat (map (\<lambda>c. branch_found hist addr info account (window * m c) c) bs)"
    by (rule arg_cong [of _ _ concat], rule map_cong) (simp_all add: m'c)
  moreover have "\<forall>c \<in> set (b # bs). stops_at (used_at hist addr info account c) L window (m' c)"
    using b(1) m(1) m'b m'c by simp
  ultimately show ?case
    using b(2) m(2) m'b by (intro exI [of _ m'] exI [of _ w2] conjI) simp_all
qed

section \<open>Properties\<close>

text \<open>C24. A scan whose addresses are all unused from some index on returns, with one unit of fuel
  per index up to there plus the gap limit; it reports, branch by branch and in order, exactly
  the used addresses below the point where it stops, and it stops at the first window boundary
  that follows a full gap of unused addresses. So a used address can only be missed when at
  least the gap limit of consecutive unused addresses precedes it.\<close>

theorem scan_finds_used:
  assumes "settled probe info" "derive = (\<lambda>p. Inr (addr p))" "0 < window" "N + L \<le> fuel"
    and "\<forall>b \<in> set branches. \<forall>i \<ge> N. \<not> used_at hist addr info account b i"
  shows "\<exists>m found w'. scan_account fuel derive probe hist account L branches window w = Some (Inr found, w')
    \<and> found = concat (map (\<lambda>b. branch_found hist addr info account (window * m b) b) branches)
    \<and> (\<forall>b \<in> set branches. stops_at (used_at hist addr info account b) L window (m b))
    \<and> (\<forall>b \<in> set branches. \<forall>i. used_at hist addr info account b i \<longrightarrow>
         entry_at addr info account b i \<in> set found
         \<or> (\<exists>n \<le> i. L \<le> n \<and> (\<forall>j. n - L \<le> j \<and> j < n \<longrightarrow> \<not> used_at hist addr info account b j)))"
proof -
  obtain m w' where m: "\<forall>b \<in> set branches. stops_at (used_at hist addr info account b) L window (m b)"
    and r: "scan_branches fuel derive probe hist account L window branches [] w =
      Some (Inr (concat (map (\<lambda>b. branch_found hist addr info account (window * m b) b) branches)), w')"
    using scan_branches_settled [OF assms, where found = "[]" and w = w] by auto
  have "entry_at addr info account b i \<in>
        set (concat (map (\<lambda>b. branch_found hist addr info account (window * m b) b) branches))
      \<or> (\<exists>n \<le> i. L \<le> n \<and> (\<forall>j. n - L \<le> j \<and> j < n \<longrightarrow> \<not> used_at hist addr info account b j))"
    if "b \<in> set branches" "used_at hist addr info account b i" for b i
  proof (cases "i < window * m b")
    case True
    with that show ?thesis by (auto simp: branch_found_def)
  next
    case False
    have "L \<le> trail (used_at hist addr info account b) (window * m b)"
      using m that(1) by (simp add: stops_at_def)
    with False show ?thesis
      by (intro disjI2 exI [of _ "window * m b"]) (simp add: trail_ge_iff)
  qed
  with m r show ?thesis by (auto simp: scan_account_def)
qed

text \<open>One used address, the fourth of the receiving branch.\<close>

theorem scan_finds_used_witness:
  "\<exists>found w'. scan_account 30 Inr (\<lambda>a. return_io (a = ''m/0/3'')) id ''m'' DEFAULT_GAP_LIMIT [0, 1]
     DEFAULT_WINDOW () = Some (Inr found, w') \<and> (''m/0/3'', ''m/0/3'', True) \<in> set found"
proof -
  let ?used = "used_at id (\<lambda>p. p) (\<lambda>a. a = ''m/0/3'') ''m''"
  have path: "hd_path ''m'' b i = ''m/0/3'' \<longleftrightarrow> b = 0 \<and> i = 3" for b i
  proof
    assume "hd_path ''m'' b i = ''m/0/3''"
    then have e: "str_nat b @ CHR ''/'' # str_nat i = str_nat 0 @ CHR ''/'' # str_nat 3"
      by (simp add: hd_path_def str_nat_eval)
    have "CHR ''/'' \<notin> set (str_nat n)" for n
      by (rule not_digit_not_in) (simp add: digit_of_def code_def)
    then have "str_nat b = str_nat 0 \<and> str_nat i = str_nat 3" using e by (metis append_Cons_eq_iff)
    then show "b = 0 \<and> i = 3" by simp
  qed (simp add: hd_path_def str_nat_eval)
  have s: "settled (\<lambda>a. return_io (a = ''m/0/3'')) (\<lambda>a. a = ''m/0/3'')" by (simp add: settled_def)
  have u: "\<forall>b \<in> set [0, 1]. \<forall>i \<ge> 4. \<not> ?used b i"
    by (auto simp: used_at_def entry_at_def Let_def path)
  have n: "?used 0 3" "entry_at (\<lambda>p. p) (\<lambda>a. a = ''m/0/3'') ''m'' 0 3 = (''m/0/3'', ''m/0/3'', True)"
    using path [of 0 3] by (simp_all add: used_at_def entry_at_def Let_def)
  from scan_finds_used [OF s, of Inr "\<lambda>p. p" DEFAULT_WINDOW 4 DEFAULT_GAP_LIMIT 30 "[0, 1]" id "''m''" "()"]
  obtain m found w' where f: "scan_account 30 Inr (\<lambda>a. return_io (a = ''m/0/3'')) id ''m'' DEFAULT_GAP_LIMIT [0, 1]
      DEFAULT_WINDOW () = Some (Inr found, w')"
    and a: "\<forall>b \<in> set [0, 1]. \<forall>i. ?used b i \<longrightarrow> entry_at (\<lambda>p. p) (\<lambda>a. a = ''m/0/3'') ''m'' b i \<in> set found
         \<or> (\<exists>n \<le> i. DEFAULT_GAP_LIMIT \<le> n \<and> (\<forall>j. n - DEFAULT_GAP_LIMIT \<le> j \<and> j < n \<longrightarrow> \<not> ?used b j))"
    using u by (auto simp: DEFAULT_WINDOW_def DEFAULT_GAP_LIMIT_def)
  from a n have "(''m/0/3'', ''m/0/3'', True) \<in> set found" by (force simp: DEFAULT_GAP_LIMIT_def)
  with f show ?thesis by blast
qed

end
