(* ===== verification/Net.thy ===== *)
theory Net
  imports Thorchain
begin

text \<open>
  \<open>net.py\<close>: the lazily created HTTP session with its context-manager lifecycle, and
  \<open>chains/base.py\<close>: the balance line every adapter prints. The sessions of the library are
  numbered in the order of their creation; the pool records which ones are open. Sending a
  request is the library's business (\<open>send\<close>); what the client decides is which session it
  goes through.
\<close>

section \<open>The client and the sessions\<close>

record session_pool =
  next_session :: nat
  open_sessions :: "nat set"

record http_client =
  hc_timeout :: rat
  hc_session :: "nat option"

definition new_client :: "rat \<Rightarrow> http_client" where
  "new_client timeout = \<lparr>hc_timeout = timeout, hc_session = None\<rparr>"

definition http_session :: "http_client \<Rightarrow> session_pool \<Rightarrow> nat \<times> http_client \<times> session_pool" where
  "http_session c p =
     (case hc_session c of
        Some i \<Rightarrow> (i, c, p)
      | None \<Rightarrow>
          (let i = next_session p
           in (i, c\<lparr>hc_session := Some i\<rparr>,
               p\<lparr>next_session := i + 1, open_sessions := insert i (open_sessions p)\<rparr>)))"

definition close_client :: "http_client \<Rightarrow> session_pool \<Rightarrow> http_client \<times> session_pool" where
  "close_client c p =
     (case hc_session c of
        Some i \<Rightarrow> (c\<lparr>hc_session := None\<rparr>, p\<lparr>open_sessions := open_sessions p - {i}\<rparr>)
      | None \<Rightarrow> (c, p))"

text \<open>\<open>_get\<close> and \<open>_post\<close>: one request through the client's session, with its timeout.\<close>

definition http_request ::
    "(nat \<Rightarrow> rat \<Rightarrow> 'q \<Rightarrow> response res) \<Rightarrow> 'q \<Rightarrow> http_client \<Rightarrow> session_pool \<Rightarrow>
     response res \<times> http_client \<times> session_pool" where
  "http_request send q c p =
     (case http_session c p of (i, c', p') \<Rightarrow> (send i (hc_timeout c') q, c', p'))"

text \<open>What a block does with its client: requests, in an order that may depend on the answers.\<close>

datatype 'q body = Done | Request 'q "response res \<Rightarrow> 'q body"

primrec run_body ::
    "(nat \<Rightarrow> rat \<Rightarrow> 'q \<Rightarrow> response res) \<Rightarrow> 'q body \<Rightarrow> http_client \<Rightarrow> session_pool \<Rightarrow>
     http_client \<times> session_pool" where
  "run_body send Done = (\<lambda>c p. (c, p))"
| "run_body send (Request q k) = (\<lambda>c p.
     case http_request send q c p of (r, c', p') \<Rightarrow> run_body send (k r) c' p')"

definition with_client ::
    "(nat \<Rightarrow> rat \<Rightarrow> 'q \<Rightarrow> response res) \<Rightarrow> 'q body \<Rightarrow> http_client \<Rightarrow> session_pool \<Rightarrow>
     http_client \<times> session_pool" where
  "with_client send b c p = (case run_body send b c p of (c', p') \<Rightarrow> close_client c' p')"

section \<open>The lifecycle as a state machine\<close>

inductive session_step :: "http_client \<times> session_pool \<Rightarrow> http_client \<times> session_pool \<Rightarrow> bool" where
  use: "http_session c p = (i, c', p') \<Longrightarrow> session_step (c, p) (c', p')"
| close: "close_client c p = (c', p') \<Longrightarrow> session_step (c, p) (c', p')"

inductive_simps session_step_pair: "session_step (c, p) (c', p')"

inductive session_reach :: "session_pool \<Rightarrow> http_client \<times> session_pool \<Rightarrow> bool" for p0 where
  start: "session_reach p0 (new_client timeout, p0)"
| step: "session_reach p0 s \<Longrightarrow> session_step s t \<Longrightarrow> session_reach p0 t"

text \<open>
  The pool seen from one client: the session it holds is open and not one of the sessions that
  were there before it; nothing else in the pool changed.
\<close>

definition client_owns :: "session_pool \<Rightarrow> http_client \<times> session_pool \<Rightarrow> bool" where
  "client_owns p0 s \<longleftrightarrow>
     (case s of (c, p) \<Rightarrow>
        next_session p0 \<le> next_session p \<and>
        (case hc_session c of
           None \<Rightarrow> open_sessions p = open_sessions p0
         | Some i \<Rightarrow> next_session p0 \<le> i \<and> i < next_session p \<and>
             open_sessions p = insert i (open_sessions p0)))"

definition fresh_pool :: "session_pool \<Rightarrow> bool" where
  "fresh_pool p \<longleftrightarrow> (\<forall>i \<in> open_sessions p. i < next_session p)"

lemma http_session_owns:
  "client_owns p0 (c, p) \<Longrightarrow> http_session c p = (i, c', p') \<Longrightarrow> client_owns p0 (c', p')"
  by (cases "hc_session c") (auto simp: client_owns_def http_session_def Let_def)

lemma close_client_owns:
  assumes "fresh_pool p0" "client_owns p0 (c, p)" "close_client c p = (c', p')"
  shows "client_owns p0 (c', p')"
proof (cases "hc_session c")
  case (Some i)
  with assms(1,2) have "i \<notin> open_sessions p0" by (auto simp: client_owns_def fresh_pool_def)
  with Some assms(2,3) show ?thesis by (auto simp: client_owns_def close_client_def)
qed (use assms in \<open>simp add: close_client_def\<close>)

lemma session_step_owns:
  "fresh_pool p0 \<Longrightarrow> client_owns p0 (c, p) \<Longrightarrow> session_step (c, p) (c', p') \<Longrightarrow> client_owns p0 (c', p')"
  unfolding session_step_pair using http_session_owns close_client_owns by blast

lemma session_reach_owns: "session_reach p0 s \<Longrightarrow> fresh_pool p0 \<Longrightarrow> client_owns p0 s"
proof (induction rule: session_reach.induct)
  case (start timeout)
  show ?case by (simp add: client_owns_def new_client_def)
next
  case (step s t)
  with step.IH [OF step.prems] show ?case
    by (cases s; cases t) (auto intro: session_step_owns)
qed

lemma run_body_reach:
  "session_reach p0 (c, p) \<Longrightarrow> session_reach p0 (run_body send b c p)"
proof (induction b arbitrary: c p)
  case Done
  then show ?case by simp
next
  case (Request q k)
  obtain i c' p' where h: "http_session c p = (i, c', p')" by (cases "http_session c p")
  have "session_reach p0 (c', p')"
    using session_reach.step [OF Request.prems] h by (auto simp: session_step_pair)
  with h Request.IH show ?case by (simp add: http_request_def)
qed

section \<open>One client, several threads\<close>

text \<open>
  \<open>scan.py\<close> probes a window of addresses from five threads through one client, and the property
  \<open>_http\<close> is not locked: a thread tests the session, creates one when there was none, assigns it
  and reads the attribute again, and other threads run between these accesses. A thread is where
  it stands in that code; a turn is its next access.
\<close>

datatype http_thread = Ready | Creating | Assigning nat | Returning | Sending nat

record http_threads =
  ht_client :: http_client
  ht_pool :: session_pool
  ht_threads :: "http_thread list"

definition open_session :: "session_pool \<Rightarrow> nat \<times> session_pool" where
  "open_session p =
     (next_session p, p\<lparr>next_session := next_session p + 1, open_sessions := insert (next_session p) (open_sessions p)\<rparr>)"

definition http_turn :: "nat \<Rightarrow> http_threads \<Rightarrow> http_threads" where
  "http_turn k s =
     (if length (ht_threads s) \<le> k then s
      else let go = (\<lambda>t. s\<lparr>ht_threads := (ht_threads s)[k := t]\<rparr>) in
        case ht_threads s ! k of
          Ready \<Rightarrow> go (if hc_session (ht_client s) = None then Creating else Returning)
        | Creating \<Rightarrow> (case open_session (ht_pool s) of (i, p) \<Rightarrow> (go (Assigning i))\<lparr>ht_pool := p\<rparr>)
        | Assigning i \<Rightarrow> (go Returning)\<lparr>ht_client := (ht_client s)\<lparr>hc_session := Some i\<rparr>\<rparr>
        | Returning \<Rightarrow> (case hc_session (ht_client s) of None \<Rightarrow> s | Some i \<Rightarrow> go (Sending i))
        | Sending i \<Rightarrow> go Ready)"

text \<open>The order in which the threads get their turns.\<close>

definition http_schedule :: "nat list \<Rightarrow> http_threads \<Rightarrow> http_threads" where
  "http_schedule ks s = fold http_turn ks s"

definition http_start :: "rat \<Rightarrow> session_pool \<Rightarrow> nat \<Rightarrow> http_threads" where
  "http_start timeout p n =
     \<lparr>ht_client = new_client timeout, ht_pool = p, ht_threads = replicate n Ready\<rparr>"

text \<open>The executor has joined its threads when the client is closed.\<close>

definition joined :: "http_threads \<Rightarrow> bool" where
  "joined s \<longleftrightarrow> (\<forall>t \<in> set (ht_threads s). t = Ready)"

definition close_shared :: "http_threads \<Rightarrow> session_pool" where
  "close_shared s = snd (close_client (ht_client s) (ht_pool s))"

text \<open>The sessions that were created since the pool was \<open>p0\<close> and are still open.\<close>

definition opened_since :: "session_pool \<Rightarrow> session_pool \<Rightarrow> nat set" where
  "opened_since p0 p = open_sessions p - open_sessions p0"

text \<open>Undisturbed, the turns of one thread are the property \<open>_http\<close> as the sequential code has it.\<close>

lemma uncontended_turns:
  assumes "http_session c p = (i, c', p')"
  shows "\<exists>ks. set ks = {0} \<and> http_schedule ks \<lparr>ht_client = c, ht_pool = p, ht_threads = [Ready]\<rparr>
    = \<lparr>ht_client = c', ht_pool = p', ht_threads = [Sending i]\<rparr>"
proof (cases "hc_session c")
  case None
  with assms show ?thesis
    by (intro exI [of _ "[0, 0, 0, 0]"])
      (auto simp: http_schedule_def http_turn_def http_session_def open_session_def Let_def)
next
  case (Some j)
  with assms show ?thesis
    by (intro exI [of _ "[0, 0]"]) (auto simp: http_schedule_def http_turn_def http_session_def)
qed

text \<open>How many threads may still create a session, and what a thread holds.\<close>

definition may_create :: "http_client \<Rightarrow> http_thread list \<Rightarrow> nat" where
  "may_create c ts = (\<Sum>t \<leftarrow> ts. of_bool (t = Creating \<or> t = Ready \<and> hc_session c = None))"

definition thread_holds :: "session_pool \<Rightarrow> http_client \<Rightarrow> session_pool \<Rightarrow> http_thread \<Rightarrow> bool" where
  "thread_holds p0 c p t \<longleftrightarrow>
     (case t of Assigning i \<Rightarrow> i \<in> opened_since p0 p | Sending i \<Rightarrow> i \<in> opened_since p0 p \<and> hc_session c \<noteq> None
      | Returning \<Rightarrow> hc_session c \<noteq> None | _ \<Rightarrow> True)"

definition shared_inv :: "session_pool \<Rightarrow> nat \<Rightarrow> http_threads \<Rightarrow> bool" where
  "shared_inv p0 n s \<longleftrightarrow>
     open_sessions (ht_pool s) = open_sessions p0 \<union> {next_session p0 ..< next_session (ht_pool s)}
     \<and> next_session p0 \<le> next_session (ht_pool s)
     \<and> next_session (ht_pool s) - next_session p0 + may_create (ht_client s) (ht_threads s) \<le> n
     \<and> (\<forall>i. hc_session (ht_client s) = Some i \<longrightarrow> i \<in> opened_since p0 (ht_pool s))
     \<and> (hc_session (ht_client s) = None \<longrightarrow> (\<forall>i \<in> opened_since p0 (ht_pool s). Assigning i \<in> set (ht_threads s)))
     \<and> (\<forall>t \<in> set (ht_threads s). thread_holds p0 (ht_client s) (ht_pool s) t)"

lemma shared_inv_opened:
  assumes "shared_inv p0 n s" "fresh_pool p0"
  shows "opened_since p0 (ht_pool s) = {next_session p0 ..< next_session (ht_pool s)}"
  using assms by (fastforce simp: shared_inv_def opened_since_def fresh_pool_def)

lemma may_create_update:
  assumes "k < length ts"
  shows "may_create c (ts[k := t]) + of_bool (ts ! k = Creating \<or> ts ! k = Ready \<and> hc_session c = None)
    = may_create c ts + of_bool (t = Creating \<or> t = Ready \<and> hc_session c = None)"
proof -
  let ?f = "\<lambda>t. of_bool (t = Creating \<or> t = Ready \<and> hc_session c = None) :: nat"
  have "?f (ts ! k) \<le> sum_list (map ?f ts)" using assms by (intro member_le_sum_list) simp_all
  then show ?thesis
    using assms by (simp add: may_create_def map_update sum_list_update)
qed

lemma may_create_assigned: "may_create (c\<lparr>hc_session := Some i\<rparr>) ts \<le> may_create c ts"
  unfolding may_create_def by (rule sum_list_mono) simp

lemma set_update_keep: "x \<in> set xs \<Longrightarrow> x \<noteq> xs ! k \<Longrightarrow> x \<in> set (xs[k := y])"
  by (metis in_set_conv_nth length_list_update nth_list_update_neq)

lemma held_update:
  "\<forall>t \<in> set ts. P t \<Longrightarrow> P x \<Longrightarrow> \<forall>t \<in> set (ts[k := x]). P t"
  using set_update_subset_insert by fastforce

lemma shared_inv_move:
  assumes inv: "shared_inv p0 n s" and k: "k < length (ht_threads s)"
    and t: "thread_holds p0 (ht_client s) (ht_pool s) t" "t = Creating \<longrightarrow> ht_threads s ! k = Ready \<and> hc_session (ht_client s) = None"
      "t = Ready \<longrightarrow> hc_session (ht_client s) \<noteq> None"
    and a: "\<And>i. ht_threads s ! k = Assigning i \<Longrightarrow> hc_session (ht_client s) \<noteq> None"
  shows "shared_inv p0 n (s\<lparr>ht_threads := (ht_threads s)[k := t]\<rparr>)"
proof -
  let ?ts = "(ht_threads s)[k := t]"
  have "may_create (ht_client s) ?ts \<le> may_create (ht_client s) (ht_threads s)"
    using may_create_update [OF k, of "ht_client s" t] t(2,3) by (cases "t = Creating") (auto split: if_splits)
  moreover have "\<forall>x \<in> set ?ts. thread_holds p0 (ht_client s) (ht_pool s) x"
    using inv t(1) by (intro held_update) (simp_all add: shared_inv_def)
  moreover have "Assigning i \<in> set ?ts"
    if "hc_session (ht_client s) = None" "i \<in> opened_since p0 (ht_pool s)" for i
    using inv that a [of i] by (intro set_update_keep) (auto simp: shared_inv_def dest: sym)
  ultimately show ?thesis using inv by (simp add: shared_inv_def) arith
qed

lemma shared_inv_create:
  assumes inv: "shared_inv p0 n s" and fresh: "fresh_pool p0" and k: "k < length (ht_threads s)"
    and c: "ht_threads s ! k = Creating"
  shows "shared_inv p0 n (s\<lparr>ht_threads := (ht_threads s)[k := Assigning (next_session (ht_pool s))],
    ht_pool := snd (open_session (ht_pool s))\<rparr>)"
proof -
  let ?p = "snd (open_session (ht_pool s))" and ?t = "Assigning (next_session (ht_pool s))"
  let ?ts = "(ht_threads s)[k := ?t]"
  have more: "opened_since p0 ?p = insert (next_session (ht_pool s)) (opened_since p0 (ht_pool s))"
    using inv fresh by (fastforce simp: shared_inv_def open_session_def opened_since_def fresh_pool_def)
  have "thread_holds p0 (ht_client s) ?p t" if "thread_holds p0 (ht_client s) (ht_pool s) t" for t
    using that by (simp add: thread_holds_def more split: http_thread.splits)
  moreover have "thread_holds p0 (ht_client s) ?p ?t" by (simp add: thread_holds_def more)
  ultimately have "\<forall>t \<in> set ?ts. thread_holds p0 (ht_client s) ?p t"
    using inv by (intro held_update) (simp_all add: shared_inv_def)
  moreover have "Assigning i \<in> set ?ts" if "hc_session (ht_client s) = None" "i \<in> opened_since p0 ?p" for i
  proof (cases "i = next_session (ht_pool s)")
    case True
    then show ?thesis using set_update_memI [OF k] by simp
  next
    case False
    with that inv have "Assigning i \<in> set (ht_threads s)" by (simp add: shared_inv_def more)
    then show ?thesis using c by (intro set_update_keep) simp_all
  qed
  moreover have "open_sessions ?p = open_sessions p0 \<union> {next_session p0 ..< next_session ?p}"
    "next_session ?p = Suc (next_session (ht_pool s))" "next_session p0 \<le> next_session (ht_pool s)"
    using inv by (auto simp: shared_inv_def open_session_def)
  moreover have "Suc (may_create (ht_client s) ?ts) = may_create (ht_client s) (ht_threads s)"
    using may_create_update [OF k, of "ht_client s" ?t] c by simp
  ultimately show ?thesis
    using inv by (simp add: shared_inv_def more Suc_diff_le) linarith
qed

lemma shared_inv_assign:
  assumes inv: "shared_inv p0 n s" and k: "k < length (ht_threads s)" and c: "ht_threads s ! k = Assigning i"
  shows "shared_inv p0 n (s\<lparr>ht_threads := (ht_threads s)[k := Returning],
    ht_client := (ht_client s)\<lparr>hc_session := Some i\<rparr>\<rparr>)"
proof -
  let ?c = "(ht_client s)\<lparr>hc_session := Some i\<rparr>"
  have "i \<in> opened_since p0 (ht_pool s)"
    using inv k c nth_mem [OF k] by (fastforce simp: shared_inv_def thread_holds_def)
  moreover have "\<forall>t \<in> set ((ht_threads s)[k := Returning]). thread_holds p0 ?c (ht_pool s) t"
    using inv by (intro held_update) (auto simp: shared_inv_def thread_holds_def split: http_thread.splits)
  moreover have "may_create ?c ((ht_threads s)[k := Returning]) \<le> may_create (ht_client s) (ht_threads s)"
    using may_create_assigned [where c = "ht_client s" and i = i and ts = "(ht_threads s)[k := Returning]"]
      may_create_update [OF k, of "ht_client s" Returning] c by simp
  ultimately show ?thesis using inv by (simp add: shared_inv_def) arith
qed

lemma shared_inv_turn:
  assumes inv: "shared_inv p0 n s" and fresh: "fresh_pool p0"
  shows "shared_inv p0 n (http_turn k s)"
proof (cases "k < length (ht_threads s)")
  case False
  then show ?thesis using inv by (simp add: http_turn_def)
next
  case k: True
  have held: "thread_holds p0 (ht_client s) (ht_pool s) (ht_threads s ! k)"
    using inv k by (auto simp: shared_inv_def)
  show ?thesis
  proof (cases "ht_threads s ! k")
    case Ready
    then show ?thesis
      using shared_inv_move [OF inv k] k by (simp add: http_turn_def thread_holds_def)
  next
    case Creating
    then show ?thesis
      using shared_inv_create [OF inv fresh k] k by (simp add: http_turn_def open_session_def)
  next
    case (Assigning i)
    then show ?thesis
      using shared_inv_assign [OF inv k] k by (simp add: http_turn_def)
  next
    case Returning
    with held obtain i where i: "hc_session (ht_client s) = Some i" by (auto simp: thread_holds_def)
    with inv have "thread_holds p0 (ht_client s) (ht_pool s) (Sending i)" by (simp add: shared_inv_def thread_holds_def)
    with Returning i k show ?thesis using shared_inv_move [OF inv k] by (simp add: http_turn_def)
  next
    case (Sending i)
    with held have "hc_session (ht_client s) \<noteq> None" by (simp add: thread_holds_def)
    with Sending k show ?thesis using shared_inv_move [OF inv k] by (simp add: http_turn_def thread_holds_def)
  qed
qed

lemma shared_inv_start: "shared_inv p n (http_start timeout p n)"
proof -
  have "may_create (new_client timeout) (replicate n Ready) = n"
    by (simp add: may_create_def new_client_def sum_list_replicate)
  then show ?thesis
    by (simp add: shared_inv_def http_start_def opened_since_def new_client_def thread_holds_def)
qed

lemma shared_inv_schedule:
  assumes "fresh_pool p"
  shows "shared_inv p n (http_schedule ks (http_start timeout p n))"
proof -
  have "shared_inv p n (fold http_turn ks s)" if "shared_inv p n s" for s
    using that by (induction ks arbitrary: s) (simp_all add: shared_inv_turn [OF _ assms])
  then show ?thesis by (simp add: http_schedule_def shared_inv_start)
qed

text \<open>The worst order: every thread tests the session before any of them has assigned one.\<close>

definition lockstep :: "nat \<Rightarrow> nat list" where
  "lockstep n = concat (replicate 5 [0 ..< n])"

definition round_state :: "(nat \<Rightarrow> http_thread) \<Rightarrow> (nat \<Rightarrow> http_thread) \<Rightarrow> nat \<Rightarrow> nat \<Rightarrow> http_thread list" where
  "round_state A B n j = map A [0 ..< j] @ map B [j ..< n]"

lemma round_nth: "j < n \<Longrightarrow> round_state A B n j ! j = B j"
  by (simp add: round_state_def nth_append)

lemma round_length [simp]: "j \<le> n \<Longrightarrow> length (round_state A B n j) = n"
  by (simp add: round_state_def)

lemma round_update: "j < n \<Longrightarrow> (round_state A B n j)[j := A j] = round_state A B n (Suc j)"
  by (simp add: round_state_def list_update_append upt_conv_Cons)

lemma round_end: "round_state A B n n = round_state C A n 0"
  by (simp add: round_state_def)

lemma round_turns:
  assumes "\<And>j. j < n \<Longrightarrow> http_turn j (f j) = f (Suc j)"
  shows "http_schedule [0 ..< n] (f 0) = f n"
proof -
  have "http_schedule [0 ..< j] (f 0) = f j" if "j \<le> n" for j
    using that by (induction j) (simp_all add: http_schedule_def assms)
  then show ?thesis by simp
qed

lemma lockstep_opens:
  assumes "0 < n"
  shows "\<exists>c p. http_schedule (lockstep n) (http_start timeout p0 n) = \<lparr>ht_client = c, ht_pool = p, ht_threads = replicate n Ready\<rparr>
    \<and> hc_session c = Some (next_session p0 + n - 1)
    \<and> open_sessions p = open_sessions p0 \<union> {next_session p0 ..< next_session p0 + n}"
proof -
  let ?m = "next_session p0" and ?c = "new_client timeout"
  let ?p = "\<lambda>j. p0\<lparr>next_session := ?m + j, open_sessions := open_sessions p0 \<union> {?m ..< ?m + j}\<rparr>"
  let ?held = "\<lambda>j. ?c\<lparr>hc_session := (if j = 0 then None else Some (?m + j - 1))\<rparr>"
  let ?last = "?m + n - 1"
  let ?r = "\<lambda>_ :: nat. Ready" and ?e = "\<lambda>_ :: nat. Creating" and ?a = "\<lambda>j. Assigning (?m + j)"
    and ?g = "\<lambda>_ :: nat. Returning" and ?s = "\<lambda>_ :: nat. Sending ?last"
  let ?st = "\<lambda>c p ts. \<lparr>ht_client = c, ht_pool = p, ht_threads = ts\<rparr>"
  note turn = http_turn_def round_nth round_update open_session_def Let_def
  have 1: "http_schedule [0 ..< n] (?st ?c p0 (round_state ?e ?r n 0)) = ?st ?c p0 (round_state ?e ?r n n)"
    by (rule round_turns [where f = "\<lambda>j. ?st ?c p0 (round_state ?e ?r n j)"])
      (use round_update [of _ n ?e ?r] in \<open>simp add: turn new_client_def\<close>)
  have 2: "http_schedule [0 ..< n] (?st ?c (?p 0) (round_state ?a ?e n 0)) = ?st ?c (?p n) (round_state ?a ?e n n)"
    by (rule round_turns [where f = "\<lambda>j. ?st ?c (?p j) (round_state ?a ?e n j)"])
      (use round_update [of _ n ?a ?e] in \<open>simp add: turn atLeastLessThanSuc\<close>)
  have 3: "http_schedule [0 ..< n] (?st (?held 0) (?p n) (round_state ?g ?a n 0)) = ?st (?held n) (?p n) (round_state ?g ?a n n)"
    by (rule round_turns [where f = "\<lambda>j. ?st (?held j) (?p n) (round_state ?g ?a n j)"])
      (use round_update [of _ n ?g ?a] in \<open>simp add: turn\<close>)
  have 4: "http_schedule [0 ..< n] (?st (?held n) (?p n) (round_state ?s ?g n 0)) = ?st (?held n) (?p n) (round_state ?s ?g n n)"
    by (rule round_turns [where f = "\<lambda>j. ?st (?held n) (?p n) (round_state ?s ?g n j)"])
      (use assms round_update [of _ n ?s ?g] in \<open>simp add: turn\<close>)
  have 5: "http_schedule [0 ..< n] (?st (?held n) (?p n) (round_state ?r ?s n 0)) = ?st (?held n) (?p n) (round_state ?r ?s n n)"
    by (rule round_turns [where f = "\<lambda>j. ?st (?held n) (?p n) (round_state ?r ?s n j)"])
      (use round_update [of _ n ?r ?s] in \<open>simp add: turn\<close>)
  have start: "http_start timeout p0 n = ?st ?c p0 (round_state ?e ?r n 0)"
    by (simp add: http_start_def round_state_def map_replicate_const)
  have pool: "?p 0 = p0" "?held 0 = ?c" by (simp_all add: new_client_def)
  have five: "http_schedule (lockstep n) s = http_schedule [0 ..< n] (http_schedule [0 ..< n] (http_schedule [0 ..< n]
      (http_schedule [0 ..< n] (http_schedule [0 ..< n] s))))" for s
    by (simp add: http_schedule_def lockstep_def eval_nat_numeral)
  have "http_schedule (lockstep n) (http_start timeout p0 n) = ?st (?held n) (?p n) (round_state ?r ?s n n)"
    unfolding five start 1
    unfolding round_end [of ?e ?r n ?a] 2 [unfolded pool]
    unfolding round_end [of ?a ?e n ?g] 3 [unfolded pool]
    unfolding round_end [of ?g ?a n ?s] 4
    unfolding round_end [of ?s ?g n ?r] 5 ..
  with assms show ?thesis
    by (intro exI [of _ "?held n"] exI [of _ "?p n"]) (simp add: round_state_def map_replicate_const)
qed

section \<open>Properties\<close>

lemma sequential_client_closes:
  assumes "fresh_pool p0"
  shows "open_sessions (snd (with_client send b (new_client timeout) p0)) = open_sessions p0
    \<and> hc_session (fst (with_client send b (new_client timeout) p0)) = None"
proof -
  obtain c p where r: "run_body send b (new_client timeout) p0 = (c, p)"
    by (cases "run_body send b (new_client timeout) p0")
  have "session_reach p0 (c, p)"
    using run_body_reach [OF session_reach.start, of p0 send b timeout] r by simp
  moreover obtain c' p' where cl: "close_client c p = (c', p')" by (cases "close_client c p")
  ultimately have "session_reach p0 (close_client c p)"
    using session_reach.step [of p0 "(c, p)" "(c', p')"] by (simp add: session_step_pair)
  then have "client_owns p0 (close_client c p)" using assms by (rule session_reach_owns)
  moreover have "hc_session (fst (close_client c p)) = None"
    by (simp add: close_client_def split: option.splits)
  ultimately show ?thesis using r cl by (simp add: with_client_def client_owns_def)
qed

lemma shared_inv_card:
  assumes "shared_inv p0 n s" "fresh_pool p0"
  shows "card (opened_since p0 (ht_pool s)) \<le> n"
  using assms(1) unfolding shared_inv_opened [OF assms] by (simp add: shared_inv_def)

lemma shared_inv_closed:
  assumes "shared_inv p0 n s" "fresh_pool p0" "joined s"
  shows "card (opened_since p0 (close_shared s)) = card (opened_since p0 (ht_pool s)) - 1"
proof (cases "hc_session (ht_client s)")
  case None
  with assms have "opened_since p0 (ht_pool s) = {}" by (auto simp: shared_inv_def joined_def)
  with None show ?thesis by (simp add: close_shared_def close_client_def)
next
  case (Some i)
  with assms(1) have i: "i \<in> opened_since p0 (ht_pool s)" by (simp add: shared_inv_def)
  have "opened_since p0 (close_shared s) = opened_since p0 (ht_pool s) - {i}"
    using Some by (auto simp: opened_since_def close_shared_def close_client_def)
  moreover have "finite (opened_since p0 (ht_pool s))" unfolding shared_inv_opened [OF assms(1,2)] by simp
  ultimately show ?thesis using i by simp
qed

text \<open>C38. A client that one thread uses in a context block leaves no session open, whatever requests
  the block makes and whatever their answers. Shared by the threads of a scan it does not keep that
  promise, because \<open>_http\<close> tests and assigns without a lock: in every order of their accesses at
  most one session per thread is created, requests only go through open sessions, sessions of other
  clients stay as they were, and closing the client after the threads have been joined closes just
  one of the created sessions; and there is an order in which each of \<open>n\<close> threads creates one, so
  that \<open>n - 1\<close> sessions are left open.\<close>

theorem client_sessions:
  assumes "fresh_pool p0" "0 < n"
  shows "open_sessions (snd (with_client send b (new_client timeout) p0)) = open_sessions p0
    \<and> (\<forall>ks. let s = http_schedule ks (http_start timeout p0 n) in
          card (opened_since p0 (ht_pool s)) \<le> n \<and> open_sessions p0 \<subseteq> open_sessions (ht_pool s)
          \<and> (\<forall>i. Sending i \<in> set (ht_threads s) \<longrightarrow> i \<in> open_sessions (ht_pool s))
          \<and> (joined s \<longrightarrow> card (opened_since p0 (close_shared s)) = card (opened_since p0 (ht_pool s)) - 1))
    \<and> (\<exists>ks. let s = http_schedule ks (http_start timeout p0 n) in
          joined s \<and> card (opened_since p0 (close_shared s)) = n - 1)"
proof (intro conjI allI)
  show "open_sessions (snd (with_client send b (new_client timeout) p0)) = open_sessions p0"
    using sequential_client_closes [OF assms(1)] by blast
  fix ks
  let ?s = "http_schedule ks (http_start timeout p0 n)"
  have inv: "shared_inv p0 n ?s" by (rule shared_inv_schedule [OF assms(1)])
  then have "open_sessions p0 \<subseteq> open_sessions (ht_pool ?s)"
    "\<forall>i. Sending i \<in> set (ht_threads ?s) \<longrightarrow> i \<in> open_sessions (ht_pool ?s)"
    by (auto simp: shared_inv_def thread_holds_def opened_since_def)
  then show "let s = ?s in
          card (opened_since p0 (ht_pool s)) \<le> n \<and> open_sessions p0 \<subseteq> open_sessions (ht_pool s)
          \<and> (\<forall>i. Sending i \<in> set (ht_threads s) \<longrightarrow> i \<in> open_sessions (ht_pool s))
          \<and> (joined s \<longrightarrow> card (opened_since p0 (close_shared s)) = card (opened_since p0 (ht_pool s)) - 1)"
    using shared_inv_card [OF inv assms(1)] shared_inv_closed [OF inv assms(1)] by (simp add: Let_def)
next
  let ?s = "http_schedule (lockstep n) (http_start timeout p0 n)"
  have inv: "shared_inv p0 n ?s" by (rule shared_inv_schedule [OF assms(1)])
  from lockstep_opens [OF assms(2)] obtain c p where
    s: "?s = \<lparr>ht_client = c, ht_pool = p, ht_threads = replicate n Ready\<rparr>"
    and p: "open_sessions p = open_sessions p0 \<union> {next_session p0 ..< next_session p0 + n}" by blast
  have j: "joined ?s" by (simp add: s joined_def)
  have "opened_since p0 p = {next_session p0 ..< next_session p0 + n}"
    using assms(1) p by (fastforce simp: opened_since_def fresh_pool_def)
  then have "card (opened_since p0 (ht_pool ?s)) = n" by (simp add: s)
  with shared_inv_closed [OF inv assms(1) j] j
  show "\<exists>ks. let s = http_schedule ks (http_start timeout p0 n) in
          joined s \<and> card (opened_since p0 (close_shared s)) = n - 1"
    by (intro exI [of _ "lockstep n"]) (simp add: Let_def)
qed

theorem client_sessions_witness:
  "open_sessions (snd (with_client (\<lambda>i t q. Inl (HttpError ''timeout''))
     (Request () (\<lambda>r. Request () (\<lambda>r. Done))) (new_client 20) \<lparr>next_session = 2, open_sessions = {1}\<rparr>)) = {1}
   \<and> (\<exists>ks. let s = http_schedule ks (http_start 20 \<lparr>next_session = 2, open_sessions = {1}\<rparr> 5) in
          joined s \<and> card (opened_since \<lparr>next_session = 2, open_sessions = {1}\<rparr> (close_shared s)) = 4)"
  using client_sessions [of "\<lparr>next_session = 2, open_sessions = {1}\<rparr>" 5 "\<lambda>i t q. Inl (HttpError ''timeout'')"
      "Request () (\<lambda>r. Request () (\<lambda>r. Done))" 20]
  by (simp add: fresh_pool_def)

text \<open>A poster of JSON bodies, as the adapters use one: url and body.\<close>

type_synonym 'w json_post = "string \<Rightarrow> json \<Rightarrow> ('w, response) pyio"

section \<open>Balance reports\<close>

record balance_report =
  br_symbol :: string
  br_confirmed :: int
  br_decimals :: int
  br_pending :: int
  br_note :: string
  br_addresses :: "string list"

text \<open>\<open>BalanceReport.format\<close>; \<open>decimals\<close> is not negative.\<close>

definition balance_line :: "balance_report \<Rightarrow> string res" where
  "balance_line r =
     bind_res (py_truediv (br_confirmed r) (10 ^ nat (br_decimals r))) (\<lambda>amount.
     bind_res
       (if br_pending r \<noteq> 0
        then bind_res (py_truediv (br_pending r) (10 ^ nat (br_decimals r))) (\<lambda>x.
               Inr ('' (+'' @ fmt_fixed 8 x @ '' pending)''))
        else Inr []) (\<lambda>pending.
       Inr (br_symbol r @ '': '' @ fmt_fixed 8 amount @ pending
            @ (if br_note r \<noteq> [] then ''  '' @ br_note r else []))))"

end
