(* ===== verification/Btc.thy ===== *)
theory Btc
  imports Swap Scan Net
begin

text \<open>
  \<open>chains/btc.py\<close>: the Bitcoin adapter. bitcoinlib is the record \<open>btclib\<close> of the calls the
  adapter makes (a transaction is an opaque value that the calls return updated, where the
  library mutates it); \<open>btclib_ok\<close> states what the adapter relies on. The Esplora endpoints
  are reached through getters and posters that are arguments.
\<close>

definition DEFAULT_DERIVATION :: string where
  "DEFAULT_DERIVATION = ''m/84'' @ [CHR 0x27] @ ''/0'' @ [CHR 0x27] @ ''/0'' @ [CHR 0x27] @ ''/0/0''"

definition ACCOUNT :: string where
  "ACCOUNT = ''m/84'' @ [CHR 0x27] @ ''/0'' @ [CHR 0x27] @ ''/0'' @ [CHR 0x27]"

section \<open>The library\<close>

record lib_output =
  lo_script_type :: string
  lo_value :: int
  lo_lock_script :: bytes
  lo_address :: string

record ('k, 'tx) btclib =
  bl_hdkey :: "string \<Rightarrow> string \<Rightarrow> string \<Rightarrow> string \<Rightarrow> 'k res"
  bl_address :: "'k \<Rightarrow> string res"
  bl_new_tx :: "string \<Rightarrow> 'tx"
  bl_add_input :: "'tx \<Rightarrow> string \<Rightarrow> int \<Rightarrow> int \<Rightarrow> 'k \<Rightarrow> 'tx res"
  bl_add_output :: "'tx \<Rightarrow> int \<Rightarrow> string \<Rightarrow> 'tx res"
  bl_add_script :: "'tx \<Rightarrow> int \<Rightarrow> bytes \<Rightarrow> 'tx res"
  bl_outputs :: "'tx \<Rightarrow> lib_output list"
  bl_sign :: "'tx \<Rightarrow> 'k list \<Rightarrow> 'tx res"
  bl_input_signed :: "'tx \<Rightarrow> bool list"
  bl_verify :: "'tx \<Rightarrow> bool res"
  bl_raw_hex :: "'tx \<Rightarrow> string"

record btc_adapter =
  ba_esplora_url :: string
  ba_passphrase :: string
  ba_network :: string

definition btc_adapter :: "string \<Rightarrow> string \<Rightarrow> string \<Rightarrow> btc_adapter" where
  "btc_adapter esplora_url passphrase network =
     \<lparr>ba_esplora_url = rstrip_char (CHR ''/'') esplora_url, ba_passphrase = passphrase,
      ba_network = network\<rparr>"

definition btc_hdkey :: "('k, 'tx) btclib \<Rightarrow> btc_adapter \<Rightarrow> string \<Rightarrow> string \<Rightarrow> 'k res" where
  "btc_hdkey lib ad mnemonic path = bl_hdkey lib (ba_network ad) mnemonic (ba_passphrase ad) path"

definition btc_derive_address :: "('k, 'tx) btclib \<Rightarrow> btc_adapter \<Rightarrow> string \<Rightarrow> string \<Rightarrow> string res" where
  "btc_derive_address lib ad mnemonic path = bind_res (btc_hdkey lib ad mnemonic path) (bl_address lib)"

section \<open>Building\<close>

record ('k, 'tx) btc_built =
  bt_tx :: 'tx
  bt_outputs :: "tx_output list"
  bt_fee :: int
  bt_change_address :: string
  bt_keys :: "'k list"

definition extract_output :: "lib_output \<Rightarrow> tx_output res" where
  "extract_output o' =
     (if lo_script_type o' = ''nulldata''
      then bind_res (decode_op_return (lo_lock_script o')) (\<lambda>d.
             Inr \<lparr>out_address = None, out_value = lo_value o', out_data = Some d\<rparr>)
      else Inr \<lparr>out_address = Some (lo_address o'), out_value = lo_value o', out_data = None\<rparr>)"

definition extract_outputs :: "('k, 'tx) btclib \<Rightarrow> 'tx \<Rightarrow> tx_output list res" where
  "extract_outputs lib tx = map_res extract_output (bl_outputs lib tx)"

text \<open>\<open>x or default\<close> for an optional string.\<close>

definition str_or :: "string option \<Rightarrow> string \<Rightarrow> string" where
  "str_or x dflt = (case x of None \<Rightarrow> dflt | Some s \<Rightarrow> if s = [] then dflt else s)"

fun add_inputs ::
    "('k, 'tx) btclib \<Rightarrow> btc_adapter \<Rightarrow> string \<Rightarrow> string \<Rightarrow> utxo list \<Rightarrow> 'tx \<Rightarrow> ('tx \<times> 'k list) res" where
  "add_inputs lib ad mnemonic default_path [] tx = Inr (tx, [])"
| "add_inputs lib ad mnemonic default_path (u # us) tx =
     bind_res (btc_hdkey lib ad mnemonic (str_or (utxo_path u) default_path)) (\<lambda>key.
     bind_res (bl_add_input lib tx (utxo_txid u) (utxo_vout u) (utxo_value u) key) (\<lambda>tx'.
     bind_res (add_inputs lib ad mnemonic default_path us tx') (\<lambda>(tx'', keys).
       Inr (tx'', key # keys))))"

definition fund_swap ::
    "utxo list \<Rightarrow> int \<Rightarrow> rat \<Rightarrow> bytes \<Rightarrow> bool \<Rightarrow> selection res" where
  "fund_swap utxos amount fee_rate memo_bytes sweep =
     (if sweep then
        (let fee = total_value utxos - amount
         in if fee < 0 then Inl (InsufficientFunds ''amount exceeds balance'' [amount])
            else Inr \<lparr>sel_utxos = utxos, sel_fee = fee, sel_change = 0\<rparr>)
      else select_coins utxos amount fee_rate (int (length memo_bytes)) DUST_P2WPKH)"

definition add_outputs ::
    "('k, 'tx) btclib \<Rightarrow> 'tx \<Rightarrow> string \<Rightarrow> int \<Rightarrow> string option \<Rightarrow> int \<Rightarrow> string \<Rightarrow> 'tx res" where
  "add_outputs lib tx vault amount memo change change_address =
     bind_res (bl_add_output lib tx amount vault) (\<lambda>tx1.
     bind_res
       (case memo of
          None \<Rightarrow> Inr tx1
        | Some m \<Rightarrow> bind_res (encode_op_return (utf8_encode m)) (bl_add_script lib tx1 0)) (\<lambda>tx2.
       if 0 < change then bl_add_output lib tx2 change change_address else Inr tx2))"

definition build_unsigned_swap ::
    "('k, 'tx) btclib \<Rightarrow> btc_adapter \<Rightarrow> string \<Rightarrow> utxo list \<Rightarrow> string \<Rightarrow> int \<Rightarrow> string option \<Rightarrow> rat \<Rightarrow>
     string option \<Rightarrow> string \<Rightarrow> bool \<Rightarrow> ('k, 'tx) btc_built res" where
  "build_unsigned_swap lib ad mnemonic utxos vault amount memo fee_rate change_address default_path sweep =
     bind_res
       (case change_address of
          Some (c # cs) \<Rightarrow> Inr (c # cs)
        | _ \<Rightarrow> btc_derive_address lib ad mnemonic default_path) (\<lambda>change_addr.
     bind_res (fund_swap utxos amount fee_rate
         (case memo of None \<Rightarrow> [] | Some m \<Rightarrow> utf8_encode m) sweep) (\<lambda>sel.
     bind_res (add_inputs lib ad mnemonic default_path (sel_utxos sel) (bl_new_tx lib (ba_network ad)))
       (\<lambda>(tx, keys).
     bind_res (add_outputs lib tx vault amount memo (sel_change sel) change_addr) (\<lambda>tx'.
     bind_res (extract_outputs lib tx') (\<lambda>outputs.
       Inr \<lparr>bt_tx = tx', bt_outputs = outputs, bt_fee = sel_fee sel,
            bt_change_address = change_addr, bt_keys = keys\<rparr>)))))"

section \<open>Signing\<close>

fun unsigned_from :: "nat \<Rightarrow> bool list \<Rightarrow> nat list" where
  "unsigned_from i [] = []"
| "unsigned_from i (s # ss) = (if \<not> s then i # unsigned_from (i + 1) ss else unsigned_from (i + 1) ss)"

definition btc_sign :: "('k, 'tx) btclib \<Rightarrow> ('k, 'tx) btc_built \<Rightarrow> string list res" where
  "btc_sign lib built =
     bind_res (bl_sign lib (bt_tx built) (bt_keys built)) (\<lambda>tx.
       if unsigned_from 0 (bl_input_signed lib tx) \<noteq> []
       then Inl (RuntimeError ''refusing to broadcast: inputs left unsigned'')
       else bind_res (bl_verify lib tx) (\<lambda>ok.
         if \<not> ok then Inl (RuntimeError ''refusing to broadcast: signature verification'')
         else Inr [bl_raw_hex lib tx]))"

section \<open>Build and verify\<close>

record btc_kwargs =
  bk_mnemonic :: string
  bk_utxos :: "utxo list"
  bk_fee_rate :: rat
  bk_change_address :: string
  bk_max_fee :: int
  bk_sweep :: bool

definition owned_addresses :: "btc_kwargs \<Rightarrow> string set" where
  "owned_addresses kw = {bk_change_address kw} \<union> set (map utxo_address (bk_utxos kw))"

definition build_with ::
    "('k, 'tx) btclib \<Rightarrow> btc_adapter \<Rightarrow> btc_kwargs \<Rightarrow> string \<Rightarrow> int \<Rightarrow> string option \<Rightarrow> ('k, 'tx) btc_built res" where
  "build_with lib ad kw payee amount memo =
     build_unsigned_swap lib ad (bk_mnemonic kw) (bk_utxos kw) payee amount memo (bk_fee_rate kw)
       (Some (bk_change_address kw)) DEFAULT_DERIVATION (bk_sweep kw)"

datatype btc_plan = BtcSwapPlan swap_plan | BtcSendPlan send_plan

definition btc_gate_swap ::
    "btc_kwargs \<Rightarrow> swap_quote option \<Rightarrow> swap_plan \<Rightarrow> int \<Rightarrow> ('k, 'tx) btc_built \<Rightarrow>
     (('k, 'tx) btc_built, btc_plan) prepared" where
  "btc_gate_swap kw q plan now built =
     \<lparr>pr_quote = q, pr_built = built, pr_plan = BtcSwapPlan plan,
      pr_problems = verify_btc_swap (bt_outputs built) (bt_fee built) plan (owned_addresses kw) now
        (bk_max_fee kw)\<rparr>"

definition btc_build_and_verify ::
    "('k, 'tx) btclib \<Rightarrow> btc_adapter \<Rightarrow> btc_kwargs \<Rightarrow> swap_quote \<Rightarrow> swap_request \<Rightarrow> int \<Rightarrow>
     (('k, 'tx) btc_built, btc_plan) prepared res" where
  "btc_build_and_verify lib ad kw q request now =
     bind_res (build_with lib ad kw (q_inbound_address q) (rq_amount request) (Some (quote_memo q))) (\<lambda>built.
       Inr (btc_gate_swap kw (Some q)
              \<lparr>sp_inbound_address = q_inbound_address q, sp_amount = rq_amount request,
               sp_memo = quote_memo q, sp_expiry = q_expiry q,
               sp_destination = rq_destination request\<rparr> now built))"

definition btc_build_and_verify_deposit ::
    "('k, 'tx) btclib \<Rightarrow> btc_adapter \<Rightarrow> btc_kwargs \<Rightarrow> string \<Rightarrow> string \<Rightarrow> int \<Rightarrow> int \<Rightarrow>
     (('k, 'tx) btc_built, btc_plan) prepared res" where
  "btc_build_and_verify_deposit lib ad kw vault memo amount now =
     bind_res (build_with lib ad kw vault amount (Some memo)) (\<lambda>built.
       Inr (btc_gate_swap kw None
              \<lparr>sp_inbound_address = vault, sp_amount = amount, sp_memo = memo, sp_expiry = now + 3600,
               sp_destination = []\<rparr> now built))"

definition btc_build_and_verify_send ::
    "('k, 'tx) btclib \<Rightarrow> btc_adapter \<Rightarrow> btc_kwargs \<Rightarrow> string \<Rightarrow> int \<Rightarrow>
     (('k, 'tx) btc_built, btc_plan) prepared res" where
  "btc_build_and_verify_send lib ad kw recipient amount =
     bind_res (build_with lib ad kw recipient amount None) (\<lambda>built.
       let plan = \<lparr>snd_recipient = recipient, snd_amount = amount\<rparr>
       in Inr \<lparr>pr_quote = None, pr_built = built, pr_plan = BtcSendPlan plan,
               pr_problems = verify_btc_send (bt_outputs built) (bt_fee built) plan
                 (owned_addresses kw) (bk_max_fee kw)\<rparr>)"

section \<open>Esplora\<close>

record address_info =
  ai_has_history :: bool
  ai_confirmed :: int
  ai_pending :: int

definition count_of :: "dict \<Rightarrow> string \<Rightarrow> int res" where
  "count_of d k = as_int (dget d k (JInt 0))"

definition parse_address_info :: "dict \<Rightarrow> address_info res" where
  "parse_address_info stats =
     bind_res (as_dict (dget stats ''chain_stats'' (JObj []))) (\<lambda>chain.
     bind_res (as_dict (dget stats ''mempool_stats'' (JObj []))) (\<lambda>mem.
     bind_res (count_of chain ''funded_txo_sum'') (\<lambda>cf.
     bind_res (count_of chain ''spent_txo_sum'') (\<lambda>cs.
     bind_res (count_of mem ''funded_txo_sum'') (\<lambda>mf.
     bind_res (count_of mem ''spent_txo_sum'') (\<lambda>ms.
     bind_res (count_of chain ''tx_count'') (\<lambda>ct.
     bind_res (count_of mem ''tx_count'') (\<lambda>mt.
       Inr \<lparr>ai_has_history = (0 < ct \<or> 0 < mt), ai_confirmed = cf - cs, ai_pending = mf - ms\<rparr>))))))))"

definition esplora_get :: "'w http_get \<Rightarrow> btc_adapter \<Rightarrow> string \<Rightarrow> ('w, json) pyio" where
  "esplora_get get ad path =
     bind_io (get (ba_esplora_url ad @ ''/'' @ path) [] []) (\<lambda>resp. lift_io (checked_json resp))"

definition fetch_address_info :: "'w http_get \<Rightarrow> btc_adapter \<Rightarrow> string \<Rightarrow> ('w, address_info) pyio" where
  "fetch_address_info get ad address =
     bind_io (esplora_get get ad (''address/'' @ address)) (\<lambda>j.
       lift_io (bind_res (as_dict j) parse_address_info))"

definition is_confirmed :: "dict \<Rightarrow> bool res" where
  "is_confirmed x =
     bind_res (as_dict (dget x ''status'' (JObj []))) (\<lambda>s. Inr (get_flag s ''confirmed''))"

definition parse_utxo :: "string \<Rightarrow> dict \<Rightarrow> utxo res" where
  "parse_utxo address x =
     bind_res (str_item x ''txid'') (\<lambda>txid.
     bind_res (bind_res (item x ''vout'') as_int) (\<lambda>vout.
     bind_res (bind_res (item x ''value'') as_int) (\<lambda>v.
       Inr \<lparr>utxo_txid = txid, utxo_vout = vout, utxo_value = v, utxo_address = address,
            utxo_path = None\<rparr>)))"

fun parse_utxos :: "string \<Rightarrow> json list \<Rightarrow> utxo list res" where
  "parse_utxos address [] = Inr []"
| "parse_utxos address (j # js) =
     bind_res (as_dict j) (\<lambda>x.
     bind_res (is_confirmed x) (\<lambda>c.
       if c then
         bind_res (parse_utxo address x) (\<lambda>u.
         bind_res (parse_utxos address js) (\<lambda>us. Inr (u # us)))
       else parse_utxos address js))"

definition fetch_utxos :: "'w http_get \<Rightarrow> btc_adapter \<Rightarrow> string \<Rightarrow> ('w, utxo list) pyio" where
  "fetch_utxos get ad address =
     bind_io (esplora_get get ad (''address/'' @ address @ ''/utxo'')) (\<lambda>j.
       lift_io (bind_res (as_list j) (parse_utxos address)))"

definition fetch_btc_balance :: "'w http_get \<Rightarrow> btc_adapter \<Rightarrow> string \<Rightarrow> ('w, int) pyio" where
  "fetch_btc_balance get ad address =
     bind_io (fetch_address_info get ad address) (\<lambda>info. return_io (ai_confirmed info))"

definition as_float :: "json \<Rightarrow> rat res" where
  "as_float j =
     (case j of JInt i \<Rightarrow> float_of_int i | JFloat r \<Rightarrow> Inr r | _ \<Rightarrow> Inl (OutOfModel ''float''))"

fun max_rat :: "rat \<Rightarrow> rat list \<Rightarrow> rat" where
  "max_rat m [] = m"
| "max_rat m (x # xs) = max_rat (if m < x then x else m) xs"

definition pick_fee_rate :: "dict \<Rightarrow> int \<Rightarrow> rat res" where
  "pick_fee_rate estimates target_blocks =
     (let e = dget estimates (str_int target_blocks) JNull
      in if truthy e then as_float e
         else bind_res (map_res as_float (map snd estimates)) (\<lambda>rates.
           case rates of [] \<Rightarrow> Inl (ValueError ''max'') | r # rs \<Rightarrow> Inr (max_rat r rs)))"

definition fetch_fee_rate :: "'w http_get \<Rightarrow> btc_adapter \<Rightarrow> int \<Rightarrow> ('w, rat) pyio" where
  "fetch_fee_rate get ad target_blocks =
     bind_io (esplora_get get ad ''fee-estimates'') (\<lambda>j.
       lift_io (bind_res (as_dict j) (\<lambda>d. pick_fee_rate d target_blocks)))"

type_synonym ('w, 'd) http_post = "string \<Rightarrow> 'd \<Rightarrow> ('w, response) pyio"

fun btc_broadcast_from ::
    "('w, string) http_post \<Rightarrow> btc_adapter \<Rightarrow> string \<Rightarrow> string list \<Rightarrow> ('w, string) pyio" where
  "btc_broadcast_from post ad txid [] = return_io txid"
| "btc_broadcast_from post ad txid (raw # raws) =
     bind_io (post (ba_esplora_url ad @ ''/tx'') raw) (\<lambda>resp.
     bind_io (lift_io (resp_raise resp)) (\<lambda>_.
       btc_broadcast_from post ad (strip (resp_text resp)) raws))"

definition btc_broadcast :: "('w, string) http_post \<Rightarrow> btc_adapter \<Rightarrow> string list \<Rightarrow> ('w, string) pyio" where
  "btc_broadcast post ad raws = btc_broadcast_from post ad [] raws"

text \<open>The wallet balance over a scan of the account; \<open>None\<close> when the scan runs out of fuel.\<close>

definition btc_report :: "address_info scan_record list \<Rightarrow> balance_report" where
  "btc_report records =
     \<lparr>br_symbol = ''BTC'', br_confirmed = (\<Sum>r\<leftarrow>records. ai_confirmed (snd (snd r))), br_decimals = 8,
      br_pending = (\<Sum>r\<leftarrow>records. ai_pending (snd (snd r))),
      br_note = ''('' @ str_nat (length records) @ '' used addresses)'',
      br_addresses = map (\<lambda>r. fst (snd r)) records\<rparr>"

definition btc_wallet_balance ::
    "nat \<Rightarrow> ('k, 'tx) btclib \<Rightarrow> 'w http_get \<Rightarrow> btc_adapter \<Rightarrow> string \<Rightarrow> string \<Rightarrow> 'w \<Rightarrow>
     (balance_report res \<times> 'w) option" where
  "btc_wallet_balance fuel lib get ad mnemonic account w =
     (case scan_account fuel (btc_derive_address lib ad mnemonic) (fetch_address_info get ad)
             ai_has_history account DEFAULT_GAP_LIMIT [0, 1] DEFAULT_WINDOW w of
        None \<Rightarrow> None
      | Some (Inl e, w') \<Rightarrow> Some (Inl e, w')
      | Some (Inr records, w') \<Rightarrow> Some (Inr (btc_report records), w'))"

section \<open>The adapter\<close>

definition btc_source ::
    "('k, 'tx) btclib \<Rightarrow> ('w, string) http_post \<Rightarrow> btc_adapter \<Rightarrow> btc_kwargs \<Rightarrow>
     ('w, ('k, 'tx) btc_built, btc_plan, string) source_adapter" where
  "btc_source lib post ad kw =
     \<lparr>ad_chain = ''BTC'',
      ad_build_and_verify = (\<lambda>q rq now. lift_io (btc_build_and_verify lib ad kw q rq now)),
      ad_build_and_verify_deposit =
        (\<lambda>vault memo amount now. lift_io (btc_build_and_verify_deposit lib ad kw vault memo amount now)),
      ad_sign = (\<lambda>built. lift_io (btc_sign lib built)),
      ad_broadcast = btc_broadcast post ad\<rparr>"

definition btc_delivers ::
    "btc_kwargs \<Rightarrow> ('k, 'tx) btc_built \<Rightarrow> string \<Rightarrow> string \<Rightarrow> int \<Rightarrow> bool" where
  "btc_delivers kw built vault memo amount \<longleftrightarrow>
     pays_exactly vault amount (bt_outputs built) \<and> carries_memo memo (bt_outputs built)
     \<and> change_is_owned vault (owned_addresses kw) (bt_outputs built)
     \<and> 0 \<le> bt_fee built \<and> bt_fee built \<le> bk_max_fee kw"

definition btc_carries ::
    "btc_kwargs \<Rightarrow> ('k, 'tx) btc_built \<Rightarrow> swap_quote \<Rightarrow> swap_request \<Rightarrow> bool" where
  "btc_carries kw built q rq \<longleftrightarrow>
     btc_delivers kw built (q_inbound_address q) (quote_memo q) (rq_amount rq)"

lemma btc_gate_swap_safe:
  "prepared_safe (btc_gate_swap kw q plan now built) \<longleftrightarrow>
     now < sp_expiry plan
     \<and> btc_delivers kw built (sp_inbound_address plan) (sp_memo plan) (sp_amount plan)
     \<and> memo_pays_destination (sp_destination plan) (sp_memo plan)"
  using btc_swap_gate.report_empty
    [of "(bt_outputs built, bt_fee built, plan, owned_addresses kw, now, bk_max_fee kw)"]
  by (auto simp: prepared_safe_def btc_gate_swap_def btc_swap_safe_def btc_delivers_def)

lemma btc_quotes: "btc_build_and_verify lib ad kw q rq now = Inr p \<Longrightarrow> pr_quote p = Some q"
  by (auto simp: btc_build_and_verify_def bind_res_eq_Inr btc_gate_swap_def)

interpretation btc_swaps: quoting_source
  "\<lambda>q rq now. lift_io (btc_build_and_verify lib ad kw q rq now)" "btc_carries kw" for lib ad kw
  by unfold_locales
     (auto simp: btc_build_and_verify_def bind_res_eq_Inr lift_io_eq btc_gate_swap_safe btc_carries_def,
      simp_all add: btc_gate_swap_def)

interpretation btc_deposits: deposit_source
  "\<lambda>vault memo amount now. lift_io (btc_build_and_verify_deposit lib ad kw vault memo amount now)"
  "btc_delivers kw" for lib ad kw
  by unfold_locales
     (auto simp: btc_build_and_verify_deposit_def bind_res_eq_Inr lift_io_eq btc_gate_swap_safe,
      simp_all add: btc_gate_swap_def)

definition btc_planned :: "btc_plan \<Rightarrow> string \<Rightarrow> int \<Rightarrow> bool" where
  "btc_planned plan vault amount \<longleftrightarrow>
     (\<exists>p. plan = BtcSwapPlan p \<and> sp_inbound_address p = vault \<and> sp_amount p = amount)"

interpretation btc_planned_deposits: planned_deposit_source
  "\<lambda>vault memo amount now. lift_io (btc_build_and_verify_deposit lib ad kw vault memo amount now)"
  "btc_delivers kw" btc_planned for lib ad kw
  by unfold_locales
    (auto simp: btc_build_and_verify_deposit_def bind_res_eq_Inr lift_io_eq btc_gate_swap_def btc_planned_def)

text \<open>What a send that its gate lets through pays, and how the change is bound.\<close>

definition btc_pays :: "btc_kwargs \<Rightarrow> ('k, 'tx) btc_built \<Rightarrow> string \<Rightarrow> int \<Rightarrow> bool" where
  "btc_pays kw built recipient amount \<longleftrightarrow>
     pays_exactly recipient amount (bt_outputs built)
     \<and> (\<forall>o' \<in> set (bt_outputs built). out_data o' = None
          \<and> out_address o' \<in> Some ` insert recipient (owned_addresses kw))
     \<and> 0 \<le> bt_fee built \<and> bt_fee built \<le> bk_max_fee kw"

interpretation btc_sends: send_source
  "\<lambda>recipient amount asset. lift_io (btc_build_and_verify_send lib ad kw recipient amount)"
  "\<lambda>built recipient amount asset. btc_pays kw built recipient amount" for lib ad kw
proof unfold_locales
  fix recipient amount asset w p w'
  assume "lift_io (btc_build_and_verify_send lib ad kw recipient amount) w = (Inr p, w')" and s: "prepared_safe p"
  then obtain built where p: "pr_built p = built"
    "pr_problems p = verify_btc_send (bt_outputs built) (bt_fee built) \<lparr>snd_recipient = recipient, snd_amount = amount\<rparr>
       (owned_addresses kw) (bk_max_fee kw)"
    by (auto simp: btc_build_and_verify_send_def bind_res_eq_Inr lift_io_eq Let_def)
  then show "btc_pays kw (pr_built p) recipient amount"
    using s btc_send_gate.report_empty
      [of "(bt_outputs built, bt_fee built, \<lparr>snd_recipient = recipient, snd_amount = amount\<rparr>, owned_addresses kw, bk_max_fee kw)"]
    by (auto simp: prepared_safe_def btc_send_safe_def btc_pays_def)
qed

section \<open>What the builder builds\<close>

text \<open>
  What the adapter relies on: a new transaction has no outputs, adding an input leaves the
  outputs alone, and adding an output appends one that reads back as it was added.
\<close>

definition btclib_ok :: "('k, 'tx) btclib \<Rightarrow> bool" where
  "btclib_ok lib \<longleftrightarrow>
     (\<forall>net. bl_outputs lib (bl_new_tx lib net) = []) \<and>
     (\<forall>tx txid n v k tx'. bl_add_input lib tx txid n v k = Inr tx' \<longrightarrow>
        bl_outputs lib tx' = bl_outputs lib tx) \<and>
     (\<forall>tx v a tx'. bl_add_output lib tx v a = Inr tx' \<longrightarrow>
        (\<exists>o'. bl_outputs lib tx' = bl_outputs lib tx @ [o'] \<and> lo_script_type o' \<noteq> ''nulldata''
           \<and> lo_value o' = v \<and> lo_address o' = a)) \<and>
     (\<forall>tx v s tx'. bl_add_script lib tx v s = Inr tx' \<longrightarrow>
        (\<exists>o'. bl_outputs lib tx' = bl_outputs lib tx @ [o'] \<and> lo_script_type o' = ''nulldata''
           \<and> lo_value o' = v \<and> lo_lock_script o' = s))"

definition pay_output :: "string \<Rightarrow> int \<Rightarrow> tx_output" where
  "pay_output a v = \<lparr>out_address = Some a, out_value = v, out_data = None\<rparr>"

definition memo_output :: "string \<Rightarrow> tx_output" where
  "memo_output m = \<lparr>out_address = None, out_value = 0, out_data = Some (utf8_encode m)\<rparr>"

definition swap_outputs :: "string \<Rightarrow> int \<Rightarrow> string option \<Rightarrow> int \<Rightarrow> string \<Rightarrow> tx_output list" where
  "swap_outputs vault amount memo change change_address =
     [pay_output vault amount] @ (case memo of None \<Rightarrow> [] | Some m \<Rightarrow> [memo_output m]) @
     (if 0 < change then [pay_output change_address change] else [])"

lemma map_res_append:
  "map_res f (xs @ ys) = bind_res (map_res f xs) (\<lambda>a. bind_res (map_res f ys) (\<lambda>b. Inr (a @ b)))"
proof (induction xs)
  case Nil
  show ?case by (cases "map_res f ys") simp_all
next
  case (Cons x xs)
  then show ?case by (cases "f x"; cases "map_res f xs"; cases "map_res f ys") simp_all
qed

lemma add_inputs_outputs:
  "btclib_ok lib \<Longrightarrow> add_inputs lib ad m p us tx = Inr (tx', keys) \<Longrightarrow> bl_outputs lib tx' = bl_outputs lib tx"
proof (induction us arbitrary: tx keys)
  case (Cons u us)
  from Cons.prems(2) obtain k tx1 keys' where
    "bl_add_input lib tx (utxo_txid u) (utxo_vout u) (utxo_value u) k = Inr tx1"
    "add_inputs lib ad m p us tx1 = Inr (tx', keys')"
    by (auto simp: bind_res_eq_Inr split: prod.splits)
  with Cons.IH [OF Cons.prems(1)] Cons.prems(1) show ?case by (simp add: btclib_ok_def)
qed simp

lemma extract_pay:
  assumes "btclib_ok lib" "bl_add_output lib tx v a = Inr tx'"
  shows "extract_outputs lib tx' =
    bind_res (extract_outputs lib tx) (\<lambda>os. Inr (os @ [pay_output a v]))"
proof -
  obtain o' where "bl_outputs lib tx' = bl_outputs lib tx @ [o']" "lo_script_type o' \<noteq> ''nulldata''"
    "lo_value o' = v" "lo_address o' = a"
    using assms unfolding btclib_ok_def by blast
  then show ?thesis
    by (simp add: extract_outputs_def map_res_append extract_output_def pay_output_def)
qed

lemma extract_memo:
  assumes "btclib_ok lib" "encode_op_return (utf8_encode m) = Inr s" "bl_add_script lib tx 0 s = Inr tx'"
  shows "extract_outputs lib tx' =
    bind_res (extract_outputs lib tx) (\<lambda>os. Inr (os @ [memo_output m]))"
proof -
  obtain o' where "bl_outputs lib tx' = bl_outputs lib tx @ [o']" "lo_script_type o' = ''nulldata''"
    "lo_value o' = 0" "lo_lock_script o' = s"
    using assms(1,3) unfolding btclib_ok_def by blast
  moreover have "decode_op_return s = Inr (utf8_encode m)" by (rule op_return.dec_enc [OF assms(2)])
  ultimately show ?thesis
    by (simp add: extract_outputs_def map_res_append extract_output_def memo_output_def)
qed

lemma add_outputs_extract:
  assumes "btclib_ok lib" "extract_outputs lib tx = Inr []"
    and "add_outputs lib tx vault amount memo change change_address = Inr tx'"
  shows "extract_outputs lib tx' = Inr (swap_outputs vault amount memo change change_address)"
proof -
  from assms(3) obtain tx1 tx2 where tx1: "bl_add_output lib tx amount vault = Inr tx1"
    and tx2: "(case memo of None \<Rightarrow> Inr tx1
        | Some m \<Rightarrow> bind_res (encode_op_return (utf8_encode m)) (bl_add_script lib tx1 0)) = Inr tx2"
    and tx': "(if 0 < change then bl_add_output lib tx2 change change_address else Inr tx2) = Inr tx'"
    by (auto simp: add_outputs_def bind_res_eq_Inr)
  have 1: "extract_outputs lib tx1 = Inr [pay_output vault amount]"
    using extract_pay [OF assms(1) tx1] assms(2) by simp
  have 2: "extract_outputs lib tx2 =
      Inr ([pay_output vault amount] @ (case memo of None \<Rightarrow> [] | Some m \<Rightarrow> [memo_output m]))"
    using tx2 1 extract_memo [OF assms(1)] by (cases memo) (auto simp: bind_res_eq_Inr)
  show ?thesis
    using tx' 2 extract_pay [OF assms(1)] by (auto simp: swap_outputs_def split: if_splits)
qed

lemma build_with_outputs:
  assumes "btclib_ok lib" "build_with lib ad kw payee amount memo = Inr built" "bk_change_address kw \<noteq> []"
  shows "\<exists>sel. fund_swap (bk_utxos kw) amount (bk_fee_rate kw)
      (case memo of None \<Rightarrow> [] | Some m \<Rightarrow> utf8_encode m) (bk_sweep kw) = Inr sel
    \<and> bt_fee built = sel_fee sel
    \<and> bt_outputs built = swap_outputs payee amount memo (sel_change sel) (bk_change_address kw)
    \<and> (\<forall>m. memo = Some m \<longrightarrow> length (utf8_encode m) \<le> OP_RETURN_MAX_BYTES)"
proof -
  obtain c cs where c: "bk_change_address kw = c # cs" using assms(3) by (cases "bk_change_address kw") auto
  from assms(2) c obtain sel tx keys tx' outs where
    sel: "fund_swap (bk_utxos kw) amount (bk_fee_rate kw)
      (case memo of None \<Rightarrow> [] | Some m \<Rightarrow> utf8_encode m) (bk_sweep kw) = Inr sel"
    and ins: "add_inputs lib ad (bk_mnemonic kw) DEFAULT_DERIVATION (sel_utxos sel)
      (bl_new_tx lib (ba_network ad)) = Inr (tx, keys)"
    and out: "add_outputs lib tx payee amount memo (sel_change sel) (c # cs) = Inr tx'"
    and ext: "extract_outputs lib tx' = Inr outs"
    and built: "bt_outputs built = outs" "bt_fee built = sel_fee sel"
    by (auto simp: build_with_def build_unsigned_swap_def bind_res_eq_Inr split: prod.splits)
  have "bl_outputs lib tx = []"
    using add_inputs_outputs [OF assms(1) ins] assms(1) by (simp add: btclib_ok_def)
  then have "extract_outputs lib tx = Inr []" by (simp add: extract_outputs_def)
  then have "outs = swap_outputs payee amount memo (sel_change sel) (c # cs)"
    using add_outputs_extract [OF assms(1) _ out] ext by simp
  moreover have "length (utf8_encode m) \<le> OP_RETURN_MAX_BYTES" if "memo = Some m" for m
    using out that by (auto simp: add_outputs_def bind_res_eq_Inr encode_op_return_def split: if_splits)
  ultimately show ?thesis using sel built c by auto
qed

lemma fund_swap_balance:
  assumes "fund_swap utxos amount fee_rate memo_bytes sweep = Inr sel"
  shows "total_value (sel_utxos sel) = amount + sel_fee sel + sel_change sel
    \<and> 0 \<le> sel_change sel \<and> mset (sel_utxos sel) \<subseteq># mset utxos"
proof (cases sweep)
  case True
  with assms show ?thesis by (auto simp: fund_swap_def Let_def split: if_splits)
next
  case False
  with assms have s: "select_coins utxos amount fee_rate (int (length memo_bytes)) DUST_P2WPKH = Inr sel"
    by (simp add: fund_swap_def)
  then show ?thesis using select_coins_balance [OF s] by (simp add: coin_constants)
qed

lemma filter_pays_swap_outputs:
  "filter (\<lambda>o'. out_address o' = Some vault) (swap_outputs vault amount (Some m) change ca) =
     pay_output vault amount # (if 0 < change \<and> ca = vault then [pay_output ca change] else [])"
  by (simp add: swap_outputs_def pay_output_def memo_output_def)

lemma filter_data_swap_outputs:
  "filter (\<lambda>o'. out_data o' \<noteq> None) (swap_outputs vault amount (Some m) change ca) = [memo_output m]"
  by (simp add: swap_outputs_def pay_output_def memo_output_def)

lemma swap_outputs_safe:
  assumes "length (utf8_encode m) \<le> OP_RETURN_MAX_BYTES" "ca \<in> owned"
  shows "pays_exactly vault amount (swap_outputs vault amount (Some m) change ca) \<longleftrightarrow>
      (0 < change \<longrightarrow> ca \<noteq> vault)"
    and "carries_memo m (swap_outputs vault amount (Some m) change ca)"
    and "change_is_owned vault owned (swap_outputs vault amount (Some m) change ca)"
  using assms
  by (auto simp: pays_exactly_def sole_filter filter_pays_swap_outputs carries_memo_def
      filter_data_swap_outputs change_is_owned_def)
     (auto simp: pay_output_def memo_output_def swap_outputs_def)

section \<open>A concrete library and wallet\<close>

text \<open>A library whose transaction is its outputs and, per input, whether it is signed.\<close>

definition example_btclib :: "(string, lib_output list \<times> bool list) btclib" where
  "example_btclib =
     \<lparr>bl_hdkey = (\<lambda>net m pass path. Inr path),
      bl_address = (\<lambda>k. Inr (''bc1'' @ k)),
      bl_new_tx = (\<lambda>net. ([], [])),
      bl_add_input = (\<lambda>tx txid n v k. Inr (fst tx, snd tx @ [False])),
      bl_add_output = (\<lambda>tx v a. Inr (fst tx @ [\<lparr>lo_script_type = ''p2wpkh'', lo_value = v,
         lo_lock_script = [], lo_address = a\<rparr>], snd tx)),
      bl_add_script = (\<lambda>tx v s. Inr (fst tx @ [\<lparr>lo_script_type = ''nulldata'', lo_value = v,
         lo_lock_script = s, lo_address = []\<rparr>], snd tx)),
      bl_outputs = fst,
      bl_sign = (\<lambda>tx ks. Inr (fst tx, map (\<lambda>_. True) (snd tx))),
      bl_input_signed = snd,
      bl_verify = (\<lambda>tx. Inr True),
      bl_raw_hex = (\<lambda>tx. ''00'')\<rparr>"

lemma example_btclib_ok: "btclib_ok example_btclib"
  by (simp add: btclib_ok_def example_btclib_def)

definition example_btc_adapter :: btc_adapter where
  "example_btc_adapter = btc_adapter ''https://esplora/'' [] ''bitcoin''"

definition example_kwargs :: btc_kwargs where
  "example_kwargs = \<lparr>bk_mnemonic = ''seed'', bk_utxos = [example_utxo 50500], bk_fee_rate = 1,
     bk_change_address = ''bc1qchange'', bk_max_fee = 1000, bk_sweep = True\<rparr>"

definition example_built :: "(string, lib_output list \<times> bool list) btc_built" where
  "example_built =
     \<lparr>bt_tx = ([\<lparr>lo_script_type = ''p2wpkh'', lo_value = 50000, lo_lock_script = [],
                lo_address = ''bc1vault''\<rparr>,
               \<lparr>lo_script_type = ''nulldata'', lo_value = 0,
                lo_lock_script = [0x6a, 14] @ utf8_encode ''=:ETH.ETH:0xab'', lo_address = []\<rparr>], [False]),
      bt_outputs = swap_outputs ''bc1vault'' 50000 (Some ''=:ETH.ETH:0xab'') 0 ''bc1qchange'',
      bt_fee = 500, bt_change_address = ''bc1qchange'', bt_keys = [DEFAULT_DERIVATION]\<rparr>"

lemma example_build:
  "build_with example_btclib example_btc_adapter example_kwargs ''bc1vault'' 50000 (Some ''=:ETH.ETH:0xab'')
     = Inr example_built"
  by (simp add: build_with_def build_unsigned_swap_def example_kwargs_def fund_swap_def example_utxo_def
      add_outputs_def encode_op_return_def btc_hdkey_def coin_constants str_or_def example_btclib_def
      example_btc_adapter_def btc_adapter_def utf8_encode_def utf8_char_def code_def)
     (simp add: extract_outputs_def extract_output_def decode_op_return_def coin_constants,
      simp add: example_built_def swap_outputs_def pay_output_def memo_output_def utf8_encode_def
        utf8_char_def code_def)

definition example_btc_prepared ::
    "((string, lib_output list \<times> bool list) btc_built, btc_plan) prepared" where
  "example_btc_prepared = btc_gate_swap example_kwargs (Some example_quote)
     \<lparr>sp_inbound_address = ''bc1vault'', sp_amount = 50000, sp_memo = ''=:ETH.ETH:0xab'',
      sp_expiry = 2000, sp_destination = ''0xab''\<rparr> 10 example_built"

lemma example_btc_prepare:
  "btc_build_and_verify example_btclib example_btc_adapter example_kwargs example_quote example_request 10
     = Inr example_btc_prepared"
  using example_build
  by (simp add: btc_build_and_verify_def example_quote_def example_request_def quote_memo_def
      example_btc_prepared_def)

lemma example_btc_safe: "prepared_safe example_btc_prepared"
proof -
  have "memo_pays_destination ''0xab'' ''=:ETH.ETH:0xab''" by code_simp
  moreover have "pays_exactly ''bc1vault'' 50000 (bt_outputs example_built)"
    "carries_memo ''=:ETH.ETH:0xab'' (bt_outputs example_built)"
    "change_is_owned ''bc1vault'' (owned_addresses example_kwargs) (bt_outputs example_built)"
    using swap_outputs_safe [of "''=:ETH.ETH:0xab''" "''bc1qchange''" "owned_addresses example_kwargs"]
    by (simp_all add: example_built_def owned_addresses_def example_kwargs_def utf8_encode_def
        utf8_char_length length_concat comp_def coin_constants code_def)
  ultimately show ?thesis
    unfolding example_btc_prepared_def btc_gate_swap_safe
    by (simp add: btc_delivers_def) (simp add: example_built_def example_kwargs_def)
qed

definition example_post :: "(nat list, string) http_post" where
  "example_post url raw = return_io \<lparr>resp_status = 200, resp_text = ''txid'', resp_json = Inr JNull,
     resp_raise = Inr ()\<rparr>"

section \<open>Properties\<close>

text \<open>Whatever the wallet library returns, a Bitcoin swap that was prepared and then executed
  carries out a quote the node gave for this very request: the vault gets exactly the requested
  amount once, one data output holds exactly the memo, everything else returns to the wallet,
  the fee is within its ceiling, the quote has not expired, the amount reaches the minimum and
  the memo names the destination.\<close>

theorem btc_pipeline_safe:
  assumes "prepare_swap t (btc_source lib post ad kw) rq now tol interval quantity w = (Inr p, w1)"
    and "execute_swap p (btc_source lib post ad kw) confirm w2 = (Inr r, w3)"
  shows "sr_prepared r = p \<and> (\<exists>q. q_recommended_min_amount_in q \<le> rq_amount rq
    \<and> q_memo q \<notin> {None, Some []} \<and> now < q_expiry q
    \<and> pays_exactly (q_inbound_address q) (rq_amount rq) (bt_outputs (pr_built p))
    \<and> carries_memo (quote_memo q) (bt_outputs (pr_built p))
    \<and> change_is_owned (q_inbound_address q) (owned_addresses kw) (bt_outputs (pr_built p))
    \<and> 0 \<le> bt_fee (pr_built p) \<and> bt_fee (pr_built p) \<le> bk_max_fee kw
    \<and> memo_pays_destination (rq_destination rq) (quote_memo q))"
  using btc_swaps.broadcast_swap_carries [OF assms(1) _ assms(2)]
  by (auto simp: btc_source_def btc_carries_def btc_delivers_def)

theorem btc_pipeline_safe_witness:
  "\<exists>q. q_recommended_min_amount_in q \<le> 50000 \<and> 10 < q_expiry q
    \<and> pays_exactly (q_inbound_address q) 50000 (bt_outputs example_built) \<and> quote_memo q \<noteq> []"
proof -
  have p: "prepare_swap (example_thorchain (Inr example_quote) [])
      (btc_source example_btclib example_post example_btc_adapter example_kwargs) example_request 10 300
      None None [] = (Inr example_btc_prepared, [])"
    using example_btc_prepare
    by (simp add: prepare_swap_Inr quoted_Inr example_thorchain_def btc_source_def example_status_def
        tradable_def) (simp add: example_quote_def example_request_def)
  have e: "\<exists>r w. execute_swap example_btc_prepared
      (btc_source example_btclib example_post example_btc_adapter example_kwargs) False [] = (Inr r, w)"
    using example_btc_safe by (simp add: execute_swap_def)
  then obtain r w where e: "execute_swap example_btc_prepared
      (btc_source example_btclib example_post example_btc_adapter example_kwargs) False [] = (Inr r, w)"
    by blast
  have b: "pr_built example_btc_prepared = example_built" "rq_amount example_request = 50000"
    by (simp_all add: example_btc_prepared_def btc_gate_swap_def example_request_def)
  from btc_pipeline_safe [OF p e] show ?thesis
    unfolding b by (auto simp: quote_memo_def split: option.splits)
qed

text \<open>C21. The transaction the builder makes is funded by coins of the wallet and pays out exactly
  what they are worth less the fee: vault, memo and change, in that order. The gate lets it pass
  exactly when the quote is still valid, the memo names the destination, the fee is within its
  bounds and the change does not go to the vault's own address.\<close>

theorem btc_built_swap_passes:
  assumes "btclib_ok lib" "bk_change_address kw \<noteq> []" "btc_build_and_verify lib ad kw q rq now = Inr p"
  shows "\<exists>sel :: selection. mset (sel_utxos sel) \<subseteq># mset (bk_utxos kw)
    \<and> total_value (sel_utxos sel) = rq_amount rq + sel_fee sel + sel_change sel
    \<and> bt_fee (pr_built p) = sel_fee sel
    \<and> bt_outputs (pr_built p) = swap_outputs (q_inbound_address q) (rq_amount rq) (Some (quote_memo q))
        (sel_change sel) (bk_change_address kw)
    \<and> (prepared_safe p \<longleftrightarrow>
         now < q_expiry q \<and> memo_pays_destination (rq_destination rq) (quote_memo q)
         \<and> 0 \<le> sel_fee sel \<and> sel_fee sel \<le> bk_max_fee kw
         \<and> (0 < sel_change sel \<longrightarrow> bk_change_address kw \<noteq> q_inbound_address q))"
proof -
  from assms(3) obtain built where
    b: "build_with lib ad kw (q_inbound_address q) (rq_amount rq) (Some (quote_memo q)) = Inr built"
    and p: "p = btc_gate_swap kw (Some q) \<lparr>sp_inbound_address = q_inbound_address q,
      sp_amount = rq_amount rq, sp_memo = quote_memo q, sp_expiry = q_expiry q,
      sp_destination = rq_destination rq\<rparr> now built"
    by (auto simp: btc_build_and_verify_def bind_res_eq_Inr)
  obtain sel where sel: "fund_swap (bk_utxos kw) (rq_amount rq) (bk_fee_rate kw)
      (utf8_encode (quote_memo q)) (bk_sweep kw) = Inr sel"
    and fee: "bt_fee built = sel_fee sel"
    and outs: "bt_outputs built = swap_outputs (q_inbound_address q) (rq_amount rq) (Some (quote_memo q))
      (sel_change sel) (bk_change_address kw)"
    and len: "length (utf8_encode (quote_memo q)) \<le> OP_RETURN_MAX_BYTES"
    using build_with_outputs [OF assms(1) b assms(2)] by auto
  have "bk_change_address kw \<in> owned_addresses kw" by (simp add: owned_addresses_def)
  note safe = swap_outputs_safe [OF len this]
  have "prepared_safe p \<longleftrightarrow>
         now < q_expiry q \<and> memo_pays_destination (rq_destination rq) (quote_memo q)
         \<and> 0 \<le> sel_fee sel \<and> sel_fee sel \<le> bk_max_fee kw
         \<and> (0 < sel_change sel \<longrightarrow> bk_change_address kw \<noteq> q_inbound_address q)"
    unfolding p btc_gate_swap_safe btc_delivers_def by (auto simp: outs fee safe)
  moreover have "pr_built p = built" by (simp add: p btc_gate_swap_def)
  ultimately show ?thesis using fund_swap_balance [OF sel] fee outs
    by (intro exI [of _ sel]) simp
qed

theorem btc_built_swap_passes_witness:
  "\<exists>sel :: selection. total_value (sel_utxos sel) = 50000 + sel_fee sel + sel_change sel
    \<and> mset (sel_utxos sel) \<subseteq># mset [example_utxo 50500]"
proof -
  have "bk_change_address example_kwargs \<noteq> []" by (simp add: example_kwargs_def)
  from btc_built_swap_passes [OF example_btclib_ok this example_btc_prepare] show ?thesis
    by (auto simp: example_request_def example_kwargs_def)
qed

lemma unsigned_from_Nil: "unsigned_from i ss = [] \<longleftrightarrow> list_all id ss"
  by (induction ss arbitrary: i) auto

text \<open>C35. Signing hands out a transaction only when every input of it carries a signature and the
  library verified it; a silently unsigned input is a refusal.\<close>

theorem btc_sign_complete:
  assumes "btc_sign lib built = Inr raws"
  shows "\<exists>tx. bl_sign lib (bt_tx built) (bt_keys built) = Inr tx \<and> list_all id (bl_input_signed lib tx)
    \<and> bl_verify lib tx = Inr True \<and> raws = [bl_raw_hex lib tx]"
  using assms by (auto simp: btc_sign_def bind_res_eq_Inr unsigned_from_Nil split: if_splits)

theorem btc_sign_complete_witness:
  "list_all id (bl_input_signed example_btclib ([], [True])) \<and>
   (\<exists>raws. btc_sign example_btclib example_built = Inr raws)"
proof -
  have s: "btc_sign example_btclib example_built = Inr [''00'']"
    by (simp add: btc_sign_def example_btclib_def example_built_def)
  obtain tx where "bl_sign example_btclib (bt_tx example_built) (bt_keys example_built) = Inr tx"
    "list_all id (bl_input_signed example_btclib tx)"
    using btc_sign_complete [OF s] by blast
  with s show ?thesis by (auto simp: example_btclib_def)
qed

end
