(* ===== verification/SampleCodec.thy ===== *)
theory SampleCodec
  imports PyCodec
begin

text \<open>
  A small self-delimiting text encoding: a text behind its length in unary. The concrete
  libraries with which the adapters' hypotheses are shown to hold are built from it; it models
  no code of the wallet.
\<close>

definition text_bytes :: "string \<Rightarrow> bytes" where
  "text_bytes s = map (\<lambda>c. word_of_nat (code c)) s"

definition bytes_text :: "bytes \<Rightarrow> string" where
  "bytes_text bs = map (\<lambda>b. char_of (unat b)) bs"

lemma bytes_text_bytes [simp]: "bytes_text (text_bytes s) = s"
  by (simp add: bytes_text_def text_bytes_def comp_def unat_small_byte)

definition pack_text :: "string \<Rightarrow> bytes" where
  "pack_text s = replicate (length s) 1 @ 0 # text_bytes s"

definition unpack_text :: "bytes \<Rightarrow> string \<times> bytes" where
  "unpack_text bs =
     (let n = length (takeWhile (\<lambda>b. b = 1) bs); body = drop (n + 1) bs
      in (bytes_text (take n body), drop n body))"

lemma unpack_pack [simp]: "unpack_text (pack_text s @ rest) = (s, rest)"
proof -
  have "length (text_bytes s) = length s" by (simp add: text_bytes_def)
  moreover have "takeWhile (\<lambda>b. b = 1) (replicate n 1 @ 0 # ys) = replicate n (1 :: byte)" for n ys
    by (induction n) simp_all
  moreover have "drop (Suc n) (replicate n (1 :: byte) @ 0 # ys) = ys" for n ys
    by (induction n) simp_all
  ultimately show ?thesis by (simp add: unpack_text_def pack_text_def Let_def)
qed

end
