(* ===== verification/Eth.thy ===== *)
theory Eth
  imports Swap Net SampleCodec
begin

text \<open>
  \<open>chains/eth.py\<close> and \<open>chains/bsc.py\<close>: the Ethereum adapter and its BNB Smart Chain
  subclass. Key derivation, transaction signing, the ABI codec and keccak are library code:
  they are the fields of the record \<open>ethlib\<close>, and \<open>abi_ok\<close> states what the code relies on.
  JSON-RPC goes through a poster that is an argument.
\<close>

definition DEFAULT_ETH_DERIVATION :: string where
  "DEFAULT_ETH_DERIVATION = ''m/44'' @ [CHR 0x27] @ ''/60'' @ [CHR 0x27] @ ''/0'' @ [CHR 0x27] @ ''/0/0''"

definition CHAIN_ID :: int where "CHAIN_ID = 1"
definition APPROVE_SELECTOR :: string where "APPROVE_SELECTOR = ''095ea7b3''"
definition DEPOSIT_SELECTOR :: string where "DEPOSIT_SELECTOR = ''44bc937b''"
definition DECIMALS_SELECTOR :: string where "DECIMALS_SELECTOR = ''313ce567''"
definition BALANCEOF_SELECTOR :: string where "BALANCEOF_SELECTOR = ''70a08231''"
definition TRANSFER_SELECTOR :: string where "TRANSFER_SELECTOR = ''a9059cbb''"
definition APPROVE_GAS :: int where "APPROVE_GAS = 70000"
definition TOKEN_DEPOSIT_GAS :: int where "TOKEN_DEPOSIT_GAS = 200000"
definition NATIVE_SEND_GAS :: int where "NATIVE_SEND_GAS = 21000"
definition TOKEN_TRANSFER_GAS :: int where "TOKEN_TRANSFER_GAS = 65000"

type_synonym token_table = "(string \<times> string \<times> int) list"

definition TRACKED_TOKENS :: token_table where
  "TRACKED_TOKENS =
     [(''USDT'', ''0xdac17f958d2ee523a2206206994597c13d831ec7'', 6),
      (''USDC'', ''0xa0b86991c6218b36c1d19d4a2e9eb0ce3606eb48'', 6)]"

definition BSC_TRACKED_TOKENS :: token_table where
  "BSC_TRACKED_TOKENS =
     [(''USDT'', ''0x55d398326f99059ff775485246999027b3197955'', 18),
      (''USDC'', ''0x8ac76a51cc950d9822d68b83fe1ad97b32cd580d'', 18)]"

definition KNOWN_TOKEN_DECIMALS :: "(string \<times> int) list" where
  "KNOWN_TOKEN_DECIMALS = map (\<lambda>(_, contract, decimals). (contract, decimals)) TRACKED_TOKENS"

section \<open>The library\<close>

datatype abi_type = TAddress | TUint256 | TString
datatype abi_value = AAddress string | AUint int | AString string

record eth_tx =
  tx_chain_id :: int
  tx_nonce :: int
  tx_to :: string
  tx_value :: int
  tx_gas :: int
  tx_max_fee_per_gas :: int
  tx_max_priority_fee_per_gas :: int
  tx_data :: string

record 'k ethlib =
  el_from_mnemonic :: "string \<Rightarrow> string \<Rightarrow> string \<Rightarrow> 'k res"
  el_address :: "'k \<Rightarrow> string"
  el_sign_transaction :: "eth_tx \<Rightarrow> 'k \<Rightarrow> bytes res"
  el_abi_encode :: "abi_value list \<Rightarrow> bytes res"
  el_abi_decode :: "abi_type list \<Rightarrow> bytes \<Rightarrow> abi_value list res"
  el_keccak256 :: "bytes \<Rightarrow> bytes"

section \<open>Pure helpers\<close>

definition encode_call :: "'k ethlib \<Rightarrow> string \<Rightarrow> abi_value list \<Rightarrow> string res" where
  "encode_call lib selector args =
     bind_res (el_abi_encode lib args) (\<lambda>bs. Inr (''0x'' @ selector @ hex_of_bytes bs))"

definition encode_approve :: "'k ethlib \<Rightarrow> string \<Rightarrow> int \<Rightarrow> string res" where
  "encode_approve lib router amount = encode_call lib APPROVE_SELECTOR [AAddress router, AUint amount]"

definition encode_transfer :: "'k ethlib \<Rightarrow> string \<Rightarrow> int \<Rightarrow> string res" where
  "encode_transfer lib to amount = encode_call lib TRANSFER_SELECTOR [AAddress to, AUint amount]"

definition encode_deposit ::
    "'k ethlib \<Rightarrow> string \<Rightarrow> string \<Rightarrow> int \<Rightarrow> string \<Rightarrow> int \<Rightarrow> string res" where
  "encode_deposit lib vault token amount memo expiry =
     encode_call lib DEPOSIT_SELECTOR
       [AAddress vault, AAddress token, AUint amount, AString memo, AUint expiry]"

definition eth_sweep_amount :: "int \<Rightarrow> int \<Rightarrow> int \<Rightarrow> int res" where
  "eth_sweep_amount balance_wei gas max_fee_per_gas =
     (let sendable = balance_wei - gas * max_fee_per_gas
      in if sendable \<le> 0
         then Inl (InsufficientFunds ''gas reserve'' [balance_wei, gas * max_fee_per_gas])
         else Inr (sendable div WEI_PER_THORCHAIN_UNIT))"

definition is_alpha :: "char \<Rightarrow> bool" where
  "is_alpha c = (let n = code c in 65 \<le> n \<and> n \<le> 90 \<or> 97 \<le> n \<and> n \<le> 122)"

text \<open>EIP-55, from the 20 bytes of the address; \<open>zip\<close> stops at the shorter text.\<close>

definition checksum_case :: "char \<Rightarrow> char \<Rightarrow> char" where
  "checksum_case c d =
     (if is_alpha c \<and> (case hex_value d of None \<Rightarrow> False | Some n \<Rightarrow> 8 \<le> n) then upper_char c else c)"

definition checksum_bytes :: "'k ethlib \<Rightarrow> bytes \<Rightarrow> string" where
  "checksum_bytes lib addr =
     (let lower_hex = hex_of_bytes addr;
          digest = hex_of_bytes (el_keccak256 lib (utf8_encode lower_hex))
      in ''0x'' @ map (\<lambda>(c, d). checksum_case c d) (zip lower_hex digest))"

definition to_checksum_address :: "'k ethlib \<Rightarrow> string \<Rightarrow> string res" where
  "to_checksum_address lib addr =
     (let body = (if lower (take 2 addr) = ''0x'' then drop 2 addr else addr)
      in case bytes_fromhex body of
           None \<Rightarrow> Inl (ValueError ''fromhex'')
         | Some bs \<Rightarrow> Inr (checksum_bytes lib bs))"

definition decode_call :: "'k ethlib \<Rightarrow> string \<Rightarrow> string \<Rightarrow> abi_type list \<Rightarrow> abi_value list res" where
  "decode_call lib data selector types =
     (case bytes_fromhex (removeprefix ''0x'' data) of
        None \<Rightarrow> Inl (ValueError ''fromhex'')
      | Some raw \<Rightarrow>
          if hex_of_bytes (take 4 raw) \<noteq> selector then Inl (ValueError ''selector'')
          else el_abi_decode lib types (drop 4 raw))"

section \<open>Built transactions\<close>

record 'k eth_built =
  eb_tx :: eth_tx
  eb_key :: 'k
  eb_to :: string
  eb_value :: int
  eb_data :: string
  eb_chain_id :: int
  eb_gas :: int
  eb_max_fee_per_gas :: int

record 'k eth_token_built =
  etb_approve_tx :: eth_tx
  etb_deposit_tx :: eth_tx
  etb_key :: 'k
  etb_token :: string
  etb_router :: string
  etb_vault :: string
  etb_native_amount :: int
  etb_memo :: string
  etb_expiry :: int

datatype 'k eth_any_built = NativeBuilt "'k eth_built" | TokenBuilt "'k eth_token_built"

definition native_fee :: "'k eth_built \<Rightarrow> int" where
  "native_fee b = eb_gas b * eb_max_fee_per_gas b"

definition token_txs :: "'k eth_token_built \<Rightarrow> eth_tx list" where
  "token_txs b = [etb_approve_tx b, etb_deposit_tx b]"

definition token_fee :: "'k eth_token_built \<Rightarrow> int" where
  "token_fee b = sum_list (map (\<lambda>t. tx_gas t * tx_max_fee_per_gas t) (token_txs b))"

definition approve_problems :: "'k ethlib \<Rightarrow> 'k eth_token_built \<Rightarrow> problem list" where
  "approve_problems lib b =
     (case decode_call lib (tx_data (etb_approve_tx b)) APPROVE_SELECTOR [TAddress, TUint256] of
        Inr [AAddress spender, AUint allowance] \<Rightarrow>
          expect_lower ''approve spender'' spender (etb_router b) @
          expect_int ''approve amount'' allowance (etb_native_amount b)
      | _ \<Rightarrow> [Undecodable ''approve calldata''])"

definition deposit_problems :: "'k ethlib \<Rightarrow> 'k eth_token_built \<Rightarrow> string \<Rightarrow> problem list" where
  "deposit_problems lib b destination =
     (case decode_call lib (tx_data (etb_deposit_tx b)) DEPOSIT_SELECTOR
             [TAddress, TAddress, TUint256, TString, TUint256] of
        Inr [AAddress d_vault, AAddress d_token, AUint d_amount, AString d_memo, AUint d_expiry] \<Rightarrow>
          expect_lower ''deposit vault'' d_vault (etb_vault b) @
          expect_lower ''deposit token'' d_token (etb_token b) @
          expect_int ''deposit amount'' d_amount (etb_native_amount b) @
          expect_text ''deposit memo'' d_memo (etb_memo b) @
          expect_int ''deposit expiry'' d_expiry (etb_expiry b) @
          destination_problems destination d_memo
      | _ \<Rightarrow> [Undecodable ''deposit calldata''])"

definition verify_eth_token_swap ::
    "'k ethlib \<Rightarrow> 'k eth_token_built \<Rightarrow> string \<Rightarrow> int \<Rightarrow> int \<Rightarrow> problem list" where
  "verify_eth_token_swap lib b destination now max_fee_wei =
     expired_problems now (etb_expiry b) @
     expect_lower ''approve to'' (tx_to (etb_approve_tx b)) (etb_token b) @
     expect_lower ''deposit to'' (tx_to (etb_deposit_tx b)) (etb_router b) @
     (if tx_value (etb_approve_tx b) \<noteq> 0 \<or> tx_value (etb_deposit_tx b) \<noteq> 0 then [TokenTxValue] else []) @
     (if tx_chain_id (etb_approve_tx b) \<noteq> CHAIN_ID \<or> tx_chain_id (etb_deposit_tx b) \<noteq> CHAIN_ID
      then [WrongChainId] else []) @
     approve_problems lib b @
     deposit_problems lib b destination @
     (if max_fee_wei < token_fee b then [FeeExceeds (token_fee b) max_fee_wei] else [])"

section \<open>The adapter\<close>

record eth_adapter =
  ea_chain :: string
  ea_asset :: string
  ea_native_symbol :: string
  ea_token_suffix :: string
  ea_tracked_tokens :: token_table
  ea_known_decimals :: "(string \<times> int) list"
  ea_rpc_url :: string
  ea_passphrase :: string
  ea_chain_id :: int

definition eth_adapter :: "string \<Rightarrow> string \<Rightarrow> int \<Rightarrow> eth_adapter" where
  "eth_adapter rpc_url passphrase chain_id =
     \<lparr>ea_chain = ''ETH'', ea_asset = ''ETH.ETH'', ea_native_symbol = ''ETH'', ea_token_suffix = ''ETH'',
      ea_tracked_tokens = TRACKED_TOKENS, ea_known_decimals = KNOWN_TOKEN_DECIMALS,
      ea_rpc_url = rpc_url, ea_passphrase = passphrase, ea_chain_id = chain_id\<rparr>"

definition bsc_adapter :: "string \<Rightarrow> string \<Rightarrow> eth_adapter" where
  "bsc_adapter rpc_url passphrase =
     \<lparr>ea_chain = ''BSC'', ea_asset = ''BSC.BNB'', ea_native_symbol = ''BNB'', ea_token_suffix = ''BSC'',
      ea_tracked_tokens = BSC_TRACKED_TOKENS,
      ea_known_decimals =
        map (\<lambda>(_, contract, decimals). (''0x'' @ removeprefix ''0x'' (lower contract), decimals))
          BSC_TRACKED_TOKENS,
      ea_rpc_url = rpc_url, ea_passphrase = passphrase, ea_chain_id = CHAIN_ID\<rparr>"

definition eth_key :: "'k ethlib \<Rightarrow> eth_adapter \<Rightarrow> string \<Rightarrow> string \<Rightarrow> 'k res" where
  "eth_key lib ad mnemonic path = el_from_mnemonic lib mnemonic (ea_passphrase ad) path"

definition eth_derive_address :: "'k ethlib \<Rightarrow> eth_adapter \<Rightarrow> string \<Rightarrow> string \<Rightarrow> string res" where
  "eth_derive_address lib ad mnemonic path =
     bind_res (eth_key lib ad mnemonic path) (\<lambda>k. Inr (el_address lib k))"

section \<open>JSON-RPC\<close>

definition rpc_body :: "string \<Rightarrow> json list \<Rightarrow> json" where
  "rpc_body meth params =
     JObj [(''jsonrpc'', JStr ''2.0''), (''id'', JInt 1), (''method'', JStr meth), (''params'', JArr params)]"

definition rpc_result :: "string \<Rightarrow> dict \<Rightarrow> json res" where
  "rpc_result meth payload =
     (if truthy (dget payload ''error'' JNull) then Inl (RuntimeError (''RPC '' @ meth))
      else case map_of payload ''result'' of
        None \<Rightarrow> Inl (RuntimeError (''RPC '' @ meth @ '': malformed response''))
      | Some v \<Rightarrow> Inr v)"

definition eth_rpc :: "'w json_post \<Rightarrow> eth_adapter \<Rightarrow> string \<Rightarrow> json list \<Rightarrow> ('w, json) pyio" where
  "eth_rpc post ad meth params =
     bind_io (post (ea_rpc_url ad) (rpc_body meth params)) (\<lambda>resp.
       lift_io (bind_res (bind_res (checked_json resp) as_dict) (rpc_result meth)))"

definition rpc_int :: "'w json_post \<Rightarrow> eth_adapter \<Rightarrow> string \<Rightarrow> json list \<Rightarrow> ('w, int) pyio" where
  "rpc_int post ad meth params = bind_io (eth_rpc post ad meth params) (\<lambda>j. lift_io (hex_int j))"

definition get_nonce :: "'w json_post \<Rightarrow> eth_adapter \<Rightarrow> string \<Rightarrow> ('w, int) pyio" where
  "get_nonce post ad address =
     rpc_int post ad ''eth_getTransactionCount'' [JStr address, JStr ''pending'']"

definition fetch_eth_balance :: "'w json_post \<Rightarrow> eth_adapter \<Rightarrow> string \<Rightarrow> ('w, int) pyio" where
  "fetch_eth_balance post ad address = rpc_int post ad ''eth_getBalance'' [JStr address, JStr ''latest'']"

definition eth_call :: "string \<Rightarrow> string \<Rightarrow> json list" where
  "eth_call to data = [JObj [(''to'', JStr to), (''data'', JStr data)], JStr ''latest'']"

text \<open>A negative answer, which no ABI word encodes and with which \<open>10**decimals\<close> would be a float, is
  outside the model; so everything that scales by the decimals sees a non-negative number.\<close>

definition fetch_token_decimals :: "'w json_post \<Rightarrow> eth_adapter \<Rightarrow> string \<Rightarrow> ('w, int) pyio" where
  "fetch_token_decimals post ad token =
     bind_io (rpc_int post ad ''eth_call'' (eth_call token (''0x'' @ DECIMALS_SELECTOR))) (\<lambda>d.
       if d < 0 then raise_io (OutOfModel ''float'') else return_io d)"

definition token_decimals :: "'w json_post \<Rightarrow> eth_adapter \<Rightarrow> string \<Rightarrow> ('w, int) pyio" where
  "token_decimals post ad token =
     (case map_of (ea_known_decimals ad) (''0x'' @ removeprefix ''0x'' (lower token)) of
        Some d \<Rightarrow> return_io d
      | None \<Rightarrow> fetch_token_decimals post ad token)"

definition fetch_token_balance ::
    "'k ethlib \<Rightarrow> 'w json_post \<Rightarrow> eth_adapter \<Rightarrow> string \<Rightarrow> string \<Rightarrow> ('w, int) pyio" where
  "fetch_token_balance lib post ad token address =
     bind_io (lift_io (to_checksum_address lib address)) (\<lambda>a.
       rpc_int post ad ''eth_call''
         (eth_call token (''0x'' @ BALANCEOF_SELECTOR @ rjust (lower (drop 2 a)) 64 CHR ''0'')))"

definition eth_wallet_balance ::
    "'k ethlib \<Rightarrow> 'w json_post \<Rightarrow> eth_adapter \<Rightarrow> string \<Rightarrow> ('w, balance_report) pyio" where
  "eth_wallet_balance lib post ad mnemonic =
     bind_io (lift_io (eth_derive_address lib ad mnemonic DEFAULT_ETH_DERIVATION)) (\<lambda>address.
     bind_io (fetch_eth_balance post ad address) (\<lambda>bal.
       return_io \<lparr>br_symbol = ea_native_symbol ad, br_confirmed = bal, br_decimals = 18, br_pending = 0,
         br_note = ''('' @ address @ '')'', br_addresses = [address]\<rparr>))"

definition eth_token_balances ::
    "'k ethlib \<Rightarrow> 'w json_post \<Rightarrow> eth_adapter \<Rightarrow> string \<Rightarrow> ('w, balance_report list) pyio" where
  "eth_token_balances lib post ad mnemonic =
     bind_io (lift_io (eth_derive_address lib ad mnemonic DEFAULT_ETH_DERIVATION)) (\<lambda>address.
       map_io (\<lambda>(symbol, contract, decimals).
         bind_io (fetch_token_balance lib post ad contract address) (\<lambda>bal.
           return_io \<lparr>br_symbol = symbol @ ''-'' @ ea_token_suffix ad, br_confirmed = bal,
             br_decimals = decimals, br_pending = 0, br_note = [], br_addresses = [address]\<rparr>))
         (ea_tracked_tokens ad))"

definition fetch_fees :: "'w json_post \<Rightarrow> eth_adapter \<Rightarrow> ('w, int \<times> int) pyio" where
  "fetch_fees post ad =
     bind_io (rpc_int post ad ''eth_maxPriorityFeePerGas'' []) (\<lambda>tip.
     bind_io (eth_rpc post ad ''eth_getBlockByNumber'' [JStr ''latest'', JBool False]) (\<lambda>block.
     bind_io (lift_io (bind_res (as_obj block) (\<lambda>b. bind_res (item b ''baseFeePerGas'') hex_int))) (\<lambda>base.
       return_io (base * 2 + tip, tip))))"

fun eth_broadcast_from ::
    "'w json_post \<Rightarrow> eth_adapter \<Rightarrow> string \<Rightarrow> string list \<Rightarrow> ('w, string) pyio" where
  "eth_broadcast_from post ad txid [] = return_io txid"
| "eth_broadcast_from post ad txid (raw # raws) =
     bind_io
       (try_io (eth_rpc post ad ''eth_sendRawTransaction'' [JStr raw])
          (\<lambda>e. if is_runtime_error e then raise_io (BroadcastError ''rpc'') else raise_io e)) (\<lambda>j.
       eth_broadcast_from post ad (py_str j) raws)"

definition eth_broadcast :: "'w json_post \<Rightarrow> eth_adapter \<Rightarrow> string list \<Rightarrow> ('w, string) pyio" where
  "eth_broadcast post ad raws = eth_broadcast_from post ad [] raws"

section \<open>Building and signing\<close>

record eth_fees =
  ef_nonce :: int
  ef_gas :: int
  ef_max_fee_per_gas :: int
  ef_max_priority_fee_per_gas :: int
  ef_max_fee_wei :: int
  ef_mnemonic :: string

definition eth_build_unsigned_swap ::
    "'k ethlib \<Rightarrow> eth_adapter \<Rightarrow> eth_fees \<Rightarrow> int \<Rightarrow> string \<Rightarrow> int \<Rightarrow> string \<Rightarrow> string \<Rightarrow> 'k eth_built res" where
  "eth_build_unsigned_swap lib ad f gas vault amount memo path =
     bind_res (eth_key lib ad (ef_mnemonic f) path) (\<lambda>key.
     bind_res (to_checksum_address lib vault) (\<lambda>to.
       let value = amount * WEI_PER_THORCHAIN_UNIT;
           data = ''0x'' @ hex_of_bytes (utf8_encode memo)
       in Inr \<lparr>eb_tx = \<lparr>tx_chain_id = ea_chain_id ad, tx_nonce = ef_nonce f, tx_to = to, tx_value = value,
                 tx_gas = gas, tx_max_fee_per_gas = ef_max_fee_per_gas f,
                 tx_max_priority_fee_per_gas = ef_max_priority_fee_per_gas f, tx_data = data\<rparr>,
               eb_key = key, eb_to = to, eb_value = value, eb_data = data,
               eb_chain_id = ea_chain_id ad, eb_gas = gas,
               eb_max_fee_per_gas = ef_max_fee_per_gas f\<rparr>))"

definition eth_sign_tx :: "'k ethlib \<Rightarrow> eth_tx \<Rightarrow> 'k \<Rightarrow> string res" where
  "eth_sign_tx lib tx key =
     bind_res (el_sign_transaction lib tx key) (\<lambda>raw. Inr (''0x'' @ hex_of_bytes raw))"

definition eth_sign :: "'k ethlib \<Rightarrow> 'k eth_any_built \<Rightarrow> string list res" where
  "eth_sign lib built =
     (case built of
        NativeBuilt b \<Rightarrow> map_res (\<lambda>tx. eth_sign_tx lib tx (eb_key b)) [eb_tx b]
      | TokenBuilt b \<Rightarrow> map_res (\<lambda>tx. eth_sign_tx lib tx (etb_key b)) (token_txs b))"

text \<open>\<open>amount * 10**decimals // 10**8\<close>, for \<open>decimals\<close> that are not negative.\<close>

definition token_native :: "int \<Rightarrow> int \<Rightarrow> int" where
  "token_native amount decimals = amount * 10 ^ nat decimals div 10 ^ 8"

text \<open>\<open>asset.split("-", 1)[1]\<close>.\<close>

definition asset_contract :: "string \<Rightarrow> string res" where
  "asset_contract asset = (case split_rest CHR ''-'' asset of None \<Rightarrow> Inl IndexError | Some c \<Rightarrow> Inr c)"

definition build_token_swap ::
    "'k ethlib \<Rightarrow> eth_adapter \<Rightarrow> eth_fees \<Rightarrow> swap_request \<Rightarrow> swap_quote \<Rightarrow> int \<Rightarrow> 'k eth_token_built res" where
  "build_token_swap lib ad f request q decimals =
     bind_res (eth_key lib ad (ef_mnemonic f) DEFAULT_ETH_DERIVATION) (\<lambda>key.
     bind_res (bind_res (asset_contract (rq_from_asset request)) (to_checksum_address lib)) (\<lambda>token.
     bind_res (to_checksum_address lib (case q_router q of None \<Rightarrow> [] | Some r \<Rightarrow> r)) (\<lambda>router.
     bind_res (to_checksum_address lib (q_inbound_address q)) (\<lambda>vault.
       let memo = quote_memo q; native = token_native (rq_amount request) decimals
       in bind_res (encode_approve lib router native) (\<lambda>approve_data.
          bind_res (encode_deposit lib vault token native memo (q_expiry q)) (\<lambda>deposit_data.
            let common = \<lparr>tx_chain_id = CHAIN_ID, tx_nonce = ef_nonce f, tx_to = token, tx_value = 0,
                  tx_gas = APPROVE_GAS, tx_max_fee_per_gas = ef_max_fee_per_gas f,
                  tx_max_priority_fee_per_gas = ef_max_priority_fee_per_gas f, tx_data = approve_data\<rparr>
            in Inr \<lparr>etb_approve_tx = common,
                    etb_deposit_tx = common\<lparr>tx_nonce := ef_nonce f + 1, tx_to := router,
                      tx_gas := TOKEN_DEPOSIT_GAS, tx_data := deposit_data\<rparr>,
                    etb_key = key, etb_token = token, etb_router = router, etb_vault = vault,
                    etb_native_amount = native, etb_memo = memo, etb_expiry = q_expiry q\<rparr>))))))"

datatype 'k eth_plan = EthSwap eth_swap_plan | EthTokenSwap "'k eth_token_built"
  | EthSend eth_send_plan | EthTokenSend eth_token_send_plan

type_synonym 'k eth_prepared = "('k eth_any_built, 'k eth_plan) prepared"

definition eth_gate_swap ::
    "eth_fees \<Rightarrow> swap_quote option \<Rightarrow> eth_swap_plan \<Rightarrow> int \<Rightarrow> 'k eth_built \<Rightarrow> 'k eth_prepared" where
  "eth_gate_swap f q plan now b =
     \<lparr>pr_quote = q, pr_built = NativeBuilt b, pr_plan = EthSwap plan,
      pr_problems = verify_eth_swap (eb_to b) (eb_value b) (eb_data b) (eb_chain_id b) (eb_gas b)
        (eb_max_fee_per_gas b) plan now (ef_max_fee_wei f)\<rparr>"

definition eth_build_native ::
    "'k ethlib \<Rightarrow> eth_adapter \<Rightarrow> eth_fees \<Rightarrow> swap_quote \<Rightarrow> swap_request \<Rightarrow> int \<Rightarrow> 'k eth_prepared res" where
  "eth_build_native lib ad f q request now =
     bind_res (eth_build_unsigned_swap lib ad f (ef_gas f) (q_inbound_address q) (rq_amount request)
         (quote_memo q) DEFAULT_ETH_DERIVATION) (\<lambda>b.
       Inr (eth_gate_swap f (Some q)
              \<lparr>esp_inbound_address = q_inbound_address q,
               esp_amount_wei = rq_amount request * WEI_PER_THORCHAIN_UNIT, esp_memo = quote_memo q,
               esp_expiry = q_expiry q, esp_chain_id = 1,
               esp_destination = rq_destination request\<rparr> now b))"

definition eth_build_token ::
    "'k ethlib \<Rightarrow> eth_adapter \<Rightarrow> eth_fees \<Rightarrow> swap_quote \<Rightarrow> swap_request \<Rightarrow> int \<Rightarrow> int \<Rightarrow> 'k eth_prepared res" where
  "eth_build_token lib ad f q request now decimals =
     bind_res (build_token_swap lib ad f request q decimals) (\<lambda>b.
       Inr \<lparr>pr_quote = Some q, pr_built = TokenBuilt b, pr_plan = EthTokenSwap b,
            pr_problems = verify_eth_token_swap lib b (rq_destination request) now (ef_max_fee_wei f)\<rparr>)"

definition eth_build_and_verify ::
    "'k ethlib \<Rightarrow> 'w json_post \<Rightarrow> eth_adapter \<Rightarrow> eth_fees \<Rightarrow> swap_quote \<Rightarrow> swap_request \<Rightarrow> int \<Rightarrow>
     ('w, 'k eth_prepared) pyio" where
  "eth_build_and_verify lib post ad f q request now =
     (if CHR ''-'' \<in> set (rq_from_asset request) then
        bind_io (lift_io (asset_contract (rq_from_asset request))) (\<lambda>contract.
        bind_io (token_decimals post ad contract) (\<lambda>decimals.
          lift_io (eth_build_token lib ad f q request now decimals)))
      else lift_io (eth_build_native lib ad f q request now))"

definition eth_build_and_verify_deposit ::
    "'k ethlib \<Rightarrow> eth_adapter \<Rightarrow> eth_fees \<Rightarrow> string \<Rightarrow> string \<Rightarrow> int \<Rightarrow> int \<Rightarrow> 'k eth_prepared res" where
  "eth_build_and_verify_deposit lib ad f vault memo amount now =
     bind_res (eth_build_unsigned_swap lib ad f (ef_gas f) vault amount memo DEFAULT_ETH_DERIVATION) (\<lambda>b.
       Inr (eth_gate_swap f None
              \<lparr>esp_inbound_address = vault, esp_amount_wei = amount * WEI_PER_THORCHAIN_UNIT,
               esp_memo = memo, esp_expiry = now + 3600, esp_chain_id = 1, esp_destination = []\<rparr> now b))"

definition eth_build_native_send ::
    "'k ethlib \<Rightarrow> eth_adapter \<Rightarrow> eth_fees \<Rightarrow> string \<Rightarrow> int \<Rightarrow> string \<Rightarrow> 'k eth_prepared res" where
  "eth_build_native_send lib ad f recipient amount path =
     bind_res (eth_build_unsigned_swap lib ad f NATIVE_SEND_GAS recipient amount [] path) (\<lambda>b.
       let plan = \<lparr>es_recipient = eb_to b, es_amount_wei = amount * WEI_PER_THORCHAIN_UNIT,
                   es_chain_id = ea_chain_id ad\<rparr>
       in Inr \<lparr>pr_quote = None, pr_built = NativeBuilt b, pr_plan = EthSend plan,
               pr_problems = verify_eth_send (eb_to b) (eb_value b) (eb_data b) (eb_chain_id b)
                 (eb_gas b) (eb_max_fee_per_gas b) plan (ef_max_fee_wei f)\<rparr>)"

definition eth_token_send_tx :: "eth_adapter \<Rightarrow> eth_fees \<Rightarrow> string \<Rightarrow> string \<Rightarrow> eth_tx" where
  "eth_token_send_tx ad f token data =
     \<lparr>tx_chain_id = ea_chain_id ad, tx_nonce = ef_nonce f, tx_to = token, tx_value = 0,
      tx_gas = TOKEN_TRANSFER_GAS, tx_max_fee_per_gas = ef_max_fee_per_gas f,
      tx_max_priority_fee_per_gas = ef_max_priority_fee_per_gas f, tx_data = data\<rparr>"

definition eth_token_send_built :: "eth_adapter \<Rightarrow> eth_fees \<Rightarrow> 'k \<Rightarrow> string \<Rightarrow> string \<Rightarrow> 'k eth_built" where
  "eth_token_send_built ad f key token data =
     \<lparr>eb_tx = eth_token_send_tx ad f token data, eb_key = key, eb_to = token, eb_value = 0,
      eb_data = data, eb_chain_id = ea_chain_id ad, eb_gas = TOKEN_TRANSFER_GAS,
      eb_max_fee_per_gas = ef_max_fee_per_gas f\<rparr>"

definition eth_gate_token_send ::
    "'k ethlib \<Rightarrow> eth_fees \<Rightarrow> eth_token_send_plan \<Rightarrow> 'k eth_built \<Rightarrow> 'k eth_prepared" where
  "eth_gate_token_send lib f plan b =
     \<lparr>pr_quote = None, pr_built = NativeBuilt b, pr_plan = EthTokenSend plan,
      pr_problems =
        (case decode_call lib (eb_data b) TRANSFER_SELECTOR [TAddress, TUint256] of
           Inr [AAddress d_recipient, AUint d_amount] \<Rightarrow>
             verify_eth_token_send (eb_to b) (eb_value b) (eb_chain_id b) d_recipient d_amount
               (eb_gas b) (eb_max_fee_per_gas b) plan (ef_max_fee_wei f)
         | _ \<Rightarrow> [Undecodable ''transfer calldata''])\<rparr>"

definition eth_build_token_send ::
    "'k ethlib \<Rightarrow> 'w json_post \<Rightarrow> eth_adapter \<Rightarrow> eth_fees \<Rightarrow> string \<Rightarrow> int \<Rightarrow> string \<Rightarrow> string \<Rightarrow>
     ('w, 'k eth_prepared) pyio" where
  "eth_build_token_send lib post ad f recipient amount asset path =
     bind_io (lift_io (eth_key lib ad (ef_mnemonic f) path)) (\<lambda>key.
     bind_io (lift_io (asset_contract asset)) (\<lambda>contract.
     bind_io (lift_io (to_checksum_address lib contract)) (\<lambda>token.
     bind_io (lift_io (to_checksum_address lib recipient)) (\<lambda>to.
     bind_io (token_decimals post ad contract) (\<lambda>decimals.
       let native = token_native amount decimals
       in bind_io (lift_io (encode_transfer lib to native)) (\<lambda>data.
            return_io (eth_gate_token_send lib f
              \<lparr>ets_token = token, ets_recipient = to, ets_amount = native, ets_chain_id = ea_chain_id ad\<rparr>
              (eth_token_send_built ad f key token data))))))))"

definition eth_build_and_verify_send ::
    "'k ethlib \<Rightarrow> 'w json_post \<Rightarrow> eth_adapter \<Rightarrow> eth_fees \<Rightarrow> string \<Rightarrow> int \<Rightarrow> string \<Rightarrow> string \<Rightarrow>
     ('w, 'k eth_prepared) pyio" where
  "eth_build_and_verify_send lib post ad f recipient amount asset path =
     (if CHR ''-'' \<in> set asset then eth_build_token_send lib post ad f recipient amount asset path
      else lift_io (eth_build_native_send lib ad f recipient amount path))"

definition bsc_build_and_verify :: "swap_quote \<Rightarrow> swap_request \<Rightarrow> int \<Rightarrow> ('w, 'k eth_prepared) pyio" where
  "bsc_build_and_verify q request now = raise_io NotImplementedError"

definition eth_source ::
    "'k ethlib \<Rightarrow> 'w json_post \<Rightarrow> eth_adapter \<Rightarrow> eth_fees \<Rightarrow>
     ('w, 'k eth_any_built, 'k eth_plan, string) source_adapter" where
  "eth_source lib post ad f =
     \<lparr>ad_chain = ea_chain ad,
      ad_build_and_verify = eth_build_and_verify lib post ad f,
      ad_build_and_verify_deposit =
        (\<lambda>vault memo amount now. lift_io (eth_build_and_verify_deposit lib ad f vault memo amount now)),
      ad_sign = (\<lambda>b. lift_io (eth_sign lib b)),
      ad_broadcast = eth_broadcast post ad\<rparr>"

definition bsc_source ::
    "'k ethlib \<Rightarrow> 'w json_post \<Rightarrow> eth_adapter \<Rightarrow> eth_fees \<Rightarrow>
     ('w, 'k eth_any_built, 'k eth_plan, string) source_adapter" where
  "bsc_source lib post ad f = (eth_source lib post ad f)\<lparr>ad_build_and_verify := bsc_build_and_verify\<rparr>"

section \<open>What a safe token swap is\<close>

text \<open>
  The calldata of a safe pair of token transactions: an approval of exactly the deposited
  amount for the router, and a deposit of that amount of that token for that vault, with the
  memo and the expiry of the quote.
\<close>

definition approves ::
    "'k ethlib \<Rightarrow> string \<Rightarrow> string \<Rightarrow> int \<Rightarrow> bool" where
  "approves lib data router amount \<longleftrightarrow>
     (\<exists>spender. decode_call lib data APPROVE_SELECTOR [TAddress, TUint256] = Inr [AAddress spender, AUint amount]
        \<and> same_hex_address spender router)"

definition deposits ::
    "'k ethlib \<Rightarrow> string \<Rightarrow> string \<Rightarrow> string \<Rightarrow> int \<Rightarrow> string \<Rightarrow> int \<Rightarrow> bool" where
  "deposits lib data vault token amount memo expiry \<longleftrightarrow>
     (\<exists>v t. decode_call lib data DEPOSIT_SELECTOR [TAddress, TAddress, TUint256, TString, TUint256] =
          Inr [AAddress v, AAddress t, AUint amount, AString memo, AUint expiry]
        \<and> same_hex_address v vault \<and> same_hex_address t token)"

definition eth_token_swap_safe ::
    "'k ethlib \<Rightarrow> 'k eth_token_built \<Rightarrow> string \<Rightarrow> int \<Rightarrow> int \<Rightarrow> bool" where
  "eth_token_swap_safe lib b destination now max_fee_wei \<longleftrightarrow>
     now < etb_expiry b
     \<and> same_hex_address (tx_to (etb_approve_tx b)) (etb_token b)
     \<and> same_hex_address (tx_to (etb_deposit_tx b)) (etb_router b)
     \<and> (\<forall>t \<in> set (token_txs b). tx_value t = 0 \<and> tx_chain_id t = CHAIN_ID)
     \<and> approves lib (tx_data (etb_approve_tx b)) (etb_router b) (etb_native_amount b)
     \<and> deposits lib (tx_data (etb_deposit_tx b)) (etb_vault b) (etb_token b) (etb_native_amount b)
         (etb_memo b) (etb_expiry b)
     \<and> memo_pays_destination destination (etb_memo b)
     \<and> token_fee b \<le> max_fee_wei"

lemma approve_problems_Nil [gate_simps]:
  "approve_problems lib b = [] \<longleftrightarrow>
     approves lib (tx_data (etb_approve_tx b)) (etb_router b) (etb_native_amount b)"
  unfolding approve_problems_def approves_def
  by (auto simp: gate_simps same_hex_address_def split: sum.splits list.splits abi_value.splits)

lemma deposit_problems_Nil [gate_simps]:
  "deposit_problems lib b destination = [] \<longleftrightarrow>
     deposits lib (tx_data (etb_deposit_tx b)) (etb_vault b) (etb_token b) (etb_native_amount b)
       (etb_memo b) (etb_expiry b)
     \<and> memo_pays_destination destination (etb_memo b)"
  unfolding deposit_problems_def deposits_def
  by (auto simp: gate_simps same_hex_address_def split: sum.splits list.splits abi_value.splits)

lemma eth_token_gate_exact:
  "verify_eth_token_swap lib b destination now m = [] \<longleftrightarrow> eth_token_swap_safe lib b destination now m"
  unfolding verify_eth_token_swap_def eth_token_swap_safe_def
  by (auto simp: gate_simps same_hex_address_def token_txs_def)

interpretation eth_token_gate: verify_gate
  "\<lambda>(b, destination, now, m). verify_eth_token_swap lib b destination now m"
  "\<lambda>(b, destination, now, m). eth_token_swap_safe lib b destination now m" for lib
  by unfold_locales (auto simp: eth_token_gate_exact)

section \<open>What the adapter promises\<close>

definition eth_native_carries :: "eth_fees \<Rightarrow> eth_tx \<Rightarrow> string \<Rightarrow> string \<Rightarrow> int \<Rightarrow> bool" where
  "eth_native_carries f tx vault memo amount \<longleftrightarrow>
     same_hex_address (tx_to tx) vault \<and> tx_value tx = amount * WEI_PER_THORCHAIN_UNIT
     \<and> spells_hex (utf8_encode memo) (tx_data tx) \<and> tx_chain_id tx = 1
     \<and> tx_gas tx * tx_max_fee_per_gas tx \<le> ef_max_fee_wei f"

definition eth_token_carries ::
    "'k ethlib \<Rightarrow> eth_fees \<Rightarrow> 'k eth_token_built \<Rightarrow> swap_quote \<Rightarrow> swap_request \<Rightarrow> int \<Rightarrow> bool" where
  "eth_token_carries lib f b q rq decimals \<longleftrightarrow>
     bind_res (asset_contract (rq_from_asset rq)) (to_checksum_address lib) = Inr (etb_token b)
     \<and> to_checksum_address lib (case q_router q of None \<Rightarrow> [] | Some r \<Rightarrow> r) = Inr (etb_router b)
     \<and> to_checksum_address lib (q_inbound_address q) = Inr (etb_vault b)
     \<and> etb_native_amount b = token_native (rq_amount rq) decimals
     \<and> same_hex_address (tx_to (etb_approve_tx b)) (etb_token b)
     \<and> same_hex_address (tx_to (etb_deposit_tx b)) (etb_router b)
     \<and> (\<forall>t \<in> set (token_txs b). tx_value t = 0 \<and> tx_chain_id t = CHAIN_ID)
     \<and> approves lib (tx_data (etb_approve_tx b)) (etb_router b) (etb_native_amount b)
     \<and> deposits lib (tx_data (etb_deposit_tx b)) (etb_vault b) (etb_token b) (etb_native_amount b)
         (quote_memo q) (q_expiry q)
     \<and> token_fee b \<le> ef_max_fee_wei f"

text \<open>The decimals by which an amount of the asset's token is scaled: those of the table for a known
  token, whatever the network says, and the contract's answer for any other.\<close>

definition asset_decimals :: "'w json_post \<Rightarrow> eth_adapter \<Rightarrow> string \<Rightarrow> int \<Rightarrow> bool" where
  "asset_decimals post ad asset decimals \<longleftrightarrow>
     (\<exists>contract. asset_contract asset = Inr contract
        \<and> (case map_of (ea_known_decimals ad) (''0x'' @ removeprefix ''0x'' (lower contract)) of
             Some d \<Rightarrow> decimals = d
           | None \<Rightarrow> 0 \<le> decimals \<and> (\<exists>net net'. rpc_int post ad ''eth_call''
               (eth_call contract (''0x'' @ DECIMALS_SELECTOR)) net = (Inr decimals, net'))))"

lemma token_decimals_asset:
  "token_decimals post ad contract w = (Inr decimals, w') \<Longrightarrow> asset_contract asset = Inr contract \<Longrightarrow>
   asset_decimals post ad asset decimals"
  by (auto simp: token_decimals_def fetch_token_decimals_def asset_decimals_def bind_io_eq_Inr
      split: option.splits if_splits)

text \<open>A native asset goes out as a value, a token as the pair of token transactions.\<close>

definition eth_carries ::
    "'k ethlib \<Rightarrow> 'w json_post \<Rightarrow> eth_adapter \<Rightarrow> eth_fees \<Rightarrow> 'k eth_any_built \<Rightarrow> swap_quote \<Rightarrow> swap_request \<Rightarrow> bool" where
  "eth_carries lib post ad f built q rq \<longleftrightarrow>
     (if CHR ''-'' \<in> set (rq_from_asset rq) then
        (\<exists>b decimals. built = TokenBuilt b \<and> asset_decimals post ad (rq_from_asset rq) decimals
           \<and> eth_token_carries lib f b q rq decimals)
      else (\<exists>b. built = NativeBuilt b
           \<and> eth_native_carries f (eb_tx b) (q_inbound_address q) (quote_memo q) (rq_amount rq)))"

definition eth_delivers :: "eth_fees \<Rightarrow> 'k eth_any_built \<Rightarrow> string \<Rightarrow> string \<Rightarrow> int \<Rightarrow> bool" where
  "eth_delivers f built vault memo amount \<longleftrightarrow>
     (case built of NativeBuilt b \<Rightarrow> eth_native_carries f (eb_tx b) vault memo amount | TokenBuilt b \<Rightarrow> False)"

text \<open>The fields the gate reads are the fields of the transaction that is signed.\<close>

definition fields_match :: "'k eth_built \<Rightarrow> bool" where
  "fields_match b \<longleftrightarrow>
     tx_to (eb_tx b) = eb_to b \<and> tx_value (eb_tx b) = eb_value b \<and> tx_data (eb_tx b) = eb_data b
     \<and> tx_chain_id (eb_tx b) = eb_chain_id b \<and> tx_gas (eb_tx b) = eb_gas b
     \<and> tx_max_fee_per_gas (eb_tx b) = eb_max_fee_per_gas b"

lemma eth_build_fields:
  "eth_build_unsigned_swap lib ad f gas vault amount memo path = Inr b \<Longrightarrow> fields_match b
     \<and> eb_chain_id b = ea_chain_id ad \<and> eb_value b = amount * WEI_PER_THORCHAIN_UNIT"
  by (auto simp: eth_build_unsigned_swap_def bind_res_eq_Inr Let_def fields_match_def)

lemma eth_gate_swap_safe:
  assumes "fields_match b" "esp_chain_id plan = 1"
    "esp_amount_wei plan = amount * WEI_PER_THORCHAIN_UNIT"
  shows "prepared_safe (eth_gate_swap f q plan now b) \<longleftrightarrow>
    now < esp_expiry plan
    \<and> eth_native_carries f (eb_tx b) (esp_inbound_address plan) (esp_memo plan) amount
    \<and> memo_pays_destination (esp_destination plan) (esp_memo plan)"
  using assms eth_swap_gate.report_empty [of "(eb_to b, eb_value b, eb_data b, eb_chain_id b, eb_gas b,
      eb_max_fee_per_gas b, plan, now, ef_max_fee_wei f)"]
  by (auto simp: prepared_safe_def eth_gate_swap_def eth_swap_safe_def eth_native_carries_def fields_match_def)

lemma build_token_swap_fields:
  assumes "build_token_swap lib ad f rq q decimals = Inr b"
  shows "bind_res (asset_contract (rq_from_asset rq)) (to_checksum_address lib) = Inr (etb_token b)
     \<and> to_checksum_address lib (case q_router q of None \<Rightarrow> [] | Some r \<Rightarrow> r) = Inr (etb_router b)
     \<and> to_checksum_address lib (q_inbound_address q) = Inr (etb_vault b)
     \<and> etb_native_amount b = token_native (rq_amount rq) decimals
     \<and> etb_memo b = quote_memo q \<and> etb_expiry b = q_expiry q"
  using assms unfolding build_token_swap_def Let_def bind_res_eq_Inr by (elim exE conjE) (auto simp: bind_res_eq_Inr)

lemma eth_build_native_safe:
  assumes "eth_build_native lib ad f q rq now = Inr p" "prepared_safe p" "CHR ''-'' \<notin> set (rq_from_asset rq)"
  shows "now < q_expiry q \<and> eth_carries lib post ad f (pr_built p) q rq
    \<and> memo_pays_destination (rq_destination rq) (quote_memo q)"
proof -
  from assms(1) obtain b where b: "eth_build_unsigned_swap lib ad f (ef_gas f) (q_inbound_address q)
      (rq_amount rq) (quote_memo q) DEFAULT_ETH_DERIVATION = Inr b"
    and p: "p = eth_gate_swap f (Some q) \<lparr>esp_inbound_address = q_inbound_address q,
      esp_amount_wei = rq_amount rq * WEI_PER_THORCHAIN_UNIT, esp_memo = quote_memo q,
      esp_expiry = q_expiry q, esp_chain_id = 1, esp_destination = rq_destination rq\<rparr> now b"
    by (auto simp: eth_build_native_def bind_res_eq_Inr)
  have "pr_built p = NativeBuilt b" by (simp add: p eth_gate_swap_def)
  then show ?thesis
    using assms(2) eth_gate_swap_safe [OF eth_build_fields [OF b, THEN conjunct1], where amount = "rq_amount rq"] assms(3)
    by (simp add: p eth_carries_def)
qed

lemma eth_build_token_safe:
  assumes "eth_build_token lib ad f q rq now decimals = Inr p" "prepared_safe p" "CHR ''-'' \<in> set (rq_from_asset rq)"
    "asset_decimals post ad (rq_from_asset rq) decimals"
  shows "now < q_expiry q \<and> eth_carries lib post ad f (pr_built p) q rq
    \<and> memo_pays_destination (rq_destination rq) (quote_memo q)"
proof -
  from assms(1) obtain b where b: "build_token_swap lib ad f rq q decimals = Inr b"
    and p: "pr_built p = TokenBuilt b"
      "pr_problems p = verify_eth_token_swap lib b (rq_destination rq) now (ef_max_fee_wei f)"
    by (auto simp: eth_build_token_def bind_res_eq_Inr)
  from assms(2) p have "eth_token_swap_safe lib b (rq_destination rq) now (ef_max_fee_wei f)"
    by (simp add: prepared_safe_def eth_token_gate_exact)
  with build_token_swap_fields [OF b] p(1) assms(3,4) show ?thesis
    by (auto simp: eth_carries_def eth_token_carries_def eth_token_swap_safe_def)
qed

lemma eth_quotes: "eth_build_and_verify lib post ad f q rq now w = (Inr p, w') \<Longrightarrow> pr_quote p = Some q"
  by (auto simp: eth_build_and_verify_def eth_build_native_def eth_build_token_def eth_gate_swap_def bind_io_eq_Inr
      bind_res_eq_Inr split: if_splits)

interpretation eth_swaps: quoting_source "eth_build_and_verify lib post ad f" "eth_carries lib post ad f"
  for lib post ad f
proof unfold_locales
  fix q rq now w p w'
  assume b: "eth_build_and_verify lib post ad f q rq now w = (Inr p, w')" and s: "prepared_safe p"
  show "now < q_expiry q \<and> eth_carries lib post ad f (pr_built p) q rq
      \<and> memo_pays_destination (rq_destination rq) (quote_memo q)"
  proof (cases "CHR ''-'' \<in> set (rq_from_asset rq)")
    case True
    with b obtain contract decimals w1 where c: "asset_contract (rq_from_asset rq) = Inr contract"
      and d: "token_decimals post ad contract w = (Inr decimals, w1)"
      and t: "eth_build_token lib ad f q rq now decimals = Inr p"
      by (auto simp: eth_build_and_verify_def bind_io_eq_Inr lift_io_eq)
    show ?thesis by (rule eth_build_token_safe [OF t s True token_decimals_asset [OF d c]])
  next
    case False
    with b have "eth_build_native lib ad f q rq now = Inr p"
      by (simp add: eth_build_and_verify_def lift_io_eq)
    then show ?thesis by (rule eth_build_native_safe [OF _ s False])
  qed
qed (rule eth_quotes)

interpretation bsc_swaps: swap_source bsc_build_and_verify "\<lambda>b q rq. False"
  by unfold_locales (simp add: bsc_build_and_verify_def)

interpretation eth_deposits: deposit_source
  "\<lambda>vault memo amount now. lift_io (eth_build_and_verify_deposit lib ad f vault memo amount now)"
  "eth_delivers f" for lib ad f
proof unfold_locales
  fix vault memo amount now w p w'
  assume "lift_io (eth_build_and_verify_deposit lib ad f vault memo amount now) w = (Inr p, w')"
    and s: "prepared_safe p"
  then obtain b where b: "eth_build_unsigned_swap lib ad f (ef_gas f) vault amount memo DEFAULT_ETH_DERIVATION = Inr b"
    and p: "p = eth_gate_swap f None \<lparr>esp_inbound_address = vault,
      esp_amount_wei = amount * WEI_PER_THORCHAIN_UNIT, esp_memo = memo, esp_expiry = now + 3600,
      esp_chain_id = 1, esp_destination = []\<rparr> now b"
    by (auto simp: eth_build_and_verify_deposit_def bind_res_eq_Inr lift_io_eq)
  have "pr_built p = NativeBuilt b" by (simp add: p eth_gate_swap_def)
  then show "eth_delivers f (pr_built p) vault memo amount"
    using s eth_gate_swap_safe [OF eth_build_fields [OF b, THEN conjunct1], where amount = amount]
    by (simp add: p eth_delivers_def)
qed

definition eth_planned :: "'k eth_plan \<Rightarrow> string \<Rightarrow> int \<Rightarrow> bool" where
  "eth_planned plan vault amount \<longleftrightarrow>
     (\<exists>p. plan = EthSwap p \<and> esp_inbound_address p = vault \<and> esp_amount_wei p = amount * WEI_PER_THORCHAIN_UNIT)"

interpretation eth_planned_deposits: planned_deposit_source
  "\<lambda>vault memo amount now. lift_io (eth_build_and_verify_deposit lib ad f vault memo amount now)"
  "eth_delivers f" eth_planned for lib ad f
  by unfold_locales
    (auto simp: eth_build_and_verify_deposit_def bind_res_eq_Inr lift_io_eq eth_gate_swap_def eth_planned_def)

text \<open>
  What a send pays, native or token. The plan of a native send takes its recipient from the built
  transaction, so that it is the checksum conversion that fixes the receiver, not the gate.
\<close>

definition eth_native_pays :: "'k ethlib \<Rightarrow> eth_adapter \<Rightarrow> eth_fees \<Rightarrow> eth_tx \<Rightarrow> string \<Rightarrow> int \<Rightarrow> bool" where
  "eth_native_pays lib ad f tx recipient amount \<longleftrightarrow>
     to_checksum_address lib recipient = Inr (tx_to tx) \<and> tx_value tx = amount * WEI_PER_THORCHAIN_UNIT
     \<and> tx_data tx = ''0x'' \<and> tx_chain_id tx = ea_chain_id ad
     \<and> tx_gas tx * tx_max_fee_per_gas tx \<le> ef_max_fee_wei f"

definition eth_token_pays ::
    "'k ethlib \<Rightarrow> eth_adapter \<Rightarrow> eth_fees \<Rightarrow> eth_tx \<Rightarrow> string \<Rightarrow> int \<Rightarrow> string \<Rightarrow> int \<Rightarrow> bool" where
  "eth_token_pays lib ad f tx recipient amount asset decimals \<longleftrightarrow>
     (\<exists>token to d.
        bind_res (asset_contract asset) (to_checksum_address lib) = Inr token
        \<and> to_checksum_address lib recipient = Inr to
        \<and> same_hex_address (tx_to tx) token \<and> tx_value tx = 0
        \<and> decode_call lib (tx_data tx) TRANSFER_SELECTOR [TAddress, TUint256]
            = Inr [AAddress d, AUint (token_native amount decimals)]
        \<and> same_hex_address d to
        \<and> tx_chain_id tx = ea_chain_id ad \<and> tx_gas tx * tx_max_fee_per_gas tx \<le> ef_max_fee_wei f)"

definition eth_pays ::
    "'k ethlib \<Rightarrow> 'w json_post \<Rightarrow> eth_adapter \<Rightarrow> eth_fees \<Rightarrow> 'k eth_any_built \<Rightarrow> string \<Rightarrow> int \<Rightarrow> string \<Rightarrow> bool" where
  "eth_pays lib post ad f built recipient amount asset \<longleftrightarrow>
     (\<exists>b. built = NativeBuilt b
        \<and> (if CHR ''-'' \<in> set asset
           then \<exists>decimals. asset_decimals post ad asset decimals
              \<and> eth_token_pays lib ad f (eb_tx b) recipient amount asset decimals
           else eth_native_pays lib ad f (eb_tx b) recipient amount))"

lemma eth_native_send_pays:
  assumes "eth_build_native_send lib ad f recipient amount path = Inr p" "prepared_safe p"
  shows "\<exists>b. pr_built p = NativeBuilt b \<and> eth_native_pays lib ad f (eb_tx b) recipient amount"
proof -
  from assms(1) obtain b where b: "eth_build_unsigned_swap lib ad f NATIVE_SEND_GAS recipient amount [] path = Inr b"
    and p: "pr_built p = NativeBuilt b" "pr_problems p = verify_eth_send (eb_to b) (eb_value b) (eb_data b) (eb_chain_id b)
        (eb_gas b) (eb_max_fee_per_gas b) \<lparr>es_recipient = eb_to b, es_amount_wei = amount * WEI_PER_THORCHAIN_UNIT,
          es_chain_id = ea_chain_id ad\<rparr> (ef_max_fee_wei f)"
    by (auto simp: eth_build_native_send_def bind_res_eq_Inr Let_def)
  from b have "to_checksum_address lib recipient = Inr (tx_to (eb_tx b))" "tx_data (eb_tx b) = ''0x''"
    by (auto simp: eth_build_unsigned_swap_def bind_res_eq_Inr Let_def hex_of_bytes_def utf8_encode_def)
  with eth_build_fields [OF b] p assms(2) eth_send_gate.report_empty [of "(eb_to b, eb_value b, eb_data b,
      eb_chain_id b, eb_gas b, eb_max_fee_per_gas b, \<lparr>es_recipient = eb_to b,
      es_amount_wei = amount * WEI_PER_THORCHAIN_UNIT, es_chain_id = ea_chain_id ad\<rparr>, ef_max_fee_wei f)"]
  show ?thesis
    by (auto simp: prepared_safe_def eth_send_safe_def eth_native_pays_def fields_match_def)
qed

lemma eth_token_send_pays:
  assumes "eth_build_token_send lib post ad f recipient amount asset path w = (Inr p, w')" "prepared_safe p"
  shows "\<exists>b decimals. pr_built p = NativeBuilt b \<and> asset_decimals post ad asset decimals
    \<and> eth_token_pays lib ad f (eb_tx b) recipient amount asset decimals"
proof -
  from assms(1) obtain key contract token to decimals data w1 w2 where
    t: "asset_contract asset = Inr contract" "to_checksum_address lib contract = Inr token"
      "to_checksum_address lib recipient = Inr to"
    and dec: "token_decimals post ad contract w1 = (Inr decimals, w2)"
    and p: "p = eth_gate_token_send lib f
        \<lparr>ets_token = token, ets_recipient = to, ets_amount = token_native amount decimals, ets_chain_id = ea_chain_id ad\<rparr>
        (eth_token_send_built ad f key token data)"
    by (auto simp: eth_build_token_send_def bind_io_eq_Inr lift_io_eq Let_def)
  let ?b = "eth_token_send_built ad f key token data"
  from assms(2) obtain d n where
    d: "decode_call lib data TRANSFER_SELECTOR [TAddress, TUint256] = Inr [AAddress d, AUint n]"
    and v: "verify_eth_token_send token 0 (ea_chain_id ad) d n TOKEN_TRANSFER_GAS (ef_max_fee_per_gas f)
        \<lparr>ets_token = token, ets_recipient = to, ets_amount = token_native amount decimals, ets_chain_id = ea_chain_id ad\<rparr>
        (ef_max_fee_wei f) = []"
    by (auto simp: p prepared_safe_def eth_gate_token_send_def eth_token_send_built_def
        split: sum.splits list.splits abi_value.splits)
  have "eth_token_pays lib ad f (eb_tx ?b) recipient amount asset decimals"
    using t d v eth_token_send_gate.report_empty [of "(token, 0, ea_chain_id ad, d, n, TOKEN_TRANSFER_GAS,
        ef_max_fee_per_gas f, \<lparr>ets_token = token, ets_recipient = to, ets_amount = token_native amount decimals,
          ets_chain_id = ea_chain_id ad\<rparr>, ef_max_fee_wei f)"]
    by (auto simp: eth_token_send_safe_def eth_token_pays_def eth_token_send_built_def eth_token_send_tx_def)
  with token_decimals_asset [OF dec t(1)] show ?thesis by (auto simp: p eth_gate_token_send_def)
qed

interpretation eth_sends: send_source
  "\<lambda>recipient amount asset. eth_build_and_verify_send lib post ad f recipient amount asset path"
  "eth_pays lib post ad f" for lib post ad f path
proof unfold_locales
  fix recipient amount asset w p w'
  assume b: "eth_build_and_verify_send lib post ad f recipient amount asset path w = (Inr p, w')"
    and s: "prepared_safe p"
  show "eth_pays lib post ad f (pr_built p) recipient amount asset"
  proof (cases "CHR ''-'' \<in> set asset")
    case True
    then have "eth_build_token_send lib post ad f recipient amount asset path w = (Inr p, w')"
      using b by (simp add: eth_build_and_verify_send_def)
    from eth_token_send_pays [OF this s] True show ?thesis by (auto simp: eth_pays_def)
  next
    case False
    then have "eth_build_native_send lib ad f recipient amount path = Inr p"
      using b by (auto simp: eth_build_and_verify_send_def lift_io_eq)
    from eth_native_send_pays [OF this s] False show ?thesis by (auto simp: eth_pays_def)
  qed
qed

section \<open>The ABI codec\<close>

fun abi_type_of :: "abi_value \<Rightarrow> abi_type" where
  "abi_type_of (AAddress a) = TAddress"
| "abi_type_of (AUint n) = TUint256"
| "abi_type_of (AString s) = TString"

text \<open>Decoding normalises the letter case of addresses and nothing else.\<close>

fun abi_same :: "abi_value \<Rightarrow> abi_value \<Rightarrow> bool" where
  "abi_same (AAddress a) (AAddress b) \<longleftrightarrow> same_hex_address a b"
| "abi_same (AUint m) (AUint n) \<longleftrightarrow> m = n"
| "abi_same (AString s) (AString t) \<longleftrightarrow> s = t"
| "abi_same _ _ \<longleftrightarrow> False"

definition abi_ok :: "'k ethlib \<Rightarrow> bool" where
  "abi_ok lib \<longleftrightarrow>
     (\<forall>args bs. el_abi_encode lib args = Inr bs \<longrightarrow>
        (\<exists>args'. el_abi_decode lib (map abi_type_of args) bs = Inr args' \<and> list_all2 abi_same args' args))"

lemma selectors_hex:
  "APPROVE_SELECTOR = hex_of_bytes [0x09, 0x5e, 0xa7, 0xb3]"
  "DEPOSIT_SELECTOR = hex_of_bytes [0x44, 0xbc, 0x93, 0x7b]"
  "TRANSFER_SELECTOR = hex_of_bytes [0xa9, 0x05, 0x9c, 0xbb]"
  by code_simp+

lemma decode_encoded_call:
  assumes "encode_call lib (hex_of_bytes sel) args = Inr data" "length sel = 4"
  shows "\<exists>bs. el_abi_encode lib args = Inr bs
    \<and> decode_call lib data (hex_of_bytes sel) types = el_abi_decode lib types bs"
proof -
  obtain bs where bs: "el_abi_encode lib args = Inr bs" "data = ''0x'' @ hex_of_bytes (sel @ bs)"
    using assms(1) by (auto simp: encode_call_def bind_res_eq_Inr hex_of_bytes_append)
  have "bytes_fromhex (removeprefix ''0x'' data) = Some (sel @ bs)"
    unfolding bs(2) by (simp only: removeprefix_append bytes_fromhex_hex)
  with bs(1) assms(2) show ?thesis by (simp add: decode_call_def)
qed

lemma list_all2_abi_same_simps [simp]:
  "abi_same v (AAddress a) \<longleftrightarrow> (\<exists>a'. v = AAddress a' \<and> same_hex_address a' a)"
  "abi_same v (AUint n) \<longleftrightarrow> v = AUint n"
  "abi_same v (AString s) \<longleftrightarrow> v = AString s"
  by (cases v; auto)+

lemma approve_round_trip:
  assumes "abi_ok lib" "encode_approve lib router amount = Inr data"
  shows "approves lib data router amount"
proof -
  have "encode_call lib (hex_of_bytes [0x09, 0x5e, 0xa7, 0xb3]) [AAddress router, AUint amount] = Inr data"
    using assms(2) by (simp add: encode_approve_def selectors_hex)
  from decode_encoded_call [OF this, of "[TAddress, TUint256]"] obtain bs where
    e: "el_abi_encode lib [AAddress router, AUint amount] = Inr bs"
    and d: "decode_call lib data APPROVE_SELECTOR [TAddress, TUint256] = el_abi_decode lib [TAddress, TUint256] bs"
    by (auto simp: selectors_hex)
  have "map abi_type_of [AAddress router, AUint amount] = [TAddress, TUint256]" by simp
  with assms(1) e obtain args' where "el_abi_decode lib [TAddress, TUint256] bs = Inr args'"
    "list_all2 abi_same args' [AAddress router, AUint amount]"
    unfolding abi_ok_def by metis
  with d show ?thesis by (auto simp: approves_def list_all2_Cons2)
qed

lemma deposit_round_trip:
  assumes "abi_ok lib" "encode_deposit lib vault token amount memo expiry = Inr data"
  shows "deposits lib data vault token amount memo expiry"
proof -
  let ?args = "[AAddress vault, AAddress token, AUint amount, AString memo, AUint expiry]"
  let ?types = "[TAddress, TAddress, TUint256, TString, TUint256]"
  have "encode_call lib (hex_of_bytes [0x44, 0xbc, 0x93, 0x7b]) ?args = Inr data"
    using assms(2) by (simp add: encode_deposit_def selectors_hex)
  from decode_encoded_call [OF this, of ?types] obtain bs where
    e: "el_abi_encode lib ?args = Inr bs"
    and d: "decode_call lib data DEPOSIT_SELECTOR ?types = el_abi_decode lib ?types bs"
    by (auto simp: selectors_hex)
  have "map abi_type_of ?args = ?types" by simp
  with assms(1) e obtain args' where "el_abi_decode lib ?types bs = Inr args'" "list_all2 abi_same args' ?args"
    unfolding abi_ok_def by metis
  with d show ?thesis by (auto simp: deposits_def list_all2_Cons2)
qed

lemma build_token_swap_txs:
  assumes "abi_ok lib" "build_token_swap lib ad f rq q decimals = Inr b"
  shows "tx_to (etb_approve_tx b) = etb_token b \<and> tx_to (etb_deposit_tx b) = etb_router b
    \<and> (\<forall>t \<in> set (token_txs b). tx_value t = 0 \<and> tx_chain_id t = CHAIN_ID)
    \<and> tx_nonce (etb_deposit_tx b) = tx_nonce (etb_approve_tx b) + 1
    \<and> token_fee b = (APPROVE_GAS + TOKEN_DEPOSIT_GAS) * ef_max_fee_per_gas f
    \<and> approves lib (tx_data (etb_approve_tx b)) (etb_router b) (etb_native_amount b)
    \<and> deposits lib (tx_data (etb_deposit_tx b)) (etb_vault b) (etb_token b) (etb_native_amount b)
        (etb_memo b) (etb_expiry b)"
  using assms(2) approve_round_trip [OF assms(1)] deposit_round_trip [OF assms(1)]
  unfolding build_token_swap_def Let_def bind_res_eq_Inr
  by (elim exE conjE) (auto simp: token_txs_def token_fee_def distrib_right)

lemma token_native_bounds:
  assumes "0 \<le> amount" "0 \<le> decimals"
  shows "10 ^ 8 * token_native amount decimals \<le> amount * 10 ^ nat decimals
    \<and> amount * 10 ^ nat decimals < 10 ^ 8 * (token_native amount decimals + 1)"
proof -
  define x :: int where "x = amount * 10 ^ nat decimals"
  have "x = 10 ^ 8 * (x div 10 ^ 8) + x mod 10 ^ 8" by simp
  moreover have "0 \<le> x mod 10 ^ 8" "x mod 10 ^ 8 < 10 ^ 8" by simp_all
  moreover have "10 ^ 8 * (x div 10 ^ 8 + 1) = 10 ^ 8 * (x div 10 ^ 8) + (10 ^ 8 :: int)"
    by (simp add: distrib_left)
  ultimately have "10 ^ 8 * (x div 10 ^ 8) \<le> x" "x < 10 ^ 8 * (x div 10 ^ 8 + 1)" by linarith+
  then show ?thesis by (simp add: token_native_def x_def)
qed

section \<open>An example library\<close>

text \<open>
  A codec that meets \<open>abi_ok\<close>: every value is written as text behind its length in unary.
  With it the hypotheses of the properties are shown to hold of concrete swaps.
\<close>

fun abi_text :: "abi_value \<Rightarrow> string res" where
  "abi_text (AAddress a) = Inr a"
| "abi_text (AUint n) = (if is_amount n then Inr (str_int n) else Inl (ValueError ''uint256''))"
| "abi_text (AString s) = Inr s"

fun abi_of_text :: "abi_type \<Rightarrow> string \<Rightarrow> abi_value res" where
  "abi_of_text TAddress s = Inr (AAddress s)"
| "abi_of_text TUint256 s =
     (case parse_int s of None \<Rightarrow> Inl (ValueError ''uint256'') | Some n \<Rightarrow> Inr (AUint n))"
| "abi_of_text TString s = Inr (AString s)"

definition text_abi_encode :: "abi_value list \<Rightarrow> bytes res" where
  "text_abi_encode args = bind_res (map_res abi_text args) (\<lambda>ts. Inr (concat (map pack_text ts)))"

fun text_abi_decode :: "abi_type list \<Rightarrow> bytes \<Rightarrow> abi_value list res" where
  "text_abi_decode [] bs = (if bs = [] then Inr [] else Inl (ValueError ''trailing''))"
| "text_abi_decode (t # ts) bs =
     (case unpack_text bs of (s, rest) \<Rightarrow>
        bind_res (abi_of_text t s) (\<lambda>v. bind_res (text_abi_decode ts rest) (\<lambda>vs. Inr (v # vs))))"

lemma abi_of_text_text: "abi_text v = Inr s \<Longrightarrow> abi_of_text (abi_type_of v) s = Inr v"
  by (cases v) (auto simp: parse_int_amount split: if_splits)

lemma text_abi_round_trip:
  "map_res abi_text args = Inr ts \<Longrightarrow>
   text_abi_decode (map abi_type_of args) (concat (map pack_text ts)) = Inr args"
  by (induction args arbitrary: ts) (auto simp: bind_res_eq_Inr abi_of_text_text)

definition example_ethlib :: "string ethlib" where
  "example_ethlib =
     \<lparr>el_from_mnemonic = (\<lambda>m p path. Inr m), el_address = (\<lambda>k. ''0x'' @ k),
      el_sign_transaction = (\<lambda>tx k. Inr []), el_abi_encode = text_abi_encode,
      el_abi_decode = text_abi_decode, el_keccak256 = (\<lambda>bs. replicate 32 0)\<rparr>"

lemma abi_same_refl: "list_all2 abi_same args args"
proof (rule list_all2_refl)
  fix v
  show "abi_same v v" by (cases v) (simp_all add: same_hex_address_def)
qed

lemma example_abi_ok: "abi_ok example_ethlib"
  unfolding abi_ok_def
  by (auto simp: example_ethlib_def text_abi_encode_def bind_res_eq_Inr
      intro!: text_abi_round_trip abi_same_refl exI)

definition example_eth_fees :: eth_fees where
  "example_eth_fees = \<lparr>ef_nonce = 0, ef_gas = 30000, ef_max_fee_per_gas = 2, ef_max_priority_fee_per_gas = 1,
     ef_max_fee_wei = 600000, ef_mnemonic = ''seed''\<rparr>"

definition example_eth_quote :: swap_quote where
  "example_eth_quote = example_quote\<lparr>q_inbound_address := ''0xAB'', q_router := Some ''0x12'',
     q_memo := Some ''=:BTC.BTC:bc1q''\<rparr>"

definition example_eth_request :: "string \<Rightarrow> swap_request" where
  "example_eth_request asset = \<lparr>rq_from_asset = asset, rq_to_asset = ''BTC.BTC'', rq_amount = 50000,
     rq_destination = ''bc1q''\<rparr>"

definition example_rpc :: "nat list json_post" where
  "example_rpc url body = raise_io (HttpError ''ConnectionError'')"

lemma example_checksum:
  "to_checksum_address example_ethlib ''0xAB'' = Inr ''0xab''"
  "to_checksum_address example_ethlib ''0x12'' = Inr ''0x12''"
  "to_checksum_address example_ethlib ''0x34'' = Inr ''0x34''"
  by code_simp+

lemma example_eth_memo: "memo_pays_destination ''bc1q'' ''=:BTC.BTC:bc1q''" by code_simp


lemma example_eth_native:
  "\<exists>p b. eth_build_native example_ethlib (eth_adapter ''url'' [] chain_id) example_eth_fees
     example_eth_quote (example_eth_request ''ETH.ETH'') 10 = Inr p
   \<and> pr_built p = NativeBuilt b \<and> (prepared_safe p \<longleftrightarrow> chain_id = 1)"
proof -
  let ?memo = "''=:BTC.BTC:bc1q''" and ?rq = "example_eth_request ''ETH.ETH''"
  have q: "quote_memo example_eth_quote = ?memo" "q_inbound_address example_eth_quote = ''0xAB''"
    "q_expiry example_eth_quote = 2000"
    by (simp_all add: quote_memo_def example_eth_quote_def example_quote_def)
  obtain b where b: "eth_build_unsigned_swap example_ethlib (eth_adapter ''url'' [] chain_id)
      example_eth_fees (ef_gas example_eth_fees) ''0xAB'' 50000 ?memo DEFAULT_ETH_DERIVATION = Inr b"
    and f: "eb_to b = ''0xab''" "eb_data b = ''0x'' @ hex_of_bytes (utf8_encode ?memo)" "eb_gas b = 30000"
      "eb_max_fee_per_gas b = 2"
    by (simp add: eth_build_unsigned_swap_def Let_def eth_key_def example_ethlib_def [symmetric]
        example_checksum eth_adapter_def example_eth_fees_def) (simp add: example_ethlib_def)
  let ?plan = "\<lparr>esp_inbound_address = ''0xAB'', esp_amount_wei = 50000 * WEI_PER_THORCHAIN_UNIT,
      esp_memo = ?memo, esp_expiry = 2000, esp_chain_id = 1, esp_destination = ''bc1q''\<rparr>"
  let ?p = "eth_gate_swap example_eth_fees (Some example_eth_quote) ?plan 10 b"
  have built: "eth_build_native example_ethlib (eth_adapter ''url'' [] chain_id) example_eth_fees
      example_eth_quote ?rq 10 = Inr ?p"
    unfolding eth_build_native_def q using b by (simp add: example_eth_request_def)
  note fields = eth_build_fields [OF b]
  have lower: "lower ''0xAB'' = ''0xab''" by code_simp
  have "prepared_safe ?p \<longleftrightarrow> chain_id = 1"
    using fields f example_eth_memo lower
    by (subst eth_gate_swap_safe [where amount = 50000])
       (auto simp: eth_native_carries_def fields_match_def spells_hex_def same_hex_address_def
         example_eth_fees_def eth_adapter_def lower_char_def code_def)
  moreover have "pr_built ?p = NativeBuilt b" by (simp add: eth_gate_swap_def)
  ultimately show ?thesis using built by blast
qed

lemma example_eth_token:
  "\<exists>p. eth_build_token example_ethlib (eth_adapter ''url'' [] 1) example_eth_fees
     example_eth_quote (example_eth_request ''ETH.T-0x34'') 10 6 = Inr p"
proof -
  have amount: "token_native 50000 6 = 500" "is_amount 500" "is_amount 2000"
    by (simp_all add: token_native_def is_amount_def)
  have "asset_contract ''ETH.T-0x34'' = Inr ''0x34''" by code_simp
  then show ?thesis
    using amount example_checksum
    by (simp add: eth_build_token_def build_token_swap_def Let_def eth_key_def example_eth_request_def
        example_eth_quote_def encode_approve_def encode_deposit_def encode_call_def text_abi_encode_def
        example_quote_def) (simp add: example_ethlib_def text_abi_encode_def)
qed


definition example_eth_thorchain :: "nat list thorchain_like" where
  "example_eth_thorchain = (example_thorchain (Inr example_eth_quote) [])
     \<lparr>tl_inbound_addresses := return_io [(''ETH'', example_status)]\<rparr>"

lemma example_eth_prepare:
  "\<exists>p. prepare_swap example_eth_thorchain
      (eth_source example_ethlib example_rpc (eth_adapter ''url'' [] 1) example_eth_fees)
      (example_eth_request ''ETH.ETH'') 10 300 None None [] = (Inr p, []) \<and> prepared_safe p"
proof -
  let ?ad = "eth_adapter ''url'' [] 1" and ?rq = "example_eth_request ''ETH.ETH''"
  obtain p where p: "eth_build_native example_ethlib ?ad example_eth_fees example_eth_quote ?rq 10 = Inr p"
    "prepared_safe p"
    using example_eth_native [of 1] by auto
  have "eth_build_and_verify example_ethlib example_rpc ?ad example_eth_fees example_eth_quote ?rq 10 []
      = (Inr p, [])"
    using p(1) by (simp add: eth_build_and_verify_def example_eth_request_def)
  then have "prepare_swap example_eth_thorchain
      (eth_source example_ethlib example_rpc ?ad example_eth_fees) ?rq 10 300 None None [] = (Inr p, [])"
    by (simp add: prepare_swap_Inr quoted_Inr example_eth_thorchain_def example_thorchain_def eth_source_def
        example_status_def tradable_def eth_adapter_def)
      (simp add: example_eth_quote_def example_quote_def example_eth_request_def)
  with p(2) show ?thesis by blast
qed

section \<open>Properties\<close>

text \<open>Whatever the libraries and the node return, an Ethereum swap that was prepared and then
  executed carries out a quote for this request. A native deposit pays the vault the requested
  amount in wei on chain 1, with the memo as calldata and its gas bounded. A token deposit is an
  approval and a router call for the same amount, the request's in the token's units, that name
  the quote's vault, token, memo and expiry and carry no value.\<close>

theorem eth_pipeline_safe:
  assumes "prepare_swap t (eth_source lib post ad f) rq now tol interval quantity w = (Inr p, w1)"
    and "execute_swap p (eth_source lib post ad f) confirm w2 = (Inr r, w3)"
  shows "sr_prepared r = p \<and> (\<exists>q. q_recommended_min_amount_in q \<le> rq_amount rq
    \<and> q_memo q \<notin> {None, Some []} \<and> now < q_expiry q
    \<and> eth_carries lib post ad f (pr_built p) q rq
    \<and> memo_pays_destination (rq_destination rq) (quote_memo q))"
  using eth_swaps.broadcast_swap_carries [OF assms(1) _ assms(2)]
  by (simp add: eth_source_def)

theorem eth_pipeline_safe_witness:
  "\<exists>(p :: string eth_prepared) q. q_recommended_min_amount_in q \<le> 50000 \<and> 10 < q_expiry q
    \<and> eth_carries example_ethlib example_rpc (eth_adapter ''url'' [] 1) example_eth_fees (pr_built p) q
         (example_eth_request ''ETH.ETH'')"
proof -
  obtain p where p: "prepare_swap example_eth_thorchain
      (eth_source example_ethlib example_rpc (eth_adapter ''url'' [] 1) example_eth_fees)
      (example_eth_request ''ETH.ETH'') 10 300 None None [] = (Inr p, [])" "prepared_safe p"
    using example_eth_prepare by blast
  then obtain r w where e: "execute_swap p
      (eth_source example_ethlib example_rpc (eth_adapter ''url'' [] 1) example_eth_fees) False [] = (Inr r, w)"
    by (simp add: execute_swap_def)
  have rq: "rq_amount (example_eth_request ''ETH.ETH'') = 50000" by (simp add: example_eth_request_def)
  show ?thesis
    using eth_pipeline_safe [OF p(1) e, THEN conjunct2] unfolding rq by blast
qed

text \<open>C22. With an ABI codec that decodes what it encoded, the token swap that is built passes its
  gate exactly when the quote is still valid, the memo names the destination and the fixed gas of
  the two transactions is affordable. Its amount is the request rounded down to the token's
  units, which loses less than one unit and is zero when the request is below one unit.\<close>

theorem eth_token_swap_passes:
  assumes "abi_ok lib" "eth_build_token lib ad f q rq now decimals = Inr p"
    and "0 \<le> rq_amount rq" "0 \<le> decimals"
  shows "\<exists>b. pr_built p = TokenBuilt b
    \<and> (prepared_safe p \<longleftrightarrow> now < q_expiry q \<and> memo_pays_destination (rq_destination rq) (quote_memo q)
         \<and> 270000 * ef_max_fee_per_gas f \<le> ef_max_fee_wei f)
    \<and> 10 ^ 8 * etb_native_amount b \<le> rq_amount rq * 10 ^ nat decimals
    \<and> rq_amount rq * 10 ^ nat decimals < 10 ^ 8 * (etb_native_amount b + 1)
    \<and> (rq_amount rq * 10 ^ nat decimals < 10 ^ 8 \<longrightarrow> etb_native_amount b = 0)"
proof -
  from assms(2) obtain b where b: "build_token_swap lib ad f rq q decimals = Inr b"
    and p: "pr_built p = TokenBuilt b"
      "pr_problems p = verify_eth_token_swap lib b (rq_destination rq) now (ef_max_fee_wei f)"
    by (auto simp: eth_build_token_def bind_res_eq_Inr)
  note fields = build_token_swap_fields [OF b] and txs = build_token_swap_txs [OF assms(1) b]
  have "prepared_safe p \<longleftrightarrow> now < q_expiry q \<and> memo_pays_destination (rq_destination rq) (quote_memo q)
         \<and> 270000 * ef_max_fee_per_gas f \<le> ef_max_fee_wei f"
    unfolding prepared_safe_def p(2) eth_token_gate_exact eth_token_swap_safe_def
    using fields txs by (simp add: same_hex_address_def APPROVE_GAS_def TOKEN_DEPOSIT_GAS_def)
  moreover have "etb_native_amount b = 0" if "rq_amount rq * 10 ^ nat decimals < 10 ^ 8"
    using that fields assms(3) by (simp add: token_native_def div_pos_pos_trivial)
  ultimately show ?thesis
    using p(1) fields token_native_bounds [OF assms(3,4)] by (intro exI [of _ b]) simp
qed

theorem eth_token_swap_passes_witness:
  "\<exists>(p :: string eth_prepared) b. pr_built p = TokenBuilt b \<and> prepared_safe p \<and> 10 ^ 8 * etb_native_amount b \<le> 50000 * 10 ^ nat 6
    \<and> eth_build_token example_ethlib (eth_adapter ''url'' [] 1) example_eth_fees
     example_eth_quote (example_eth_request ''ETH.T-0x34'') 10 6 = Inr p"
proof -
  obtain p where p: "eth_build_token example_ethlib (eth_adapter ''url'' [] 1) example_eth_fees
     example_eth_quote (example_eth_request ''ETH.T-0x34'') 10 6 = Inr p"
    using example_eth_token by blast
  have q: "10 < q_expiry example_eth_quote" "0 \<le> rq_amount (example_eth_request ''ETH.T-0x34'')"
    "rq_amount (example_eth_request ''ETH.T-0x34'') = 50000"
    "memo_pays_destination (rq_destination (example_eth_request ''ETH.T-0x34'')) (quote_memo example_eth_quote)"
    "270000 * ef_max_fee_per_gas example_eth_fees \<le> ef_max_fee_wei example_eth_fees"
    using example_eth_memo
    by (simp_all add: example_eth_request_def example_eth_quote_def example_quote_def quote_memo_def
        example_eth_fees_def)
  from eth_token_swap_passes [OF example_abi_ok p q(2)] p q show ?thesis by fastforce
qed

text \<open>The gate of a native swap or deposit is tied to chain 1: an adapter configured for any
  other chain id builds a transaction for that chain, and its own gate refuses it.\<close>

theorem native_swap_other_chain_refused:
  assumes "eth_build_native lib ad f q rq now = Inr p" "ea_chain_id ad \<noteq> 1"
  shows "\<not> prepared_safe p \<and> IntDiffers ''chainId'' (ea_chain_id ad) 1 \<in> set (pr_problems p)"
proof -
  from assms(1) obtain b where b: "eth_build_unsigned_swap lib ad f (ef_gas f) (q_inbound_address q)
      (rq_amount rq) (quote_memo q) DEFAULT_ETH_DERIVATION = Inr b"
    and p: "p = eth_gate_swap f (Some q) \<lparr>esp_inbound_address = q_inbound_address q,
      esp_amount_wei = rq_amount rq * WEI_PER_THORCHAIN_UNIT, esp_memo = quote_memo q,
      esp_expiry = q_expiry q, esp_chain_id = 1, esp_destination = rq_destination rq\<rparr> now b"
    by (auto simp: eth_build_native_def bind_res_eq_Inr)
  have "IntDiffers ''chainId'' (ea_chain_id ad) 1 \<in> set (pr_problems p)"
    using assms(2) eth_build_fields [OF b]
    by (simp add: p eth_gate_swap_def verify_eth_swap_def expect_int_def)
  then show ?thesis by (auto simp: prepared_safe_def)
qed

theorem native_swap_other_chain_refused_witness:
  "\<exists>p :: string eth_prepared. eth_build_native example_ethlib (eth_adapter ''url'' [] 11155111) example_eth_fees
     example_eth_quote (example_eth_request ''ETH.ETH'') 10 = Inr p
   \<and> IntDiffers ''chainId'' 11155111 1 \<in> set (pr_problems p)"
proof -
  obtain p where p: "eth_build_native example_ethlib (eth_adapter ''url'' [] 11155111) example_eth_fees
     example_eth_quote (example_eth_request ''ETH.ETH'') 10 = Inr p"
    using example_eth_native [of 11155111] by blast
  from native_swap_other_chain_refused [OF p] p show ?thesis by (simp add: eth_adapter_def)
qed

end
