(* ===== verification/Base58.thy ===== *)
theory Base58
  imports PyCodec
begin

text \<open>
  Base58 with a four-byte checksum, as \<open>chains/tron.py\<close> writes TRON addresses. The hash
  function is an argument. A reader of such text is defined here as the reference that the
  encoder is proved against.
\<close>

definition B58_ALPHABET :: string where
  "B58_ALPHABET = ''123456789ABCDEFGHJKLMNPQRSTUVWXYZabcdefghijkmnopqrstuvwxyz''"

section \<open>Base58 with a checksum\<close>

text \<open>\<open>int.from_bytes(data, "big")\<close> and the digit loop.\<close>

definition be_nat :: "bytes \<Rightarrow> nat" where
  "be_nat data = foldl (\<lambda>n b. 256 * n + unat b) 0 data"

fun base58_digits :: "nat \<Rightarrow> string" where
  "base58_digits n = (if n = 0 then [] else base58_digits (n div 58) @ [B58_ALPHABET ! (n mod 58)])"

declare base58_digits.simps [simp del]

definition base58check_encode :: "(bytes \<Rightarrow> bytes) \<Rightarrow> bytes \<Rightarrow> string" where
  "base58check_encode sha256 payload =
     (let data = payload @ take 4 (sha256 (sha256 payload));
          pad = length data - length (dropWhile (\<lambda>b. b = 0) data)
      in replicate pad CHR ''1'' @ base58_digits (be_nat data))"

text \<open>The reader of base58 text: one zero byte per leading \<open>1\<close>, then the number's bytes.\<close>

definition base58_value :: "string \<Rightarrow> nat" where
  "base58_value s = foldl (\<lambda>n c. 58 * n + length (takeWhile (\<lambda>d. d \<noteq> c) B58_ALPHABET)) 0 s"

fun be_bytes :: "nat \<Rightarrow> bytes" where
  "be_bytes n = (if n = 0 then [] else be_bytes (n div 256) @ [word_of_nat (n mod 256)])"

declare be_bytes.simps [simp del]

definition base58_bytes :: "string \<Rightarrow> bytes" where
  "base58_bytes s =
     replicate (length (takeWhile (\<lambda>c. c = CHR ''1'') s)) 0 @ be_bytes (base58_value s)"

lemma be_nat_snoc [simp]: "be_nat (d @ [b]) = 256 * be_nat d + unat b"
  by (simp add: be_nat_def)

lemma be_nat_eq_0: "be_nat d = 0 \<longleftrightarrow> (\<forall>b \<in> set d. b = 0)"
proof (induction d rule: rev_induct)
  case Nil
  show ?case by (simp add: be_nat_def)
next
  case (snoc b d)
  then show ?case by (auto simp: unat_eq_0)
qed

lemma be_bytes_be_nat: "be_bytes (be_nat d) = dropWhile (\<lambda>b. b = 0) d"
proof (induction d rule: rev_induct)
  case Nil
  show ?case by (simp add: be_nat_def be_bytes.simps)
next
  case (snoc b d)
  have "(256 * be_nat d + unat b) div 256 = be_nat d" "(256 * be_nat d + unat b) mod 256 = unat b"
    by simp_all
  then have step: "be_bytes (be_nat (d @ [b])) =
      (if be_nat d = 0 \<and> b = 0 then [] else be_bytes (be_nat d) @ [b])"
    by (subst be_bytes.simps) (simp add: unat_eq_0)
  show ?case
    unfolding step snoc.IH be_nat_eq_0 dropWhile_append by (auto simp: dropWhile_eq_Nil_conv)
qed

lemma base58_index: "i < 58 \<Longrightarrow> length (takeWhile (\<lambda>d. d \<noteq> B58_ALPHABET ! i) B58_ALPHABET) = i"
proof -
  have "list_all (\<lambda>i. length (takeWhile (\<lambda>d. d \<noteq> B58_ALPHABET ! i) B58_ALPHABET) = i) [0..<58]"
    by code_simp
  then show "i < 58 \<Longrightarrow> length (takeWhile (\<lambda>d. d \<noteq> B58_ALPHABET ! i) B58_ALPHABET) = i"
    by (simp add: list_all_iff)
qed

lemma base58_one: "B58_ALPHABET ! i = CHR ''1'' \<longleftrightarrow> i = 0" if "i < 58"
proof
  assume "B58_ALPHABET ! i = CHR ''1''"
  then have "length (takeWhile (\<lambda>d. d \<noteq> CHR ''1'') B58_ALPHABET) = i" using base58_index [OF that] by simp
  then show "i = 0" by (simp add: B58_ALPHABET_def)
qed (simp add: B58_ALPHABET_def)

lemma base58_value_digits [simp]: "base58_value (base58_digits n) = n"
proof (induction n rule: base58_digits.induct)
  case (1 n)
  show ?case
  proof (cases "n = 0")
    case True
    then show ?thesis by (simp add: base58_digits.simps base58_value_def)
  next
    case False
    then have "base58_value (base58_digits n) = 58 * base58_value (base58_digits (n div 58)) + n mod 58"
      by (subst base58_digits.simps) (simp add: base58_value_def base58_index)
    with 1 False show ?thesis by simp
  qed
qed

lemma base58_digits_lead: "takeWhile (\<lambda>c. c = CHR ''1'') (base58_digits n) = []"
proof (induction n rule: base58_digits.induct)
  case (1 n)
  show ?case
  proof (cases "n < 58")
    case True
    then show ?thesis
      by (subst base58_digits.simps) (simp add: base58_digits.simps [of 0] base58_one)
  next
    case False
    then have nz: "n \<noteq> 0" "n div 58 \<noteq> 0" by (simp_all add: div_eq_0_iff)
    then obtain c cs where c: "base58_digits (n div 58) = c # cs"
      by (subst (asm) base58_digits.simps) (metis neq_Nil_conv snoc_eq_iff_butlast base58_digits.simps)
    with 1 nz have "c \<noteq> CHR ''1''" by (simp split: if_splits)
    with c nz show ?thesis by (subst base58_digits.simps) simp
  qed
qed

lemma base58_value_pad: "base58_value (replicate k CHR ''1'' @ s) = base58_value s"
proof -
  have "length (takeWhile (\<lambda>d. d \<noteq> CHR ''1'') B58_ALPHABET) = 0" by (simp add: B58_ALPHABET_def)
  then have "foldl (\<lambda>n c. 58 * n + length (takeWhile (\<lambda>d. d \<noteq> c) B58_ALPHABET)) 0 (replicate k CHR ''1'') = 0"
    by (induction k) simp_all
  then show ?thesis by (simp add: base58_value_def)
qed

text \<open>Leading bytes that are zero survive: the text determines the bytes it was made from.\<close>

lemma base58_bytes_encode:
  "base58_bytes (base58check_encode sha256 payload) = payload @ take 4 (sha256 (sha256 payload))"
proof -
  define data where "data = payload @ take 4 (sha256 (sha256 payload))"
  define pad where "pad = length data - length (dropWhile (\<lambda>b. b = 0) data)"
  have e: "base58check_encode sha256 payload = replicate pad CHR ''1'' @ base58_digits (be_nat data)"
    by (simp add: base58check_encode_def Let_def pad_def data_def)
  have lead: "length (takeWhile (\<lambda>c. c = CHR ''1'') (replicate pad CHR ''1'' @ base58_digits n)) = pad" for n
    by (simp add: takeWhile_append base58_digits_lead)
  have "data = takeWhile (\<lambda>b. b = 0) data @ dropWhile (\<lambda>b. b = 0) data" by simp
  moreover have "takeWhile (\<lambda>b. b = 0) data = replicate pad 0"
  proof -
    have "length data = length (takeWhile (\<lambda>b. b = 0) data) + length (dropWhile (\<lambda>b. b = 0) data)"
      by (metis length_append takeWhile_dropWhile_id)
    then have "length (takeWhile (\<lambda>b. b = 0) data) = pad" by (simp add: pad_def)
    moreover have "\<forall>b \<in> set (takeWhile (\<lambda>b. b = 0) data). b = 0" by (auto dest: set_takeWhileD)
    ultimately show ?thesis by (metis replicate_length_same)
  qed
  ultimately have "data = replicate pad 0 @ be_bytes (be_nat data)" by (simp add: be_bytes_be_nat)
  then show ?thesis
    by (simp add: base58_bytes_def e lead base58_value_pad data_def [symmetric])
qed

end
