(* ===== verification/Tron.thy ===== *)
theory Tron
  imports Swap Net Base58 SampleCodec
begin

text \<open>
  \<open>chains/tron.py\<close>: the TRON adapter. Key derivation, the node client that builds, signs and
  broadcasts a transaction, the ABI decoder and SHA-256 are library code: they are the fields
  of the record \<open>tronlib\<close>. What a built transaction is, the code reads back from the
  library's raw data; those readers and the gates over them are modelled.
\<close>

definition DEFAULT_TRON_DERIVATION :: string where
  "DEFAULT_TRON_DERIVATION = ''m/44'' @ [CHR 0x27] @ ''/195'' @ [CHR 0x27] @ ''/0'' @ [CHR 0x27] @ ''/0/0''"

definition TRON_MAINNET_PREFIX :: byte where "TRON_MAINNET_PREFIX = 0x41"
definition TRX_DECIMALS :: int where "TRX_DECIMALS = 6"
definition THORCHAIN_UNITS_PER_SUN :: int where "THORCHAIN_UNITS_PER_SUN = 100"
definition TRC20_TRANSFER_SELECTOR :: string where "TRC20_TRANSFER_SELECTOR = ''a9059cbb''"
definition DEFAULT_TRC20_FEE_LIMIT_SUN :: int where "DEFAULT_TRC20_FEE_LIMIT_SUN = 15000000"

definition TRON_TRACKED_TOKENS :: "(string \<times> string \<times> int) list" where
  "TRON_TRACKED_TOKENS = [(''USDT'', ''TR7NHqjeKQxGTCi8q8ZY4pL8otSzgjLj6t'', 6)]"

definition TRON_TOKENS :: "(string \<times> string \<times> int) list" where
  "TRON_TOKENS = map (\<lambda>(symbol, contract, decimals).
     (''TRON.'' @ symbol @ ''-'' @ upper contract, contract, decimals)) TRON_TRACKED_TOKENS"

section \<open>The library\<close>

record tron_raw =
  raw_contracts :: "(string \<times> dict) list"
  raw_memo_hex :: "string option"

text \<open>A rejected broadcast: one of the library's own error classes, with its text, or another exception.\<close>

datatype tron_failure = TronRejected string | TronRaised pyexc

record ('w, 'k, 'tx) tronlib =
  trl_from_mnemonic :: "string \<Rightarrow> string \<Rightarrow> string \<Rightarrow> 'k res"
  trl_evm_address :: "'k \<Rightarrow> string"
  trl_owner :: "'k \<Rightarrow> string"
  trl_sha256 :: "bytes \<Rightarrow> bytes"
  trl_hex_address :: "string \<Rightarrow> string res"
  trl_base58_address :: "string \<Rightarrow> string res"
  trl_transfer :: "string \<Rightarrow> string \<Rightarrow> string \<Rightarrow> int \<Rightarrow> string option \<Rightarrow> ('w, 'tx) pyio"
  trl_trigger :: "string \<Rightarrow> string \<Rightarrow> string \<Rightarrow> string \<Rightarrow> int \<Rightarrow> int \<Rightarrow> string option \<Rightarrow> ('w, 'tx) pyio"
  trl_raw :: "'tx \<Rightarrow> tron_raw"
  trl_abi_decode :: "bytes \<Rightarrow> (string \<times> int) res"
  trl_sign :: "'tx \<Rightarrow> 'k \<Rightarrow> 'tx res"
  trl_broadcast :: "'tx \<Rightarrow> ('w, tron_failure, unit) io"
  trl_txid :: "'tx \<Rightarrow> string"

text \<open>
  \<open>trl_transfer url owner to sun memo\<close> and \<open>trl_trigger url owner token to amount fee_limit
  memo\<close> ask the node at \<open>url\<close> for a reference block and build a \<open>TransferContract\<close>,
  respectively a token contract call \<open>transfer(to, amount)\<close>.
\<close>

section \<open>Amounts and tokens\<close>

definition to_sun :: "int \<Rightarrow> int res" where
  "to_sun amount_thorchain =
     (let sun = amount_thorchain div THORCHAIN_UNITS_PER_SUN;
          remainder = amount_thorchain mod THORCHAIN_UNITS_PER_SUN
      in if remainder \<noteq> 0 then Inl (ValueError ''sun'') else Inr sun)"

definition token_contract_and_decimals :: "string \<Rightarrow> (string \<times> int) res" where
  "token_contract_and_decimals from_asset =
     (case map_of TRON_TOKENS from_asset of
        None \<Rightarrow> Inl (ValueError ''token source'')
      | Some cd \<Rightarrow> Inr cd)"

definition to_token_native :: "int \<Rightarrow> int \<Rightarrow> int res" where
  "to_token_native amount_thorchain decimals =
     (if decimals > 8 then Inl (ValueError ''decimals'')
      else
        let factor = 10 ^ nat (8 - decimals);
            native = amount_thorchain div factor;
            remainder = amount_thorchain mod factor
        in if remainder \<noteq> 0 then Inl (ValueError ''base unit'') else Inr native)"

definition decode_trc20_transfer :: "('w, 'k, 'tx) tronlib \<Rightarrow> string \<Rightarrow> (string \<times> int) res" where
  "decode_trc20_transfer lib call_data =
     (case bytes_fromhex (removeprefix ''0x'' call_data) of
        None \<Rightarrow> Inl (ValueError ''fromhex'')
      | Some raw \<Rightarrow>
          if hex_of_bytes (take 4 raw) \<noteq> TRC20_TRANSFER_SELECTOR then Inl (ValueError ''selector'')
          else trl_abi_decode lib (drop 4 raw))"

section \<open>The adapter\<close>

record tron_adapter =
  ta_api_url :: string
  ta_passphrase :: string

definition tron_adapter :: "string \<Rightarrow> string \<Rightarrow> tron_adapter" where
  "tron_adapter api_url passphrase =
     \<lparr>ta_api_url = rstrip_char CHR ''/'' api_url, ta_passphrase = passphrase\<rparr>"

definition tron_key :: "('w, 'k, 'tx) tronlib \<Rightarrow> tron_adapter \<Rightarrow> string \<Rightarrow> string \<Rightarrow> 'k res" where
  "tron_key lib ad mnemonic path = trl_from_mnemonic lib mnemonic (ta_passphrase ad) path"

definition tron_derive_address ::
    "('w, 'k, 'tx) tronlib \<Rightarrow> tron_adapter \<Rightarrow> string \<Rightarrow> string \<Rightarrow> string res" where
  "tron_derive_address lib ad mnemonic path =
     bind_res (tron_key lib ad mnemonic path) (\<lambda>k.
       case bytes_fromhex (drop 2 (trl_evm_address lib k)) of
         None \<Rightarrow> Inl (ValueError ''fromhex'')
       | Some addr20 \<Rightarrow> Inr (base58check_encode (trl_sha256 lib) (TRON_MAINNET_PREFIX # addr20)))"

text \<open>
  The sessions an adapter holds: its own HTTP client and one session per library client it
  spawned for building. \<open>close\<close> releases all of them.
\<close>

record tron_sessions =
  tns_http :: http_client
  tns_spawned :: "nat list"

definition new_tron_sessions :: "rat \<Rightarrow> tron_sessions" where
  "new_tron_sessions timeout = \<lparr>tns_http = new_client timeout, tns_spawned = []\<rparr>"

definition spawn_tron_client :: "tron_sessions \<Rightarrow> session_pool \<Rightarrow> tron_sessions \<times> session_pool" where
  "spawn_tron_client s p =
     (let i = next_session p
      in (s\<lparr>tns_spawned := tns_spawned s @ [i]\<rparr>,
          p\<lparr>next_session := i + 1, open_sessions := insert i (open_sessions p)\<rparr>))"

definition close_tron :: "tron_sessions \<Rightarrow> session_pool \<Rightarrow> tron_sessions \<times> session_pool" where
  "close_tron s p =
     (case close_client (tns_http s) (p\<lparr>open_sessions := open_sessions p - set (tns_spawned s)\<rparr>) of
        (c, p') \<Rightarrow> (\<lparr>tns_http = c, tns_spawned = []\<rparr>, p'))"

section \<open>Reads over HTTP\<close>

definition tron_call ::
    "'w json_post \<Rightarrow> tron_adapter \<Rightarrow> string \<Rightarrow> dict \<Rightarrow> ('w, json) pyio" where
  "tron_call post ad route body =
     bind_io (post (ta_api_url ad @ ''/wallet/'' @ route) (JObj body)) (\<lambda>resp. lift_io (checked_json resp))"

definition fetch_tron_balance :: "'w json_post \<Rightarrow> tron_adapter \<Rightarrow> string \<Rightarrow> ('w, int) pyio" where
  "fetch_tron_balance post ad address =
     bind_io (tron_call post ad ''getaccount'' [(''address'', JStr address), (''visible'', JBool True)]) (\<lambda>j.
       lift_io (bind_res (as_dict j) (\<lambda>d. get_int d ''balance'')))"

definition tron_wallet_balance ::
    "('w, 'k, 'tx) tronlib \<Rightarrow> 'w json_post \<Rightarrow> tron_adapter \<Rightarrow> string \<Rightarrow> ('w, balance_report) pyio" where
  "tron_wallet_balance lib post ad mnemonic =
     bind_io (lift_io (tron_derive_address lib ad mnemonic DEFAULT_TRON_DERIVATION)) (\<lambda>address.
     bind_io (fetch_tron_balance post ad address) (\<lambda>bal.
       return_io \<lparr>br_symbol = ''TRX'', br_confirmed = bal, br_decimals = TRX_DECIMALS, br_pending = 0,
         br_note = ''('' @ address @ '')'', br_addresses = [address]\<rparr>))"

text \<open>The first word of the answer, or zero when it is missing or empty.\<close>

definition first_word :: "dict \<Rightarrow> int res" where
  "first_word d =
     (let r = dget d ''constant_result'' JNull
      in bind_res (as_list (if truthy r then r else JArr [])) (\<lambda>results.
           case results of [] \<Rightarrow> Inr 0 | x # _ \<Rightarrow> hex_int x))"

definition fetch_tron_token_balance ::
    "('w, 'k, 'tx) tronlib \<Rightarrow> 'w json_post \<Rightarrow> tron_adapter \<Rightarrow> string \<Rightarrow> string \<Rightarrow> ('w, int) pyio" where
  "fetch_tron_token_balance lib post ad contract address =
     bind_io (lift_io (trl_hex_address lib address)) (\<lambda>hex.
     bind_io (tron_call post ad ''triggerconstantcontract''
        [(''owner_address'', JStr address), (''contract_address'', JStr contract),
         (''function_selector'', JStr ''balanceOf(address)''),
         (''parameter'', JStr (rjust (drop 2 hex) 64 CHR ''0'')), (''visible'', JBool True)]) (\<lambda>j.
       lift_io (bind_res (as_dict j) first_word)))"

definition get_transaction_info :: "'w json_post \<Rightarrow> tron_adapter \<Rightarrow> string \<Rightarrow> ('w, json) pyio" where
  "get_transaction_info post ad txid =
     tron_call post ad ''gettransactioninfobyid'' [(''value'', JStr txid)]"

definition tron_token_balances ::
    "('w, 'k, 'tx) tronlib \<Rightarrow> 'w json_post \<Rightarrow> tron_adapter \<Rightarrow> string \<Rightarrow> ('w, balance_report list) pyio" where
  "tron_token_balances lib post ad mnemonic =
     bind_io (lift_io (tron_derive_address lib ad mnemonic DEFAULT_TRON_DERIVATION)) (\<lambda>address.
       map_io (\<lambda>(symbol, contract, decimals).
         bind_io (fetch_tron_token_balance lib post ad contract address) (\<lambda>bal.
           return_io \<lparr>br_symbol = symbol @ ''-TRON'', br_confirmed = bal, br_decimals = decimals,
             br_pending = 0, br_note = [], br_addresses = [address]\<rparr>))
         TRON_TRACKED_TOKENS)"

section \<open>Building\<close>

record ('k, 'tx) tron_built =
  tb_tx :: 'tx
  tb_priv :: 'k
  tb_contract_type :: string
  tb_to_address :: string
  tb_amount_sun :: int
  tb_memo :: string
  tb_call_data :: string

text \<open>\<open>tx._raw_data["contract"][0]\<close> and the memo read from the data field.\<close>

definition first_contract :: "tron_raw \<Rightarrow> (string \<times> dict) res" where
  "first_contract raw = (case raw_contracts raw of [] \<Rightarrow> Inl IndexError | c # _ \<Rightarrow> Inr c)"

definition memo_of :: "tron_raw \<Rightarrow> string res" where
  "memo_of raw =
     (case raw_memo_hex raw of
        None \<Rightarrow> Inr []
      | Some data \<Rightarrow>
          if data = [] then Inr []
          else case bytes_fromhex data of
            None \<Rightarrow> Inl (ValueError ''fromhex'')
          | Some bs \<Rightarrow> decode_utf8 bs)"

text \<open>An empty memo is not attached.\<close>

definition memo_arg :: "string \<Rightarrow> string option" where
  "memo_arg memo = (if memo = [] then None else Some memo)"

definition native_fields :: "('w, 'k, 'tx) tronlib \<Rightarrow> 'tx \<Rightarrow> (string \<times> string \<times> int \<times> string) res" where
  "native_fields lib tx =
     bind_res (first_contract (trl_raw lib tx)) (\<lambda>(ct, val).
     bind_res (bind_res (str_item val ''to_address'') (trl_base58_address lib)) (\<lambda>to.
     bind_res (bind_res (item val ''amount'') as_int) (\<lambda>sun.
     bind_res (memo_of (trl_raw lib tx)) (\<lambda>memo. Inr (ct, to, sun, memo)))))"

definition token_fields :: "('w, 'k, 'tx) tronlib \<Rightarrow> 'tx \<Rightarrow> (string \<times> string \<times> string \<times> string) res" where
  "token_fields lib tx =
     bind_res (first_contract (trl_raw lib tx)) (\<lambda>(ct, val).
     bind_res (bind_res (str_item val ''contract_address'') (trl_base58_address lib)) (\<lambda>to.
     bind_res (memo_of (trl_raw lib tx)) (\<lambda>memo.
     bind_res (str_item val ''data'') (\<lambda>data. Inr (ct, to, memo, data)))))"

definition build_unsigned_transfer ::
    "('w, 'k, 'tx) tronlib \<Rightarrow> tron_adapter \<Rightarrow> string \<Rightarrow> string \<Rightarrow> int \<Rightarrow> string \<Rightarrow> string \<Rightarrow>
     ('w, ('k, 'tx) tron_built) pyio" where
  "build_unsigned_transfer lib ad mnemonic to amount_sun memo path =
     bind_io (lift_io (tron_key lib ad mnemonic path)) (\<lambda>priv.
     bind_io (trl_transfer lib (ta_api_url ad) (trl_owner lib priv) to amount_sun (memo_arg memo)) (\<lambda>tx.
     bind_io (lift_io (native_fields lib tx)) (\<lambda>(ct, to', sun, memo').
       return_io \<lparr>tb_tx = tx, tb_priv = priv, tb_contract_type = ct, tb_to_address = to',
         tb_amount_sun = sun, tb_memo = memo', tb_call_data = []\<rparr>)))"

definition build_unsigned_trc20_transfer ::
    "('w, 'k, 'tx) tronlib \<Rightarrow> tron_adapter \<Rightarrow> string \<Rightarrow> string \<Rightarrow> string \<Rightarrow> int \<Rightarrow> string \<Rightarrow> int \<Rightarrow> string \<Rightarrow>
     ('w, ('k, 'tx) tron_built) pyio" where
  "build_unsigned_trc20_transfer lib ad mnemonic token to amount memo fee_limit_sun path =
     bind_io (lift_io (tron_key lib ad mnemonic path)) (\<lambda>priv.
     bind_io (trl_trigger lib (ta_api_url ad) (trl_owner lib priv) token to amount fee_limit_sun
         (memo_arg memo)) (\<lambda>tx.
     bind_io (lift_io (token_fields lib tx)) (\<lambda>(ct, to', memo', data).
       return_io \<lparr>tb_tx = tx, tb_priv = priv, tb_contract_type = ct, tb_to_address = to',
         tb_amount_sun = 0, tb_memo = memo', tb_call_data = data\<rparr>)))"

datatype tron_plan = TronSwap tron_swap_plan | TronTokenSwap tron_token_swap_plan
  | TronSend tron_send_plan | TronTokenSend tron_token_send_plan

type_synonym ('k, 'tx) tron_prepared = "(('k, 'tx) tron_built, tron_plan) prepared"

definition tron_gate ::
    "swap_quote option \<Rightarrow> tron_swap_plan \<Rightarrow> int \<Rightarrow> ('k, 'tx) tron_built \<Rightarrow> ('k, 'tx) tron_prepared" where
  "tron_gate q plan now b =
     \<lparr>pr_quote = q, pr_built = b, pr_plan = TronSwap plan,
      pr_problems = verify_tron_swap (tb_contract_type b) (tb_to_address b) (tb_amount_sun b)
        (tb_memo b) plan now\<rparr>"

definition tron_build_native ::
    "('w, 'k, 'tx) tronlib \<Rightarrow> tron_adapter \<Rightarrow> string \<Rightarrow> string \<Rightarrow> int \<Rightarrow> string \<Rightarrow> int \<Rightarrow> string \<Rightarrow> int \<Rightarrow>
     swap_quote option \<Rightarrow> ('w, ('k, 'tx) tron_prepared) pyio" where
  "tron_build_native lib ad mnemonic to amount_sun memo expiry destination now q =
     bind_io (build_unsigned_transfer lib ad mnemonic to amount_sun memo DEFAULT_TRON_DERIVATION) (\<lambda>b.
       return_io (tron_gate q \<lparr>tsp_inbound_address = to, tsp_amount_sun = amount_sun, tsp_memo = memo,
         tsp_expiry = expiry, tsp_destination = destination\<rparr> now b))"

definition tron_token_gate ::
    "swap_quote \<Rightarrow> tron_token_swap_plan \<Rightarrow> int \<Rightarrow> string \<Rightarrow> int \<Rightarrow> ('k, 'tx) tron_built \<Rightarrow>
     ('k, 'tx) tron_prepared" where
  "tron_token_gate q plan now recipient transfer_amount b =
     \<lparr>pr_quote = Some q, pr_built = b, pr_plan = TronTokenSwap plan,
      pr_problems = verify_tron_token_swap (tb_contract_type b) (tb_to_address b) recipient
        transfer_amount (tb_amount_sun b) (tb_memo b) plan now\<rparr>"

definition tron_build_token ::
    "('w, 'k, 'tx) tronlib \<Rightarrow> tron_adapter \<Rightarrow> string \<Rightarrow> swap_quote \<Rightarrow> swap_request \<Rightarrow> int \<Rightarrow>
     ('w, ('k, 'tx) tron_prepared) pyio" where
  "tron_build_token lib ad mnemonic q request now =
     bind_io (lift_io (token_contract_and_decimals (rq_from_asset request))) (\<lambda>(token, decimals).
     bind_io (lift_io (to_token_native (rq_amount request) decimals)) (\<lambda>native.
     bind_io (build_unsigned_trc20_transfer lib ad mnemonic token (q_inbound_address q) native
         (quote_memo q) DEFAULT_TRC20_FEE_LIMIT_SUN DEFAULT_TRON_DERIVATION) (\<lambda>b.
     bind_io (lift_io (decode_trc20_transfer lib (tb_call_data b))) (\<lambda>(recipient, transfer_amount).
       return_io (tron_token_gate q \<lparr>ttsp_inbound_address = q_inbound_address q, ttsp_token = token,
         ttsp_amount = native, ttsp_memo = quote_memo q, ttsp_expiry = q_expiry q,
         ttsp_destination = rq_destination request\<rparr> now recipient transfer_amount b)))))"

definition tron_build_and_verify ::
    "('w, 'k, 'tx) tronlib \<Rightarrow> tron_adapter \<Rightarrow> string \<Rightarrow> swap_quote \<Rightarrow> swap_request \<Rightarrow> int \<Rightarrow>
     ('w, ('k, 'tx) tron_prepared) pyio" where
  "tron_build_and_verify lib ad mnemonic q request now =
     (if CHR ''-'' \<in> set (rq_from_asset request) then tron_build_token lib ad mnemonic q request now
      else bind_io (lift_io (to_sun (rq_amount request))) (\<lambda>sun.
        tron_build_native lib ad mnemonic (q_inbound_address q) sun (quote_memo q) (q_expiry q)
          (rq_destination request) now (Some q)))"

definition tron_build_and_verify_deposit ::
    "('w, 'k, 'tx) tronlib \<Rightarrow> tron_adapter \<Rightarrow> string \<Rightarrow> string \<Rightarrow> string \<Rightarrow> int \<Rightarrow> int \<Rightarrow>
     ('w, ('k, 'tx) tron_prepared) pyio" where
  "tron_build_and_verify_deposit lib ad mnemonic vault memo amount now =
     bind_io (lift_io (to_sun amount)) (\<lambda>sun.
       tron_build_native lib ad mnemonic vault sun memo (now + 3600) [] now None)"

definition tron_build_token_send ::
    "('w, 'k, 'tx) tronlib \<Rightarrow> tron_adapter \<Rightarrow> string \<Rightarrow> string \<Rightarrow> int \<Rightarrow> string \<Rightarrow>
     ('w, ('k, 'tx) tron_prepared) pyio" where
  "tron_build_token_send lib ad mnemonic recipient amount asset =
     bind_io (lift_io (token_contract_and_decimals asset)) (\<lambda>(token, decimals).
     bind_io (lift_io (to_token_native amount decimals)) (\<lambda>native.
     bind_io (build_unsigned_trc20_transfer lib ad mnemonic token recipient native []
         DEFAULT_TRC20_FEE_LIMIT_SUN DEFAULT_TRON_DERIVATION) (\<lambda>b.
     bind_io (lift_io (decode_trc20_transfer lib (tb_call_data b))) (\<lambda>(d_recipient, transfer_amount).
       let plan = \<lparr>tts_token = token, tts_recipient = recipient, tts_amount = native\<rparr>
       in return_io \<lparr>pr_quote = None, pr_built = b, pr_plan = TronTokenSend plan,
            pr_problems = verify_tron_token_send (tb_contract_type b) (tb_to_address b) d_recipient
              transfer_amount (tb_amount_sun b) (tb_memo b) plan\<rparr>))))"

definition tron_build_native_send ::
    "('w, 'k, 'tx) tronlib \<Rightarrow> tron_adapter \<Rightarrow> string \<Rightarrow> string \<Rightarrow> int \<Rightarrow> ('w, ('k, 'tx) tron_prepared) pyio" where
  "tron_build_native_send lib ad mnemonic recipient amount =
     bind_io (lift_io (to_sun amount)) (\<lambda>sun.
     bind_io (build_unsigned_transfer lib ad mnemonic recipient sun [] DEFAULT_TRON_DERIVATION) (\<lambda>b.
       let plan = \<lparr>ts_recipient = recipient, ts_amount_sun = sun\<rparr>
       in return_io \<lparr>pr_quote = None, pr_built = b, pr_plan = TronSend plan,
            pr_problems = verify_tron_send (tb_contract_type b) (tb_to_address b) (tb_amount_sun b)
              (tb_memo b) plan\<rparr>))"

definition tron_build_and_verify_send ::
    "('w, 'k, 'tx) tronlib \<Rightarrow> tron_adapter \<Rightarrow> string \<Rightarrow> string \<Rightarrow> int \<Rightarrow> string \<Rightarrow>
     ('w, ('k, 'tx) tron_prepared) pyio" where
  "tron_build_and_verify_send lib ad mnemonic recipient amount asset =
     (if CHR ''-'' \<in> set asset then tron_build_token_send lib ad mnemonic recipient amount asset
      else tron_build_native_send lib ad mnemonic recipient amount)"

section \<open>Signing and broadcasting\<close>

definition tron_sign :: "('w, 'k, 'tx) tronlib \<Rightarrow> ('k, 'tx) tron_built \<Rightarrow> 'tx list res" where
  "tron_sign lib b = bind_res (trl_sign lib (tb_tx b) (tb_priv b)) (\<lambda>tx. Inr [tx])"

text \<open>The hint's dash is outside the range of \<open>string\<close> and is written as a hyphen.\<close>

definition HEADROOM_HINT :: string where
  "HEADROOM_HINT = '' - a TRON transfer also needs spare TRX for the network fee (bandwidth/energy), '' @
     ''which is NOT part of the sent amount; leave some TRX headroom below your balance (~1 TRX).''"

definition tron_failure_exc :: "tron_failure \<Rightarrow> pyexc" where
  "tron_failure_exc f =
     (case f of
        TronRejected msg \<Rightarrow>
          BroadcastError (if contains ''not sufficient'' (lower msg) then msg @ HEADROOM_HINT else msg)
      | TronRaised e \<Rightarrow> e)"

fun tron_broadcast_from ::
    "('w, 'k, 'tx) tronlib \<Rightarrow> string \<Rightarrow> 'tx list \<Rightarrow> ('w, string) pyio" where
  "tron_broadcast_from lib txid [] = return_io txid"
| "tron_broadcast_from lib txid (tx # txs) =
     (\<lambda>w. case trl_broadcast lib tx w of
        (Inl f, w') \<Rightarrow> (Inl (tron_failure_exc f), w')
      | (Inr _, w') \<Rightarrow> tron_broadcast_from lib (trl_txid lib tx) txs w')"

definition tron_broadcast :: "('w, 'k, 'tx) tronlib \<Rightarrow> 'tx list \<Rightarrow> ('w, string) pyio" where
  "tron_broadcast lib raws = tron_broadcast_from lib [] raws"

definition tron_source ::
    "('w, 'k, 'tx) tronlib \<Rightarrow> tron_adapter \<Rightarrow> string \<Rightarrow>
     ('w, ('k, 'tx) tron_built, tron_plan, 'tx) source_adapter" where
  "tron_source lib ad mnemonic =
     \<lparr>ad_chain = ''TRON'',
      ad_build_and_verify = tron_build_and_verify lib ad mnemonic,
      ad_build_and_verify_deposit = tron_build_and_verify_deposit lib ad mnemonic,
      ad_sign = (\<lambda>b. lift_io (tron_sign lib b)),
      ad_broadcast = tron_broadcast lib\<rparr>"

section \<open>Exact amounts\<close>

lemma units_per_sun_nonzero [simp]: "THORCHAIN_UNITS_PER_SUN \<noteq> 0"
  by (simp add: THORCHAIN_UNITS_PER_SUN_def)

lemma to_sun_Inr: "to_sun a = Inr s \<longleftrightarrow> a = THORCHAIN_UNITS_PER_SUN * s"
  by (auto simp: to_sun_def Let_def THORCHAIN_UNITS_PER_SUN_def)

lemma to_token_native_Inr:
  "to_token_native a d = Inr n \<longleftrightarrow> d \<le> 8 \<and> a = n * 10 ^ nat (8 - d)"
  by (auto simp: to_token_native_def Let_def not_less)

section \<open>The sessions are released\<close>

text \<open>What building and reading do to the sessions, and the sessions an adapter accounts for.\<close>

datatype tron_use = ReadHttp | SpawnClient

fun tron_use_step :: "tron_use \<Rightarrow> tron_sessions \<times> session_pool \<Rightarrow> tron_sessions \<times> session_pool" where
  "tron_use_step ReadHttp (s, p) =
     (case http_session (tns_http s) p of (_, c, p') \<Rightarrow> (s\<lparr>tns_http := c\<rparr>, p'))"
| "tron_use_step SpawnClient (s, p) = spawn_tron_client s p"

definition tron_owns :: "session_pool \<Rightarrow> tron_sessions \<times> session_pool \<Rightarrow> bool" where
  "tron_owns p0 sp \<longleftrightarrow>
     (case sp of (s, p) \<Rightarrow>
        next_session p0 \<le> next_session p
        \<and> open_sessions p = open_sessions p0 \<union> set (tns_spawned s) \<union> set_option (hc_session (tns_http s))
        \<and> (\<forall>i \<in> set (tns_spawned s) \<union> set_option (hc_session (tns_http s)).
             next_session p0 \<le> i \<and> i < next_session p))"

lemma tron_use_step_owns: "tron_owns p0 sp \<Longrightarrow> tron_owns p0 (tron_use_step u sp)"
  by (cases u; cases sp; cases "hc_session (tns_http (fst sp))")
     (auto simp: tron_owns_def http_session_def spawn_tron_client_def Let_def)

lemma tron_uses_own: "tron_owns p0 sp \<Longrightarrow> tron_owns p0 (foldl (\<lambda>sp u. tron_use_step u sp) sp us)"
  by (induction us arbitrary: sp) (simp_all add: tron_use_step_owns)

lemma close_tron_releases:
  assumes "fresh_pool p0" "tron_owns p0 (s, p)"
  shows "open_sessions (snd (close_tron s p)) = open_sessions p0"
proof -
  have "\<forall>i \<in> open_sessions p0. i \<notin> set (tns_spawned s) \<union> set_option (hc_session (tns_http s))"
  proof (intro ballI notI)
    fix i assume "i \<in> open_sessions p0" "i \<in> set (tns_spawned s) \<union> set_option (hc_session (tns_http s))"
    then have "i < next_session p0" "next_session p0 \<le> i"
      using assms by (simp add: fresh_pool_def, simp only: tron_owns_def prod.case)
    then show False by simp
  qed
  with assms(2) show ?thesis
    by (cases "hc_session (tns_http s)") (auto simp: tron_owns_def close_tron_def close_client_def)
qed

lemma tron_adapter_releases:
  assumes "fresh_pool p0"
  shows "open_sessions (snd (case_prod close_tron
    (foldl (\<lambda>sp u. tron_use_step u sp) (new_tron_sessions timeout, p0) us))) = open_sessions p0"
proof -
  have "tron_owns p0 (new_tron_sessions timeout, p0)"
    by (simp add: tron_owns_def new_tron_sessions_def new_client_def)
  then have "tron_owns p0 (foldl (\<lambda>sp u. tron_use_step u sp) (new_tron_sessions timeout, p0) us)"
    by (rule tron_uses_own)
  with assms show ?thesis by (metis (no_types, lifting) case_prod_conv close_tron_releases surj_pair)
qed

section \<open>What the adapter promises\<close>

definition tron_native_carries :: "('w, 'k, 'tx) tronlib \<Rightarrow> 'tx \<Rightarrow> string \<Rightarrow> string \<Rightarrow> int \<Rightarrow> bool" where
  "tron_native_carries lib tx vault memo amount \<longleftrightarrow>
     (\<exists>sun. amount = THORCHAIN_UNITS_PER_SUN * sun
        \<and> native_fields lib tx = Inr (''TransferContract'', vault, sun, memo))"

definition tron_token_carries :: "('w, 'k, 'tx) tronlib \<Rightarrow> 'tx \<Rightarrow> swap_quote \<Rightarrow> swap_request \<Rightarrow> bool" where
  "tron_token_carries lib tx q rq \<longleftrightarrow>
     (\<exists>token decimals native data.
        token_contract_and_decimals (rq_from_asset rq) = Inr (token, decimals)
        \<and> decimals \<le> 8 \<and> rq_amount rq = native * 10 ^ nat (8 - decimals)
        \<and> token_fields lib tx = Inr (''TriggerSmartContract'', token, quote_memo q, data)
        \<and> decode_trc20_transfer lib data = Inr (q_inbound_address q, native))"

definition tron_carries ::
    "('w, 'k, 'tx) tronlib \<Rightarrow> ('k, 'tx) tron_built \<Rightarrow> swap_quote \<Rightarrow> swap_request \<Rightarrow> bool" where
  "tron_carries lib b q rq \<longleftrightarrow>
     (if CHR ''-'' \<in> set (rq_from_asset rq) then tron_token_carries lib (tb_tx b) q rq
      else tron_native_carries lib (tb_tx b) (q_inbound_address q) (quote_memo q) (rq_amount rq))"

lemma build_unsigned_transfer_reads:
  "build_unsigned_transfer lib ad mnemonic to sun memo path w = (Inr b, w') \<Longrightarrow>
   native_fields lib (tb_tx b) = Inr (tb_contract_type b, tb_to_address b, tb_amount_sun b, tb_memo b)"
  by (auto simp: build_unsigned_transfer_def bind_io_eq_Inr lift_io_eq split: prod.splits)

lemma build_unsigned_trc20_transfer_reads:
  "build_unsigned_trc20_transfer lib ad mnemonic token to n memo fl path w = (Inr b, w') \<Longrightarrow>
   token_fields lib (tb_tx b) = Inr (tb_contract_type b, tb_to_address b, tb_memo b, tb_call_data b)
     \<and> tb_amount_sun b = 0"
  by (auto simp: build_unsigned_trc20_transfer_def bind_io_eq_Inr lift_io_eq split: prod.splits)

lemma tron_build_native_safe:
  assumes "tron_build_native lib ad mnemonic to sun memo expiry destination now q w = (Inr p, w')"
  shows "prepared_safe p \<longleftrightarrow>
    now < expiry \<and> native_fields lib (tb_tx (pr_built p)) = Inr (''TransferContract'', to, sun, memo)
    \<and> memo_pays_destination destination memo"
proof -
  from assms obtain b where b: "build_unsigned_transfer lib ad mnemonic to sun memo DEFAULT_TRON_DERIVATION w = (Inr b, w')"
    and p: "p = tron_gate q \<lparr>tsp_inbound_address = to, tsp_amount_sun = sun, tsp_memo = memo,
         tsp_expiry = expiry, tsp_destination = destination\<rparr> now b"
    by (auto simp: tron_build_native_def bind_io_eq_Inr)
  show ?thesis
    using build_unsigned_transfer_reads [OF b] tron_swap_gate.report_empty
      [of "(tb_contract_type b, tb_to_address b, tb_amount_sun b, tb_memo b, pr_plan_swap, now)" for pr_plan_swap]
    by (auto simp: p prepared_safe_def tron_gate_def tron_swap_safe_def)
qed

lemma tron_build_token_safe:
  assumes "tron_build_token lib ad mnemonic q rq now w = (Inr p, w')"
  shows "prepared_safe p \<longleftrightarrow>
    now < q_expiry q \<and> tron_token_carries lib (tb_tx (pr_built p)) q rq
    \<and> memo_pays_destination (rq_destination rq) (quote_memo q)"
proof -
  from assms obtain token decimals native b w1 recipient amount where
    t: "token_contract_and_decimals (rq_from_asset rq) = Inr (token, decimals)"
    and n: "to_token_native (rq_amount rq) decimals = Inr native"
    and b: "build_unsigned_trc20_transfer lib ad mnemonic token (q_inbound_address q) native
         (quote_memo q) DEFAULT_TRC20_FEE_LIMIT_SUN DEFAULT_TRON_DERIVATION w = (Inr b, w1)"
    and d: "decode_trc20_transfer lib (tb_call_data b) = Inr (recipient, amount)"
    and p: "p = tron_token_gate q \<lparr>ttsp_inbound_address = q_inbound_address q, ttsp_token = token,
         ttsp_amount = native, ttsp_memo = quote_memo q, ttsp_expiry = q_expiry q,
         ttsp_destination = rq_destination rq\<rparr> now recipient amount b"
    by (auto simp: tron_build_token_def bind_io_eq_Inr lift_io_eq split: prod.splits)
  have c: "tron_token_carries lib (tb_tx b) q rq \<longleftrightarrow>
      tb_contract_type b = ''TriggerSmartContract'' \<and> tb_to_address b = token \<and> tb_memo b = quote_memo q
      \<and> recipient = q_inbound_address q \<and> amount = native"
    using build_unsigned_trc20_transfer_reads [OF b] t n d
    by (auto simp: tron_token_carries_def to_token_native_Inr)
  show ?thesis
    using build_unsigned_trc20_transfer_reads [OF b] c tron_token_swap_gate.report_empty
      [of "(tb_contract_type b, tb_to_address b, recipient, amount, tb_amount_sun b, tb_memo b, plan, now)" for plan]
    by (auto simp: p prepared_safe_def tron_token_gate_def tron_token_swap_safe_def)
qed

lemma tron_build_and_verify_safe:
  assumes "tron_build_and_verify lib ad mnemonic q rq now w = (Inr p, w')"
  shows "prepared_safe p \<longleftrightarrow> now < q_expiry q \<and> tron_carries lib (pr_built p) q rq
    \<and> memo_pays_destination (rq_destination rq) (quote_memo q)"
proof (cases "CHR ''-'' \<in> set (rq_from_asset rq)")
  case True
  with assms tron_build_token_safe show ?thesis
    by (simp add: tron_build_and_verify_def tron_carries_def)
next
  case False
  with assms obtain sun where s: "rq_amount rq = THORCHAIN_UNITS_PER_SUN * sun"
    and b: "tron_build_native lib ad mnemonic (q_inbound_address q) sun (quote_memo q) (q_expiry q)
        (rq_destination rq) now (Some q) w = (Inr p, w')"
    by (auto simp: tron_build_and_verify_def bind_io_eq_Inr lift_io_eq to_sun_Inr)
  have "tron_native_carries lib tx vault memo (rq_amount rq) \<longleftrightarrow>
      native_fields lib tx = Inr (''TransferContract'', vault, sun, memo)" for tx vault memo
    by (auto simp: tron_native_carries_def s THORCHAIN_UNITS_PER_SUN_def)
  with False tron_build_native_safe [OF b] show ?thesis by (simp add: tron_carries_def)
qed

lemma tron_quotes: "tron_build_and_verify lib ad mnemonic q rq now w = (Inr p, w') \<Longrightarrow> pr_quote p = Some q"
  by (auto simp: tron_build_and_verify_def tron_build_native_def tron_build_token_def tron_gate_def tron_token_gate_def
      bind_io_eq_Inr bind_res_eq_Inr split: if_splits prod.splits)


interpretation tron_swaps: quoting_source "tron_build_and_verify lib ad mnemonic" "tron_carries lib"
  for lib ad mnemonic
  by unfold_locales (simp add: tron_build_and_verify_safe, rule tron_quotes)

interpretation tron_deposits: deposit_source "tron_build_and_verify_deposit lib ad mnemonic"
  "\<lambda>b. tron_native_carries lib (tb_tx b)" for lib ad mnemonic
proof unfold_locales
  fix vault memo amount now w p w'
  assume "tron_build_and_verify_deposit lib ad mnemonic vault memo amount now w = (Inr p, w')"
    and s: "prepared_safe p"
  then obtain sun where "amount = THORCHAIN_UNITS_PER_SUN * sun"
    and b: "tron_build_native lib ad mnemonic vault sun memo (now + 3600) [] now None w = (Inr p, w')"
    by (auto simp: tron_build_and_verify_deposit_def bind_io_eq_Inr lift_io_eq to_sun_Inr)
  then show "tron_native_carries lib (tb_tx (pr_built p)) vault memo amount"
    using s tron_build_native_safe [OF b] by (auto simp: tron_native_carries_def)
qed

definition tron_planned :: "tron_plan \<Rightarrow> string \<Rightarrow> int \<Rightarrow> bool" where
  "tron_planned plan vault amount \<longleftrightarrow>
     (\<exists>p. plan = TronSwap p \<and> tsp_inbound_address p = vault \<and> amount = THORCHAIN_UNITS_PER_SUN * tsp_amount_sun p)"

interpretation tron_planned_deposits: planned_deposit_source "tron_build_and_verify_deposit lib ad mnemonic"
  "\<lambda>b. tron_native_carries lib (tb_tx b)" tron_planned for lib ad mnemonic
  by unfold_locales
    (auto simp: tron_build_and_verify_deposit_def tron_build_native_def tron_gate_def bind_io_eq_Inr lift_io_eq
      to_sun_Inr tron_planned_def)

text \<open>What a send pays, native or TRC-20.\<close>

definition tron_token_pays :: "('w, 'k, 'tx) tronlib \<Rightarrow> 'tx \<Rightarrow> string \<Rightarrow> int \<Rightarrow> string \<Rightarrow> bool" where
  "tron_token_pays lib tx recipient amount asset \<longleftrightarrow>
     (\<exists>token decimals native data.
        token_contract_and_decimals asset = Inr (token, decimals)
        \<and> decimals \<le> 8 \<and> amount = native * 10 ^ nat (8 - decimals)
        \<and> token_fields lib tx = Inr (''TriggerSmartContract'', token, [], data)
        \<and> decode_trc20_transfer lib data = Inr (recipient, native))"

definition tron_pays :: "('w, 'k, 'tx) tronlib \<Rightarrow> ('k, 'tx) tron_built \<Rightarrow> string \<Rightarrow> int \<Rightarrow> string \<Rightarrow> bool" where
  "tron_pays lib b recipient amount asset \<longleftrightarrow>
     (if CHR ''-'' \<in> set asset then tron_token_pays lib (tb_tx b) recipient amount asset
      else tron_native_carries lib (tb_tx b) recipient [] amount)"

lemma tron_native_send_pays:
  assumes "tron_build_native_send lib ad mnemonic recipient amount w = (Inr p, w')" "prepared_safe p"
  shows "tron_native_carries lib (tb_tx (pr_built p)) recipient [] amount"
proof -
  from assms(1) obtain sun b w1 where s: "amount = THORCHAIN_UNITS_PER_SUN * sun"
    and b: "build_unsigned_transfer lib ad mnemonic recipient sun [] DEFAULT_TRON_DERIVATION w = (Inr b, w1)"
    and p: "pr_built p = b" "pr_problems p = verify_tron_send (tb_contract_type b) (tb_to_address b) (tb_amount_sun b)
        (tb_memo b) \<lparr>ts_recipient = recipient, ts_amount_sun = sun\<rparr>"
    by (auto simp: tron_build_native_send_def bind_io_eq_Inr lift_io_eq to_sun_Inr Let_def)
  from assms(2) p build_unsigned_transfer_reads [OF b] s tron_send_gate.report_empty
      [of "(tb_contract_type b, tb_to_address b, tb_amount_sun b, tb_memo b, \<lparr>ts_recipient = recipient, ts_amount_sun = sun\<rparr>)"]
  show ?thesis by (auto simp: prepared_safe_def tron_send_safe_def tron_native_carries_def)
qed

lemma tron_token_send_pays:
  assumes "tron_build_token_send lib ad mnemonic recipient amount asset w = (Inr p, w')" "prepared_safe p"
  shows "tron_token_pays lib (tb_tx (pr_built p)) recipient amount asset"
proof -
  from assms(1) obtain token decimals native b w1 d n where
    t: "token_contract_and_decimals asset = Inr (token, decimals)"
    and n: "to_token_native amount decimals = Inr native"
    and b: "build_unsigned_trc20_transfer lib ad mnemonic token recipient native []
         DEFAULT_TRC20_FEE_LIMIT_SUN DEFAULT_TRON_DERIVATION w = (Inr b, w1)"
    and d: "decode_trc20_transfer lib (tb_call_data b) = Inr (d, n)"
    and p: "pr_built p = b" "pr_problems p = verify_tron_token_send (tb_contract_type b) (tb_to_address b) d
              n (tb_amount_sun b) (tb_memo b) \<lparr>tts_token = token, tts_recipient = recipient, tts_amount = native\<rparr>"
    by (auto simp: tron_build_token_send_def bind_io_eq_Inr lift_io_eq Let_def split: prod.splits)
  from assms(2) p build_unsigned_trc20_transfer_reads [OF b] t n d tron_token_send_gate.report_empty
      [of "(tb_contract_type b, tb_to_address b, d, n, tb_amount_sun b, tb_memo b,
        \<lparr>tts_token = token, tts_recipient = recipient, tts_amount = native\<rparr>)"]
  show ?thesis by (auto simp: prepared_safe_def tron_token_send_safe_def tron_token_pays_def to_token_native_Inr)
qed

interpretation tron_sends: send_source "tron_build_and_verify_send lib ad mnemonic" "tron_pays lib"
  for lib ad mnemonic
  by unfold_locales
    (auto simp: tron_build_and_verify_send_def tron_pays_def tron_native_send_pays tron_token_send_pays split: if_splits)

section \<open>The library builds what it is asked to\<close>

text \<open>
  What the code relies on: the raw data of a built transaction names the receiver, the amount
  and the memo that were asked for, and the call data is the transfer selector followed by the
  encoded arguments.
\<close>

definition spells_memo :: "string option \<Rightarrow> tron_raw \<Rightarrow> bool" where
  "spells_memo memo raw \<longleftrightarrow> raw_memo_hex raw = map_option (\<lambda>m. hex_of_bytes (utf8_encode m)) memo"

definition tronlib_ok :: "('w, 'k, 'tx) tronlib \<Rightarrow> bool" where
  "tronlib_ok lib \<longleftrightarrow>
     (\<forall>url owner to sun memo w tx w'. trl_transfer lib url owner to sun memo w = (Inr tx, w') \<longrightarrow>
        spells_memo memo (trl_raw lib tx)
        \<and> (\<exists>val cs hex. raw_contracts (trl_raw lib tx) = (''TransferContract'', val) # cs
             \<and> map_of val ''to_address'' = Some (JStr hex) \<and> trl_base58_address lib hex = Inr to
             \<and> map_of val ''amount'' = Some (JInt sun)))
     \<and> (\<forall>url owner token to n fee memo w tx w'. trl_trigger lib url owner token to n fee memo w = (Inr tx, w') \<longrightarrow>
        spells_memo memo (trl_raw lib tx)
        \<and> (\<exists>val cs hex args. raw_contracts (trl_raw lib tx) = (''TriggerSmartContract'', val) # cs
             \<and> map_of val ''contract_address'' = Some (JStr hex) \<and> trl_base58_address lib hex = Inr token
             \<and> map_of val ''data'' = Some (JStr (TRC20_TRANSFER_SELECTOR @ hex_of_bytes args))
             \<and> trl_abi_decode lib args = Inr (to, n)))"

lemma memo_of_spelled: "spells_memo (memo_arg memo) raw \<Longrightarrow> memo_of raw = Inr memo"
proof (cases "memo = []")
  case False
  assume "spells_memo (memo_arg memo) raw"
  with False have r: "raw_memo_hex raw = Some (hex_of_bytes (utf8_encode memo))"
    by (simp add: spells_memo_def memo_arg_def)
  obtain c cs where "memo = c # cs" using False by (cases memo) auto
  then have "length (hex_of_bytes (utf8_encode memo)) \<noteq> 0"
    by (simp add: utf8_encode_Cons utf8_char_length)
  then have "hex_of_bytes (utf8_encode memo) \<noteq> []" by force
  with r show ?thesis by (simp add: memo_of_def comp_def)
qed (simp add: memo_of_def spells_memo_def memo_arg_def)

lemma decode_transfer_data:
  "decode_trc20_transfer lib (TRC20_TRANSFER_SELECTOR @ hex_of_bytes args) = trl_abi_decode lib args"
proof -
  have s: "TRC20_TRANSFER_SELECTOR = hex_of_bytes [0xa9, 0x05, 0x9c, 0xbb]"
    by (simp add: TRC20_TRANSFER_SELECTOR_def) code_simp
  have "\<not> prefix ''0x'' (hex_of_bytes [0xa9, 0x05, 0x9c, 0xbb] @ hex_of_bytes args)"
    by (simp only: s [symmetric] TRC20_TRANSFER_SELECTOR_def) simp
  from removeprefix_id [OF this] show ?thesis
    unfolding decode_trc20_transfer_def s
    by (simp only: hex_of_bytes_append [symmetric] bytes_fromhex_hex) simp
qed

lemma native_fields_ok:
  assumes "tronlib_ok lib" "trl_transfer lib url owner to sun (memo_arg memo) w = (Inr tx, w')"
  shows "native_fields lib tx = Inr (''TransferContract'', to, sun, memo)"
proof -
  from assms obtain val cs hex where s: "spells_memo (memo_arg memo) (trl_raw lib tx)"
    "raw_contracts (trl_raw lib tx) = (''TransferContract'', val) # cs"
    "map_of val ''to_address'' = Some (JStr hex)" "trl_base58_address lib hex = Inr to"
    "map_of val ''amount'' = Some (JInt sun)"
    unfolding tronlib_ok_def by metis
  then show ?thesis
    by (simp add: native_fields_def first_contract_def str_item_def item_def as_int_def memo_of_spelled [OF s(1)])
qed

lemma token_fields_ok:
  assumes "tronlib_ok lib" "trl_trigger lib url owner token to n fee (memo_arg memo) w = (Inr tx, w')"
  shows "\<exists>data. token_fields lib tx = Inr (''TriggerSmartContract'', token, memo, data)
    \<and> decode_trc20_transfer lib data = Inr (to, n)"
proof -
  from assms obtain val cs hex args where s: "spells_memo (memo_arg memo) (trl_raw lib tx)"
    "raw_contracts (trl_raw lib tx) = (''TriggerSmartContract'', val) # cs"
    "map_of val ''contract_address'' = Some (JStr hex)" "trl_base58_address lib hex = Inr token"
    "map_of val ''data'' = Some (JStr (TRC20_TRANSFER_SELECTOR @ hex_of_bytes args))"
    "trl_abi_decode lib args = Inr (to, n)"
    unfolding tronlib_ok_def by metis
  then show ?thesis
    by (simp add: token_fields_def first_contract_def str_item_def item_def memo_of_spelled [OF s(1)]
        decode_transfer_data)
qed

lemma tron_build_carries:
  assumes "tronlib_ok lib" "tron_build_and_verify lib ad mnemonic q rq now w = (Inr p, w')"
  shows "tron_carries lib (pr_built p) q rq"
proof (cases "CHR ''-'' \<in> set (rq_from_asset rq)")
  case True
  from assms(2) True obtain token decimals native b w1 where
    t: "token_contract_and_decimals (rq_from_asset rq) = Inr (token, decimals)"
    and n: "to_token_native (rq_amount rq) decimals = Inr native"
    and b: "build_unsigned_trc20_transfer lib ad mnemonic token (q_inbound_address q) native
         (quote_memo q) DEFAULT_TRC20_FEE_LIMIT_SUN DEFAULT_TRON_DERIVATION w = (Inr b, w1)"
    and p: "pr_built p = b"
    by (auto simp: tron_build_and_verify_def tron_build_token_def bind_io_eq_Inr lift_io_eq
        tron_token_gate_def split: prod.splits)
  from b obtain k w2 where "trl_trigger lib (ta_api_url ad) (trl_owner lib k) token (q_inbound_address q)
      native DEFAULT_TRC20_FEE_LIMIT_SUN (memo_arg (quote_memo q)) w = (Inr (tb_tx b), w2)"
    by (auto simp: build_unsigned_trc20_transfer_def bind_io_eq_Inr lift_io_eq split: prod.splits)
  from token_fields_ok [OF assms(1) this] t n True p show ?thesis
    by (auto simp: tron_carries_def tron_token_carries_def to_token_native_Inr)
next
  case False
  from assms(2) False obtain sun b w1 where s: "rq_amount rq = THORCHAIN_UNITS_PER_SUN * sun"
    and b: "build_unsigned_transfer lib ad mnemonic (q_inbound_address q) sun (quote_memo q)
         DEFAULT_TRON_DERIVATION w = (Inr b, w1)"
    and p: "pr_built p = b"
    by (auto simp: tron_build_and_verify_def tron_build_native_def bind_io_eq_Inr lift_io_eq
        tron_gate_def to_sun_Inr)
  from b obtain k w2 where "trl_transfer lib (ta_api_url ad) (trl_owner lib k) (q_inbound_address q) sun
      (memo_arg (quote_memo q)) w = (Inr (tb_tx b), w2)"
    by (auto simp: build_unsigned_transfer_def bind_io_eq_Inr lift_io_eq split: prod.splits)
  from native_fields_ok [OF assms(1) this] s False p show ?thesis
    by (auto simp: tron_carries_def tron_native_carries_def)
qed

section \<open>The gate and the value that rides along\<close>

text \<open>
  A contract call may carry TRX of its own. The gate has a check for it, but the builder
  hands it the constant zero: whatever value the library attached, preparing gives the same.
\<close>

definition attach_value :: "json \<Rightarrow> tron_raw \<Rightarrow> tron_raw" where
  "attach_value v raw =
     raw\<lparr>raw_contracts := map (\<lambda>(ct, val). (ct, AList.update ''call_value'' v val)) (raw_contracts raw)\<rparr>"

lemma attach_value_fields:
  "native_fields (lib\<lparr>trl_raw := attach_value v \<circ> trl_raw lib\<rparr>) tx = native_fields lib tx"
  "token_fields (lib\<lparr>trl_raw := attach_value v \<circ> trl_raw lib\<rparr>) tx = token_fields lib tx"
  by (cases "raw_contracts (trl_raw lib tx)"; auto simp: native_fields_def token_fields_def
      first_contract_def attach_value_def memo_of_def str_item_def item_def dict_set_lookup split: prod.splits)+

lemma token_gate_blind_to_call_value:
  "tron_build_and_verify (lib\<lparr>trl_raw := attach_value v \<circ> trl_raw lib\<rparr>) ad mnemonic q rq now w =
   tron_build_and_verify lib ad mnemonic q rq now w"
proof -
  let ?lib = "lib\<lparr>trl_raw := attach_value v \<circ> trl_raw lib\<rparr>"
  have "build_unsigned_transfer ?lib = build_unsigned_transfer lib"
    "build_unsigned_trc20_transfer ?lib = build_unsigned_trc20_transfer lib"
    by (intro ext; simp add: build_unsigned_transfer_def build_unsigned_trc20_transfer_def
        attach_value_fields tron_key_def)+
  moreover have "decode_trc20_transfer ?lib = decode_trc20_transfer lib"
    by (intro ext) (simp add: decode_trc20_transfer_def split: option.split)
  ultimately show ?thesis
    by (simp add: tron_build_and_verify_def tron_build_token_def tron_build_native_def)
qed

section \<open>An example library\<close>

text \<open>A library that meets \<open>tronlib_ok\<close>; its transactions are their raw data.\<close>

definition example_tronlib :: "(nat list, string, tron_raw) tronlib" where
  "example_tronlib =
     \<lparr>trl_from_mnemonic = (\<lambda>m p path. Inr m), trl_evm_address = (\<lambda>k. ''0x00ab''), trl_owner = id,
      trl_sha256 = (\<lambda>bs. replicate 32 7), trl_hex_address = (\<lambda>s. Inr (''41'' @ s)),
      trl_base58_address = Inr,
      trl_transfer = (\<lambda>url owner to sun memo. return_io
        \<lparr>raw_contracts = [(''TransferContract'', [(''to_address'', JStr to), (''amount'', JInt sun)])],
         raw_memo_hex = map_option (\<lambda>m. hex_of_bytes (utf8_encode m)) memo\<rparr>),
      trl_trigger = (\<lambda>url owner token to n fee memo.
        if is_amount n then return_io
          \<lparr>raw_contracts = [(''TriggerSmartContract'', [(''contract_address'', JStr token),
             (''data'', JStr (TRC20_TRANSFER_SELECTOR @ hex_of_bytes (pack_text to @ pack_text (str_int n))))])],
           raw_memo_hex = map_option (\<lambda>m. hex_of_bytes (utf8_encode m)) memo\<rparr>
        else raise_io (ValueError ''uint256'')),
      trl_raw = id,
      trl_abi_decode = (\<lambda>bs. case unpack_text bs of (to, rest) \<Rightarrow>
        (case parse_int (fst (unpack_text rest)) of None \<Rightarrow> Inl (ValueError ''uint256'') | Some n \<Rightarrow> Inr (to, n))),
      trl_sign = (\<lambda>tx k. Inr tx), trl_broadcast = (\<lambda>tx w. (Inr (), 1 # w)), trl_txid = (\<lambda>tx. ''txid'')\<rparr>"

lemma unpack_pack_end: "unpack_text (pack_text s) = (s, [])"
  using unpack_pack [of s "[]"] by simp

lemma example_tronlib_ok: "tronlib_ok example_tronlib"
  unfolding tronlib_ok_def
  by (auto simp: example_tronlib_def spells_memo_def unpack_pack_end parse_int_amount split: if_splits)

definition example_tron_quote :: swap_quote where
  "example_tron_quote = example_quote\<lparr>q_inbound_address := ''Tvault'', q_memo := Some ''=:BTC.BTC:bc1q''\<rparr>"

definition example_tron_request :: "string \<Rightarrow> swap_request" where
  "example_tron_request asset = \<lparr>rq_from_asset = asset, rq_to_asset = ''BTC.BTC'', rq_amount = 50000,
     rq_destination = ''bc1q''\<rparr>"

abbreviation example_tron :: "string \<Rightarrow> nat list \<Rightarrow> (string, tron_raw) tron_prepared res \<times> nat list" where
  "example_tron asset \<equiv> tron_build_and_verify example_tronlib (tron_adapter ''http://node/'' []) ''seed''
     example_tron_quote (example_tron_request asset) 10"

lemma example_tron_native: "\<exists>p. example_tron ''TRON.TRX'' w = (Inr p, w)"
  using example_tronlib_ok
  by (simp add: tron_build_and_verify_def example_tron_request_def to_sun_def THORCHAIN_UNITS_PER_SUN_def
      tron_build_native_def build_unsigned_transfer_def tron_key_def bind_io_def)
    (simp add: example_tronlib_def native_fields_def first_contract_def str_item_def item_def as_int_def
      memo_of_spelled spells_memo_def memo_arg_def)

lemma example_tron_lookup:
  "token_contract_and_decimals ''TRON.USDT-TR7NHQJEKQXGTCI8Q8ZY4PL8OTSZGJLJ6T'' =
     Inr (''TR7NHqjeKQxGTCi8q8ZY4pL8otSzgjLj6t'', 6)"
  by code_simp

lemma example_tron_token:
  "\<exists>p. example_tron ''TRON.USDT-TR7NHQJEKQXGTCI8Q8ZY4PL8OTSZGJLJ6T'' w = (Inr p, w)"
proof -
  let ?token = "''TR7NHqjeKQxGTCi8q8ZY4pL8otSzgjLj6t''"
  have n: "to_token_native 50000 6 = Inr 500" by (simp add: to_token_native_Inr)
  have "\<exists>b. build_unsigned_trc20_transfer example_tronlib ad ''seed'' ?token ''Tvault'' 500 memo fee path w = (Inr b, w)
      \<and> decode_trc20_transfer example_tronlib (tb_call_data b) = Inr (''Tvault'', 500)"
    for ad memo fee path
  proof -
    obtain tx where tx: "trl_trigger example_tronlib (ta_api_url ad) ''seed'' ?token ''Tvault'' 500 fee
        (memo_arg memo) w = (Inr tx, w)"
      by (simp add: example_tronlib_def is_amount_def)
    moreover have "tron_key example_tronlib ad ''seed'' path = Inr ''seed''" "trl_owner example_tronlib ''seed'' = ''seed''"
      by (simp_all add: tron_key_def example_tronlib_def)
    ultimately show ?thesis
      using token_fields_ok [OF example_tronlib_ok tx]
      by (auto simp: build_unsigned_trc20_transfer_def bind_io_def)
  qed
  then obtain b where b: "build_unsigned_trc20_transfer example_tronlib (tron_adapter ''http://node/'' []) ''seed''
      ?token ''Tvault'' 500 (quote_memo example_tron_quote) DEFAULT_TRC20_FEE_LIMIT_SUN
      DEFAULT_TRON_DERIVATION w = (Inr b, w)"
    "decode_trc20_transfer example_tronlib (tb_call_data b) = Inr (''Tvault'', 500)" by blast
  then show ?thesis using n
    by (auto simp: tron_build_and_verify_def tron_build_token_def example_tron_request_def
        example_tron_lookup bind_io_def example_tron_quote_def [THEN arg_cong [of _ _ q_inbound_address]])
qed

definition example_tron_thorchain :: "nat list thorchain_like" where
  "example_tron_thorchain = (example_thorchain (Inr example_tron_quote) [])
     \<lparr>tl_inbound_addresses := return_io [(''TRON'', example_status)]\<rparr>"

lemma example_tron_quote_fields:
  "q_inbound_address example_tron_quote = ''Tvault''" "quote_memo example_tron_quote = ''=:BTC.BTC:bc1q''"
  "q_memo example_tron_quote = Some ''=:BTC.BTC:bc1q''" "q_expiry example_tron_quote = 2000"
  "q_recommended_min_amount_in example_tron_quote = 10000"
  by (simp_all add: example_tron_quote_def quote_memo_def example_quote_def)

lemma example_tron_memo: "memo_pays_destination ''bc1q'' ''=:BTC.BTC:bc1q''" by code_simp

section \<open>Properties\<close>

text \<open>Whatever the library and the node return, a TRON swap that was prepared and then executed
  carries out a quote for this request: the raw data of the signed transaction is a transfer of
  exactly the requested amount to the quote's vault, in TRX or in the token the asset names,
  with exactly the quote's memo, while the quote is valid and the memo names the destination.\<close>

theorem tron_pipeline_safe:
  assumes "prepare_swap t (tron_source lib ad mnemonic) rq now tol interval quantity w = (Inr p, w1)"
    and "execute_swap p (tron_source lib ad mnemonic) confirm w2 = (Inr r, w3)"
  shows "sr_prepared r = p \<and> (\<exists>q. q_recommended_min_amount_in q \<le> rq_amount rq
    \<and> q_memo q \<notin> {None, Some []} \<and> now < q_expiry q
    \<and> (if CHR ''-'' \<in> set (rq_from_asset rq) then tron_token_carries lib (tb_tx (pr_built p)) q rq
       else tron_native_carries lib (tb_tx (pr_built p)) (q_inbound_address q) (quote_memo q) (rq_amount rq))
    \<and> memo_pays_destination (rq_destination rq) (quote_memo q))"
  using tron_swaps.broadcast_swap_carries [OF assms(1) _ assms(2)]
  by (simp add: tron_source_def tron_carries_def)

theorem tron_pipeline_safe_witness:
  "\<exists>(p :: (string, tron_raw) tron_prepared) q. 10 < q_expiry q
    \<and> tron_native_carries example_tronlib (tb_tx (pr_built p)) (q_inbound_address q) (quote_memo q) 50000"
proof -
  let ?src = "tron_source example_tronlib (tron_adapter ''http://node/'' []) ''seed''"
    and ?rq = "example_tron_request ''TRON.TRX''"
  obtain p where p: "example_tron ''TRON.TRX'' [] = (Inr p, [])" using example_tron_native by blast
  have a: "prepare_swap example_tron_thorchain ?src ?rq 10 300 None None [] = (Inr p, [])"
    using p example_tron_quote_fields
    by (simp add: prepare_swap_Inr quoted_Inr example_tron_thorchain_def example_thorchain_def tron_source_def
        example_status_def tradable_def) (simp add: example_tron_request_def)
  have "prepared_safe p"
    using tron_build_and_verify_safe [OF p] tron_build_carries [OF example_tronlib_ok p]
      example_tron_memo by (simp add: example_tron_quote_fields example_tron_request_def)
  then obtain r w where e: "execute_swap p ?src False [] = (Inr r, w)" by (simp add: execute_swap_def)
  have rq: "rq_amount ?rq = 50000" "CHR ''-'' \<notin> set (rq_from_asset ?rq)"
    by (simp_all add: example_tron_request_def)
  show ?thesis using tron_pipeline_safe [OF a e, THEN conjunct2] unfolding rq(1) if_not_P [OF rq(2)] by blast
qed

text \<open>C23. With a library that builds what it is asked to, every swap that is built carries the
  request exactly, and the gate passes it exactly when the quote is still valid and its memo
  names the destination.\<close>

theorem tron_swap_passes:
  assumes "tronlib_ok lib" "tron_build_and_verify lib ad mnemonic q rq now w = (Inr p, w')"
  shows "tron_carries lib (pr_built p) q rq
    \<and> (prepared_safe p \<longleftrightarrow> now < q_expiry q \<and> memo_pays_destination (rq_destination rq) (quote_memo q))"
  using tron_build_carries [OF assms] tron_build_and_verify_safe [OF assms(2)] by simp

theorem tron_swap_passes_witness:
  "\<exists>p. example_tron ''TRON.USDT-TR7NHQJEKQXGTCI8Q8ZY4PL8OTSZGJLJ6T'' [] = (Inr p, []) \<and> prepared_safe p
    \<and> tron_carries example_tronlib (pr_built p) example_tron_quote
        (example_tron_request ''TRON.USDT-TR7NHQJEKQXGTCI8Q8ZY4PL8OTSZGJLJ6T'')"
proof -
  obtain p where p: "example_tron ''TRON.USDT-TR7NHQJEKQXGTCI8Q8ZY4PL8OTSZGJLJ6T'' [] = (Inr p, [])"
    using example_tron_token by blast
  have d: "rq_destination (example_tron_request a) = ''bc1q''" for a by (simp add: example_tron_request_def)
  from tron_swap_passes [OF example_tronlib_ok p] p example_tron_memo show ?thesis
    unfolding d example_tron_quote_fields by auto
qed

text \<open>C36. Amounts are converted exactly or not at all: to sun exactly the multiples of 100 units,
  to a token of at most eight decimals exactly the multiples of its base unit; there is no
  rounding, and a refusal is a \<open>ValueError\<close> that changes nothing.\<close>

theorem tron_amounts_exact:
  "(to_sun a = Inr s \<longleftrightarrow> a = 100 * s)
   \<and> (to_sun a = Inl e \<longleftrightarrow> \<not> 100 dvd a \<and> e = ValueError ''sun'')
   \<and> (to_token_native a d = Inr n \<longleftrightarrow> d \<le> 8 \<and> a = n * 10 ^ nat (8 - d))
   \<and> ((\<exists>n. to_token_native a d = Inr n) \<longleftrightarrow> d \<le> 8 \<and> 10 ^ nat (8 - d) dvd a)"
  unfolding to_sun_Inr to_token_native_Inr
  by (auto simp: to_sun_def to_token_native_def Let_def THORCHAIN_UNITS_PER_SUN_def dvd_eq_mod_eq_0)

text \<open>C37. The address that is derived is base58 text from which the 21 bytes of the account and
  their checksum can be read back, leading zero bytes included.\<close>

theorem tron_address_round_trip:
  assumes "tron_derive_address lib ad mnemonic path = Inr a"
  shows "\<exists>k addr20. tron_key lib ad mnemonic path = Inr k
    \<and> bytes_fromhex (drop 2 (trl_evm_address lib k)) = Some addr20
    \<and> base58_bytes a = 0x41 # addr20 @ take 4 (trl_sha256 lib (trl_sha256 lib (0x41 # addr20)))"
  using assms
  by (auto simp: tron_derive_address_def bind_res_eq_Inr TRON_MAINNET_PREFIX_def base58_bytes_encode
      split: option.splits)

theorem tron_address_round_trip_witness:
  "\<exists>a. tron_derive_address example_tronlib (tron_adapter ''url'' []) ''seed'' DEFAULT_TRON_DERIVATION = Inr a
    \<and> base58_bytes a = [0x41, 0, 0xab, 7, 7, 7, 7]"
proof -
  have h: "bytes_fromhex (drop 2 (trl_evm_address example_tronlib k)) = Some [0, 0xab]" for k
    by (simp add: example_tronlib_def) code_simp
  obtain a where a: "tron_derive_address example_tronlib (tron_adapter ''url'' []) ''seed'' DEFAULT_TRON_DERIVATION
      = Inr a"
    by (simp add: tron_derive_address_def tron_key_def h) (simp add: example_tronlib_def)
  have "take 4 (trl_sha256 example_tronlib bs) = [7, 7, 7, 7]" for bs
    by (simp add: example_tronlib_def numeral_eq_Suc)
  with tron_address_round_trip [OF a] h a show ?thesis by auto
qed

end
