(* ===== verification/JsonText.thy ===== *)
theory JsonText
  imports Json
begin

text \<open>
  JSON text: what \<open>json.dumps\<close> writes (both layouts the wallet uses: one line, and indented by
  two) and what \<open>json.loads\<close> reads. Non-ASCII characters are written as escapes, as the default
  \<open>ensure_ascii\<close> does. No floating-point number is ever written to the keystore, and reading
  one is outside the model; so are characters beyond code point 255. The two directions are
  inverse on every value the wallet writes.
\<close>

section \<open>Writing\<close>

definition escape_char :: "char \<Rightarrow> string" where
  "escape_char c =
     (let n = code c
      in if n = 34 then [CHR 0x5C, CHR 0x22]
         else if n = 92 then [CHR 0x5C, CHR 0x5C]
         else if n = 10 then [CHR 0x5C, CHR ''n'']
         else if n = 13 then [CHR 0x5C, CHR ''r'']
         else if n = 9 then [CHR 0x5C, CHR ''t'']
         else if n = 8 then [CHR 0x5C, CHR ''b'']
         else if n = 12 then [CHR 0x5C, CHR ''f'']
         else if 32 \<le> n \<and> n \<le> 126 then [c]
         else CHR 0x5C # ''u00'' @ [hex_char (n div 16), hex_char (n mod 16)])"

definition json_string :: "string \<Rightarrow> string" where
  "json_string s = CHR 0x22 # concat (map escape_char s) @ [CHR 0x22]"

fun line_break :: "nat option \<Rightarrow> nat \<Rightarrow> string" where
  "line_break None level = []"
| "line_break (Some k) level = CHR 0x0A # replicate (k * level) CHR '' ''"

definition item_sep :: "nat option \<Rightarrow> nat \<Rightarrow> string" where
  "item_sep indent level = (if indent = None then '', '' else CHR '','' # line_break indent level)"

fun join_with :: "string \<Rightarrow> string list \<Rightarrow> string" where
  "join_with sep [] = []"
| "join_with sep [x] = x"
| "join_with sep (x # xs) = x @ sep @ join_with sep xs"

fun dumps :: "nat option \<Rightarrow> nat \<Rightarrow> json \<Rightarrow> string" where
  "dumps indent level JNull = ''null''"
| "dumps indent level (JBool b) = (if b then ''true'' else ''false'')"
| "dumps indent level (JInt i) = str_int i"
| "dumps indent level (JFloat r) = []"
| "dumps indent level (JStr s) = json_string s"
| "dumps indent level (JArr xs) =
     (if xs = [] then ''[]''
      else CHR ''['' # line_break indent (level + 1)
        @ join_with (item_sep indent (level + 1)) (map (dumps indent (level + 1)) xs)
        @ line_break indent level @ '']'')"
| "dumps indent level (JObj d) =
     (if d = [] then ''{}''
      else CHR ''{'' # line_break indent (level + 1)
        @ join_with (item_sep indent (level + 1))
            (map (\<lambda>(k, v). json_string k @ '': '' @ dumps indent (level + 1) v) d)
        @ line_break indent level @ ''}'')"

section \<open>Reading\<close>

definition json_error :: "'a res" where
  "json_error = Inl (ValueError ''JSONDecodeError'')"

definition is_json_space :: "char \<Rightarrow> bool" where
  "is_json_space c = (code c \<in> {9, 10, 13, 32})"

definition skip_ws :: "string \<Rightarrow> string" where
  "skip_ws s = dropWhile is_json_space s"

definition hex4 :: "char \<Rightarrow> char \<Rightarrow> char \<Rightarrow> char \<Rightarrow> nat option" where
  "hex4 a b c d =
     (case (hex_value a, hex_value b, hex_value c, hex_value d) of
        (Some w, Some x, Some y, Some z) \<Rightarrow> Some (((w * 16 + x) * 16 + y) * 16 + z)
      | _ \<Rightarrow> None)"

definition simple_escape :: "char \<Rightarrow> char option" where
  "simple_escape e =
     (let n = code e
      in if n = 34 \<or> n = 92 \<or> n = 47 then Some e
         else if e = CHR ''n'' then Some (CHR 0x0A)
         else if e = CHR ''r'' then Some (CHR 0x0D)
         else if e = CHR ''t'' then Some (CHR 0x09)
         else if e = CHR ''b'' then Some (CHR 0x08)
         else if e = CHR ''f'' then Some (CHR 0x0C)
         else None)"

definition put_char :: "char \<Rightarrow> (string \<times> string) res \<Rightarrow> (string \<times> string) res" where
  "put_char c r = bind_res r (\<lambda>(s, rest). Inr (c # s, rest))"

text \<open>The rest of a string, after its opening quote.\<close>

fun read_string :: "string \<Rightarrow> (string \<times> string) res" where
  "read_string [] = json_error"
| "read_string (c # s) =
     (if code c = 34 then Inr ([], s)
      else if code c = 92 then
        (case s of
           [] \<Rightarrow> json_error
         | e # t \<Rightarrow>
             if e = CHR ''u'' then
               (case t of
                  w # x # y # z # u \<Rightarrow>
                    (case hex4 w x y z of
                       None \<Rightarrow> json_error
                     | Some n \<Rightarrow>
                         if n < 256 then put_char (char_of n) (read_string u)
                         else Inl (OutOfModel ''code point''))
                | _ \<Rightarrow> json_error)
             else
               (case simple_escape e of
                  None \<Rightarrow> json_error
                | Some d \<Rightarrow> put_char d (read_string t)))
      else if code c < 32 then json_error
      else put_char c (read_string s))"

definition is_digit :: "char \<Rightarrow> bool" where
  "is_digit c = (digit_of c \<noteq> None)"

text \<open>A number: an optional sign, digits without a leading zero; a fraction or an exponent
  makes it a float.\<close>

definition read_nat :: "string \<Rightarrow> (nat \<times> string) res" where
  "read_nat s =
     (let ds = takeWhile is_digit s; rest = dropWhile is_digit s
      in if ds = [] then json_error
         else if hd ds = CHR ''0'' \<and> 1 < length ds then Inr (0, tl s)
         else case rest of
           c # _ \<Rightarrow>
             if c = CHR ''.'' \<or> c = CHR ''e'' \<or> c = CHR ''E'' then Inl (OutOfModel ''float'')
             else (case parse_digits ds of None \<Rightarrow> Inl (ValueError ''int'') | Some n \<Rightarrow> Inr (n, rest))
         | [] \<Rightarrow> (case parse_digits ds of None \<Rightarrow> Inl (ValueError ''int'') | Some n \<Rightarrow> Inr (n, [])))"

definition read_number :: "string \<Rightarrow> (json \<times> string) res" where
  "read_number s =
     (if prefix ''NaN'' s \<or> prefix ''Infinity'' s \<or> prefix ''-Infinity'' s then Inl (OutOfModel ''float'')
      else case s of
        [] \<Rightarrow> json_error
      | c # t \<Rightarrow>
          if c = CHR ''-'' then bind_res (read_nat t) (\<lambda>(n, rest). Inr (JInt (- int n), rest))
          else bind_res (read_nat s) (\<lambda>(n, rest). Inr (JInt (int n), rest)))"

definition read_key :: "string \<Rightarrow> (string \<times> string) res" where
  "read_key s =
     (case s of
        [] \<Rightarrow> json_error
      | q # t \<Rightarrow>
          if code q \<noteq> 34 then json_error
          else bind_res (read_string t) (\<lambda>(k, u).
            case skip_ws u of
              [] \<Rightarrow> json_error
            | c # v \<Rightarrow> if c = CHR '':'' then Inr (k, skip_ws v) else json_error))"

text \<open>What follows an element: a comma and the next one, or the closing bracket.\<close>

definition read_next :: "char \<Rightarrow> string \<Rightarrow> (bool \<times> string) res" where
  "read_next close s =
     (case skip_ws s of
        [] \<Rightarrow> json_error
      | c # t \<Rightarrow>
          if c = close then Inr (False, t)
          else if c = CHR '','' then Inr (True, skip_ws t)
          else json_error)"

text \<open>
  The fuel bounds the nesting and the number of elements; Python's own recursion limit is a
  \<open>RecursionError\<close>. The length of the text is always enough.
\<close>

fun read_value :: "nat \<Rightarrow> string \<Rightarrow> (json \<times> string) res"
  and read_items :: "nat \<Rightarrow> json list \<Rightarrow> string \<Rightarrow> (json \<times> string) res"
  and read_members :: "nat \<Rightarrow> dict \<Rightarrow> string \<Rightarrow> (json \<times> string) res" where
  "read_value 0 s = Inl (OtherError ''RecursionError'')"
| "read_value (Suc n) s =
     (case s of
        [] \<Rightarrow> json_error
      | c # t \<Rightarrow>
          if code c = 34 then bind_res (read_string t) (\<lambda>(x, rest). Inr (JStr x, rest))
          else if c = CHR ''['' then
            (if prefix '']'' (skip_ws t) then Inr (JArr [], tl (skip_ws t))
             else read_items n [] (skip_ws t))
          else if c = CHR ''{'' then
            (if prefix ''}'' (skip_ws t) then Inr (JObj [], tl (skip_ws t))
             else read_members n [] (skip_ws t))
          else if prefix ''null'' s then Inr (JNull, drop 4 s)
          else if prefix ''true'' s then Inr (JBool True, drop 4 s)
          else if prefix ''false'' s then Inr (JBool False, drop 5 s)
          else read_number s)"
| "read_items 0 acc s = Inl (OtherError ''RecursionError'')"
| "read_items (Suc n) acc s =
     bind_res (read_value n s) (\<lambda>(x, t).
     bind_res (read_next CHR '']'' t) (\<lambda>(more, u).
       if more then read_items n (acc @ [x]) u else Inr (JArr (acc @ [x]), u)))"
| "read_members 0 d s = Inl (OtherError ''RecursionError'')"
| "read_members (Suc n) d s =
     bind_res (read_key s) (\<lambda>(k, r).
     bind_res (read_value n r) (\<lambda>(x, t).
     bind_res (read_next CHR ''}'' t) (\<lambda>(more, u).
       if more then read_members n (AList.update k x d) u else Inr (JObj (AList.update k x d), u))))"

declare read_value.simps [simp del] read_items.simps [simp del] read_members.simps [simp del]

definition loads :: "string \<Rightarrow> json res" where
  "loads s =
     bind_res (read_value (Suc (length s)) (skip_ws s)) (\<lambda>(j, rest).
       if skip_ws rest = [] then Inr j else json_error)"

section \<open>What is written can be read\<close>

lemma char_of_code_eq: "code c = n \<Longrightarrow> c = char_of n"
  by (metis char_of_code)

lemma hex4_low: "n < 256 \<Longrightarrow> hex4 CHR ''0'' CHR ''0'' (hex_char (n div 16)) (hex_char (n mod 16)) = Some n"
proof -
  assume "n < 256"
  then have d: "hex_value (hex_char (n div 16)) = Some (n div 16)"
    "hex_value (hex_char (n mod 16)) = Some (n mod 16)" by simp_all
  have z: "hex_value CHR ''0'' = Some 0" by code_simp
  show ?thesis by (simp add: hex4_def z d)
qed

lemma escaped_chars:
  "char_of (34 :: nat) = CHR 0x22" "char_of (92 :: nat) = CHR 0x5C" "char_of (10 :: nat) = CHR 0x0A"
  "char_of (13 :: nat) = CHR 0x0D" "char_of (9 :: nat) = CHR 0x09" "char_of (8 :: nat) = CHR 0x08"
  "char_of (12 :: nat) = CHR 0x0C"
  by code_simp+

declare read_string.simps [simp del]

lemma read_escape:
  "e \<noteq> CHR ''u'' \<Longrightarrow> read_string (CHR 0x5C # e # t) =
     (case simple_escape e of None \<Rightarrow> json_error | Some d \<Rightarrow> put_char d (read_string t))"
  "read_string (CHR 0x5C # CHR ''u'' # w # x # y # z # t) =
     (case hex4 w x y z of None \<Rightarrow> json_error
      | Some n \<Rightarrow> if n < 256 then put_char (char_of n) (read_string t) else Inl (OutOfModel ''code point''))"
  by (subst read_string.simps, simp add: code_def)+

lemma read_plain:
  "code c \<notin> {34, 92} \<Longrightarrow> 32 \<le> code c \<Longrightarrow> read_string (c # t) = put_char c (read_string t)"
  "read_string (CHR 0x22 # t) = Inr ([], t)"
  by (subst read_string.simps, simp add: code_def)+

lemma read_string_escape: "read_string (escape_char c @ t) = put_char c (read_string t)"
proof -
  consider (special) "code c \<in> {34, 92, 10, 13, 9, 8, 12}"
    | (plain) "code c \<notin> {34, 92}" "32 \<le> code c" "code c \<le> 126"
    | (hex) "code c \<notin> {34, 92, 10, 13, 9, 8, 12}" "\<not> (32 \<le> code c \<and> code c \<le> 126)"
    by blast
  then show ?thesis
  proof cases
    case special
    then consider "c = char_of (34 :: nat)" | "c = char_of (92 :: nat)" | "c = char_of (10 :: nat)"
      | "c = char_of (13 :: nat)" | "c = char_of (9 :: nat)" | "c = char_of (8 :: nat)" | "c = char_of (12 :: nat)"
      using char_of_code_eq by blast
    then show ?thesis
      by cases (simp_all add: escape_char_def simple_escape_def Let_def code_def escaped_chars read_escape)
  next
    case plain
    then have "escape_char c = [c]" by (auto simp: escape_char_def Let_def)
    with plain show ?thesis by (simp add: read_plain)
  next
    case hex
    then have e: "escape_char c = CHR 0x5C # ''u00'' @ [hex_char (code c div 16), hex_char (code c mod 16)]"
      by (auto simp: escape_char_def Let_def)
    show ?thesis unfolding e by (simp add: hex4_low read_escape)
  qed
qed

lemma read_string_written: "read_string (concat (map escape_char s) @ CHR 0x22 # rest) = Inr (s, rest)"
proof (induction s)
  case Nil
  show ?case by (simp add: read_plain)
next
  case (Cons c s)
  then show ?case by (simp add: read_string_escape put_char_def)
qed

section \<open>Numbers\<close>

lemma str_nat_all_digits: "c \<in> set (str_nat n) \<Longrightarrow> is_digit c"
  using str_nat_digits [of c n] by (auto simp: is_digit_def)

lemma str_nat_length_one: "length (str_nat m) = 1 \<Longrightarrow> m < 10"
proof (rule ccontr)
  assume l: "length (str_nat m) = 1" and "\<not> m < 10"
  then have "str_nat m = str_nat (m div 10) @ [digit_char (m mod 10)]" by (simp add: str_nat.simps [of m])
  with l have "length (str_nat (m div 10)) = 0" by simp
  then show False by simp
qed

lemma str_nat_leading_zero: "hd (str_nat n) = CHR ''0'' \<Longrightarrow> length (str_nat n) = 1"
proof (induction n rule: str_nat.induct)
  case (1 n)
  show ?case
  proof (cases "n < 10")
    case True
    then show ?thesis by (simp add: str_nat.simps [of n])
  next
    case False
    then have "hd (str_nat (n div 10)) = CHR ''0''"
      using "1.prems" by (simp add: str_nat.simps [of n])
    with 1 False have l: "length (str_nat (n div 10)) = 1" by simp
    moreover have "n div 10 \<noteq> 0" using False by auto
    ultimately have "n div 10 < 10" by (simp add: str_nat_length_one)
    then have "str_nat (n div 10) = [digit_char (n div 10)]" by (simp add: str_nat.simps [of "n div 10"])
    with \<open>hd (str_nat (n div 10)) = CHR ''0''\<close> have "digit_char (n div 10) = digit_char 0"
      by (simp add: digit_char_numeral)
    then have "Some (n div 10) = Some 0"
      using digit_of_digit_char [OF \<open>n div 10 < 10\<close>] digit_of_digit_char [of 0] by simp
    with \<open>n div 10 \<noteq> 0\<close> show ?thesis by simp
  qed
qed

text \<open>The text of a number ends where no digit, fraction or exponent follows.\<close>

definition ends_number :: "string \<Rightarrow> bool" where
  "ends_number s =
     (case s of [] \<Rightarrow> True
      | c # _ \<Rightarrow> \<not> is_digit c \<and> c \<noteq> CHR ''.'' \<and> c \<noteq> CHR ''e'' \<and> c \<noteq> CHR ''E'')"

lemma read_nat_written:
  assumes "length (str_nat n) \<le> 4300" "ends_number rest"
  shows "read_nat (str_nat n @ rest) = Inr (n, rest)"
proof -
  have t: "takeWhile is_digit (str_nat n @ rest) = str_nat n" "dropWhile is_digit (str_nat n @ rest) = rest"
    using assms(2) str_nat_all_digits [of _ n]
    by (cases rest; simp add: takeWhile_append dropWhile_append ends_number_def)+
  have z: "\<not> (hd (str_nat n) = CHR ''0'' \<and> 1 < length (str_nat n))"
    using str_nat_leading_zero [of n] by auto
  show ?thesis
    unfolding read_nat_def Let_def t using z assms
    by (cases rest) (auto simp: parse_digits_str_nat ends_number_def)
qed

lemma str_nat_head: "\<exists>c t. str_nat n = c # t \<and> is_digit c"
  using str_nat_all_digits [of _ n] by (cases "str_nat n") auto

lemma digit_head: "is_digit c \<Longrightarrow> 48 \<le> code c \<and> code c \<le> 57"
  by (simp add: is_digit_def digit_of_def split: if_splits)

lemma read_number_written:
  assumes "length (str_nat (nat \<bar>i\<bar>)) \<le> 4300" "ends_number rest"
  shows "read_number (str_int i @ rest) = Inr (JInt i, rest)"
proof -
  obtain c t where c: "str_nat (nat \<bar>i\<bar>) = c # t" "is_digit c" using str_nat_head by blast
  then have n: "c \<noteq> CHR ''N''" "c \<noteq> CHR ''I''" "c \<noteq> CHR ''-''"
    using digit_head [of c] by (auto simp: code_def)
  note r = read_nat_written [OF assms]
  show ?thesis
  proof (cases "i < 0")
    case True
    then have "str_int i = CHR ''-'' # c # t" "nat \<bar>i\<bar> = nat (- i)" using c by (simp_all add: str_int_def)
    with True c n r show ?thesis by (simp add: read_number_def)
  next
    case False
    then have "str_int i = c # t" "int (nat \<bar>i\<bar>) = i" using c by (simp_all add: str_int_def)
    with False c n r show ?thesis by (simp add: read_number_def)
  qed
qed

section \<open>Values\<close>

text \<open>The values that are written: no floats, numbers of at most 4300 digits, distinct keys.\<close>

fun plain_json :: "json \<Rightarrow> bool" where
  "plain_json JNull \<longleftrightarrow> True"
| "plain_json (JBool b) \<longleftrightarrow> True"
| "plain_json (JInt i) \<longleftrightarrow> length (str_nat (nat \<bar>i\<bar>)) \<le> 4300"
| "plain_json (JFloat r) \<longleftrightarrow> False"
| "plain_json (JStr s) \<longleftrightarrow> True"
| "plain_json (JArr xs) \<longleftrightarrow> (\<forall>x \<in> set xs. plain_json x)"
| "plain_json (JObj d) \<longleftrightarrow> distinct (map fst d) \<and> (\<forall>(k, v) \<in> set d. plain_json v)"

fun json_fuel :: "json \<Rightarrow> nat" where
  "json_fuel (JArr xs) = 1 + (\<Sum>x\<leftarrow>xs. 1 + json_fuel x)"
| "json_fuel (JObj d) = 1 + (\<Sum>(k, v)\<leftarrow>d. 1 + json_fuel v)"
| "json_fuel _ = 1"

definition starts_value :: "string \<Rightarrow> bool" where
  "starts_value s =
     (case s of [] \<Rightarrow> False | c # _ \<Rightarrow> \<not> is_json_space c \<and> c \<noteq> CHR '']'' \<and> c \<noteq> CHR ''}'')"

lemma skip_starts [simp]: "starts_value s \<Longrightarrow> skip_ws s = s"
  by (cases s) (simp_all add: starts_value_def skip_ws_def)

lemma starts_not_close [simp]:
  "starts_value s \<Longrightarrow> \<not> prefix '']'' s" "starts_value s \<Longrightarrow> \<not> prefix ''}'' s"
  by (auto simp: starts_value_def split: list.splits)

lemma starts_append: "starts_value s \<Longrightarrow> starts_value (s @ t)"
  by (cases s) (simp_all add: starts_value_def)

lemma starts_quote: "starts_value (json_string s @ t)"
  by (simp add: starts_value_def json_string_def is_json_space_def code_def)

lemma starts_dumps: "plain_json j \<Longrightarrow> starts_value (dumps indent level j)"
proof (cases j)
  case (JInt i)
  obtain c t where c: "str_nat (nat \<bar>i\<bar>) = c # t" "is_digit c" using str_nat_head by blast
  then have "48 \<le> code c" "code c \<le> 57" using digit_head by blast+
  moreover have "code CHR '']'' = 93" "code CHR ''}'' = 125" by (simp_all add: code_def)
  ultimately have "\<not> is_json_space c" "c \<noteq> CHR '']''" "c \<noteq> CHR ''}''"
    by (auto simp: is_json_space_def)
  with c JInt show ?thesis
    by (auto simp: str_int_def starts_value_def is_json_space_def code_def)
qed (auto simp: starts_value_def is_json_space_def code_def json_string_def)

lemma skip_break [simp]: "starts_value s \<Longrightarrow> skip_ws (line_break indent level @ s) = s"
proof (cases indent)
  case (Some k)
  assume s: "starts_value s"
  have "dropWhile is_json_space (replicate n CHR '' '' @ s) = dropWhile is_json_space s" for n
    by (induction n) (simp_all add: is_json_space_def code_def)
  with Some skip_starts [OF s] show ?thesis by (simp add: skip_ws_def is_json_space_def code_def)
qed simp

lemma skip_break_close:
  "c = CHR '']'' \<or> c = CHR ''}'' \<Longrightarrow> skip_ws (line_break indent level @ c # s) = c # s"
proof (cases indent)
  case (Some k)
  assume c: "c = CHR '']'' \<or> c = CHR ''}''"
  have "dropWhile is_json_space (replicate n CHR '' '' @ c # s) = dropWhile is_json_space (c # s)" for n
    by (induction n) (simp_all add: is_json_space_def code_def)
  with Some c show ?thesis by (auto simp: skip_ws_def is_json_space_def code_def)
qed (auto simp: skip_ws_def is_json_space_def code_def)

lemma read_next_close:
  "c = CHR '']'' \<or> c = CHR ''}'' \<Longrightarrow> read_next c (line_break indent level @ c # s) = Inr (False, s)"
  by (simp add: read_next_def skip_break_close)

lemma read_next_sep:
  "starts_value s \<Longrightarrow> c = CHR '']'' \<or> c = CHR ''}'' \<Longrightarrow> read_next c (item_sep indent level @ s) = Inr (True, s)"
proof (cases indent)
  case None
  assume "starts_value s" "c = CHR '']'' \<or> c = CHR ''}''"
  with None show ?thesis
    using skip_starts [of s] by (auto simp: read_next_def item_sep_def skip_ws_def is_json_space_def code_def)
next
  case (Some k)
  assume s: "starts_value s" and c: "c = CHR '']'' \<or> c = CHR ''}''"
  have "skip_ws (CHR '','' # t) = CHR '','' # t" for t by (simp add: skip_ws_def is_json_space_def code_def)
  with Some c skip_break [OF s, of "Some k" level] show ?thesis by (auto simp: read_next_def item_sep_def)
qed

lemma ends_break [simp]: "ends_number (line_break indent level @ CHR '']'' # s)"
  "ends_number (line_break indent level @ CHR ''}'' # s)" "ends_number (item_sep indent level @ s)"
  by (cases indent; simp add: ends_number_def item_sep_def is_digit_def digit_of_def code_def)+

lemma read_key_written:
  "starts_value t \<Longrightarrow> read_key (json_string k @ '': '' @ t) = Inr (k, t)"
proof -
  assume t: "starts_value t"
  have s: "skip_ws (CHR '':'' # CHR '' '' # t) = CHR '':'' # CHR '' '' # t"
    by (simp add: skip_ws_def is_json_space_def code_def)
  have "skip_ws (CHR '' '' # t) = t" using skip_starts [OF t] by (simp add: skip_ws_def is_json_space_def code_def)
  with s show ?thesis by (simp add: read_key_def json_string_def read_string_written code_def)
qed

section \<open>The round trip\<close>

definition reads_back :: "(json \<Rightarrow> string) \<Rightarrow> json \<Rightarrow> bool" where
  "reads_back f x \<longleftrightarrow> starts_value (f x)
     \<and> (\<forall>n rest. json_fuel x \<le> n \<longrightarrow> ends_number rest \<longrightarrow> read_value n (f x @ rest) = Inr (x, rest))"

lemma reads_backD:
  "reads_back f x \<Longrightarrow> json_fuel x \<le> n \<Longrightarrow> ends_number rest \<Longrightarrow> read_value n (f x @ rest) = Inr (x, rest)"
  by (simp add: reads_back_def)

lemma join_with_starts:
  "xs \<noteq> [] \<Longrightarrow> starts_value (hd xs) \<Longrightarrow> starts_value (join_with sep xs @ t)"
  by (cases "(sep, xs)" rule: join_with.cases) (simp_all add: starts_append)

lemma read_items_written:
  assumes "xs \<noteq> []" "\<forall>x \<in> set xs. reads_back f x" "(\<Sum>x\<leftarrow>xs. 1 + json_fuel x) \<le> n"
  shows "read_items n acc (join_with (item_sep indent l) (map f xs) @ line_break indent l' @ CHR '']'' # rest)
    = Inr (JArr (acc @ xs), rest)"
  using assms
proof (induction xs arbitrary: acc n)
  case (Cons x xs)
  then obtain m where n: "n = Suc m" "json_fuel x \<le> m" "(\<Sum>x\<leftarrow>xs. 1 + json_fuel x) \<le> m" by (cases n) auto
  have x: "reads_back f x" using Cons.prems by simp
  show ?case
  proof (cases xs)
    case Nil
    with n reads_backD [OF x n(2) ends_break(1)] show ?thesis
      by (simp add: read_items.simps read_next_close)
  next
    case (Cons y ys)
    let ?rest = "join_with (item_sep indent l) (map f xs) @ line_break indent l' @ CHR '']'' # rest"
    have s: "starts_value ?rest" using Cons.prems(2) Cons by (intro join_with_starts) (simp_all add: reads_back_def)
    have t: "join_with (item_sep indent l) (map f (x # xs)) @ line_break indent l' @ CHR '']'' # rest =
        f x @ item_sep indent l @ ?rest" using Cons by simp
    have "read_items m (acc @ [x]) ?rest = Inr (JArr (acc @ x # xs), rest)"
      using Cons.IH [of m "acc @ [x]"] Cons.prems n Cons by simp
    then show ?thesis
      unfolding t n(1) read_items.simps reads_backD [OF x n(2) ends_break(3)] bind_res_Inr prod.case
        read_next_sep [OF s disjI1 [OF refl]] by simp
  qed
qed simp

lemma update_nonmem: "k \<notin> fst ` set d \<Longrightarrow> AList.update k v d = d @ [(k, v)]"
  by (induction d) auto

lemma read_members_written:
  assumes "ds \<noteq> []" "\<forall>(k, v) \<in> set ds. reads_back f v" "(\<Sum>(k, v)\<leftarrow>ds. 1 + json_fuel v) \<le> n"
    and "distinct (map fst (d @ ds))"
  shows "read_members n d (join_with (item_sep indent l) (map (\<lambda>(k, v). json_string k @ '': '' @ f v) ds)
      @ line_break indent l' @ CHR ''}'' # rest) = Inr (JObj (d @ ds), rest)"
  using assms
proof (induction ds arbitrary: d n)
  case (Cons kv ds)
  obtain k v where kv: "kv = (k, v)" by (cases kv)
  obtain m where n: "n = Suc m" "json_fuel v \<le> m" "(\<Sum>(k, v)\<leftarrow>ds. 1 + json_fuel v) \<le> m"
    using Cons.prems(3) kv by (cases n) auto
  have v: "reads_back f v" using Cons.prems(2) kv by simp
  have u: "AList.update k v d = d @ [(k, v)]"
    using Cons.prems(4) kv by (intro update_nonmem) (auto simp: kv)
  show ?case
  proof (cases ds)
    case Nil
    have s: "starts_value (f v @ line_break indent l' @ CHR ''}'' # rest)"
      using v by (simp add: reads_back_def starts_append)
    from Nil n kv u reads_backD [OF v n(2) ends_break(2)] read_key_written [OF s] show ?thesis
      by (simp add: read_members.simps read_next_close)
  next
    case (Cons y ys)
    let ?text = "\<lambda>(k, v). json_string k @ '': '' @ f v"
    let ?rest = "join_with (item_sep indent l) (map ?text ds) @ line_break indent l' @ CHR ''}'' # rest"
    have s: "starts_value ?rest" using Cons by (intro join_with_starts) (auto simp: starts_quote split: prod.splits)
    have t: "join_with (item_sep indent l) (map ?text (kv # ds)) @ line_break indent l' @ CHR ''}'' # rest =
        json_string k @ '': '' @ f v @ item_sep indent l @ ?rest" using Cons kv by simp
    have k: "starts_value (f v @ item_sep indent l @ ?rest)" using v by (simp add: reads_back_def starts_append)
    have "read_members m (d @ [(k, v)]) ?rest = Inr (JObj (d @ kv # ds), rest)"
      using Cons.IH [of m "d @ [(k, v)]"] Cons.prems n Cons kv by simp
    then show ?thesis
      unfolding t n(1) read_members.simps read_key_written [OF k] reads_backD [OF v n(2) ends_break(3)]
        bind_res_Inr prod.case read_next_sep [OF s disjI2 [OF refl]] u by simp
  qed
qed simp

lemma read_value_head:
  "code c \<notin> {34} \<Longrightarrow> c \<noteq> CHR ''['' \<Longrightarrow> c \<noteq> CHR ''{'' \<Longrightarrow>
   c \<noteq> CHR ''n'' \<Longrightarrow> c \<noteq> CHR ''t'' \<Longrightarrow> c \<noteq> CHR ''f'' \<Longrightarrow>
   read_value (Suc n) (c # t) = read_number (c # t)"
  by (simp add: read_value.simps)

lemma read_value_array:
  "read_value (Suc n) (CHR ''['' # t) =
     (if prefix '']'' (skip_ws t) then Inr (JArr [], tl (skip_ws t)) else read_items n [] (skip_ws t))"
  by (simp add: read_value.simps code_def)

lemma read_value_object:
  "read_value (Suc n) (CHR ''{'' # t) =
     (if prefix ''}'' (skip_ws t) then Inr (JObj [], tl (skip_ws t)) else read_members n [] (skip_ws t))"
  by (simp add: read_value.simps code_def)

lemma read_value_int:
  assumes "length (str_nat (nat \<bar>i\<bar>)) \<le> 4300" "ends_number rest"
  shows "read_value (Suc n) (str_int i @ rest) = Inr (JInt i, rest)"
proof -
  obtain c t where c: "str_int i = c # t" "is_digit c \<or> c = CHR ''-''"
    using str_nat_head [of "nat i"] str_nat_head [of "nat (- i)"] by (cases "i < 0") (auto simp: str_int_def)
  have "48 \<le> code c \<and> code c \<le> 57 \<or> code c = 45"
    using c(2) digit_head [of c] by (auto simp: code_def)
  then have "code c \<notin> {34}" "c \<noteq> CHR ''[''" "c \<noteq> CHR ''{''" "c \<noteq> CHR ''n''" "c \<noteq> CHR ''t''" "c \<noteq> CHR ''f''"
    by (auto simp: code_def)
  then show ?thesis
    using read_number_written [OF assms] c(1) read_value_head [where c = c and t = "t @ rest" and n = n] by simp
qed

lemma starts_atoms:
  "starts_value ''null''" "starts_value ''true''" "starts_value ''false''" "starts_value (json_string s)"
  by (simp_all add: starts_value_def json_string_def is_json_space_def code_def)

lemma read_value_atoms:
  "read_value (Suc n) (''null'' @ rest) = Inr (JNull, rest)"
  "read_value (Suc n) (''true'' @ rest) = Inr (JBool True, rest)"
  "read_value (Suc n) (''false'' @ rest) = Inr (JBool False, rest)"
  "read_value (Suc n) (json_string s @ rest) = Inr (JStr s, rest)"
  by (simp_all add: read_value.simps json_string_def read_string_written code_def)

lemma dumps_reads_back: "plain_json j \<Longrightarrow> reads_back (dumps indent level) j"
proof (induction j arbitrary: level)
  case (JInt i)
  have "read_value n (str_int i @ rest) = Inr (JInt i, rest)" if "1 \<le> n" "ends_number rest" for n rest
    using read_value_int [OF _ that(2), of i] JInt that(1) by (cases n) auto
  then show ?case using starts_dumps [OF JInt] by (simp add: reads_back_def)
next
  case (JArr xs)
  let ?f = "dumps indent (Suc level)"
  have xs: "\<forall>x \<in> set xs. reads_back ?f x" using JArr by auto
  have "read_value n (dumps indent level (JArr xs) @ rest) = Inr (JArr xs, rest)"
    if n: "json_fuel (JArr xs) \<le> n" for n rest
  proof -
    from n obtain m where m: "n = Suc m" "(\<Sum>x\<leftarrow>xs. 1 + json_fuel x) \<le> m" by (cases n) auto
    show ?thesis
    proof (cases "xs = []")
      case True
      have "skip_ws (CHR '']'' # rest) = CHR '']'' # rest" by (simp add: skip_ws_def is_json_space_def code_def)
      with True m show ?thesis by (simp add: read_value_array)
    next
      case False
      let ?rest = "join_with (item_sep indent (Suc level)) (map ?f xs) @ line_break indent level @ CHR '']'' # rest"
      have "starts_value ?rest" using False xs by (intro join_with_starts) (simp_all add: hd_map reads_back_def)
      with False m read_items_written [OF False xs m(2), of "[]" indent "Suc level" level rest] show ?thesis
        by (simp add: read_value_array)
    qed
  qed
  then show ?case using starts_dumps [OF JArr.prems] by (simp add: reads_back_def del: json_fuel.simps)
next
  case (JObj d)
  let ?f = "dumps indent (Suc level)" and ?text = "\<lambda>(k, v). json_string k @ '': '' @ dumps indent (Suc level) v"
  have d: "\<forall>(k, v) \<in> set d. reads_back ?f v" using JObj by fastforce
  have "read_value n (dumps indent level (JObj d) @ rest) = Inr (JObj d, rest)"
    if n: "json_fuel (JObj d) \<le> n" for n rest
  proof -
    from n obtain m where m: "n = Suc m" "(\<Sum>(k, v)\<leftarrow>d. 1 + json_fuel v) \<le> m" by (cases n) auto
    show ?thesis
    proof (cases "d = []")
      case True
      have "skip_ws (CHR ''}'' # rest) = CHR ''}'' # rest" by (simp add: skip_ws_def is_json_space_def code_def)
      with True m show ?thesis by (simp add: read_value_object)
    next
      case False
      let ?rest = "join_with (item_sep indent (Suc level)) (map ?text d) @ line_break indent level @ CHR ''}'' # rest"
      have "starts_value ?rest"
        using False by (intro join_with_starts) (auto simp: hd_map starts_quote split: prod.splits)
      with False m read_members_written [OF False d m(2), of "[]" indent "Suc level" level rest] JObj.prems
      show ?thesis by (simp add: read_value_object)
    qed
  qed
  then show ?case using starts_dumps [OF JObj.prems] by (simp add: reads_back_def del: json_fuel.simps)
next
  case (JStr s)
  show ?case using read_value_atoms(4) by (auto simp: reads_back_def starts_atoms Suc_le_eq gr0_conv_Suc)
next
  case (JBool b)
  show ?case using read_value_atoms(2,3)
    by (cases b) (auto simp: reads_back_def starts_atoms Suc_le_eq gr0_conv_Suc)
next
  case JNull
  show ?case using read_value_atoms(1) by (auto simp: reads_back_def starts_atoms Suc_le_eq gr0_conv_Suc)
qed simp

section \<open>Whole texts\<close>

lemma join_with_length:
  "xs \<noteq> [] \<Longrightarrow> (\<Sum>x\<leftarrow>xs. length x) + (length xs - 1) * length sep \<le> length (join_with sep xs)"
  by (induction sep xs rule: join_with.induct) (simp_all add: algebra_simps)

lemma sum_fuel_le:
  "\<forall>x \<in> set xs. g x \<le> length (f x) \<Longrightarrow> (\<Sum>x\<leftarrow>xs. 1 + g x) \<le> length xs + (\<Sum>x\<leftarrow>xs. length (f x))"
  by (induction xs) auto

lemma joined_fuel_le:
  assumes "xs \<noteq> []" "\<forall>x \<in> set xs. g x \<le> length (f x)" "1 \<le> length sep"
  shows "(\<Sum>x\<leftarrow>xs. 1 + g x) \<le> 1 + length (join_with sep (map f xs))"
proof -
  have "length xs - 1 \<le> (length xs - 1) * length sep" using assms(3) by (cases "length sep") auto
  moreover have "(\<Sum>x\<leftarrow>xs. length (f x)) + (length xs - 1) * length sep \<le> length (join_with sep (map f xs))"
    using join_with_length [of "map f xs" sep] assms(1) by (simp add: comp_def)
  moreover have "1 \<le> length xs" using assms(1) by (cases xs) simp_all
  ultimately show ?thesis using sum_fuel_le [OF assms(2)] by linarith
qed

lemma item_sep_length: "1 \<le> length (item_sep indent level)"
  by (cases indent) (simp_all add: item_sep_def)

lemma dumps_fuel: "plain_json j \<Longrightarrow> json_fuel j \<le> length (dumps indent level j)"
proof (induction j arbitrary: level)
  case (JInt i)
  show ?case by (cases "str_nat (nat i)"; cases "str_nat (nat (- i))") (simp_all add: str_int_def)
next
  case (JArr xs)
  then have "\<forall>x \<in> set xs. json_fuel x \<le> length (dumps indent (Suc level) x)" by simp
  from joined_fuel_le [OF _ this item_sep_length [of indent "Suc level"]] show ?case
    by (cases "xs = []") simp_all
next
  case (JObj d)
  have "\<forall>kv \<in> set d. (case kv of (k, v) \<Rightarrow> json_fuel v)
      \<le> length (case kv of (k, v) \<Rightarrow> json_string k @ '': '' @ dumps indent (Suc level) v)"
  proof
    fix kv assume kv: "kv \<in> set d"
    obtain k v where "kv = (k, v)" by (cases kv)
    with kv JObj.prems JObj.IH [of kv v "Suc level"] show "(case kv of (k, v) \<Rightarrow> json_fuel v)
        \<le> length (case kv of (k, v) \<Rightarrow> json_string k @ '': '' @ dumps indent (Suc level) v)"
      by auto
  qed
  from joined_fuel_le [OF _ this item_sep_length [of indent "Suc level"]] show ?case
    by (cases "d = []") (simp_all add: case_prod_unfold)
qed (auto simp: json_string_def)

lemma loads_dumps: "plain_json j \<Longrightarrow> loads (dumps indent 0 j) = Inr j"
proof -
  assume p: "plain_json j"
  then have r: "reads_back (dumps indent 0) j" by (rule dumps_reads_back)
  then have "read_value (Suc (length (dumps indent 0 j))) (dumps indent 0 j @ []) = Inr (j, [])"
    using dumps_fuel [OF p, of indent 0] by (intro reads_backD) (simp_all add: ends_number_def)
  moreover have "skip_ws [] = []" by (simp add: skip_ws_def)
  ultimately show ?thesis using r by (simp add: loads_def reads_back_def)
qed

end
