(* ===== verification/Base64.thy ===== *)
theory Base64
  imports PyCodec
begin

text \<open>
  \<open>base64.b64encode\<close> and the lenient \<open>base64.b64decode\<close>: characters outside the alphabet are
  skipped, decoding stops at a complete padding, and an incomplete quantum is an error.
\<close>

definition b64_alphabet :: string where
  "b64_alphabet = ''ABCDEFGHIJKLMNOPQRSTUVWXYZabcdefghijklmnopqrstuvwxyz0123456789+/''"

definition b64_char :: "nat \<Rightarrow> char" where
  "b64_char i = b64_alphabet ! i"

definition b64_value :: "char \<Rightarrow> nat option" where
  "b64_value c =
     (let i = length (takeWhile (\<lambda>d. d \<noteq> c) b64_alphabet) in if i < 64 then Some i else None)"

fun b64encode :: "bytes \<Rightarrow> string" where
  "b64encode [] = []"
| "b64encode [a] =
     [b64_char (unat a div 4), b64_char (unat a mod 4 * 16), CHR ''='', CHR ''='']"
| "b64encode [a, b] =
     [b64_char (unat a div 4), b64_char (unat a mod 4 * 16 + unat b div 16),
      b64_char (unat b mod 16 * 4), CHR ''='']"
| "b64encode (a # b # c # r) =
     b64_char (unat a div 4) # b64_char (unat a mod 4 * 16 + unat b div 16)
       # b64_char (unat b mod 16 * 4 + unat c div 64) # b64_char (unat c mod 64) # b64encode r"

text \<open>The decoder's state: position in the quantum, bits left over, padding seen.\<close>

fun a2b_base64 :: "nat \<Rightarrow> nat \<Rightarrow> nat \<Rightarrow> string \<Rightarrow> bytes res" where
  "a2b_base64 q left pads [] = (if q = 0 then Inr [] else Inl (ValueError ''binascii.Error''))"
| "a2b_base64 q left pads (c # s) =
     (if c = CHR ''='' then
        (if 2 \<le> q \<and> 4 \<le> q + (pads + 1) then Inr []
         else a2b_base64 q left (if 2 \<le> q then pads + 1 else pads) s)
      else case b64_value c of
        None \<Rightarrow> a2b_base64 q left pads s
      | Some v \<Rightarrow>
          if q = 0 then a2b_base64 1 v 0 s
          else if q = 1 then
            bind_res (a2b_base64 2 (v mod 16) 0 s) (\<lambda>bs. Inr (word_of_nat (left * 4 + v div 16) # bs))
          else if q = 2 then
            bind_res (a2b_base64 3 (v mod 4) 0 s) (\<lambda>bs. Inr (word_of_nat (left * 16 + v div 4) # bs))
          else
            bind_res (a2b_base64 0 0 0 s) (\<lambda>bs. Inr (word_of_nat (left * 64 + v) # bs)))"

definition b64decode :: "string \<Rightarrow> bytes res" where
  "b64decode s = (if \<forall>c \<in> set s. code c < 128 then a2b_base64 0 0 0 s else Inl (ValueError ''non-ASCII''))"

lemma b64_table: "list_all (\<lambda>i. b64_value (b64_char i) = Some i \<and> b64_char i \<noteq> CHR ''='' \<and> code (b64_char i) < 128) [0..<64]"
  by code_simp

lemma b64_value_char [simp]: "i < 64 \<Longrightarrow> b64_value (b64_char i) = Some i"
  and b64_char_not_pad [simp]: "i < 64 \<Longrightarrow> b64_char i \<noteq> CHR ''=''"
  and b64_char_ascii [simp]: "i < 64 \<Longrightarrow> code (b64_char i) < 128"
  using b64_table by (simp_all add: list_all_iff)

lemma byte_split [simp]:
  "unat (a :: byte) div 4 < 64" "unat a mod 4 * 16 + unat (b :: byte) div 16 < 64"
  "unat b mod 16 * 4 + unat (c :: byte) div 64 < 64" "unat a mod 4 * 16 < 64" "unat b mod 16 * 4 < 64"
proof -
  have "unat a < 256" "unat b < 256" "unat c < 256" by simp_all
  moreover have "unat a mod 4 < 4" "unat b mod 16 < 16" by simp_all
  ultimately show "unat a div 4 < 64" "unat a mod 4 * 16 + unat b div 16 < 64"
    "unat b mod 16 * 4 + unat c div 64 < 64" "unat a mod 4 * 16 < 64" "unat b mod 16 * 4 < 64"
    by linarith+
qed

lemma byte_join:
  "unat (a :: byte) div 4 * 4 + (unat a mod 4 * 16 + unat (b :: byte) div 16) div 16 = unat a"
  "(unat a mod 4 * 16 + unat b div 16) mod 16 * 16 + (unat b mod 16 * 4 + unat (c :: byte) div 64) div 4 = unat b"
  "(unat b mod 16 * 4 + unat c div 64) mod 4 * 64 + unat c mod 64 = unat c"
proof -
  have "unat b div 16 < 16" "unat c div 64 < 4" using byte_div_16 unat_byte_less [of c] by (simp, linarith)
  then show "unat a div 4 * 4 + (unat a mod 4 * 16 + unat b div 16) div 16 = unat a"
    "(unat a mod 4 * 16 + unat b div 16) mod 16 * 16 + (unat b mod 16 * 4 + unat c div 64) div 4 = unat b"
    "(unat b mod 16 * 4 + unat c div 64) mod 4 * 64 + unat c mod 64 = unat c"
    by (simp_all add: mod_add_left_eq [symmetric] mod_mult_self1 div_add1_eq)
qed

lemma a2b_base64_encode: "a2b_base64 0 0 0 (b64encode bs) = Inr bs"
proof (induction bs rule: b64encode.induct)
  case (2 a)
  show ?case using byte_join(1) [of a 0] by simp
next
  case (3 a b)
  show ?case using byte_join(1) [of a b] byte_join(2) [of a b 0] by simp
next
  case (4 a b c r)
  then show ?case using byte_join(1) [of a b] byte_join(2) [of a b c] byte_join(3) [of b c] by simp
qed simp

lemma b64decode_encode [simp]: "b64decode (b64encode bs) = Inr bs"
proof -
  have "\<forall>c \<in> set (b64encode bs). code c < 128"
    by (induction bs rule: b64encode.induct) (simp_all, simp_all add: code_def)
  then show ?thesis by (simp add: b64decode_def a2b_base64_encode)
qed

end
