(* ===== verification/AtomicFile.thy ===== *)
theory AtomicFile
  imports PyText
begin

text \<open>
  \<open>_atomic_write\<close> of \<open>keystore.py\<close>: the file is written to a temporary file beside the target,
  forced to the disk and renamed over the target; on any exception the temporary file is
  unlinked. The disk maps names to files, and a file remembers which of its bytes have reached
  the medium, so that a state of the disk also says what a crash at that moment would leave.
  The routine is modelled twice: as a step relation in which every operation may raise and the
  system may be stopped at any point, and as the function that one call computes from the
  operations that raise. The function is shown to be a run of the relation.
\<close>

section \<open>Disks\<close>

record fs_file =
  ff_data :: bytes
  ff_durable :: bytes
  ff_mode :: nat

type_synonym disk = "string \<Rightarrow> fs_file option"

text \<open>\<open>0o600\<close>.\<close>

definition MODE_PRIVATE :: nat where
  "MODE_PRIVATE = 384"

text \<open>
  What a reader may find after a crash: the name was bound at the start or is bound now (the
  directory itself is never forced to the medium, so a rename may still be lost), and of the file
  it is bound to the durable bytes are left.
\<close>

definition after_crash :: "disk \<Rightarrow> disk \<Rightarrow> string \<Rightarrow> bytes option set" where
  "after_crash d0 d p = {map_option ff_durable (d0 p), map_option ff_durable (d p)}"

text \<open>\<open>path.parent / f".{path.name}.{random}.tmp"\<close>.\<close>

definition dir_part :: "string \<Rightarrow> string" where
  "dir_part path = rev (dropWhile (\<lambda>c. c \<noteq> CHR ''/'') (rev path))"

definition name_part :: "string \<Rightarrow> string" where
  "name_part path = rev (takeWhile (\<lambda>c. c \<noteq> CHR ''/'') (rev path))"

definition tmp_path :: "string \<Rightarrow> string \<Rightarrow> string" where
  "tmp_path path random = dir_part path @ ''.'' @ name_part path @ ''.'' @ random @ ''.tmp''"

lemma dir_name [simp]: "dir_part path @ name_part path = path"
  by (metis dir_part_def name_part_def rev_append rev_rev_ident takeWhile_dropWhile_id)

lemma tmp_path_differs [simp]: "tmp_path path random \<noteq> path"
proof
  assume "tmp_path path random = path"
  then have "length (tmp_path path random) = length (dir_part path @ name_part path)" by simp
  then show False by (simp add: tmp_path_def del: dir_name)
qed

section \<open>The routine as a step relation\<close>

datatype aw_phase = AwStart | AwCreated | AwPrivate | AwFilled nat | AwSynced | AwDone | AwRaising | AwRaised

inductive aw_step :: "string \<Rightarrow> string \<Rightarrow> bytes \<Rightarrow> aw_phase \<times> disk \<Rightarrow> aw_phase \<times> disk \<Rightarrow> bool"
  for path tmp data where
  mkstemp: "d tmp = None \<Longrightarrow>
    aw_step path tmp data (AwStart, d) (AwCreated, d(tmp \<mapsto> \<lparr>ff_data = [], ff_durable = [], ff_mode = MODE_PRIVATE\<rparr>))"
| mkstemp_raises: "aw_step path tmp data (AwStart, d) (AwRaised, d)"
| chmod: "d tmp = Some f \<Longrightarrow>
    aw_step path tmp data (AwCreated, d) (AwPrivate, d(tmp \<mapsto> f\<lparr>ff_mode := MODE_PRIVATE\<rparr>))"
| fill: "d tmp = Some f \<Longrightarrow> n \<le> length data \<Longrightarrow>
    aw_step path tmp data (AwPrivate, d) (AwFilled n, d(tmp \<mapsto> f\<lparr>ff_data := take n data\<rparr>))"
| fill_more: "d tmp = Some f \<Longrightarrow> m < n \<Longrightarrow> n \<le> length data \<Longrightarrow>
    aw_step path tmp data (AwFilled m, d) (AwFilled n, d(tmp \<mapsto> f\<lparr>ff_data := take n data\<rparr>))"
| fsync: "d tmp = Some f \<Longrightarrow>
    aw_step path tmp data (AwFilled (length data), d) (AwSynced, d(tmp \<mapsto> f\<lparr>ff_durable := ff_data f\<rparr>))"
| replace: "d tmp = Some f \<Longrightarrow>
    aw_step path tmp data (AwSynced, d) (AwDone, (d(path \<mapsto> f))(tmp := None))"
| raises: "ph \<in> {AwCreated, AwPrivate, AwSynced} \<union> range AwFilled \<Longrightarrow>
    aw_step path tmp data (ph, d) (AwRaising, d)"
| unlink: "aw_step path tmp data (AwRaising, d) (AwRaised, d(tmp := None))"
| unlink_fails: "aw_step path tmp data (AwRaising, d) (AwRaised, d)"
| writeback: "d tmp = Some f \<Longrightarrow> length (ff_durable f) \<le> k \<Longrightarrow>
    aw_step path tmp data (ph, d) (ph, d(tmp \<mapsto> f\<lparr>ff_durable := take k (ff_data f)\<rparr>))"

inductive aw_reach :: "string \<Rightarrow> string \<Rightarrow> bytes \<Rightarrow> disk \<Rightarrow> aw_phase \<times> disk \<Rightarrow> bool"
  for path tmp data d0 where
  start: "aw_reach path tmp data d0 (AwStart, d0)"
| step: "aw_reach path tmp data d0 s \<Longrightarrow> aw_step path tmp data s t \<Longrightarrow> aw_reach path tmp data d0 t"

declare aw_step.intros [intro] aw_reach.start [intro]

inductive_cases aw_done_step: "aw_step path tmp data (AwDone, d) t"

text \<open>The shape of the temporary file in each phase.\<close>

definition tmp_shape :: "bytes \<Rightarrow> aw_phase \<Rightarrow> fs_file \<Rightarrow> bool" where
  "tmp_shape data ph f \<longleftrightarrow>
     ff_mode f = MODE_PRIVATE
     \<and> (\<forall>n. ph = AwFilled n \<longrightarrow> ff_data f = take n data)
     \<and> (ph = AwSynced \<longrightarrow> ff_data f = data \<and> ff_durable f = data)"

definition aw_inv :: "string \<Rightarrow> string \<Rightarrow> bytes \<Rightarrow> disk \<Rightarrow> aw_phase \<times> disk \<Rightarrow> bool" where
  "aw_inv path tmp data d0 s \<longleftrightarrow>
     (case s of (ph, d) \<Rightarrow>
        (\<forall>p. p \<noteq> path \<longrightarrow> p \<noteq> tmp \<longrightarrow> d p = d0 p)
        \<and> (ph = AwDone \<longrightarrow>
             d path = Some \<lparr>ff_data = data, ff_durable = data, ff_mode = MODE_PRIVATE\<rparr> \<and> d tmp = None)
        \<and> (ph \<noteq> AwDone \<longrightarrow> d path = d0 path)
        \<and> (ph = AwStart \<longrightarrow> d tmp = None)
        \<and> (\<forall>f. d tmp = Some f \<longrightarrow> tmp_shape data ph f))"

lemma aw_step_keeps:
  assumes "aw_step path tmp data s t" "aw_inv path tmp data d0 s" "tmp \<noteq> path"
  shows "aw_inv path tmp data d0 t"
  using assms
  by (cases rule: aw_step.cases) (auto simp: aw_inv_def tmp_shape_def)

lemma aw_reach_inv:
  "aw_reach path tmp data d0 s \<Longrightarrow> d0 tmp = None \<Longrightarrow> tmp \<noteq> path \<Longrightarrow> aw_inv path tmp data d0 s"
proof (induction rule: aw_reach.induct)
  case start
  then show ?case by (simp add: aw_inv_def)
next
  case (step s t)
  then show ?case using aw_step_keeps by blast
qed

section \<open>The routine as a function\<close>

datatype disk_op = OpRead | OpMkstemp | OpChmod | OpWrite | OpFsync | OpReplace | OpUnlink

text \<open>
  The operating system: the disk, the bytes that \<open>os.urandom\<close> will deliver, the random parts of
  the temporary names that \<open>mkstemp\<close> tries until one is free, the operations that raise, and how
  much a failing write has written.
\<close>

record os_world =
  ow_disk :: disk
  ow_tape :: "nat \<Rightarrow> byte"
  ow_drawn :: nat
  ow_random :: "string list"
  ow_faults :: "disk_op \<Rightarrow> pyexc option"
  ow_partial :: nat

definition write_private :: "os_world \<Rightarrow> string \<Rightarrow> string \<Rightarrow> bytes \<Rightarrow> disk \<Rightarrow> pyexc option \<times> disk" where
  "write_private w path tmp data d =
     (let f = \<lparr>ff_data = [], ff_durable = [], ff_mode = MODE_PRIVATE\<rparr>
      in case ow_faults w OpChmod of
           Some e \<Rightarrow> (Some e, d(tmp \<mapsto> f))
         | None \<Rightarrow>
             (case ow_faults w OpWrite of
                Some e \<Rightarrow> (Some e, d(tmp \<mapsto> f\<lparr>ff_data := take (ow_partial w) data\<rparr>))
              | None \<Rightarrow>
                  (case ow_faults w OpFsync of
                     Some e \<Rightarrow> (Some e, d(tmp \<mapsto> f\<lparr>ff_data := data\<rparr>))
                   | None \<Rightarrow>
                       (let full = f\<lparr>ff_data := data, ff_durable := data\<rparr>
                        in case ow_faults w OpReplace of
                             Some e \<Rightarrow> (Some e, d(tmp \<mapsto> full))
                           | None \<Rightarrow> (None, (d(path \<mapsto> full))(tmp := None))))))"

definition is_os_error :: "pyexc \<Rightarrow> bool" where
  "is_os_error e = (case e of OtherError s \<Rightarrow> s \<in> {''OSError'', ''FileNotFoundError'', ''FileExistsError''} | _ \<Rightarrow> False)"

text \<open>\<open>mkstemp\<close> passes over the names that exist and raises when it has tried them all.\<close>

definition free_name :: "os_world \<Rightarrow> string \<Rightarrow> string option" where
  "free_name w path = find (\<lambda>random. ow_disk w (tmp_path path random) = None) (ow_random w)"

definition atomic_write :: "string \<Rightarrow> bytes \<Rightarrow> (os_world, unit) pyio" where
  "atomic_write path data w =
     (case ow_faults w OpMkstemp of
        Some e \<Rightarrow> (Inl e, w)
      | None \<Rightarrow>
          (case free_name w path of
             None \<Rightarrow> (Inl (OtherError ''FileExistsError''), w)
           | Some random \<Rightarrow>
               let tmp = tmp_path path random
               in case write_private w path tmp data (ow_disk w) of
                    (None, d') \<Rightarrow> (Inr (), w\<lparr>ow_disk := d'\<rparr>)
                  | (Some e, d') \<Rightarrow>
                      (case ow_faults w OpUnlink of
                         None \<Rightarrow> (Inl e, w\<lparr>ow_disk := d'(tmp := None)\<rparr>)
                       | Some e' \<Rightarrow> (Inl (if is_os_error e' then e else e'), w\<lparr>ow_disk := d'\<rparr>))))"

lemma free_name_free: "free_name w path = Some random \<Longrightarrow> ow_disk w (tmp_path path random) = None"
  by (auto simp: free_name_def find_Some_iff)

text \<open>A call runs through the relation: to the end when it returns, else to the raised state.\<close>

lemma aw_reach_step: "aw_step path tmp data (ph, d) t \<Longrightarrow> aw_reach path tmp data d0 (ph, d) \<Longrightarrow> aw_reach path tmp data d0 t"
  by (rule aw_reach.step)

lemma write_private_run:
  assumes "write_private w path tmp data d = (r, d')" "d tmp = None" "tmp \<noteq> path"
  shows "aw_reach path tmp data d (if r = None then AwDone else AwRaising, d')"
proof -
  define f where "f = \<lparr>ff_data = [], ff_durable = [], ff_mode = MODE_PRIVATE\<rparr>"
  have c: "aw_reach path tmp data d (AwCreated, d(tmp \<mapsto> f))"
    unfolding f_def by (rule aw_reach_step [OF aw_step.mkstemp aw_reach.start]) (rule assms(2))
  have p: "aw_reach path tmp data d (AwPrivate, d(tmp \<mapsto> f))"
    using aw_reach_step [OF aw_step.chmod [where f = f] c] by (simp add: f_def)
  have w: "aw_reach path tmp data d (AwFilled (min n (length data)), d(tmp \<mapsto> f\<lparr>ff_data := take n data\<rparr>))" for n
    using aw_reach_step [OF aw_step.fill [where f = f and n = "min n (length data)"] p] by (simp add: min.commute flip: take_take)
  from w [of "length data"]
  have full: "aw_reach path tmp data d (AwFilled (length data), d(tmp \<mapsto> f\<lparr>ff_data := data\<rparr>))" by simp
  have s: "aw_reach path tmp data d (AwSynced, d(tmp \<mapsto> f\<lparr>ff_data := data, ff_durable := data\<rparr>))"
    using aw_reach_step [OF aw_step.fsync [where f = "f\<lparr>ff_data := data\<rparr>"] full] by simp
  have r: "aw_reach path tmp data d (AwDone, (d(path \<mapsto> f\<lparr>ff_data := data, ff_durable := data\<rparr>))(tmp := None))"
    using aw_reach_step [OF aw_step.replace [where f = "f\<lparr>ff_data := data, ff_durable := data\<rparr>"] s] assms(3)
    by (simp add: fun_upd_twist)
  note raised = aw_reach_step [OF aw_step.raises]
  show ?thesis
    using assms(1) raised [OF _ c] raised [OF _ w] raised [OF _ full] raised [OF _ s] r
    by (auto simp: write_private_def Let_def f_def split: option.splits)
qed

lemma atomic_write_run:
  assumes "atomic_write path data w = (r, w')"
  shows "\<exists>random. aw_reach path (tmp_path path random) data (ow_disk w)
      (if r = Inr () then AwDone else AwRaised, ow_disk w')
    \<and> w' = w\<lparr>ow_disk := ow_disk w'\<rparr> \<and> (w' = w \<or> ow_disk w (tmp_path path random) = None)"
proof (cases "ow_faults w OpMkstemp = None \<and> free_name w path \<noteq> None")
  case False
  with assms show ?thesis
    using aw_reach_step [OF aw_step.mkstemp_raises aw_reach.start]
    by (auto simp: atomic_write_def split: option.splits)
next
  case True
  then obtain random where n: "free_name w path = Some random" by blast
  let ?tmp = "tmp_path path random" and ?d = "ow_disk w"
  obtain x d' where x: "write_private w path ?tmp data ?d = (x, d')" by (cases "write_private w path ?tmp data ?d")
  from write_private_run [OF x free_name_free [OF n]]
  have run: "aw_reach path ?tmp data ?d (if x = None then AwDone else AwRaising, d')" by simp
  have "aw_reach path ?tmp data ?d (if r = Inr () then AwDone else AwRaised, ow_disk w')
    \<and> w' = w\<lparr>ow_disk := ow_disk w'\<rparr>"
    using assms True n x run aw_reach_step [OF aw_step.unlink [where d = d']]
      aw_reach_step [OF aw_step.unlink_fails [where d = d']]
    by (auto simp: atomic_write_def Let_def split: option.splits)
  with free_name_free [OF n] show ?thesis by blast
qed

section \<open>What the target holds\<close>

definition whole_file :: "bytes \<Rightarrow> fs_file" where
  "whole_file data = \<lparr>ff_data = data, ff_durable = data, ff_mode = MODE_PRIVATE\<rparr>"

lemma aw_reach_target:
  assumes "aw_reach path (tmp_path path random) data d0 (ph, d)" "d0 (tmp_path path random) = None"
  shows "d path = (if ph = AwDone then Some (whole_file data) else d0 path)
    \<and> (\<forall>p. p \<noteq> path \<longrightarrow> p \<noteq> tmp_path path random \<longrightarrow> d p = d0 p)
    \<and> (ph = AwDone \<longrightarrow> d = d0(path \<mapsto> whole_file data))
    \<and> (\<forall>f. d (tmp_path path random) = Some f \<longrightarrow> ff_mode f = MODE_PRIVATE)"
proof -
  have i: "aw_inv path (tmp_path path random) data d0 (ph, d)"
    using aw_reach_inv [OF assms] by simp
  then have "d = d0(path \<mapsto> whole_file data)" if "ph = AwDone"
    using that assms(2) by (intro ext) (auto simp: aw_inv_def whole_file_def)
  with i show ?thesis by (auto simp: aw_inv_def tmp_shape_def whole_file_def)
qed

lemma atomic_write_Inr:
  "atomic_write path data w = (Inr (), w') \<Longrightarrow> w' = w\<lparr>ow_disk := (ow_disk w)(path \<mapsto> whole_file data)\<rparr>"
  by (auto simp: atomic_write_def Let_def write_private_def whole_file_def fun_upd_twist
      intro!: arg_cong [of _ _ "\<lambda>d. w\<lparr>ow_disk := d\<rparr>"] dest!: free_name_free split: option.splits if_splits prod.splits)

lemma atomic_write_Inl:
  assumes "atomic_write path data w = (Inl e, w')"
  shows "ow_disk w' path = ow_disk w path"
proof -
  from atomic_write_run [OF assms] obtain random where
    r: "aw_reach path (tmp_path path random) data (ow_disk w) (AwRaised, ow_disk w')"
    and "w' = w \<or> ow_disk w (tmp_path path random) = None" by auto
  then show ?thesis using aw_reach_target [OF r] by auto
qed

section \<open>Properties\<close>

text \<open>C15. At every moment of a write, whatever operation raises or however the system is stopped,
  the target is either the old file, untouched, or the whole new one, readable by its owner only,
  and a crash leaves the old bytes or all the new ones, never a truncated file; no other file
  changes, and what the temporary file holds is private. The new file is there exactly when the
  rename has happened.\<close>

theorem atomic_write_crash_safe:
  assumes "aw_reach path (tmp_path path random) data d0 (ph, d)" "d0 (tmp_path path random) = None"
  shows "after_crash d0 d path \<subseteq> {map_option ff_durable (d0 path), Some data}
    \<and> (ph \<noteq> AwDone \<longrightarrow> d path = d0 path)
    \<and> (ph = AwDone \<longrightarrow> d path = Some (whole_file data))
    \<and> (\<forall>p. p \<noteq> path \<longrightarrow> p \<noteq> tmp_path path random \<longrightarrow> d p = d0 p)
    \<and> (\<forall>f. d (tmp_path path random) = Some f \<longrightarrow> ff_mode f = MODE_PRIVATE)"
  using aw_reach_target [OF assms] by (simp add: after_crash_def whole_file_def)

theorem atomic_write_crash_safe_witness:
  "\<exists>d. aw_reach ''d/k'' (tmp_path ''d/k'' ''x'') [1, 2] [''d/k'' \<mapsto> whole_file [9]]
      (AwFilled 1, d) \<and> after_crash [''d/k'' \<mapsto> whole_file [9]] d ''d/k'' \<subseteq> {Some [9], Some [1, 2]}"
proof -
  let ?tmp = "tmp_path ''d/k'' ''x''" and ?d0 = "[''d/k'' \<mapsto> whole_file [9]]"
  let ?f = "\<lparr>ff_data = [], ff_durable = [], ff_mode = MODE_PRIVATE\<rparr>"
  have fresh: "?d0 ?tmp = None" by simp
  have c: "aw_reach ''d/k'' ?tmp [1, 2] ?d0 (AwCreated, ?d0(?tmp \<mapsto> ?f))"
    by (rule aw_reach_step [OF aw_step.mkstemp aw_reach.start]) (rule fresh)
  have p: "aw_reach ''d/k'' ?tmp [1, 2] ?d0 (AwPrivate, ?d0(?tmp \<mapsto> ?f))"
    using aw_reach_step [OF aw_step.chmod [where f = ?f] c] by simp
  have w: "aw_reach ''d/k'' ?tmp [1, 2] ?d0 (AwFilled 1, ?d0(?tmp \<mapsto> ?f\<lparr>ff_data := [1]\<rparr>))"
    using aw_reach_step [OF aw_step.fill [where f = ?f and n = 1] p] by simp
  have "map_option ff_durable (?d0 ''d/k'') = Some [9]" by (simp add: whole_file_def)
  with w atomic_write_crash_safe [OF w fresh] show ?thesis by metis
qed

end
