(* ===== verification/Keystore.thy ===== *)
theory Keystore
  imports JsonText Base64 AtomicFile
begin

text \<open>
  The encrypted keystore (\<open>keystore.py\<close>): the key entries, the collection with its unique
  labels, and the file format: the entries as one line of JSON, encrypted under a key that
  scrypt derives from the passphrase, inside a JSON envelope that carries the derivation
  parameters. The cipher and the derivation are the fields of \<open>cryptolib\<close>; the one law used is
  that decryption undoes encryption under the same key and nonce. Loading and saving run in the
  operating-system state of the theory \<open>AtomicFile\<close>.
\<close>

section \<open>Constants and entries\<close>

definition ENVELOPE_VERSION :: int where
  "ENVELOPE_VERSION = 2"

definition DEFAULT_N :: int where
  "DEFAULT_N = 2 ^ 15"

definition SCRYPT_R :: int where
  "SCRYPT_R = 8"

definition SCRYPT_P :: int where
  "SCRYPT_P = 1"

definition KEY_LEN :: int where
  "KEY_LEN = 32"

definition SALT_LEN :: nat where
  "SALT_LEN = 16"

definition NONCE_LEN :: nat where
  "NONCE_LEN = 12"

datatype secret = Secret (reveal: string)

definition secret_repr :: "secret \<Rightarrow> string" where
  "secret_repr s = ''Secret(***)''"

record hd_key =
  hk_label :: string
  hk_mnemonic :: secret
  hk_passphrase :: "secret option"

record raw_key =
  rk_label :: string
  rk_chain :: string
  rk_secret :: secret

datatype key_entry = HdKey hd_key | RawKey raw_key

fun entry_label :: "key_entry \<Rightarrow> string" where
  "entry_label (HdKey k) = hk_label k"
| "entry_label (RawKey k) = rk_label k"

fun entry_to_dict :: "key_entry \<Rightarrow> dict" where
  "entry_to_dict (HdKey k) =
     [(''kind'', JStr ''hd''), (''label'', JStr (hk_label k)), (''mnemonic'', JStr (reveal (hk_mnemonic k))),
      (''passphrase'', case hk_passphrase k of None \<Rightarrow> JNull | Some p \<Rightarrow> JStr (reveal p))]"
| "entry_to_dict (RawKey k) =
     [(''kind'', JStr ''raw''), (''label'', JStr (rk_label k)), (''chain'', JStr (rk_chain k)),
      (''secret'', JStr (reveal (rk_secret k)))]"

text \<open>\<open>Secret(pw) if pw else None\<close>, for a JSON value and for a text.\<close>

definition json_passphrase :: "json \<Rightarrow> secret option res" where
  "json_passphrase pw =
     (if truthy pw then bind_res (as_str pw) (\<lambda>s. Inr (Some (Secret s))) else Inr None)"

definition text_passphrase :: "string option \<Rightarrow> secret option" where
  "text_passphrase pw = (case pw of None \<Rightarrow> None | Some s \<Rightarrow> if s = [] then None else Some (Secret s))"

definition entry_from_dict :: "json \<Rightarrow> key_entry res" where
  "entry_from_dict j =
     (case j of
        JObj d \<Rightarrow>
          (let kind = dget d ''kind'' JNull
           in if kind = JStr ''hd'' then
                bind_res (str_item d ''label'') (\<lambda>label.
                bind_res (str_item d ''mnemonic'') (\<lambda>mnemonic.
                bind_res (json_passphrase (dget d ''passphrase'' JNull)) (\<lambda>pw.
                  Inr (HdKey \<lparr>hk_label = label, hk_mnemonic = Secret mnemonic, hk_passphrase = pw\<rparr>))))
              else if kind = JStr ''raw'' then
                bind_res (str_item d ''label'') (\<lambda>label.
                bind_res (str_item d ''chain'') (\<lambda>chain.
                bind_res (str_item d ''secret'') (\<lambda>sec.
                  Inr (RawKey \<lparr>rk_label = label, rk_chain = chain, rk_secret = Secret sec\<rparr>))))
              else Inl (KeystoreError ''unknown key entry kind''))
      | _ \<Rightarrow> Inl (OtherError ''AttributeError''))"

section \<open>The collection\<close>

record keystore =
  ks_entries :: "key_entry list"

definition ks_labels :: "keystore \<Rightarrow> string list" where
  "ks_labels ks = map entry_label (ks_entries ks)"

definition require_unique :: "keystore \<Rightarrow> string \<Rightarrow> unit res" where
  "require_unique ks label =
     (if label \<in> set (ks_labels ks) then Inl (KeystoreError ''duplicate key label'') else Inr ())"

definition add_hd :: "keystore \<Rightarrow> string \<Rightarrow> string \<Rightarrow> string option \<Rightarrow> (hd_key \<times> keystore) res" where
  "add_hd ks label mnemonic pw =
     bind_res (require_unique ks label) (\<lambda>_.
       let k = \<lparr>hk_label = label, hk_mnemonic = Secret mnemonic, hk_passphrase = text_passphrase pw\<rparr>
       in Inr (k, ks\<lparr>ks_entries := ks_entries ks @ [HdKey k]\<rparr>))"

definition add_raw :: "keystore \<Rightarrow> string \<Rightarrow> string \<Rightarrow> string \<Rightarrow> (raw_key \<times> keystore) res" where
  "add_raw ks label chain sec =
     bind_res (require_unique ks label) (\<lambda>_.
       let k = \<lparr>rk_label = label, rk_chain = chain, rk_secret = Secret sec\<rparr>
       in Inr (k, ks\<lparr>ks_entries := ks_entries ks @ [RawKey k]\<rparr>))"

section \<open>The file\<close>

record cryptolib =
  cl_scrypt :: "bytes \<Rightarrow> int \<Rightarrow> int \<Rightarrow> int \<Rightarrow> int \<Rightarrow> bytes \<Rightarrow> bytes res"
  cl_encrypt :: "bytes \<Rightarrow> bytes \<Rightarrow> bytes \<Rightarrow> bytes res"
  cl_decrypt :: "bytes \<Rightarrow> bytes \<Rightarrow> bytes \<Rightarrow> bytes option res"

text \<open>
  \<open>cl_scrypt salt length n r p\<close> derives a key from the bytes of the passphrase, and raises for
  parameters it rejects; \<open>cl_encrypt key nonce\<close> and \<open>cl_decrypt key nonce\<close> are AES-GCM
  without associated data, \<open>None\<close> standing for \<open>InvalidTag\<close>.
\<close>

definition crypt_ok :: "cryptolib \<Rightarrow> bool" where
  "crypt_ok lib \<longleftrightarrow>
     (\<forall>key nonce text c. cl_encrypt lib key nonce text = Inr c \<longrightarrow> cl_decrypt lib key nonce c = Inr (Some text))"

definition derive_key :: "cryptolib \<Rightarrow> string \<Rightarrow> bytes \<Rightarrow> int \<Rightarrow> int \<Rightarrow> int \<Rightarrow> int \<Rightarrow> bytes res" where
  "derive_key lib passphrase salt n r p len = cl_scrypt lib salt len n r p (utf8_encode passphrase)"

definition os_urandom :: "nat \<Rightarrow> (os_world, bytes) pyio" where
  "os_urandom k w =
     (Inr (map (ow_tape w) [ow_drawn w ..< ow_drawn w + k]), w\<lparr>ow_drawn := ow_drawn w + k\<rparr>)"

definition envelope_of :: "int \<Rightarrow> bytes \<Rightarrow> bytes \<Rightarrow> bytes \<Rightarrow> dict" where
  "envelope_of n salt nonce ciphertext =
     [(''version'', JInt ENVELOPE_VERSION), (''kdf'', JStr ''scrypt''),
      (''kdf_params'', JObj [(''n'', JInt n), (''r'', JInt SCRYPT_R), (''p'', JInt SCRYPT_P), (''length'', JInt KEY_LEN)]),
      (''salt'', JStr (b64encode salt)), (''nonce'', JStr (b64encode nonce)),
      (''ciphertext'', JStr (b64encode ciphertext))]"

definition keystore_payload :: "keystore \<Rightarrow> json" where
  "keystore_payload ks = JObj [(''entries'', JArr (map (\<lambda>e. JObj (entry_to_dict e)) (ks_entries ks)))]"

definition keystore_save :: "cryptolib \<Rightarrow> keystore \<Rightarrow> string \<Rightarrow> string \<Rightarrow> int \<Rightarrow> (os_world, unit) pyio" where
  "keystore_save lib ks path passphrase n =
     (let plaintext = utf8_encode (dumps None 0 (keystore_payload ks))
      in bind_io (os_urandom SALT_LEN) (\<lambda>salt.
         bind_io (os_urandom NONCE_LEN) (\<lambda>nonce.
         bind_io (lift_io (derive_key lib passphrase salt n SCRYPT_R SCRYPT_P KEY_LEN)) (\<lambda>key.
         bind_io (lift_io (cl_encrypt lib key nonce plaintext)) (\<lambda>ciphertext.
           atomic_write path (utf8_encode (dumps (Some 2) 0 (JObj (envelope_of n salt nonce ciphertext)))))))))"

definition read_bytes :: "string \<Rightarrow> (os_world, bytes) pyio" where
  "read_bytes path w =
     (case ow_faults w OpRead of
        Some e \<Rightarrow> (Inl e, w)
      | None \<Rightarrow>
          (case ow_disk w path of
             None \<Rightarrow> (Inl (OtherError ''FileNotFoundError''), w)
           | Some f \<Rightarrow> (Inr (ff_data f), w)))"

definition b64_item :: "dict \<Rightarrow> string \<Rightarrow> bytes res" where
  "b64_item d k =
     bind_res (item d k) (\<lambda>j. case j of JStr s \<Rightarrow> b64decode s | _ \<Rightarrow> Inl (OtherError ''TypeError''))"

text \<open>What the first \<open>try\<close> of \<open>load\<close> turns into a \<open>KeystoreError\<close>.\<close>

definition is_read_error :: "pyexc \<Rightarrow> bool" where
  "is_read_error e =
     (is_os_error e \<or> (case e of ValueError _ \<Rightarrow> True | KeyError _ \<Rightarrow> True | _ \<Rightarrow> False))"

definition parse_envelope :: "bytes \<Rightarrow> (dict \<times> bytes \<times> bytes \<times> bytes \<times> json) res" where
  "parse_envelope data =
     bind_res (decode_utf8 data) (\<lambda>text.
     bind_res (bind_res (loads text) as_obj) (\<lambda>env.
     bind_res (b64_item env ''salt'') (\<lambda>salt.
     bind_res (b64_item env ''nonce'') (\<lambda>nonce.
     bind_res (b64_item env ''ciphertext'') (\<lambda>ciphertext.
     bind_res (item env ''kdf_params'') (\<lambda>params. Inr (env, salt, nonce, ciphertext, params)))))))"

definition kdf_int :: "dict \<Rightarrow> string \<Rightarrow> int res" where
  "kdf_int d k = bind_res (item d k) as_int"

text \<open>\<open>json.loads\<close> of bytes guesses the encoding; bytes that do not start as UTF-8 are outside the model.\<close>

definition loads_bytes :: "bytes \<Rightarrow> json res" where
  "loads_bytes bs =
     (if 0 \<in> set (take 2 bs) \<or> (bs \<noteq> [] \<and> hd bs \<in> {0xEF, 0xFE, 0xFF}) then Inl (OutOfModel ''encoding'')
      else bind_res (decode_utf8 bs) loads)"

text \<open>Iterating a text or a dict gives texts, which have no \<open>get\<close>.\<close>

definition parse_key_entries :: "json \<Rightarrow> key_entry list res" where
  "parse_key_entries j =
     (case j of
        JArr xs \<Rightarrow> map_res entry_from_dict xs
      | JStr s \<Rightarrow> if s = [] then Inr [] else Inl (OtherError ''AttributeError'')
      | JObj d \<Rightarrow> if d = [] then Inr [] else Inl (OtherError ''AttributeError'')
      | _ \<Rightarrow> Inl (OtherError ''TypeError''))"

fun drop_passphrase :: "key_entry \<Rightarrow> key_entry" where
  "drop_passphrase (HdKey k) = HdKey (k\<lparr>hk_passphrase := None\<rparr>)"
| "drop_passphrase (RawKey k) = RawKey k"

definition decrypt_entries :: "cryptolib \<Rightarrow> string \<Rightarrow> dict \<Rightarrow> bytes \<Rightarrow> bytes \<Rightarrow> bytes \<Rightarrow> json \<Rightarrow> key_entry list res" where
  "decrypt_entries lib passphrase env salt nonce ciphertext params =
     bind_res (as_obj params) (\<lambda>ps.
     bind_res (kdf_int ps ''n'') (\<lambda>n.
     bind_res (kdf_int ps ''r'') (\<lambda>r.
     bind_res (kdf_int ps ''p'') (\<lambda>p.
     bind_res (as_int (dget ps ''length'' (JInt KEY_LEN))) (\<lambda>len.
     bind_res (derive_key lib passphrase salt n r p len) (\<lambda>key.
     bind_res (cl_decrypt lib key nonce ciphertext) (\<lambda>dec.
       case dec of
         None \<Rightarrow> Inl (KeystoreError ''wrong passphrase or corrupted keystore'')
       | Some plaintext \<Rightarrow>
           bind_res (bind_res (loads_bytes plaintext) as_obj) (\<lambda>payload.
           bind_res (bind_res (item payload ''entries'') parse_key_entries) (\<lambda>entries.
           bind_res (py_int (dget env ''version'' (JInt 1))) (\<lambda>version.
             Inr (if version < 2 then map drop_passphrase entries else entries)))))))))))"

definition keystore_load :: "cryptolib \<Rightarrow> string \<Rightarrow> string \<Rightarrow> (os_world, keystore) pyio" where
  "keystore_load lib path passphrase =
     bind_io
       (try_io (bind_io (read_bytes path) (\<lambda>data. lift_io (parse_envelope data)))
          (\<lambda>e. raise_io (if is_read_error e then KeystoreError ''cannot read keystore'' else e)))
       (\<lambda>(env, salt, nonce, ciphertext, params).
          lift_io (bind_res (decrypt_entries lib passphrase env salt nonce ciphertext params)
            (\<lambda>entries. Inr \<lparr>ks_entries = entries\<rparr>)))"

section \<open>The collection as a map\<close>

definition ks_map :: "keystore \<Rightarrow> string \<Rightarrow> key_entry option" where
  "ks_map ks = map_of (map (\<lambda>e. (entry_label e, e)) (ks_entries ks))"

fun entry_ok :: "key_entry \<Rightarrow> bool" where
  "entry_ok (HdKey k) \<longleftrightarrow> hk_passphrase k \<noteq> Some (Secret [])"
| "entry_ok (RawKey k) \<longleftrightarrow> True"

definition keystore_ok :: "keystore \<Rightarrow> bool" where
  "keystore_ok ks \<longleftrightarrow> distinct (ks_labels ks) \<and> (\<forall>e \<in> set (ks_entries ks). entry_ok e)"

text \<open>
  The keystores that the wallet can come to hold: the empty one, and from there by adding keys and
  by loading, under the same passphrase and from any later state of the system, a file as a save of
  such a keystore has left it. (A load under another passphrase is for the cipher to refuse, which
  the law of \<open>cryptolib\<close> does not promise.)
\<close>

inductive keystore_built :: "keystore \<Rightarrow> bool" where
  empty: "keystore_built \<lparr>ks_entries = []\<rparr>"
| hd: "keystore_built ks \<Longrightarrow> add_hd ks label mnemonic pw = Inr (k, ks') \<Longrightarrow> keystore_built ks'"
| raw: "keystore_built ks \<Longrightarrow> add_raw ks label chain sec = Inr (k, ks') \<Longrightarrow> keystore_built ks'"
| loaded: "keystore_built ks \<Longrightarrow> crypt_ok lib \<Longrightarrow> is_amount n \<Longrightarrow> keystore_save lib ks path pw n w = (Inr (), w') \<Longrightarrow>
    ow_disk v path' = ow_disk w' path \<Longrightarrow> keystore_load lib path' pw v = (Inr ks', v') \<Longrightarrow> keystore_built ks'"

lemma dom_ks_map: "dom (ks_map ks) = set (ks_labels ks)"
  by (simp add: ks_map_def ks_labels_def dom_map_of_conv_image_fst image_image)

lemma ks_map_append: "label \<notin> dom (ks_map ks) \<Longrightarrow> entry_label e = label \<Longrightarrow>
    ks_map (ks\<lparr>ks_entries := ks_entries ks @ [e]\<rparr>) = (ks_map ks)(label \<mapsto> e)"
  by (auto simp: ks_map_def fun_eq_iff map_add_def split: option.splits)

lemma text_passphrase_ok [simp]: "text_passphrase pw \<noteq> Some (Secret [])"
  by (simp add: text_passphrase_def split: option.split)

lemma add_hd_result:
  "add_hd ks label mnemonic pw =
    (if label \<in> dom (ks_map ks) then Inl (KeystoreError ''duplicate key label'')
     else let k = \<lparr>hk_label = label, hk_mnemonic = Secret mnemonic, hk_passphrase = text_passphrase pw\<rparr>
          in Inr (k, ks\<lparr>ks_entries := ks_entries ks @ [HdKey k]\<rparr>))"
  by (simp add: add_hd_def require_unique_def dom_ks_map)

lemma add_raw_result:
  "add_raw ks label chain sec =
    (if label \<in> dom (ks_map ks) then Inl (KeystoreError ''duplicate key label'')
     else let k = \<lparr>rk_label = label, rk_chain = chain, rk_secret = Secret sec\<rparr>
          in Inr (k, ks\<lparr>ks_entries := ks_entries ks @ [RawKey k]\<rparr>))"
  by (simp add: add_raw_def require_unique_def dom_ks_map)

lemma keystore_ok_append:
  "keystore_ok ks \<Longrightarrow> entry_label e \<notin> dom (ks_map ks) \<Longrightarrow> entry_ok e \<Longrightarrow>
    keystore_ok (ks\<lparr>ks_entries := ks_entries ks @ [e]\<rparr>)"
  by (auto simp: keystore_ok_def dom_ks_map ks_labels_def)

section \<open>Writing and reading entries\<close>

lemma entry_round_trip: "entry_ok e \<Longrightarrow> entry_from_dict (JObj (entry_to_dict e)) = Inr e"
proof (cases e)
  case (HdKey k)
  assume "entry_ok e"
  with HdKey show ?thesis
    by (cases "hk_passphrase k"; cases "the (hk_passphrase k)"; cases "hk_mnemonic k"; cases k)
      (auto simp: entry_from_dict_def Let_def dict_access json_passphrase_def)
next
  case (RawKey k)
  then show ?thesis
    by (cases "rk_secret k"; cases k) (simp add: entry_from_dict_def Let_def dict_access)
qed

lemma entries_round_trip:
  "\<forall>e \<in> set es. entry_ok e \<Longrightarrow> map_res entry_from_dict (map (\<lambda>e. JObj (entry_to_dict e)) es) = Inr es"
  by (induction es) (simp_all add: entry_round_trip)

lemma plain_entry: "plain_json (JObj (entry_to_dict e))"
  by (cases e) (simp_all split: option.split)

lemma plain_payload: "plain_json (keystore_payload ks)"
  using plain_entry by (auto simp: keystore_payload_def)

lemma plain_envelope: "is_amount n \<Longrightarrow> plain_json (JObj (envelope_of n salt nonce c))"
proof -
  assume "is_amount n"
  then have "nat \<bar>n\<bar> < 10 ^ 78"
    unfolding is_amount_def by (simp add: nat_less_iff)
  then have "length (str_nat (nat \<bar>n\<bar>)) \<le> 78" by (rule length_str_nat) simp
  moreover have "length (str_nat 32) \<le> 4300" "length (str_nat 8) \<le> 4300" "length (str_nat 2) \<le> 4300"
      "length (str_nat 1) \<le> 4300"
    by (simp_all add: str_nat_eval)
  ultimately show ?thesis
    by (simp add: envelope_of_def ENVELOPE_VERSION_def SCRYPT_R_def SCRYPT_P_def KEY_LEN_def)
qed

lemma utf8_ascii_Cons: "code c < 128 \<Longrightarrow> utf8_encode (c # s) = word_of_nat (code c) # utf8_encode s"
  by (simp add: utf8_encode_Cons utf8_char_def)

lemma loads_bytes_payload: "loads_bytes (utf8_encode (dumps None 0 (keystore_payload ks))) = Inr (keystore_payload ks)"
proof -
  let ?s = "dumps None 0 (keystore_payload ks)"
  obtain r where s: "?s = CHR ''{'' # CHR 0x22 # r"
    by (auto simp: keystore_payload_def json_string_def)
  have "utf8_encode ?s = 123 # 34 # utf8_encode r"
    unfolding s by (simp add: utf8_ascii_Cons code_def)
  then have "loads_bytes (utf8_encode ?s) = bind_res (decode_utf8 (utf8_encode ?s)) loads"
    by (simp add: loads_bytes_def)
  then show ?thesis by (simp add: loads_dumps plain_payload)
qed

text \<open>The envelope as it is, or with another number in its unauthenticated version field.\<close>

definition stamped :: "int \<Rightarrow> dict \<Rightarrow> dict" where
  "stamped v env = (''version'', JInt v) # tl env"

lemma stamped_current: "stamped 2 (envelope_of n salt nonce c) = envelope_of n salt nonce c"
  by (simp add: stamped_def envelope_of_def ENVELOPE_VERSION_def)

lemma stamped_version: "map_of (stamped v env) ''version'' = Some (JInt v)"
  by (simp add: stamped_def)

lemma plain_stamped: "is_amount n \<Longrightarrow> is_amount v \<Longrightarrow> plain_json (JObj (stamped v (envelope_of n salt nonce c)))"
  using plain_envelope [of n salt nonce c] plain_envelope [of v salt nonce c]
  by (simp add: stamped_def envelope_of_def)

lemma parse_envelope_text:
  "loads t = Inr (JObj env) \<Longrightarrow> map_of env ''salt'' = Some (JStr (b64encode salt)) \<Longrightarrow>
   map_of env ''nonce'' = Some (JStr (b64encode nonce)) \<Longrightarrow> map_of env ''ciphertext'' = Some (JStr (b64encode c)) \<Longrightarrow>
   map_of env ''kdf_params'' = Some ps \<Longrightarrow> parse_envelope (utf8_encode t) = Inr (env, salt, nonce, c, ps)"
  by (simp add: parse_envelope_def b64_item_def item_def)

lemma parse_envelope_written:
  "is_amount n \<Longrightarrow> is_amount v \<Longrightarrow>
    parse_envelope (utf8_encode (dumps (Some 2) 0 (JObj (stamped v (envelope_of n salt nonce c)))))
    = Inr (stamped v (envelope_of n salt nonce c), salt, nonce, c,
        JObj [(''n'', JInt n), (''r'', JInt SCRYPT_R), (''p'', JInt SCRYPT_P), (''length'', JInt KEY_LEN)])"
  by (rule parse_envelope_text [OF loads_dumps [OF plain_stamped]]) (simp_all add: stamped_def envelope_of_def)

lemma decrypt_written:
  assumes "crypt_ok lib" "derive_key lib pw salt n SCRYPT_R SCRYPT_P KEY_LEN = Inr key"
    "cl_encrypt lib key nonce (utf8_encode (dumps None 0 (keystore_payload ks))) = Inr c"
    "\<forall>e \<in> set (ks_entries ks). entry_ok e" "map_of env ''version'' = Some (JInt v)"
  shows "decrypt_entries lib pw env salt nonce c
      (JObj [(''n'', JInt n), (''r'', JInt SCRYPT_R), (''p'', JInt SCRYPT_P), (''length'', JInt KEY_LEN)])
    = Inr (if v < 2 then map drop_passphrase (ks_entries ks) else ks_entries ks)"
proof -
  have "cl_decrypt lib key nonce c = Inr (Some (utf8_encode (dumps None 0 (keystore_payload ks))))"
    using assms(1,3) by (simp add: crypt_ok_def)
  moreover have "parse_key_entries (JArr (map (\<lambda>e. JObj (entry_to_dict e)) (ks_entries ks))) = Inr (ks_entries ks)"
    using entries_round_trip [OF assms(4)] by (simp add: parse_key_entries_def)
  ultimately show ?thesis
    using assms(2,5)
    by (simp add: decrypt_entries_def kdf_int_def as_int_def item_def dget_def loads_bytes_payload)
      (simp add: keystore_payload_def)
qed

text \<open>A save that returns has put one whole private file in place of the old one.\<close>

lemma save_result:
  assumes "keystore_save lib ks path pw n w = (Inr (), w')"
  shows "\<exists>salt nonce key c. derive_key lib pw salt n SCRYPT_R SCRYPT_P KEY_LEN = Inr key
      \<and> cl_encrypt lib key nonce (utf8_encode (dumps None 0 (keystore_payload ks))) = Inr c
      \<and> length salt = SALT_LEN \<and> length nonce = NONCE_LEN
      \<and> w' = w\<lparr>ow_drawn := ow_drawn w + (SALT_LEN + NONCE_LEN),
            ow_disk := (ow_disk w)(path \<mapsto> whole_file
              (utf8_encode (dumps (Some 2) 0 (JObj (envelope_of n salt nonce c)))))\<rparr>"
proof -
  let ?text = "utf8_encode (dumps None 0 (keystore_payload ks))"
  define salt where "salt = map (ow_tape w) [ow_drawn w ..< ow_drawn w + SALT_LEN]"
  define w1 where "w1 = w\<lparr>ow_drawn := ow_drawn w + SALT_LEN\<rparr>"
  define nonce where "nonce = map (ow_tape w1) [ow_drawn w1 ..< ow_drawn w1 + NONCE_LEN]"
  define w2 where "w2 = w1\<lparr>ow_drawn := ow_drawn w1 + NONCE_LEN\<rparr>"
  have "keystore_save lib ks path pw n w =
      bind_io (lift_io (derive_key lib pw salt n SCRYPT_R SCRYPT_P KEY_LEN)) (\<lambda>key.
      bind_io (lift_io (cl_encrypt lib key nonce ?text)) (\<lambda>c.
        atomic_write path (utf8_encode (dumps (Some 2) 0 (JObj (envelope_of n salt nonce c)))))) w2"
    unfolding keystore_save_def Let_def salt_def nonce_def w1_def w2_def
    by (simp add: bind_io_Inr os_urandom_def)
  with assms obtain key c where k: "derive_key lib pw salt n SCRYPT_R SCRYPT_P KEY_LEN = Inr key"
      "cl_encrypt lib key nonce ?text = Inr c"
      "atomic_write path (utf8_encode (dumps (Some 2) 0 (JObj (envelope_of n salt nonce c)))) w2 = (Inr (), w')"
    by (auto simp: bind_io_lift split: sum.splits)
  have "length salt = SALT_LEN" "length nonce = NONCE_LEN" by (simp_all add: salt_def nonce_def)
  with k atomic_write_Inr [OF k(3)] show ?thesis
    by (intro exI [of _ salt] exI [of _ nonce] exI [of _ key] exI [of _ c])
      (simp add: w1_def w2_def add.assoc)
qed

lemma load_written:
  assumes "crypt_ok lib" "derive_key lib pw salt n SCRYPT_R SCRYPT_P KEY_LEN = Inr key"
    "cl_encrypt lib key nonce (utf8_encode (dumps None 0 (keystore_payload ks))) = Inr c"
    "\<forall>e \<in> set (ks_entries ks). entry_ok e" "is_amount n" "is_amount v" "ow_faults w OpRead = None"
    "ow_disk w path = Some (whole_file (utf8_encode (dumps (Some 2) 0 (JObj (stamped v (envelope_of n salt nonce c))))))"
  shows "keystore_load lib path pw w =
    (Inr \<lparr>ks_entries = if v < 2 then map drop_passphrase (ks_entries ks) else ks_entries ks\<rparr>, w)"
proof -
  from decrypt_written [OF assms(1-4) stamped_version [of v]]
  show ?thesis
    using parse_envelope_written [OF assms(5,6)] assms(7,8)
    by (simp add: keystore_load_def read_bytes_def bind_io_def try_io_def whole_file_def)
qed

text \<open>What a save has written is what a load of that file reads, wherever and whenever it is read, and
  whether or not the labels are distinct: loading does not check them.\<close>

lemma load_saved:
  assumes "crypt_ok lib" "keystore_save lib ks path pw n w = (Inr (), w')"
    "\<forall>e \<in> set (ks_entries ks). entry_ok e" "is_amount n" "ow_faults v OpRead = None"
    "ow_disk v path' = ow_disk w' path"
  shows "keystore_load lib path' pw v = (Inr ks, v)"
proof -
  from save_result [OF assms(2)] obtain salt nonce key c where
    s: "derive_key lib pw salt n SCRYPT_R SCRYPT_P KEY_LEN = Inr key"
      "cl_encrypt lib key nonce (utf8_encode (dumps None 0 (keystore_payload ks))) = Inr c"
    and w': "w' = w\<lparr>ow_drawn := ow_drawn w + (SALT_LEN + NONCE_LEN),
            ow_disk := (ow_disk w)(path \<mapsto> whole_file
              (utf8_encode (dumps (Some 2) 0 (JObj (envelope_of n salt nonce c)))))\<rparr>"
    by blast
  have "is_amount 2" by (simp add: is_amount_def)
  from load_written [OF assms(1) s assms(3,4) this assms(5), of path'] assms(6) show ?thesis
    by (simp add: w' stamped_current)
qed

lemma save_then_load:
  assumes "crypt_ok lib" "keystore_save lib ks path pw n w = (Inr (), w')"
    "keystore_ok ks" "is_amount n" "ow_faults w OpRead = None"
  shows "keystore_load lib path pw w' = (Inr ks, w')"
proof -
  have "ow_faults w' OpRead = None" using save_result [OF assms(2)] assms(5) by auto
  with load_saved [OF assms(1,2) _ assms(4)] assms(3) show ?thesis by (simp add: keystore_ok_def)
qed

lemma load_reads:
  "keystore_load lib path pw v = (Inr ks, v') \<Longrightarrow> ow_faults v OpRead = None"
  by (auto simp: keystore_load_def read_bytes_def bind_io_def try_io_def split: option.splits if_splits)

lemma built_ok: "keystore_built ks \<Longrightarrow> keystore_ok ks"
proof (induction rule: keystore_built.induct)
  case empty
  then show ?case by (simp add: keystore_ok_def ks_labels_def)
next
  case hd
  then show ?case by (auto simp: add_hd_result Let_def split: if_splits intro!: keystore_ok_append)
next
  case raw
  then show ?case by (auto simp: add_raw_result Let_def split: if_splits intro!: keystore_ok_append)
next
  case (loaded ks lib n path pw w w' v path' ks' v')
  have "\<forall>e \<in> set (ks_entries ks). entry_ok e" using loaded.IH by (simp add: keystore_ok_def)
  from load_saved [OF loaded.hyps(2,4) this loaded.hyps(3) load_reads [OF loaded.hyps(6)] loaded.hyps(5)]
    loaded.hyps(6) have "ks' = ks" by simp
  with loaded.IH show ?case by simp
qed

text \<open>Whatever file is read, by whichever library: a loaded key carries no empty passphrase.\<close>

lemma json_passphrase_ok: "json_passphrase j = Inr pw \<Longrightarrow> pw \<noteq> Some (Secret [])"
  by (cases j) (auto simp: json_passphrase_def split: if_splits)

lemma entry_from_dict_ok: "entry_from_dict j = Inr e \<Longrightarrow> entry_ok e"
  by (auto simp: entry_from_dict_def Let_def bind_res_eq_Inr dest: json_passphrase_ok split: json.splits if_splits)

lemma map_res_all: "map_res f xs = Inr ys \<Longrightarrow> (\<And>x y. f x = Inr y \<Longrightarrow> P y) \<Longrightarrow> \<forall>y \<in> set ys. P y"
  by (induction xs arbitrary: ys) (auto simp: bind_res_eq_Inr)

lemma parse_key_entries_ok: "parse_key_entries j = Inr es \<Longrightarrow> \<forall>e \<in> set es. entry_ok e"
  by (auto simp: parse_key_entries_def split: json.splits if_splits dest: map_res_all [OF _ entry_from_dict_ok])

lemma drop_passphrase_ok: "entry_ok (drop_passphrase e)"
  by (cases e) simp_all

lemma decrypt_entries_ok:
  "decrypt_entries lib pw env salt nonce c ps = Inr es \<Longrightarrow> \<forall>e \<in> set es. entry_ok e"
  unfolding decrypt_entries_def bind_res_eq_Inr
  by (auto simp: bind_res_eq_Inr drop_passphrase_ok dest!: parse_key_entries_ok split: option.splits if_splits)

lemma load_entries_ok:
  "keystore_load lib path pw w = (Inr ks, w') \<Longrightarrow> \<forall>e \<in> set (ks_entries ks). entry_ok e"
  by (auto simp: keystore_load_def bind_io_eq_Inr bind_res_eq_Inr dest!: decrypt_entries_ok)

section \<open>Properties\<close>

text \<open>The version field is not authenticated: with another number below 2 in it the file still
  loads, and the passphrases are gone.\<close>

lemma version_field_unauthenticated:
  assumes "crypt_ok lib" "keystore_save lib ks path pw n w = (Inr (), w')"
    "keystore_built ks" "is_amount n" "ow_faults w OpRead = None"
  shows "\<exists>salt nonce c. ow_disk w' path
        = Some (whole_file (utf8_encode (dumps (Some 2) 0 (JObj (envelope_of n salt nonce c)))))
    \<and> (let w1 = w'\<lparr>ow_disk := (ow_disk w')(path \<mapsto>
            whole_file (utf8_encode (dumps (Some 2) 0 (JObj (stamped 1 (envelope_of n salt nonce c))))))\<rparr>
       in keystore_load lib path pw w1 = (Inr \<lparr>ks_entries = map drop_passphrase (ks_entries ks)\<rparr>, w1))"
proof -
  from save_result [OF assms(2)] obtain salt nonce key c where
    s: "derive_key lib pw salt n SCRYPT_R SCRYPT_P KEY_LEN = Inr key"
      "cl_encrypt lib key nonce (utf8_encode (dumps None 0 (keystore_payload ks))) = Inr c"
    and w': "w' = w\<lparr>ow_drawn := ow_drawn w + (SALT_LEN + NONCE_LEN),
            ow_disk := (ow_disk w)(path \<mapsto> whole_file
              (utf8_encode (dumps (Some 2) 0 (JObj (envelope_of n salt nonce c)))))\<rparr>"
    by blast
  have entries: "\<forall>e \<in> set (ks_entries ks). entry_ok e" using built_ok [OF assms(3)] by (simp add: keystore_ok_def)
  have "is_amount 1" by (simp add: is_amount_def)
  from load_written [OF assms(1) s entries assms(4) this, of _ path] show ?thesis
    using assms(5) by (intro exI [of _ salt] exI [of _ nonce] exI [of _ c]) (simp add: w' Let_def)
qed

text \<open>C14. A keystore that was built by adding keys and saved without an error is read back under the
  same passphrase exactly as it was, every label, mnemonic, passphrase and key in its order; the
  file it was written to is readable by its owner only, and no other file has changed.\<close>

theorem keystore_save_load:
  assumes "crypt_ok lib" "keystore_built ks" "keystore_save lib ks path pw n w = (Inr (), w')"
    "is_amount n" "ow_faults w OpRead = None"
  shows "keystore_load lib path pw w' = (Inr ks, w')
    \<and> map_option ff_mode (ow_disk w' path) = Some MODE_PRIVATE
    \<and> (\<forall>p. p \<noteq> path \<longrightarrow> ow_disk w' p = ow_disk w p)"
  using save_then_load [OF assms(1,3) built_ok [OF assms(2)] assms(4,5)] save_result [OF assms(3)]
  by (auto simp: whole_file_def)

definition example_cryptolib :: cryptolib where
  "example_cryptolib = \<lparr>cl_scrypt = \<lambda>salt len n r p pw. Inr (salt @ pw),
     cl_encrypt = \<lambda>key nonce text. Inr (key @ nonce @ text),
     cl_decrypt = \<lambda>key nonce c. Inr (if prefix (key @ nonce) c then Some (drop (length (key @ nonce)) c) else None)\<rparr>"

lemma example_crypt_ok: "crypt_ok example_cryptolib"
  by (simp add: crypt_ok_def example_cryptolib_def)

definition example_os :: os_world where
  "example_os = \<lparr>ow_disk = \<lambda>p. None, ow_tape = word_of_nat, ow_drawn = 0, ow_random = [''x''],
     ow_faults = \<lambda>x. None, ow_partial = 0\<rparr>"

definition example_keystore :: keystore where
  "example_keystore = \<lparr>ks_entries = [HdKey \<lparr>hk_label = ''main'', hk_mnemonic = Secret ''abandon art'',
     hk_passphrase = Some (Secret ''pw'')\<rparr>]\<rparr>"

lemma example_keystore_built: "keystore_built example_keystore"
proof (rule keystore_built.hd [OF keystore_built.empty])
  show "add_hd \<lparr>ks_entries = []\<rparr> ''main'' ''abandon art'' (Some ''pw'') =
      Inr (\<lparr>hk_label = ''main'', hk_mnemonic = Secret ''abandon art'', hk_passphrase = Some (Secret ''pw'')\<rparr>,
        example_keystore)"
    by (simp add: add_hd_def require_unique_def ks_labels_def text_passphrase_def example_keystore_def Let_def)
qed

lemma example_saved:
  "\<exists>w'. keystore_save example_cryptolib example_keystore ''d/k'' ''secret'' DEFAULT_N example_os = (Inr (), w')"
  by (simp add: keystore_save_def bind_io_def os_urandom_def derive_key_def example_cryptolib_def
      atomic_write_def write_private_def example_os_def free_name_def Let_def)

theorem keystore_save_load_witness:
  "\<exists>w'. keystore_save example_cryptolib example_keystore ''d/k'' ''secret'' DEFAULT_N example_os = (Inr (), w')
    \<and> keystore_load example_cryptolib ''d/k'' ''secret'' w' = (Inr example_keystore, w')"
proof -
  obtain w' where
    w: "keystore_save example_cryptolib example_keystore ''d/k'' ''secret'' DEFAULT_N example_os = (Inr (), w')"
    using example_saved by blast
  have "is_amount DEFAULT_N" "ow_faults example_os OpRead = None"
    by (simp_all add: is_amount_def DEFAULT_N_def example_os_def)
  from keystore_save_load [OF example_crypt_ok example_keystore_built w this] w show ?thesis by blast
qed

text \<open>C16. Adding a key refines the update of a map from labels to keys: it succeeds exactly when the
  label is new and then binds that label, and no other, to the key it returns, whose passphrase is
  absent when none or an empty one was given; a label that exists is refused.\<close>

theorem keystore_add_refines:
  "(case add_hd ks label mnemonic pw of
      Inl e \<Rightarrow> e = KeystoreError ''duplicate key label'' \<and> label \<in> dom (ks_map ks)
    | Inr (k, ks') \<Rightarrow> label \<notin> dom (ks_map ks) \<and> ks_map ks' = (ks_map ks)(label \<mapsto> HdKey k)
        \<and> hk_mnemonic k = Secret mnemonic
        \<and> hk_passphrase k = (if pw = None \<or> pw = Some [] then None else map_option Secret pw))
   \<and> (case add_raw ks label chain sec of
      Inl e \<Rightarrow> e = KeystoreError ''duplicate key label'' \<and> label \<in> dom (ks_map ks)
    | Inr (k, ks') \<Rightarrow> label \<notin> dom (ks_map ks) \<and> ks_map ks' = (ks_map ks)(label \<mapsto> RawKey k)
        \<and> rk_chain k = chain \<and> rk_secret k = Secret sec)"
  by (auto simp: add_hd_result add_raw_result Let_def ks_map_append text_passphrase_def split: option.split)

text \<open>C17. Every keystore that the wallet comes to hold, by adding keys to an empty one and by saving and
  loading it any number of times, is well formed: its labels are distinct, so that a label names
  one key, and no key carries an empty passphrase, which the file format would confuse with an
  absent one. The second holds of whatever file is loaded; the first is only as good as the file,
  since loading does not check the labels (\<open>load_saved\<close> reads any).\<close>

theorem keystore_well_formed:
  assumes "keystore_built ks"
  shows "distinct (ks_labels ks)
    \<and> (\<forall>e \<in> set (ks_entries ks). ks_map ks (entry_label e) = Some e \<and> entry_ok e)
    \<and> (\<forall>lib n path pw w w' path' v ks' v'. crypt_ok lib \<and> is_amount n
          \<and> keystore_save lib ks path pw n w = (Inr (), w') \<and> ow_disk v path' = ow_disk w' path
          \<and> keystore_load lib path' pw v = (Inr ks', v') \<longrightarrow> ks' = ks \<and> v' = v)
    \<and> (\<forall>lib path pw v ks' v'. keystore_load lib path pw v = (Inr ks', v') \<longrightarrow>
          (\<forall>e \<in> set (ks_entries ks'). entry_ok e))"
proof -
  note ok = built_ok [OF assms]
  then have e: "\<forall>e \<in> set (ks_entries ks). entry_ok e" by (simp add: keystore_ok_def)
  have "ks' = ks \<and> v' = v" if "crypt_ok lib" "is_amount n" "keystore_save lib ks path pw n w = (Inr (), w')"
    "ow_disk v path' = ow_disk w' path" "keystore_load lib path' pw v = (Inr ks', v')"
    for lib n path pw w w' path' v ks' v'
    using load_saved [OF that(1,3) e that(2) load_reads [OF that(5)] that(4)] that(5) by simp
  moreover have "distinct (ks_labels ks)
    \<and> (\<forall>e \<in> set (ks_entries ks). ks_map ks (entry_label e) = Some e \<and> entry_ok e)"
    using ok by (auto simp: keystore_ok_def ks_map_def ks_labels_def comp_def intro!: map_of_is_SomeI)
  ultimately show ?thesis using load_entries_ok by blast
qed

theorem keystore_well_formed_witness:
  "\<exists>w'. keystore_save example_cryptolib example_keystore ''d/k'' ''secret'' DEFAULT_N example_os = (Inr (), w')
    \<and> ks_map example_keystore ''main'' = Some (HdKey \<lparr>hk_label = ''main'', hk_mnemonic = Secret ''abandon art'',
       hk_passphrase = Some (Secret ''pw'')\<rparr>)
    \<and> (\<forall>ks'. fst (keystore_load example_cryptolib ''d/k'' ''secret'' w') = Inr ks' \<longrightarrow> ks' = example_keystore)"
proof -
  have "is_amount DEFAULT_N" by (simp add: is_amount_def DEFAULT_N_def)
  moreover obtain w' where s:
    "keystore_save example_cryptolib example_keystore ''d/k'' ''secret'' DEFAULT_N example_os = (Inr (), w')"
    using example_saved by blast
  ultimately have "ks' = example_keystore" if "keystore_load example_cryptolib ''d/k'' ''secret'' w' = (Inr ks', v')" for ks' v'
    using keystore_well_formed [OF example_keystore_built] example_crypt_ok that by blast
  then have "\<forall>ks'. fst (keystore_load example_cryptolib ''d/k'' ''secret'' w') = Inr ks' \<longrightarrow> ks' = example_keystore"
    by (metis prod.collapse)
  moreover have "ks_map example_keystore ''main'' = Some (HdKey \<lparr>hk_label = ''main'', hk_mnemonic = Secret ''abandon art'',
       hk_passphrase = Some (Secret ''pw'')\<rparr>)"
    using keystore_well_formed [OF example_keystore_built, THEN conjunct2, THEN conjunct1]
    by (simp add: example_keystore_def)
  ultimately show ?thesis using s by blast
qed

end
