(* ===== verification/DecimalAmount.thy ===== *)
theory DecimalAmount
  imports Json
begin

text \<open>
  The amounts of the command line (\<open>_amount\<close>, \<open>_base_units\<close>, \<open>_nonneg_int\<close> of \<open>cli.py\<close>) and
  of Python's \<open>decimal\<close> what they use: the constructor from a text, which is exact, a product
  rounded to the 28 digits of the default context, and rounding to an integer, both to nearest
  with ties to even. A finite decimal is a sign, a coefficient and an exponent. Subnormal
  results are kept exact: they are far below one base unit.
\<close>

section \<open>Decimals\<close>

record decimal =
  dec_neg :: bool
  dec_coeff :: nat
  dec_exp :: int

datatype py_decimal = DFinite decimal | DInfinity bool | DNaN

definition dec_value :: "decimal \<Rightarrow> rat" where
  "dec_value d = (if dec_neg d then -1 else 1) * of_nat (dec_coeff d) * 10 powi dec_exp d"

definition dec_len :: "nat \<Rightarrow> nat" where
  "dec_len n = length (str_nat n)"

definition adjusted :: "decimal \<Rightarrow> int" where
  "adjusted d = dec_exp d + int (dec_len (dec_coeff d)) - 1"

text \<open>Division of naturals to the nearest, ties to even.\<close>

definition half_even :: "nat \<Rightarrow> nat \<Rightarrow> nat" where
  "half_even n m =
     (let q = n div m; r = n mod m
      in if 2 * r < m then q else if m < 2 * r then q + 1 else if even q then q else q + 1)"

section \<open>The text of a decimal\<close>

definition take_digits :: "string \<Rightarrow> string \<times> string" where
  "take_digits s = (takeWhile (\<lambda>c. digit_of c \<noteq> None) s, dropWhile (\<lambda>c. digit_of c \<noteq> None) s)"

definition digits_nat :: "string \<Rightarrow> nat" where
  "digits_nat s = foldl (\<lambda>n c. 10 * n + (case digit_of c of None \<Rightarrow> 0 | Some d \<Rightarrow> d)) 0 s"

definition split_sign :: "string \<Rightarrow> bool \<times> string" where
  "split_sign s =
     (case s of
        [] \<Rightarrow> (False, [])
      | c # r \<Rightarrow> if c = CHR ''-'' then (True, r) else if c = CHR ''+'' then (False, r) else (False, s))"

definition parse_exponent :: "string \<Rightarrow> int option" where
  "parse_exponent s =
     (case s of
        [] \<Rightarrow> Some 0
      | e # r \<Rightarrow>
          if lower_char e \<noteq> CHR ''e'' then None
          else (case split_sign r of (neg, t) \<Rightarrow>
            if t = [] \<or> (\<exists>c \<in> set t. digit_of c = None) then None
            else Some ((if neg then -1 else 1) * int (digits_nat t))))"

definition parse_finite :: "bool \<Rightarrow> string \<Rightarrow> decimal option" where
  "parse_finite neg s =
     (case take_digits s of (whole, rest) \<Rightarrow>
      case (if prefix ''.'' rest then take_digits (tl rest) else ([], rest)) of (fraction, rest') \<Rightarrow>
        if whole @ fraction = [] then None
        else case parse_exponent rest' of
          None \<Rightarrow> None
        | Some e \<Rightarrow>
            Some \<lparr>dec_neg = neg, dec_coeff = digits_nat (whole @ fraction), dec_exp = e - int (length fraction)\<rparr>)"

definition is_nan_text :: "string \<Rightarrow> bool" where
  "is_nan_text t =
     (\<exists>p \<in> {''nan'', ''snan''}. prefix p t \<and> (\<forall>c \<in> set (drop (length p) t). digit_of c \<noteq> None))"

text \<open>The exact constructor: blanks around and underscores anywhere are ignored, and the exponent is
  bounded by the largest that the library represents.\<close>

definition MAX_EMAX :: int where
  "MAX_EMAX = 999999999999999999"

definition decimal_of_text :: "string \<Rightarrow> py_decimal option" where
  "decimal_of_text s =
     (case split_sign (filter (\<lambda>c. c \<noteq> CHR ''_'') (strip s)) of (neg, t) \<Rightarrow>
        if lower t \<in> {''inf'', ''infinity''} then Some (DInfinity neg)
        else if is_nan_text (lower t) then Some DNaN
        else (case parse_finite neg t of
                None \<Rightarrow> None
              | Some d \<Rightarrow> if \<bar>adjusted d\<bar> \<le> MAX_EMAX then Some (DFinite d) else None))"

section \<open>Arithmetic in the default context\<close>

definition PREC :: nat where
  "PREC = 28"

definition EMAX :: int where
  "EMAX = 999999"

definition dec_fix :: "decimal \<Rightarrow> decimal res" where
  "dec_fix d =
     (let k = dec_len (dec_coeff d) - PREC;
          d' = (if k = 0 then d
                else d\<lparr>dec_coeff := half_even (dec_coeff d) (10 ^ k), dec_exp := dec_exp d + int k\<rparr>)
      in if dec_coeff d' \<noteq> 0 \<and> EMAX < adjusted d' then Inl (OtherError ''decimal.Overflow'') else Inr d')"

text \<open>\<open>amount * THORCHAIN_UNIT\<close>.\<close>

definition times_unit :: "decimal \<Rightarrow> decimal res" where
  "times_unit d = dec_fix (d\<lparr>dec_coeff := dec_coeff d * 10 ^ 8\<rparr>)"

text \<open>\<open>int(x.to_integral_value(rounding=ROUND_HALF_EVEN))\<close>.\<close>

definition integral_value :: "decimal \<Rightarrow> int" where
  "integral_value d =
     (let n = (if 0 \<le> dec_exp d then dec_coeff d * 10 ^ nat (dec_exp d)
               else half_even (dec_coeff d) (10 ^ nat (- dec_exp d)))
      in if dec_neg d then - int n else int n)"

section \<open>The argument types\<close>

datatype cli_amount = MaxAmount | Amount decimal

definition bad_argument :: "'a res" where
  "bad_argument = Inl (OtherError ''ArgumentTypeError'')"

definition dec_less_one :: "decimal \<Rightarrow> bool" where
  "dec_less_one d \<longleftrightarrow>
     dec_neg d \<or> (if 0 \<le> dec_exp d then dec_coeff d = 0 else dec_coeff d < 10 ^ nat (- dec_exp d))"

definition parse_amount :: "string \<Rightarrow> cli_amount res" where
  "parse_amount s =
     (if lower s = ''max'' then Inr MaxAmount
      else case decimal_of_text s of
        Some (DFinite d) \<Rightarrow>
          if dec_neg d \<or> dec_coeff d = 0 then bad_argument
          else bind_res (times_unit d) (\<lambda>u. if dec_less_one u then bad_argument else Inr (Amount d))
      | _ \<Rightarrow> bad_argument)"

definition nonneg_int :: "string \<Rightarrow> int res" where
  "nonneg_int s =
     (case parse_int s of
        None \<Rightarrow> bad_argument
      | Some n \<Rightarrow> if n < 0 then bad_argument else Inr n)"

definition base_units :: "decimal \<Rightarrow> int res" where
  "base_units d = bind_res (times_unit d) (\<lambda>u. Inr (integral_value u))"

text \<open>\<open>str(amount)\<close>: positional unless the exponent is positive or the leading zeros exceed five.\<close>

definition dec_text :: "decimal \<Rightarrow> string" where
  "dec_text d =
     (let ds = str_nat (dec_coeff d);
          left = dec_exp d + int (length ds);
          place = (if dec_exp d \<le> 0 \<and> - 6 < left then left else 1);
          body = (if place \<le> 0 then ''0.'' @ replicate (nat (- place)) CHR ''0'' @ ds
                  else if int (length ds) \<le> place then ds @ replicate (nat place - length ds) CHR ''0''
                  else take (nat place) ds @ ''.'' @ drop (nat place) ds);
          expo = (if left = place then []
                  else ''E'' @ (if left < place then [] else ''+'') @ str_int (left - place))
      in (if dec_neg d then ''-'' else []) @ body @ expo)"

section \<open>Rounding\<close>

lemma half_even_round:
  "0 < m \<Longrightarrow> int (half_even n m) = round_even (of_nat n / of_nat m :: rat)"
proof -
  assume m: "0 < m"
  define q r where "q = n div m" and "r = n mod m"
  have n: "n = q * m + r" "r < m" using m by (simp_all add: q_def r_def)
  define x :: rat where "x = of_nat n / of_nat m"
  have x: "x = of_nat q + of_nat r / of_nat m"
    using m by (simp add: x_def n(1) add_divide_distrib)
  have fraction: "0 \<le> (of_nat r / of_nat m :: rat)" "of_nat r / of_nat m < (1 :: rat)"
    using n(2) m by (simp_all add: divide_less_eq)
  then have fl: "\<lfloor>x\<rfloor> = int q" unfolding x by linarith
  have "(of_nat r / of_nat m < (1 / 2 :: rat)) = ((of_nat (2 * r) :: rat) < of_nat m)"
    "((1 / 2 :: rat) < of_nat r / of_nat m) = ((of_nat m :: rat) < of_nat (2 * r))"
    using m by (simp_all add: field_simps)
  then have half: "of_nat r / of_nat m < (1 / 2 :: rat) \<longleftrightarrow> 2 * r < m"
    "(1 / 2 :: rat) < of_nat r / of_nat m \<longleftrightarrow> m < 2 * r"
    by (simp_all only: of_nat_less_iff)
  have rem: "x - of_int (int q) = of_nat r / of_nat m" by (simp add: x)
  show ?thesis
    unfolding x_def [symmetric] half_even_def Let_def q_def [symmetric] r_def [symmetric] round_even_def fl rem
    using half by simp
qed

lemma half_even_exact: "0 < m \<Longrightarrow> half_even (n * m) m = n"
  by (simp add: half_even_def)

lemma half_even_ge:
  assumes "0 < m" "c * m \<le> n"
  shows "c \<le> half_even n m"
proof -
  have "c \<le> n div m" using assms by (simp add: less_eq_div_iff_mult_less_eq)
  also have "\<dots> \<le> half_even n m" by (simp add: half_even_def Let_def)
  finally show ?thesis .
qed

lemma dec_len_pos: "1 \<le> dec_len n"
  unfolding dec_len_def using str_nat_nonempty [of n] by (cases "str_nat n") auto

lemma dec_len_le: "n < 10 ^ k \<Longrightarrow> 0 < k \<Longrightarrow> dec_len n \<le> k"
  unfolding dec_len_def by (rule length_str_nat)

lemma dec_fix_short:
  assumes "dec_coeff d < 10 ^ 28" "dec_exp d \<le> 99999"
  shows "dec_fix d = Inr d"
proof -
  have "dec_len (dec_coeff d) \<le> 28" by (rule dec_len_le) (use assms(1) in simp_all)
  with assms(2) show ?thesis by (simp add: dec_fix_def PREC_def EMAX_def adjusted_def Let_def)
qed

lemma dec_fix_sign: "dec_fix d = Inr u \<Longrightarrow> dec_neg u = dec_neg d"
  by (auto simp: dec_fix_def Let_def split: if_splits)

lemma integral_value_round: "integral_value d = round_even (dec_value d)"
proof -
  have v: "round_even (of_nat (dec_coeff d) * 10 powi dec_exp d :: rat) =
      int (if 0 \<le> dec_exp d then dec_coeff d * 10 ^ nat (dec_exp d)
           else half_even (dec_coeff d) (10 ^ nat (- dec_exp d)))"
  proof (cases "0 \<le> dec_exp d")
    case True
    then have "(of_nat (dec_coeff d) * 10 powi dec_exp d :: rat) =
        of_int (int (dec_coeff d * 10 ^ nat (dec_exp d)))" by (simp add: power_int_def)
    with True show ?thesis by (simp only: round_even_of_int if_True)
  next
    case False
    then have e: "(of_nat (dec_coeff d) * 10 powi dec_exp d :: rat) =
        of_nat (dec_coeff d) / of_nat (10 ^ nat (- dec_exp d))"
      by (simp add: power_int_def power_one_over)
    have p: "0 < (10 :: nat) ^ nat (- dec_exp d)" by simp
    show ?thesis unfolding e half_even_round [OF p, symmetric] using False by (simp only: if_False)
  qed
  show ?thesis
    using v by (auto simp: integral_value_def dec_value_def Let_def)
qed

lemma dec_value_scaled: "dec_value (d\<lparr>dec_coeff := dec_coeff d * 10 ^ 8\<rparr>) = dec_value d * 10 ^ 8"
  by (simp add: dec_value_def)

lemma base_units_short:
  assumes "dec_coeff d < 10 ^ 20" "dec_exp d \<le> 99999"
  shows "base_units d = Inr (round_even (dec_value d * 10 ^ 8))"
proof -
  have "times_unit d = Inr (d\<lparr>dec_coeff := dec_coeff d * 10 ^ 8\<rparr>)"
    unfolding times_unit_def by (rule dec_fix_short) (use assms in simp_all)
  then show ?thesis
    by (simp only: base_units_def bind_res_Inr integral_value_round dec_value_scaled)
qed

lemma integral_value_pos: "\<not> dec_less_one u \<Longrightarrow> 1 \<le> integral_value u"
proof -
  assume u: "\<not> dec_less_one u"
  have "1 \<le> dec_coeff u * 10 ^ nat (dec_exp u)" if "0 \<le> dec_exp u"
    using u that by (simp add: dec_less_one_def)
  moreover have "1 \<le> half_even (dec_coeff u) (10 ^ nat (- dec_exp u))" if "\<not> 0 \<le> dec_exp u"
    using u that by (intro half_even_ge) (simp_all add: dec_less_one_def)
  ultimately show ?thesis using u by (auto simp: integral_value_def Let_def dec_less_one_def)
qed

text \<open>Beyond 28 digits the product is rounded before the integer is taken: the two roundings may
  give another base unit than the nearest one.\<close>

lemma base_units_rounds_twice:
  "base_units \<lparr>dec_neg = False, dec_coeff = 149999999999999999999999999999, dec_exp = -37\<rparr> = Inr 2"
  "round_even (dec_value \<lparr>dec_neg = False, dec_coeff = 149999999999999999999999999999, dec_exp = -37\<rparr> * 10 ^ 8) = 1"
proof -
  show "base_units \<lparr>dec_neg = False, dec_coeff = 149999999999999999999999999999, dec_exp = -37\<rparr> = Inr 2"
    by (simp add: base_units_def times_unit_def dec_fix_def dec_len_def str_nat_eval PREC_def EMAX_def
        adjusted_def half_even_def Let_def integral_value_def)
  show "round_even (dec_value \<lparr>dec_neg = False, dec_coeff = 149999999999999999999999999999, dec_exp = -37\<rparr> * 10 ^ 8) = 1"
    by (rule round_even_unique) (simp add: dec_value_def power_int_def power_one_over)
qed

text \<open>What the command line accepts, and that it is worth at least one base unit.\<close>

lemma accepted_decimal:
  assumes "parse_amount s = Inr (Amount d)"
  obtains u where "\<not> dec_neg d" "dec_coeff d \<noteq> 0" "times_unit d = Inr u" "\<not> dec_less_one u"
  using assms
  by (auto simp: parse_amount_def bad_argument_def result_simps split: if_splits option.splits py_decimal.splits)

lemma accepted_amount:
  assumes "parse_amount s = Inr (Amount d)"
  shows "\<exists>n. base_units d = Inr n \<and> 1 \<le> n"
proof -
  from assms obtain u where "times_unit d = Inr u" "\<not> dec_less_one u" by (rule accepted_decimal)
  then show ?thesis using integral_value_pos [of u] by (simp add: base_units_def)
qed

lemma accepted_half: "parse_amount ''0.5'' = Inr (Amount \<lparr>dec_neg = False, dec_coeff = 5, dec_exp = -1\<rparr>)"
proof -
  have l: "lower ''0.5'' \<noteq> ''max''" by code_simp
  have t: "decimal_of_text ''0.5'' = Some (DFinite \<lparr>dec_neg = False, dec_coeff = 5, dec_exp = -1\<rparr>)" by code_simp
  show ?thesis
    by (simp add: parse_amount_def t l times_unit_def dec_fix_def dec_len_def str_nat_eval PREC_def EMAX_def
        adjusted_def Let_def dec_less_one_def del: lower_Cons)
qed

text \<open>The product of a large amount with the unit leaves the exponents of the context.\<close>

lemma huge_amount: "parse_amount ''1e999999'' = Inl (OtherError ''decimal.Overflow'')"
proof -
  have d: "digit_of CHR ''9'' = Some 9" "digit_of CHR ''1'' = Some 1" "digit_of CHR ''e'' = None" by code_simp+
  have e: "lower_char CHR ''e'' = CHR ''e''" by code_simp
  have s: "split_sign (filter (\<lambda>c. c \<noteq> CHR ''_'') (strip ''1e999999'')) = (False, ''1e999999'')" by code_simp
  have n: "lower ''1e999999'' \<notin> {''max'', ''inf'', ''infinity''} \<and> \<not> is_nan_text (lower ''1e999999'')" by code_simp
  have "parse_exponent ''e999999'' = Some 999999"
    by (simp add: parse_exponent_def split_sign_def digits_nat_def d e)
  then have "parse_finite False ''1e999999'' = Some \<lparr>dec_neg = False, dec_coeff = 1, dec_exp = 999999\<rparr>"
    by (simp add: parse_finite_def take_digits_def digits_nat_def d)
  then have "decimal_of_text ''1e999999'' = Some (DFinite \<lparr>dec_neg = False, dec_coeff = 1, dec_exp = 999999\<rparr>)"
    using n by (simp add: decimal_of_text_def s adjusted_def dec_len_def str_nat_eval MAX_EMAX_def del: lower_Cons)
  with n show ?thesis
    by (simp add: parse_amount_def times_unit_def dec_fix_def dec_len_def str_nat_eval PREC_def EMAX_def
        adjusted_def Let_def del: lower_Cons)
qed

section \<open>Properties\<close>

text \<open>C18. An amount that the command line accepts is at least one base unit when it is scaled: no
  accepted amount is rounded to zero on its way to a transaction. An amount of up to twenty
  significant digits is scaled to the base unit nearest to its exact decimal value, ties to even,
  so that a multiple of a base unit is exact.\<close>

theorem amount_scaled_exactly:
  assumes "parse_amount s = Inr (Amount d)"
  shows "(\<exists>n. base_units d = Inr n \<and> 1 \<le> n)
    \<and> (dec_coeff d < 10 ^ 20 \<and> dec_exp d \<le> 99999 \<longrightarrow> base_units d = Inr (round_even (dec_value d * 10 ^ 8)))
    \<and> 0 < dec_value d"
proof -
  from assms obtain u where "\<not> dec_neg d" "dec_coeff d \<noteq> 0" by (rule accepted_decimal)
  then have "0 < dec_value d" by (simp add: dec_value_def)
  with accepted_amount [OF assms] base_units_short [of d] show ?thesis by blast
qed

theorem amount_scaled_exactly_witness:
  "\<exists>d. parse_amount ''0.5'' = Inr (Amount d) \<and> base_units d = Inr 50000000"
  using amount_scaled_exactly [OF accepted_half] accepted_half round_even_of_int [of 50000000]
  by (auto simp: dec_value_def)

end
