(* ===== verification/CliWorld.thy ===== *)
theory CliWorld
  imports Backends Addresses Btc Eth Tron Keystore DecimalAmount
begin

text \<open>
  The world in which the commands of \<open>cli.py\<close> run, and its configuration helpers. A machine is
  the operating system of the keystore, the network behind the HTTP and chain libraries, the
  environment variables, the answers that will be typed at password and confirmation prompts,
  the clock, and the trace of what was printed and closed so far, in order. Printed lines are the
  texts of the code; an exception inside a line keeps its value (its message is not modelled), a
  float printed with its default format keeps its number, a JSON document its value, and the
  dashes and the euro sign outside the range of \<open>char\<close> are written as a hyphen and as EUR.
\<close>

section \<open>The machine\<close>

datatype event =
    Out string
  | OutFloat string rat string
  | OutJson json
  | Err string
  | ErrExc string pyexc string
  | ErrProblem string problem
  | ErrAddress string address_problem
  | Asked string
  | Closed string

record 'n machine =
  m_os :: os_world
  m_net :: 'n
  m_env :: environ
  m_secrets :: "string list"
  m_answers :: "string list"
  m_clock :: "nat \<Rightarrow> rat"
  m_ticks :: nat
  m_trace :: "event list"

type_synonym ('n, 'a) cli = "('n machine, 'a) pyio"

definition on_os :: "(os_world, 'a) pyio \<Rightarrow> ('n, 'a) cli" where
  "on_os m w = (case m (m_os w) of (r, os) \<Rightarrow> (r, w\<lparr>m_os := os\<rparr>))"

definition on_net :: "('n, 'a) pyio \<Rightarrow> ('n, 'a) cli" where
  "on_net m w = (case m (m_net w) of (r, n) \<Rightarrow> (r, w\<lparr>m_net := n\<rparr>))"

definition say :: "event \<Rightarrow> ('n, unit) cli" where
  "say e w = (Inr (), w\<lparr>m_trace := m_trace w @ [e]\<rparr>)"

definition get_environ :: "('n, environ) cli" where
  "get_environ w = (Inr (m_env w), w)"

definition getpass :: "string \<Rightarrow> ('n, string) cli" where
  "getpass prompt w =
     (let w' = w\<lparr>m_trace := m_trace w @ [Asked prompt]\<rparr>
      in case m_secrets w of
           [] \<Rightarrow> (Inl (OtherError ''EOFError''), w')
         | s # rest \<Rightarrow> (Inr s, w'\<lparr>m_secrets := rest\<rparr>))"

definition input_line :: "string \<Rightarrow> ('n, string) cli" where
  "input_line prompt w =
     (let w' = w\<lparr>m_trace := m_trace w @ [Asked prompt]\<rparr>
      in case m_answers w of
           [] \<Rightarrow> (Inl (OtherError ''EOFError''), w')
         | s # rest \<Rightarrow> (Inr s, w'\<lparr>m_answers := rest\<rparr>))"

definition read_clock :: "('n, rat) cli" where
  "read_clock w = (Inr (m_clock w (m_ticks w)), w\<lparr>m_ticks := m_ticks w + 1\<rparr>)"

text \<open>\<open>int(time.time())\<close>.\<close>

definition clock_int :: "('n, int) cli" where
  "clock_int = bind_io read_clock (\<lambda>t. return_io (trunc t))"

text \<open>\<open>with client: ...\<close> and \<open>finally: client.close()\<close>; the sessions themselves are those of \<open>Net\<close>.\<close>

definition closing :: "string \<Rightarrow> ('n, 'a) cli \<Rightarrow> ('n, 'a) cli" where
  "closing name m = finally_io m (\<lambda>w. w\<lparr>m_trace := m_trace w @ [Closed name]\<rparr>)"

fun say_all :: "event list \<Rightarrow> ('n, unit) cli" where
  "say_all [] = return_io ()"
| "say_all (e # es) = bind_io (say e) (\<lambda>_. say_all es)"

text \<open>A handler that prints one line and returns an exit code.\<close>

definition leave :: "event \<Rightarrow> int \<Rightarrow> ('n, int) cli" where
  "leave e rc = bind_io (say e) (\<lambda>_. return_io rc)"

definition warn :: "string \<Rightarrow> string list \<Rightarrow> ('n, unit) cli" where
  "warn header bullets = say_all (Err header # map (\<lambda>b. Err (''  - '' @ b)) bullets)"

section \<open>Libraries and arguments\<close>

record ('n, 'bk, 'btx, 'ek, 'tk, 'ttx) cli_libs =
  cx_btc :: "('bk, 'btx) btclib"
  cx_eth :: "'ek ethlib"
  cx_tron :: "('n, 'tk, 'ttx) tronlib"
  cx_crypt :: cryptolib
  cx_mnemonic :: "(os_world, string) pyio"
  cx_get :: "'n http_get"
  cx_post_json :: "'n json_post"
  cx_post_raw :: "('n, string) http_post"
  cx_scan_fuel :: nat

text \<open>The parsed command line; a field that a command does not define is not read by its handler.\<close>

record cli_args =
  a_keystore :: "string option"
  a_esplora :: "string option"
  a_eth_rpc :: "string option"
  a_tron_api :: "string option"
  a_bsc_rpc :: "string option"
  a_key :: "string option"
  a_force :: bool
  a_label :: string
  a_mnemonic :: "string option"
  a_generate :: bool
  a_bip39_passphrase :: "string option"
  a_chain :: string
  a_secret :: "string option"
  a_from :: string
  a_to :: string
  a_asset :: string
  a_amount :: cli_amount
  a_dest :: "string option"
  a_address :: string
  a_backend :: string
  a_price_check :: bool
  a_stream_interval :: "int option"
  a_stream_quantity :: "int option"
  a_confirm :: bool
  a_yes :: bool
  a_max_fee :: int
  a_eth_gas :: int
  a_tolerance_bps :: int
  a_bps :: int
  a_txid :: string

section \<open>Constants\<close>

definition DEFAULT_KEYSTORE :: string where
  "DEFAULT_KEYSTORE = ''~/.config/cryptoswap-wallet/keystore.json''"

definition BTC_ACCOUNT :: string where
  "BTC_ACCOUNT = ''m/84'' @ [CHR 0x27] @ ''/0'' @ [CHR 0x27] @ ''/0'' @ [CHR 0x27]"

definition BTC_RECEIVE_PATH :: string where
  "BTC_RECEIVE_PATH = BTC_ACCOUNT @ ''/0/0''"

definition BTC_CHANGE_PATH :: string where
  "BTC_CHANGE_PATH = BTC_ACCOUNT @ ''/1/0''"

definition ETH_MAX_FEE_WEI :: int where
  "ETH_MAX_FEE_WEI = 10 ^ 16"

definition ASSET :: "(string \<times> string) list" where
  "ASSET =
     [(''BTC'', ''BTC.BTC''), (''ETH'', ''ETH.ETH''), (''TRX'', ''TRON.TRX''),
      (''USDT-TRON'', ''TRON.USDT-TR7NHQJEKQXGTCI8Q8ZY4PL8OTSZGJLJ6T''),
      (''USDT-ETH'', ''ETH.USDT-0XDAC17F958D2EE523A2206206994597C13D831EC7''),
      (''USDC-ETH'', ''ETH.USDC-0XA0B86991C6218B36C1D19D4A2E9EB0CE3606EB48''),
      (''LTC'', ''LTC.LTC''), (''DOGE'', ''DOGE.DOGE''), (''BCH'', ''BCH.BCH''), (''DASH'', ''DASH.DASH'')]"

definition DEFAULT_ESPLORA :: string where "DEFAULT_ESPLORA = ''https://blockstream.info/api''"
definition DEFAULT_RPC :: string where "DEFAULT_RPC = ''https://ethereum-rpc.publicnode.com''"
definition DEFAULT_TRON_API :: string where "DEFAULT_TRON_API = ''https://tron-rpc.publicnode.com''"
definition DEFAULT_BSC_RPC :: string where "DEFAULT_BSC_RPC = ''https://bsc-rpc.publicnode.com''"

text \<open>\<open>ASSET[key]\<close>, and the chain of an asset, \<open>split(".", 1)[0]\<close>.\<close>

definition asset_of :: "string \<Rightarrow> string res" where
  "asset_of key = (case map_of ASSET key of None \<Rightarrow> Inl (KeyError key) | Some a \<Rightarrow> Inr a)"

definition asset_chain :: "string \<Rightarrow> string" where
  "asset_chain asset = split_head CHR ''.'' asset"

definition is_token_asset :: "string \<Rightarrow> bool" where
  "is_token_asset asset \<longleftrightarrow> CHR ''-'' \<in> set asset"

section \<open>Configuration\<close>

text \<open>\<open>args.x or os.environ.get(name) or default\<close>.\<close>

definition configured :: "string option \<Rightarrow> environ \<Rightarrow> string \<Rightarrow> string \<Rightarrow> string" where
  "configured arg env name dflt = str_or arg (env_or env name dflt)"

text \<open>\<open>Path(...).expanduser()\<close> for the user's own home; another user's is not looked up.\<close>

definition expand_user :: "environ \<Rightarrow> string \<Rightarrow> string res" where
  "expand_user env p =
     (if \<not> prefix ''~'' p then Inr p
      else if p = ''~'' \<or> prefix ''~/'' p then
        (case env ''HOME'' of None \<Rightarrow> Inl (OutOfModel ''home'') | Some h \<Rightarrow> Inr (h @ drop 1 p))
      else Inl (OutOfModel ''home''))"

definition keystore_path :: "cli_args \<Rightarrow> ('n, string) cli" where
  "keystore_path args =
     bind_io get_environ (\<lambda>env.
       lift_io (expand_user env (configured (a_keystore args) env ''CRYPTOSWAP_WALLET_KEYSTORE'' DEFAULT_KEYSTORE)))"

definition passphrase_prompt :: "bool \<Rightarrow> ('n, string) cli" where
  "passphrase_prompt confirm =
     bind_io get_environ (\<lambda>env.
       if env_or env ''CRYPTOSWAP_WALLET_PASSPHRASE'' [] \<noteq> [] then
         return_io (env_or env ''CRYPTOSWAP_WALLET_PASSPHRASE'' [])
       else
         bind_io (getpass ''Keystore passphrase: '') (\<lambda>pw.
           if confirm then
             bind_io (getpass ''Repeat passphrase: '') (\<lambda>again.
               if again \<noteq> pw then raise_io (SystemExit ''passphrases do not match'') else return_io pw)
           else return_io pw))"

definition cli_btc :: "cli_args \<Rightarrow> string \<Rightarrow> ('n, btc_adapter) cli" where
  "cli_btc args passphrase =
     bind_io get_environ (\<lambda>env. return_io (btc_adapter
       (configured (a_esplora args) env ''CRYPTOSWAP_WALLET_ESPLORA'' DEFAULT_ESPLORA) passphrase ''bitcoin''))"

definition cli_eth :: "cli_args \<Rightarrow> string \<Rightarrow> ('n, eth_adapter) cli" where
  "cli_eth args passphrase =
     bind_io get_environ (\<lambda>env. return_io (eth_adapter
       (configured (a_eth_rpc args) env ''CRYPTOSWAP_WALLET_ETH_RPC'' DEFAULT_RPC) passphrase CHAIN_ID))"

definition cli_tron :: "cli_args \<Rightarrow> string \<Rightarrow> ('n, tron_adapter) cli" where
  "cli_tron args passphrase =
     bind_io get_environ (\<lambda>env. return_io (tron_adapter
       (configured (a_tron_api args) env ''CRYPTOSWAP_WALLET_TRON_API'' DEFAULT_TRON_API) passphrase))"

definition cli_bsc :: "cli_args \<Rightarrow> string \<Rightarrow> ('n, eth_adapter) cli" where
  "cli_bsc args passphrase =
     bind_io get_environ (\<lambda>env. return_io (bsc_adapter
       (configured (a_bsc_rpc args) env ''CRYPTOSWAP_WALLET_BSC_RPC'' DEFAULT_BSC_RPC) passphrase))"

fun first_hd :: "string option \<Rightarrow> key_entry list \<Rightarrow> hd_key option" where
  "first_hd key [] = None"
| "first_hd key (HdKey k # es) = (if key = None \<or> key = Some (hk_label k) then Some k else first_hd key es)"
| "first_hd key (RawKey k # es) = first_hd key es"

definition open_keystore :: "('n, 'bk, 'btx, 'ek, 'tk, 'ttx) cli_libs \<Rightarrow> cli_args \<Rightarrow> ('n, keystore) cli" where
  "open_keystore cx args =
     bind_io (keystore_path args) (\<lambda>path.
     bind_io (passphrase_prompt False) (\<lambda>pw. on_os (keystore_load (cx_crypt cx) path pw)))"

definition selected_key :: "cli_args \<Rightarrow> keystore \<Rightarrow> hd_key res" where
  "selected_key args ks =
     (case first_hd (a_key args) (ks_entries ks) of
        None \<Rightarrow> Inl (SystemExit ''no matching HD key in keystore'')
      | Some k \<Rightarrow> Inr k)"

definition load_mnemonic ::
    "('n, 'bk, 'btx, 'ek, 'tk, 'ttx) cli_libs \<Rightarrow> cli_args \<Rightarrow> ('n, string \<times> string) cli" where
  "load_mnemonic cx args =
     bind_io (open_keystore cx args) (\<lambda>ks.
     bind_io (lift_io (selected_key args ks)) (\<lambda>k.
       return_io (reveal (hk_mnemonic k), (case hk_passphrase k of None \<Rightarrow> [] | Some p \<Rightarrow> reveal p))))"

text \<open>\<open>repr(s)\<close> of a text without control characters: single quotes unless only they occur in it.\<close>

definition py_repr :: "string \<Rightarrow> string" where
  "py_repr s =
     (let q = (if CHR 0x27 \<in> set s \<and> CHR 0x22 \<notin> set s then CHR 0x22 else CHR 0x27)
      in q # concat (map (\<lambda>c. if c = q \<or> c = CHR 0x5C then [CHR 0x5C, c] else [c]) s) @ [q])"

end
