(* ===== verification/CliKeys.thy ===== *)
theory CliKeys
  imports CliWorld
begin

text \<open>
  The commands that manage the keystore: \<open>init\<close>, \<open>add-hd\<close>, \<open>add-raw\<close>, \<open>list\<close>, \<open>show-seed\<close>
  and \<open>address\<close>. Each is the whole handler: what it asks, reads, writes and prints, in order.
  The directories of a path have no counterpart in the model of the disk.
\<close>

section \<open>Handlers\<close>

definition path_exists :: "string \<Rightarrow> ('n, bool) cli" where
  "path_exists path w = (Inr (ow_disk (m_os w) path \<noteq> None), w)"

definition save_keystore ::
    "('n, 'bk, 'btx, 'ek, 'tk, 'ttx) cli_libs \<Rightarrow> keystore \<Rightarrow> string \<Rightarrow> string \<Rightarrow> ('n, unit) cli" where
  "save_keystore cx ks path pw = on_os (keystore_save (cx_crypt cx) ks path pw DEFAULT_N)"

definition cmd_init :: "('n, 'bk, 'btx, 'ek, 'tk, 'ttx) cli_libs \<Rightarrow> cli_args \<Rightarrow> ('n, int) cli" where
  "cmd_init cx args =
     bind_io (keystore_path args) (\<lambda>path.
     bind_io (path_exists path) (\<lambda>there.
       if there \<and> \<not> a_force args then leave (Err (path @ '' already exists; use --force to overwrite'')) 1
       else
         bind_io (passphrase_prompt True) (\<lambda>pw.
         bind_io (save_keystore cx \<lparr>ks_entries = []\<rparr> path pw) (\<lambda>_.
           leave (Out (''created empty keystore at '' @ path)) 0))))"

text \<open>The new mnemonic: generated, given on the command line, or typed.\<close>

definition new_mnemonic ::
    "('n, 'bk, 'btx, 'ek, 'tk, 'ttx) cli_libs \<Rightarrow> cli_args \<Rightarrow> ('n, string) cli" where
  "new_mnemonic cx args =
     (if a_generate args then on_os (cx_mnemonic cx)
      else case a_mnemonic args of
        Some m \<Rightarrow> if m \<noteq> [] then return_io m else getpass ''BIP39 mnemonic: ''
      | None \<Rightarrow> getpass ''BIP39 mnemonic: '')"

definition show_generated ::
    "('n, 'bk, 'btx, 'ek, 'tk, 'ttx) cli_libs \<Rightarrow> cli_args \<Rightarrow> string \<Rightarrow> ('n, unit) cli" where
  "show_generated cx args mnemonic =
     (if a_generate args then
        bind_io (lift_io (btc_derive_address (cx_btc cx)
            (btc_adapter DEFAULT_ESPLORA (str_or (a_bip39_passphrase args) []) ''bitcoin'') mnemonic BTC_RECEIVE_PATH))
          (\<lambda>addr. say_all
            [Out (''BTC receive address: '' @ addr),
             Out (''the new seed is stored ENCRYPTED in the keystore; back up the keystore file + passphrase.''
               @ [CHR 0x0A] @ ''to reveal the words (do it privately): cryptoswap-wallet show-seed --key ''
               @ a_label args)])
      else return_io ())"

definition cmd_add_hd :: "('n, 'bk, 'btx, 'ek, 'tk, 'ttx) cli_libs \<Rightarrow> cli_args \<Rightarrow> ('n, int) cli" where
  "cmd_add_hd cx args =
     bind_io (keystore_path args) (\<lambda>path.
     bind_io (passphrase_prompt False) (\<lambda>pw.
     bind_io (on_os (keystore_load (cx_crypt cx) path pw)) (\<lambda>ks.
     bind_io (new_mnemonic cx args) (\<lambda>mnemonic.
     bind_io (lift_io (add_hd ks (a_label args) mnemonic (a_bip39_passphrase args))) (\<lambda>(k, ks').
     bind_io (save_keystore cx ks' path pw) (\<lambda>_.
     bind_io (say (Out (''added HD key '' @ py_repr (a_label args)))) (\<lambda>_.
     bind_io (show_generated cx args mnemonic) (\<lambda>_. return_io 0))))))))"

definition cmd_show_seed :: "('n, 'bk, 'btx, 'ek, 'tk, 'ttx) cli_libs \<Rightarrow> cli_args \<Rightarrow> ('n, int) cli" where
  "cmd_show_seed cx args =
     bind_io (open_keystore cx args) (\<lambda>ks.
     bind_io (lift_io (selected_key args ks)) (\<lambda>k.
     bind_io (say (Out (reveal (hk_mnemonic k)))) (\<lambda>_.
     bind_io (case hk_passphrase k of
                None \<Rightarrow> return_io ()
              | Some p \<Rightarrow> say (Out (''BIP39 passphrase: '' @ reveal p))) (\<lambda>_. return_io 0))))"

definition cmd_add_raw :: "('n, 'bk, 'btx, 'ek, 'tk, 'ttx) cli_libs \<Rightarrow> cli_args \<Rightarrow> ('n, int) cli" where
  "cmd_add_raw cx args =
     bind_io (keystore_path args) (\<lambda>path.
     bind_io (passphrase_prompt False) (\<lambda>pw.
     bind_io (on_os (keystore_load (cx_crypt cx) path pw)) (\<lambda>ks.
     bind_io (case a_secret args of
                Some s \<Rightarrow> if s \<noteq> [] then return_io s else getpass ''private key: ''
              | None \<Rightarrow> getpass ''private key: '') (\<lambda>sec.
     bind_io (lift_io (add_raw ks (a_label args) (a_chain args) sec)) (\<lambda>(k, ks').
     bind_io (save_keystore cx ks' path pw) (\<lambda>_.
       leave (Out (''added raw '' @ a_chain args @ '' key '' @ py_repr (a_label args))) 0))))))"

fun entry_line :: "key_entry \<Rightarrow> string" where
  "entry_line (HdKey k) = hk_label k @ [CHR 0x09] @ ''hd'' @ [CHR 0x09]"
| "entry_line (RawKey k) = rk_label k @ [CHR 0x09] @ ''raw'' @ [CHR 0x09] @ rk_chain k"

definition cmd_list :: "('n, 'bk, 'btx, 'ek, 'tk, 'ttx) cli_libs \<Rightarrow> cli_args \<Rightarrow> ('n, int) cli" where
  "cmd_list cx args =
     bind_io (open_keystore cx args) (\<lambda>ks.
     bind_io (say_all (map (\<lambda>e. Out (entry_line e)) (ks_entries ks))) (\<lambda>_. return_io 0))"

definition cmd_address :: "('n, 'bk, 'btx, 'ek, 'tk, 'ttx) cli_libs \<Rightarrow> cli_args \<Rightarrow> ('n, int) cli" where
  "cmd_address cx args =
     bind_io (load_mnemonic cx args) (\<lambda>(mnemonic, pw).
     bind_io (lift_io (btc_derive_address (cx_btc cx) (btc_adapter DEFAULT_ESPLORA pw ''bitcoin'') mnemonic
         BTC_RECEIVE_PATH)) (\<lambda>btc.
     bind_io (say (Out (''BTC:  '' @ btc))) (\<lambda>_.
     bind_io (lift_io (eth_derive_address (cx_eth cx) (eth_adapter DEFAULT_RPC pw CHAIN_ID) mnemonic
         DEFAULT_ETH_DERIVATION)) (\<lambda>eth.
     bind_io (say (Out (''ETH:  '' @ eth))) (\<lambda>_.
     bind_io (lift_io (eth_derive_address (cx_eth cx) (bsc_adapter DEFAULT_BSC_RPC pw) mnemonic
         DEFAULT_ETH_DERIVATION)) (\<lambda>bsc.
     bind_io (say (Out (''BSC:  '' @ bsc @ '' (same EVM address as ETH)''))) (\<lambda>_.
     bind_io (lift_io (tron_derive_address (cx_tron cx) (tron_adapter DEFAULT_TRON_API pw) mnemonic
         DEFAULT_TRON_DERIVATION)) (\<lambda>tron.
       leave (Out (''TRON: '' @ tron)) 0))))))))"

section \<open>What the commands leave in the keystore file\<close>

text \<open>A keystore that was saved where the arguments point, under the passphrase of the environment.\<close>

definition stored ::
    "('n, 'bk, 'btx, 'ek, 'tk, 'ttx) cli_libs \<Rightarrow> string \<Rightarrow> string \<Rightarrow> keystore \<Rightarrow> 'n machine \<Rightarrow> bool" where
  "stored cx path pw ks w \<longleftrightarrow> keystore_load (cx_crypt cx) path pw (m_os w) = (Inr ks, m_os w)"

definition settles :: "cli_args \<Rightarrow> string \<Rightarrow> string \<Rightarrow> 'n machine \<Rightarrow> bool" where
  "settles args path pw w \<longleftrightarrow>
     expand_user (m_env w) (configured (a_keystore args) (m_env w) ''CRYPTOSWAP_WALLET_KEYSTORE'' DEFAULT_KEYSTORE) = Inr path
     \<and> m_env w ''CRYPTOSWAP_WALLET_PASSPHRASE'' = Some pw \<and> pw \<noteq> []"

lemma settles_path: "settles args path pw w \<Longrightarrow> keystore_path args w = (Inr path, w)"
  by (simp add: settles_def keystore_path_def bind_io_def get_environ_def)

lemma settles_passphrase: "settles args path pw w \<Longrightarrow> passphrase_prompt c w = (Inr pw, w)"
  by (simp add: settles_def passphrase_prompt_def bind_io_def get_environ_def env_or_def)

lemma stored_load: "stored cx path pw ks w \<Longrightarrow> on_os (keystore_load (cx_crypt cx) path pw) w = (Inr ks, w)"
  by (simp add: stored_def on_os_def)

lemma settled_path: "settles args path pw w \<Longrightarrow> bind_io (keystore_path args) f w = f path w"
  by (simp add: bind_io_def settles_path)

lemma settled_passphrase: "settles args path pw w \<Longrightarrow> bind_io (passphrase_prompt c) f w = f pw w"
  by (simp add: bind_io_def settles_passphrase)

lemma stored_bind: "stored cx path pw ks w \<Longrightarrow> bind_io (on_os (keystore_load (cx_crypt cx) path pw)) f w = f ks w"
  by (simp add: bind_io_def stored_load)

lemma stored_open:
  "settles args path pw w \<Longrightarrow> stored cx path pw ks w \<Longrightarrow> open_keystore cx args w = (Inr ks, w)"
  by (simp add: open_keystore_def settled_path settled_passphrase stored_load)

lemma save_keystore_stored:
  assumes "crypt_ok (cx_crypt cx)" "keystore_ok ks" "save_keystore cx ks path pw w = (Inr (), w')"
    "ow_faults (m_os w) OpRead = None"
  shows "stored cx path pw ks w' \<and> w' = w\<lparr>m_os := m_os w'\<rparr>"
proof -
  from assms(3) obtain os where s: "keystore_save (cx_crypt cx) ks path pw DEFAULT_N (m_os w) = (Inr (), os)"
    and w': "w' = w\<lparr>m_os := os\<rparr>"
    by (auto simp: save_keystore_def on_os_def split: prod.splits)
  have "is_amount DEFAULT_N" by (simp add: is_amount_def DEFAULT_N_def)
  from save_then_load [OF assms(1) s assms(2) this assms(4)] show ?thesis by (simp add: stored_def w')
qed

lemma first_hd_append:
  "first_hd key (es @ fs) = (case first_hd key es of None \<Rightarrow> first_hd key fs | Some k \<Rightarrow> Some k)"
  by (induction key es rule: first_hd.induct) simp_all

lemma first_hd_labelled: "first_hd (Some l) es \<noteq> None \<Longrightarrow> l \<in> entry_label ` set es"
  by (induction "Some l" es rule: first_hd.induct) (auto split: if_splits)

text \<open>An existing keystore is left alone without \<open>--force\<close>: nothing is asked, written or drawn.\<close>

lemma init_refuses_existing:
  assumes "settles args path pw w" "ow_disk (m_os w) path \<noteq> None" "\<not> a_force args"
  shows "cmd_init cx args w =
    (Inr 1, w\<lparr>m_trace := m_trace w @ [Err (path @ '' already exists; use --force to overwrite'')]\<rparr>)"
  using assms(2,3)
  by (simp add: cmd_init_def settled_path [OF assms(1)])
    (simp add: path_exists_def bind_io_def leave_def say_def)

lemma init_creates:
  assumes "crypt_ok (cx_crypt cx)" "settles args path pw w" "cmd_init cx args w = (Inr 0, w')"
    "ow_faults (m_os w) OpRead = None"
  shows "stored cx path pw \<lparr>ks_entries = []\<rparr> w'"
proof -
  have ok: "keystore_ok \<lparr>ks_entries = []\<rparr>" by (simp add: keystore_ok_def ks_labels_def)
  from assms(3) obtain w1 where s: "save_keystore cx \<lparr>ks_entries = []\<rparr> path pw w = (Inr (), w1)"
    and w': "m_os w' = m_os w1"
    by (auto simp: cmd_init_def bind_io_def settles_path [OF assms(2)] settles_passphrase [OF assms(2)] path_exists_def leave_def say_def
        split: if_splits prod.splits sum.splits)
  from save_keystore_stored [OF assms(1) ok s assms(4)] w' show ?thesis by (simp add: stored_def)
qed

text \<open>What \<open>add-hd\<close> with a mnemonic on the command line comes to.\<close>

lemma add_hd_run:
  assumes "settles args path pw w" "stored cx path pw ks w" "\<not> a_generate args"
    "a_mnemonic args = Some m" "m \<noteq> []"
  shows "cmd_add_hd cx args w =
    bind_io (lift_io (add_hd ks (a_label args) m (a_bip39_passphrase args))) (\<lambda>(k, ks').
    bind_io (save_keystore cx ks' path pw) (\<lambda>_. leave (Out (''added HD key '' @ py_repr (a_label args))) 0)) w"
  using assms(3-5)
  by (simp add: cmd_add_hd_def settled_path [OF assms(1)] settled_passphrase [OF assms(1)] stored_bind [OF assms(2)]
      new_mnemonic_def show_generated_def leave_def)
    (simp add: return_io_def)

lemma add_hd_done:
  assumes "crypt_ok (cx_crypt cx)" "keystore_ok ks" "settles args path pw w" "stored cx path pw ks w"
    "ow_faults (m_os w) OpRead = None" "\<not> a_generate args" "a_mnemonic args = Some m" "m \<noteq> []"
    "cmd_add_hd cx args w = (Inr 0, w')"
  shows "\<exists>k ks'. add_hd ks (a_label args) m (a_bip39_passphrase args) = Inr (k, ks')
    \<and> stored cx path pw ks' w' \<and> m_env w' = m_env w"
proof -
  from assms(9) obtain k ks' w1 where k: "add_hd ks (a_label args) m (a_bip39_passphrase args) = Inr (k, ks')"
    and s: "save_keystore cx ks' path pw w = (Inr (), w1)"
    and w': "w' = w1\<lparr>m_trace := m_trace w1 @ [Out (''added HD key '' @ py_repr (a_label args))]\<rparr>"
    unfolding add_hd_run [OF assms(3,4,6-8)]
    by (auto simp: bind_io_def leave_def say_def split: prod.splits sum.splits)
  have "keystore_ok ks'"
    using k assms(2) by (auto simp: add_hd_result Let_def split: if_splits intro!: keystore_ok_append)
  from save_keystore_stored [OF assms(1) this s assms(5)] k w' show ?thesis
    by (simp add: stored_def) (metis machine.select_convs(3) machine.surjective machine.update_convs(1))
qed

lemma find_added:
  assumes "add_hd ks label m pw = Inr (k, ks')"
  shows "first_hd (Some label) (ks_entries ks') = Some k"
proof -
  have "label \<notin> entry_label ` set (ks_entries ks)"
    and ks': "ks' = ks\<lparr>ks_entries := ks_entries ks @ [HdKey k]\<rparr>" and "hk_label k = label"
    using assms by (auto simp: add_hd_result Let_def dom_ks_map ks_labels_def split: if_splits)
  then show ?thesis
    using first_hd_labelled [of label "ks_entries ks"] by (auto simp: first_hd_append split: option.split)
qed

section \<open>Properties\<close>

text \<open>C20. After \<open>add-hd\<close> with a mnemonic has succeeded, every later command that selects the key by
  its label derives from exactly that mnemonic and its BIP-39 passphrase, and all the keys that
  were in the keystore are still there, unchanged.\<close>

theorem added_key_is_found:
  assumes "crypt_ok (cx_crypt cx)" "keystore_built ks" "settles args path pw w" "stored cx path pw ks w"
    "ow_faults (m_os w) OpRead = None" "\<not> a_generate args" "a_mnemonic args = Some m" "m \<noteq> []"
    "cmd_add_hd cx args w = (Inr 0, w')"
  shows "load_mnemonic cx (args\<lparr>a_key := Some (a_label args)\<rparr>) w'
      = (Inr (m, str_or (a_bip39_passphrase args) []), w')
    \<and> (\<exists>ks' k. stored cx path pw ks' w' \<and> a_label args \<notin> dom (ks_map ks)
        \<and> ks_map ks' = (ks_map ks)(a_label args \<mapsto> HdKey k))"
proof -
  let ?args = "args\<lparr>a_key := Some (a_label args)\<rparr>"
  from add_hd_done [OF assms(1) built_ok [OF assms(2)] assms(3-9)] obtain k ks' where
    k: "add_hd ks (a_label args) m (a_bip39_passphrase args) = Inr (k, ks')"
    and st: "stored cx path pw ks' w'" "m_env w' = m_env w" by blast
  have "settles ?args path pw w'" using assms(3) st(2) by (simp add: settles_def)
  note open' = stored_open [OF this st(1)]
  from k have key: "a_label args \<notin> dom (ks_map ks)" "ks' = ks\<lparr>ks_entries := ks_entries ks @ [HdKey k]\<rparr>"
      "k = \<lparr>hk_label = a_label args, hk_mnemonic = Secret m,
        hk_passphrase = text_passphrase (a_bip39_passphrase args)\<rparr>"
    by (auto simp: add_hd_result Let_def split: if_splits)
  then have "ks_map ks' = (ks_map ks)(a_label args \<mapsto> HdKey k)" by (simp add: ks_map_append)
  moreover have "load_mnemonic cx ?args w' = (Inr (m, str_or (a_bip39_passphrase args) []), w')"
    using find_added [OF k] key(3)
    by (simp add: load_mnemonic_def bind_io_def open' selected_key_def text_passphrase_def
        str_or_def split: option.split)
  ultimately show ?thesis using st(1) key(1) by blast
qed

definition example_libs ::
    "(nat list, string, lib_output list \<times> bool list, string, string, tron_raw) cli_libs" where
  "example_libs = \<lparr>cx_btc = example_btclib, cx_eth = example_ethlib, cx_tron = example_tronlib,
     cx_crypt = example_cryptolib, cx_mnemonic = return_io ''abandon art'',
     cx_get = (\<lambda>url params headers. raise_io (HttpError ''offline'')),
     cx_post_json = (\<lambda>url body. raise_io (HttpError ''offline'')),
     cx_post_raw = example_post, cx_scan_fuel = 0\<rparr>"

definition example_args :: cli_args where
  "example_args = \<lparr>a_keystore = Some ''k'', a_esplora = None, a_eth_rpc = None, a_tron_api = None,
     a_bsc_rpc = None, a_key = None, a_force = False, a_label = ''new'', a_mnemonic = Some ''zoo zoo'',
     a_generate = False, a_bip39_passphrase = None, a_chain = [], a_secret = None, a_from = ''BTC'',
     a_to = ''ETH'', a_asset = ''BTC'', a_amount = MaxAmount, a_dest = None, a_address = [],
     a_backend = ''auto'', a_price_check = True, a_stream_interval = None, a_stream_quantity = None,
     a_confirm = False, a_yes = False, a_max_fee = 50000, a_eth_gas = 60000, a_tolerance_bps = 300,
     a_bps = 10000, a_txid = []\<rparr>"

definition example_machine :: "os_world \<Rightarrow> nat list machine" where
  "example_machine os = \<lparr>m_os = os, m_net = [], m_env = [''CRYPTOSWAP_WALLET_PASSPHRASE'' \<mapsto> ''pw''],
     m_secrets = [], m_answers = [], m_clock = (\<lambda>i. 1700000000), m_ticks = 0, m_trace = []\<rparr>"

lemma example_save:
  assumes "ow_faults os = (\<lambda>x. None)" "free_name os path \<noteq> None"
  shows "\<exists>os'. keystore_save example_cryptolib ks path pw n os = (Inr (), os')"
  using assms
  by (auto simp: keystore_save_def bind_io_def os_urandom_def derive_key_def example_cryptolib_def
      atomic_write_def write_private_def Let_def free_name_def)

theorem added_key_is_found_witness:
  "\<exists>os w'. cmd_add_hd example_libs example_args (example_machine os) = (Inr 0, w')
    \<and> load_mnemonic example_libs (example_args\<lparr>a_key := Some ''new''\<rparr>) w' = (Inr (''zoo zoo'', []), w')"
proof -
  let ?ks = "\<lparr>ks_entries = []\<rparr>"
  have amount: "is_amount DEFAULT_N" by (simp add: is_amount_def DEFAULT_N_def)
  have ok: "keystore_ok ?ks" by (simp add: keystore_ok_def ks_labels_def)
  from example_save [of example_os "''k''" ?ks "''pw''" DEFAULT_N] obtain os where
    s: "keystore_save example_cryptolib ?ks ''k'' ''pw'' DEFAULT_N example_os = (Inr (), os)"
    by (auto simp: example_os_def free_name_def)
  let ?w = "example_machine os"
  have faults: "ow_faults os = (\<lambda>x. None)" and fresh: "free_name os ''k'' \<noteq> None"
    using save_result [OF s] by (auto simp: example_os_def free_name_def)
  have st: "stored example_libs ''k'' ''pw'' ?ks ?w"
    using save_then_load [OF example_crypt_ok s ok amount] by (simp add: stored_def example_libs_def example_machine_def example_os_def)
  have set: "settles example_args ''k'' ''pw'' ?w"
    by (simp add: settles_def example_args_def example_machine_def configured_def str_or_def expand_user_def)
  have a: "\<not> a_generate example_args" "a_mnemonic example_args = Some ''zoo zoo''" "''zoo zoo'' \<noteq> ([] :: string)"
    "a_label example_args = ''new''" "a_bip39_passphrase example_args = None"
    by (simp_all add: example_args_def)
  obtain os' where s': "keystore_save example_cryptolib
      \<lparr>ks_entries = [HdKey \<lparr>hk_label = ''new'', hk_mnemonic = Secret ''zoo zoo'', hk_passphrase = None\<rparr>]\<rparr>
      ''k'' ''pw'' DEFAULT_N os = (Inr (), os')"
    using example_save [OF faults fresh] by blast
  have "add_hd ?ks ''new'' ''zoo zoo'' None = Inr (\<lparr>hk_label = ''new'', hk_mnemonic = Secret ''zoo zoo'',
      hk_passphrase = None\<rparr>, \<lparr>ks_entries = [HdKey \<lparr>hk_label = ''new'', hk_mnemonic = Secret ''zoo zoo'', hk_passphrase = None\<rparr>]\<rparr>)"
    by (simp add: add_hd_def require_unique_def ks_labels_def text_passphrase_def Let_def)
  then have "\<exists>w'. cmd_add_hd example_libs example_args ?w = (Inr 0, w')"
    unfolding add_hd_run [OF set st a(1-3)] using s' a(4,5)
    by (simp add: bind_io_def save_keystore_def on_os_def example_libs_def example_machine_def leave_def say_def)
  then obtain w' where w': "cmd_add_hd example_libs example_args ?w = (Inr 0, w')" by blast
  have c: "crypt_ok (cx_crypt example_libs)" by (simp add: example_libs_def example_crypt_ok)
  have f: "ow_faults (m_os ?w) OpRead = None" by (simp add: example_machine_def faults)
  from added_key_is_found [OF c keystore_built.empty set st f a(1-3) w'] w' show ?thesis
    unfolding a(4,5) by (auto simp: str_or_def)
qed

end
