(* ===== verification/Pricefeed.thy ===== *)
theory Pricefeed
  imports Net "HOL-Library.List_Lexorder"
begin

text \<open>
  \<open>pricefeed.py\<close>: the public spot prices with which the command line compares a quote. A price
  is a finite binary64 value; a text where a number belongs is outside the model. Prices are
  read from the payload as it comes, and every operation is rounded as Python rounds it.
\<close>

definition DEFAULT_COINGECKO :: string where
  "DEFAULT_COINGECKO = ''https://api.coingecko.com/api/v3''"

definition PRICE_SOURCE :: string where
  "PRICE_SOURCE = ''CoinGecko''"

definition COINGECKO_IDS :: "(string \<times> string) list" where
  "COINGECKO_IDS =
     [(''BTC'', ''bitcoin''), (''ETH'', ''ethereum''), (''TRX'', ''tron''), (''LTC'', ''litecoin''),
      (''DOGE'', ''dogecoin''), (''BCH'', ''bitcoin-cash''), (''DASH'', ''dash''), (''BNB'', ''binancecoin''),
      (''USDT-ETH'', ''tether''), (''USDT-TRON'', ''tether''), (''USDC-ETH'', ''usd-coin'')]"

text \<open>\<open>float(x)\<close> of a JSON value.\<close>

fun price_float :: "json \<Rightarrow> rat res" where
  "price_float (JInt i) = float_of_int i"
| "price_float (JFloat r) = Inr r"
| "price_float (JBool b) = Inr (if b then 1 else 0)"
| "price_float (JStr s) = Inl (OutOfModel ''float text'')"
| "price_float _ = Inl (OtherError ''TypeError'')"

definition price_items :: "json \<Rightarrow> dict res" where
  "price_items j = (case j of JObj d \<Rightarrow> Inr d | _ \<Rightarrow> Inl (OtherError ''AttributeError''))"

fun parse_spot_items :: "dict \<Rightarrow> (string \<times> rat) list res" where
  "parse_spot_items [] = Inr []"
| "parse_spot_items ((coin, v) # rest) =
     (case v of
        JObj d \<Rightarrow>
          (case map_of d ''usd'' of
             Some p \<Rightarrow>
               bind_res (price_float p) (\<lambda>x.
               bind_res (parse_spot_items rest) (\<lambda>r. Inr ((coin, x) # r)))
           | None \<Rightarrow> parse_spot_items rest)
      | _ \<Rightarrow> parse_spot_items rest)"

definition parse_spot :: "json \<Rightarrow> (string \<times> rat) list res" where
  "parse_spot payload = bind_res (price_items payload) parse_spot_items"

type_synonym price_table = "(string \<times> (string \<times> rat) list) list"

definition currency_prices :: "dict \<Rightarrow> (string \<times> rat) list res" where
  "currency_prices d = map_res (\<lambda>(cur, p). bind_res (price_float p) (\<lambda>x. Inr (cur, x))) d"

fun parse_price_items :: "dict \<Rightarrow> price_table res" where
  "parse_price_items [] = Inr []"
| "parse_price_items ((coin, v) # rest) =
     (case v of
        JObj d \<Rightarrow>
          bind_res (currency_prices d) (\<lambda>x.
          bind_res (parse_price_items rest) (\<lambda>r. Inr ((coin, x) # r)))
      | _ \<Rightarrow> parse_price_items rest)"

definition parse_prices :: "json \<Rightarrow> price_table res" where
  "parse_prices payload = bind_res (price_items payload) parse_price_items"

definition market_out :: "rat \<Rightarrow> rat \<Rightarrow> rat \<Rightarrow> rat res" where
  "market_out amount_in price_in price_out =
     (if price_out \<le> 0 then Inl (ValueError ''non-positive destination price'')
      else bind_res (finite_float (fmul amount_in price_in)) (\<lambda>x. finite_float (fdiv x price_out)))"

definition loss_vs_market_bps :: "rat \<Rightarrow> rat \<Rightarrow> rat res" where
  "loss_vs_market_bps quoted_out market =
     (if market \<le> 0 then Inr 0
      else bind_res (finite_float (fsub market quoted_out)) (\<lambda>d.
           bind_res (finite_float (fdiv d market)) (\<lambda>x. finite_float (fmul x 10000))))"

definition loss_amount :: "rat \<Rightarrow> rat \<Rightarrow> rat res" where
  "loss_amount quoted_out market = finite_float (fsub market quoted_out)"

definition price_feed_url :: "string \<Rightarrow> string" where
  "price_feed_url base = rstrip_char (CHR ''/'') base"

definition spot_params :: "string list \<Rightarrow> string list \<Rightarrow> dict" where
  "spot_params coin_ids vs =
     [(''ids'', JStr (join '','' (sort (remdups coin_ids)))), (''vs_currencies'', JStr (join '','' vs))]"

definition feed_spot :: "'w http_get \<Rightarrow> string \<Rightarrow> string list \<Rightarrow> string list \<Rightarrow> ('w, price_table) pyio" where
  "feed_spot get base coin_ids vs =
     bind_io (get (price_feed_url base @ ''/simple/price'') (spot_params coin_ids vs) [])
       (\<lambda>resp. lift_io (bind_res (checked_json resp) parse_prices))"

section \<open>What the numbers mean\<close>

lemma f64_sign:
  "0 < x \<Longrightarrow> 0 \<le> f64 x" "x < 0 \<Longrightarrow> f64 x \<le> 0"
  using f64_nonneg [of x] f64_nonneg [of "- x"] by simp_all

text \<open>The loss has the sign that the message gives it, whatever the rounding.\<close>

lemma loss_sign:
  assumes "0 < market" "loss_vs_market_bps quoted market = Inr bps" "loss_amount quoted market = Inr a"
  shows "(quoted \<le> market \<longrightarrow> 0 \<le> bps \<and> 0 \<le> a) \<and> (market \<le> quoted \<longrightarrow> bps \<le> 0 \<and> a \<le> 0)"
proof -
  define d where "d = f64 (market - quoted)"
  have a: "a = d"
    using assms(3) by (auto simp: loss_amount_def finite_float_def fsub_def d_def split: if_splits)
  have b: "bps = f64 (f64 (d / market) * 10000)"
    using assms(1,2)
    by (auto simp: loss_vs_market_bps_def finite_float_def fsub_def fdiv_def fmul_def d_def result_simps split: if_splits)
  have neg: "f64 x \<le> 0" if "x \<le> 0" for x
    using f64_nonneg [of "- x"] that by simp
  have "0 \<le> bps" if "0 \<le> d"
    using that assms(1) unfolding b by (intro f64_nonneg mult_nonneg_nonneg divide_nonneg_nonneg) auto
  moreover have "bps \<le> 0" if "d \<le> 0"
    using that assms(1) unfolding b
    by (intro neg mult_nonpos_nonneg) (auto simp: divide_nonpos_pos intro!: neg)
  moreover have "0 \<le> d" if "quoted \<le> market" using that unfolding d_def by (intro f64_nonneg) simp
  moreover have "d \<le> 0" if "market \<le> quoted" using that unfolding d_def by (intro neg) simp
  ultimately show ?thesis using a by blast
qed

text \<open>Reading prices: the table holds a coin exactly when the payload has an object for it, and
  then the price of each currency as a float.\<close>

lemma currency_lookup:
  "currency_prices d = Inr x \<Longrightarrow> map_of x cur = (case map_of d cur of None \<Rightarrow> None | Some p \<Rightarrow> (case price_float p of Inl e \<Rightarrow> None | Inr r \<Rightarrow> Some r))"
  unfolding currency_prices_def
  by (induction d arbitrary: x) (auto simp: result_simps split: prod.splits if_splits)

lemma price_lookup:
  "parse_price_items d = Inr t \<Longrightarrow> distinct (map fst d) \<Longrightarrow>
   map_of t coin = (case map_of d coin of Some (JObj v) \<Rightarrow> Some (projr (currency_prices v)) | _ \<Rightarrow> None)"
proof (induction d arbitrary: t)
  case (Cons p rest)
  obtain k v where p: "p = (k, v)" by (cases p)
  have none: "map_of rest k = None" and dist: "distinct (map fst rest)"
    using Cons.prems(2) by (auto simp: p map_of_eq_None_iff)
  show ?case
  proof (cases "\<exists>d. v = JObj d")
    case True
    then obtain d where v: "v = JObj d" by blast
    with Cons.prems(1) obtain x r where x: "currency_prices d = Inr x" "parse_price_items rest = Inr r" "t = (k, x) # r"
      by (auto simp: p result_simps)
    from Cons.IH [OF x(2) dist] x v show ?thesis by (simp add: p)
  next
    case False
    with Cons.prems(1) have t: "parse_price_items rest = Inr t" by (cases v) (simp_all add: p)
    from Cons.IH [OF t dist] False none show ?thesis by (cases v) (auto simp: p)
  qed
qed simp

end
