(* ===== verification/CliRoute.thy ===== *)
theory CliRoute
  imports CliWorld Pricefeed
begin

text \<open>
  Where a swap goes and what it costs: the destination address, the choice of the backend, the
  printed costs with their comparison to public spot prices, and the commands \<open>quote\<close> and
  \<open>status\<close>. Backends are told apart by their names, which are distinct.
\<close>

section \<open>Destination\<close>

definition derivable_chain :: "string \<Rightarrow> string res" where
  "derivable_chain to = bind_res (asset_of to) (\<lambda>a. Inr (asset_chain a))"

definition derived_destination ::
    "('n, 'bk, 'btx, 'ek, 'tk, 'ttx) cli_libs \<Rightarrow> string \<Rightarrow> string \<Rightarrow> string \<Rightarrow> string option res" where
  "derived_destination cx chain mnemonic passphrase =
     (if chain = ''ETH'' then
        map_sum id Some (eth_derive_address (cx_eth cx) (eth_adapter DEFAULT_RPC passphrase CHAIN_ID) mnemonic
          DEFAULT_ETH_DERIVATION)
      else if chain = ''BTC'' then
        map_sum id Some (btc_derive_address (cx_btc cx) (btc_adapter DEFAULT_ESPLORA passphrase ''bitcoin'') mnemonic
          BTC_RECEIVE_PATH)
      else if chain = ''TRON'' then
        map_sum id Some (tron_derive_address (cx_tron cx) (tron_adapter DEFAULT_TRON_API passphrase) mnemonic
          DEFAULT_TRON_DERIVATION)
      else Inr None)"

definition resolve_destination ::
    "('n, 'bk, 'btx, 'ek, 'tk, 'ttx) cli_libs \<Rightarrow> cli_args \<Rightarrow> string option \<Rightarrow> string \<Rightarrow> string option res" where
  "resolve_destination cx args mnemonic passphrase =
     (case a_dest args of
        Some (c # d) \<Rightarrow>
          bind_res (derivable_chain (a_to args)) (\<lambda>chain.
            case validate_destination_address chain (c # d) of
              Some problem \<Rightarrow> Inl (SystemExit ''--dest'')
            | None \<Rightarrow> Inr (Some (c # d)))
      | _ \<Rightarrow>
          (case mnemonic of
             None \<Rightarrow> Inr None
           | Some m \<Rightarrow> bind_res (derivable_chain (a_to args)) (\<lambda>chain. derived_destination cx chain m passphrase)))"

section \<open>Backends\<close>

definition backends_for :: "cli_args \<Rightarrow> ('n, backend list) cli" where
  "backends_for args =
     bind_io get_environ (\<lambda>env.
       if a_backend args = ''auto'' then return_io (default_backends env)
       else lift_io (map_sum id (\<lambda>b. [b]) (get_backend env (a_backend args))))"

definition close_backends :: "backend list \<Rightarrow> ('n, unit) cli" where
  "close_backends bs = say_all (map (\<lambda>b. Closed (be_name b)) bs)"

definition routing_note :: "backend \<Rightarrow> (backend \<times> swap_quote) list \<Rightarrow> ('n, unit) cli" where
  "routing_note b results =
     (if 1 < length results
      then say (Err (''routing via '' @ be_name b @ '' (best of '' @ str_nat (length results) @ '')''))
      else return_io ())"

definition select_backend ::
    "('n, 'bk, 'btx, 'ek, 'tk, 'ttx) cli_libs \<Rightarrow> cli_args \<Rightarrow> string \<Rightarrow> string \<Rightarrow> int \<Rightarrow> string option \<Rightarrow>
     int option \<Rightarrow> ('n, backend) cli" where
  "select_backend cx args from_asset to_asset amount destination tolerance_bps =
     bind_io (backends_for args) (\<lambda>backends.
       if length backends = 1 then return_io (hd backends)
       else
         bind_io (on_net (gather_quotes (cx_get cx) backends from_asset to_asset amount destination tolerance_bps
             (a_stream_interval args) (a_stream_quantity args))) (\<lambda>results.
           if results = [] then
             bind_io (close_backends backends) (\<lambda>_. raise_io (SwapAborted NoBackend))
           else
             bind_io (lift_io (best_quote results)) (\<lambda>(b, q).
             bind_io (routing_note b results) (\<lambda>_.
             bind_io (close_backends (filter (\<lambda>x. be_name x \<noteq> be_name b) backends)) (\<lambda>_.
               return_io b)))))"

section \<open>Costs\<close>

definition price_in :: "price_table \<Rightarrow> string \<Rightarrow> string \<Rightarrow> rat res" where
  "price_in prices coin cur =
     (case map_of prices coin of
        None \<Rightarrow> Inl (KeyError coin)
      | Some t \<Rightarrow> (case map_of t cur of None \<Rightarrow> Inl (KeyError cur) | Some p \<Rightarrow> Inr p))"

definition euro_price :: "price_table \<Rightarrow> string \<Rightarrow> rat option" where
  "euro_price prices coin =
     (case map_of prices coin of
        None \<Rightarrow> None
      | Some t \<Rightarrow> (case map_of t ''eur'' of None \<Rightarrow> None | Some p \<Rightarrow> if p = 0 then None else Some p))"

text \<open>What the \<open>try\<close> around the price lookup turns into "no market line".\<close>

definition is_market_error :: "pyexc \<Rightarrow> bool" where
  "is_market_error e =
     (is_http_error e \<or> is_value_error e
      \<or> (case e of KeyError _ \<Rightarrow> True | OtherError s \<Rightarrow> s = ''ZeroDivisionError'' | _ \<Rightarrow> False))"

definition market_lookup ::
    "('n, 'bk, 'btx, 'ek, 'tk, 'ttx) cli_libs \<Rightarrow> string \<Rightarrow> string \<Rightarrow> int \<Rightarrow> ('n, price_table \<times> rat) cli" where
  "market_lookup cx id_from id_to amount_units =
     bind_io (closing PRICE_SOURCE
       (on_net (feed_spot (cx_get cx) DEFAULT_COINGECKO [id_from, id_to] [''usd'', ''eur'']))) (\<lambda>prices.
       lift_io (bind_res (py_truediv amount_units THORCHAIN_UNIT) (\<lambda>amount.
         bind_res (price_in prices id_from ''usd'') (\<lambda>p_in.
         bind_res (price_in prices id_to ''usd'') (\<lambda>p_out.
         bind_res (market_out amount p_in p_out) (\<lambda>market. Inr (prices, market)))))))"

definition euro_line :: "rat \<Rightarrow> rat \<Rightarrow> rat option \<Rightarrow> string list res" where
  "euro_line quoted_out market eur =
     (case eur of
        None \<Rightarrow> Inr []
      | Some p \<Rightarrow>
          bind_res (loss_amount quoted_out market) (\<lambda>loss.
          bind_res (finite_float (fmul loss p)) (\<lambda>loss_eur.
            Inr [if 0 \<le> loss_eur
                 then ''  est. total loss ~EUR'' @ fmt_fixed 2 loss_eur @ '' (fees+slip+spread)''
                 else ''  est. gain ~EUR'' @ fmt_fixed 2 (- loss_eur) @ '' vs market (pool priced in your favour)''])))"

definition market_lines :: "price_table \<Rightarrow> rat \<Rightarrow> string \<Rightarrow> string \<Rightarrow> int \<Rightarrow> string list res" where
  "market_lines prices market id_to to_key quoted_out_units =
     bind_res (py_truediv quoted_out_units THORCHAIN_UNIT) (\<lambda>quoted_out.
     bind_res (loss_vs_market_bps quoted_out market) (\<lambda>bps.
     bind_res (euro_line quoted_out market (euro_price prices id_to)) (\<lambda>euro.
       Inr ([''Market: ('' @ PRICE_SOURCE @ '')'',
             ''  ~'' @ fmt_fixed 8 market @ '' '' @ to_key @ '' at spot  ->  ~'' @ fmt_fixed 0 bps
               @ '' bps total vs market (fees+slip+spread)''] @ euro))))"

definition market_comparison ::
    "('n, 'bk, 'btx, 'ek, 'tk, 'ttx) cli_libs \<Rightarrow> string \<Rightarrow> string \<Rightarrow> int \<Rightarrow> int \<Rightarrow> ('n, string list) cli" where
  "market_comparison cx from_key to_key amount_units quoted_out_units =
     (case (map_of COINGECKO_IDS from_key, map_of COINGECKO_IDS to_key) of
        (Some id_from, Some id_to) \<Rightarrow>
          bind_io
            (try_io (bind_io (market_lookup cx id_from id_to amount_units) (\<lambda>pm. return_io (Some pm)))
               (\<lambda>e. if is_market_error e then return_io None else raise_io e))
            (\<lambda>found. case found of
               None \<Rightarrow> return_io []
             | Some (prices, market) \<Rightarrow> lift_io (market_lines prices market id_to to_key quoted_out_units))
      | _ \<Rightarrow> return_io [])"

definition stream_line :: "swap_quote \<Rightarrow> event list res" where
  "stream_line q =
     (if q_streaming_swap_blocks q \<noteq> 0 then
        bind_res (py_truediv (q_total_swap_seconds q) 60) (\<lambda>mins.
          Inr [Out (''stream:  ~'' @ str_int (q_max_streaming_quantity q) @ '' sub-swaps over ''
            @ str_int (q_streaming_swap_blocks q) @ '' blocks (~'' @ fmt_fixed 0 mins @ '' min) to cut slippage'')])
      else Inr [])"

definition print_swap_costs ::
    "('n, 'bk, 'btx, 'ek, 'tk, 'ttx) cli_libs \<Rightarrow> swap_quote \<Rightarrow> string \<Rightarrow> string \<Rightarrow> int \<Rightarrow> bool \<Rightarrow> ('n, unit) cli" where
  "print_swap_costs cx q from_key to_key amount_units price_check =
     bind_io (bind_io (lift_io (stream_line q)) say_all) (\<lambda>_.
     bind_io (say (Out ''cost: (100 bps = 1%)'')) (\<lambda>_.
     bind_io (lift_io (breakdown (q_fees q) to_key)) (\<lambda>lines.
     bind_io (say_all (map Out lines)) (\<lambda>_.
       if price_check then
         bind_io (market_comparison cx from_key to_key amount_units (q_expected_amount_out q)) (\<lambda>market.
           say_all (map Out market))
       else return_io ()))))"

section \<open>The quote command\<close>

definition ljust :: "string \<Rightarrow> nat \<Rightarrow> string" where
  "ljust s k = s @ replicate (k - length s) CHR '' ''"

fun amount_units :: "cli_amount \<Rightarrow> int res" where
  "amount_units (Amount d) = base_units d"
| "amount_units MaxAmount = Inl (OtherError ''AttributeError'')"

fun amount_text :: "cli_amount \<Rightarrow> string" where
  "amount_text (Amount d) = dec_text d"
| "amount_text MaxAmount = ''max''"

definition offer_line :: "backend \<Rightarrow> backend \<times> swap_quote \<Rightarrow> event res" where
  "offer_line chosen bq =
     (case bq of (b, q) \<Rightarrow>
        bind_res (units_text (q_expected_amount_out q)) (\<lambda>out.
          Inr (Out (''  '' @ ljust (be_name b) 9 @ '' '' @ out @ ''  ('' @ str_int (sf_total_bps (q_fees q)) @ '' bps)''
            @ (if be_name b = be_name chosen then ''  <- best'' else [])))))"

fun say_offers :: "backend \<Rightarrow> (backend \<times> swap_quote) list \<Rightarrow> ('n, unit) cli" where
  "say_offers chosen [] = return_io ()"
| "say_offers chosen (bq # rest) =
     bind_io (bind_io (lift_io (offer_line chosen bq)) say) (\<lambda>_. say_offers chosen rest)"

definition quote_all ::
    "('n, 'bk, 'btx, 'ek, 'tk, 'ttx) cli_libs \<Rightarrow> cli_args \<Rightarrow> backend list \<Rightarrow> int \<Rightarrow> string option \<Rightarrow> ('n, int) cli" where
  "quote_all cx args backends amount dest =
     bind_io (lift_io (asset_of (a_from args))) (\<lambda>from_asset.
     bind_io (lift_io (asset_of (a_to args))) (\<lambda>to_asset.
     bind_io (on_net (gather_quotes (cx_get cx) backends from_asset to_asset amount dest None
         (a_stream_interval args) (a_stream_quantity args))) (\<lambda>results.
       if results = [] then leave (Err ''no backend can serve this swap'') 1
       else
         bind_io (lift_io (best_quote results)) (\<lambda>(chosen, chosen_quote).
         bind_io (say (Out (''in:     '' @ amount_text (a_amount args) @ '' '' @ a_from args @ ''  ->  '' @ a_to args)))
           (\<lambda>_.
         bind_io (say_offers chosen (sort_key (\<lambda>p. - q_expected_amount_out (snd p)) results)) (\<lambda>_.
         bind_io (print_swap_costs cx chosen_quote (a_from args) (a_to args) amount (a_price_check args)) (\<lambda>_.
           return_io 0)))))))"

definition quote_mnemonic ::
    "('n, 'bk, 'btx, 'ek, 'tk, 'ttx) cli_libs \<Rightarrow> cli_args \<Rightarrow> ('n, string option \<times> string) cli" where
  "quote_mnemonic cx args =
     (if a_dest args = None then
        bind_io (lift_io (derivable_chain (a_to args))) (\<lambda>chain.
          if chain \<in> {''BTC'', ''ETH'', ''TRON''} then
            bind_io (load_mnemonic cx args) (\<lambda>(mnemonic, pw). return_io (Some mnemonic, pw))
          else return_io (None, []))
      else return_io (None, []))"

definition closing_all :: "backend list \<Rightarrow> ('n, 'a) cli \<Rightarrow> ('n, 'a) cli" where
  "closing_all bs m =
     finally_io m (\<lambda>w. w\<lparr>m_trace := m_trace w @ map (\<lambda>b. Closed (be_name b)) bs\<rparr>)"

definition cmd_quote :: "('n, 'bk, 'btx, 'ek, 'tk, 'ttx) cli_libs \<Rightarrow> cli_args \<Rightarrow> ('n, int) cli" where
  "cmd_quote cx args =
     (if a_amount args = MaxAmount then leave (Err (''quote needs a numeric amount ('' @ [CHR 0x27] @ ''max'' @ [CHR 0x27] @ '' is only for swap)'')) 2
      else
        bind_io (lift_io (amount_units (a_amount args))) (\<lambda>amount.
        bind_io (quote_mnemonic cx args) (\<lambda>(mnemonic, pw).
        bind_io (lift_io (resolve_destination cx args mnemonic pw)) (\<lambda>dest.
        bind_io (backends_for args) (\<lambda>backends.
          closing_all backends (quote_all cx args backends amount dest))))))"

section \<open>The status command\<close>

text \<open>\<open>d.get(k, {})\<close> on a value that must be a dictionary.\<close>

definition get_member :: "json \<Rightarrow> string \<Rightarrow> json \<Rightarrow> json res" where
  "get_member j k dflt =
     (case j of JObj d \<Rightarrow> Inr (dget d k dflt) | _ \<Rightarrow> Inl (OtherError ''AttributeError''))"

definition inbound_started :: "json \<Rightarrow> bool res" where
  "inbound_started status =
     bind_res (get_member status ''stages'' (JObj [])) (\<lambda>stages.
     bind_res (get_member stages ''inbound_observed'' (JObj [])) (\<lambda>seen.
     bind_res (get_member seen ''started'' JNull) (\<lambda>s. Inr (truthy s))))"

definition ask_status ::
    "('n, 'bk, 'btx, 'ek, 'tk, 'ttx) cli_libs \<Rightarrow> cli_args \<Rightarrow> backend \<Rightarrow> ('n, json option) cli" where
  "ask_status cx args b =
     try_io
       (closing (be_name b)
         (bind_io (on_net (tx_status (cx_get cx) (be_client b) (a_txid args))) (\<lambda>j. return_io (Some j))))
       (\<lambda>e. if is_http_error e then return_io None else raise_io e)"

fun status_loop ::
    "('n, 'bk, 'btx, 'ek, 'tk, 'ttx) cli_libs \<Rightarrow> cli_args \<Rightarrow> nat \<Rightarrow> json \<Rightarrow> backend list \<Rightarrow> ('n, int) cli" where
  "status_loop cx args n status [] = leave (OutJson status) 0"
| "status_loop cx args n status (b # bs) =
     bind_io (ask_status cx args b) (\<lambda>answer.
       case answer of
         None \<Rightarrow> status_loop cx args n status bs
       | Some j \<Rightarrow>
           bind_io (lift_io (inbound_started j)) (\<lambda>observed.
             if observed \<or> n = 1 then
               bind_io (if 1 < n then say (Err (''// observed on '' @ be_name b)) else return_io ()) (\<lambda>_.
                 leave (OutJson j) 0)
             else status_loop cx args n j bs))"

definition cmd_status :: "('n, 'bk, 'btx, 'ek, 'tk, 'ttx) cli_libs \<Rightarrow> cli_args \<Rightarrow> ('n, int) cli" where
  "cmd_status cx args =
     bind_io (backends_for args) (\<lambda>backends. status_loop cx args (length backends) (JObj []) backends)"

end
