(* ===== verification/CliSwap.thy ===== *)
theory CliSwap
  imports CliRoute
begin

text \<open>
  The commands that move funds: \<open>swap\<close>, \<open>send\<close>, \<open>add-liquidity\<close> and \<open>withdraw-liquidity\<close>,
  from the parsed arguments to the broadcast, one handler per source chain as in \<open>cli.py\<close>. The
  keyword arguments that a handler passes through the orchestrator to the adapter are those of
  the adapter's record here. A scan of the BTC account that runs out of fuel is the exception
  \<open>OutOfModel\<close>; the theory \<open>Scan\<close> shows how much fuel is enough.
\<close>

section \<open>Confirmation and broadcast\<close>

text \<open>\<open>try: x = m / except caught: print("ABORTED: ..."); return 1\<close>, then the rest with \<open>x\<close>.\<close>

definition or_abort :: "(pyexc \<Rightarrow> bool) \<Rightarrow> ('n, 'a) cli \<Rightarrow> ('a \<Rightarrow> ('n, int) cli) \<Rightarrow> ('n, int) cli" where
  "or_abort caught m k w =
     (case m w of
        (Inl e, w') \<Rightarrow> if caught e then leave (ErrExc ''ABORTED: '' e []) 1 w' else (Inl e, w')
      | (Inr x, w') \<Rightarrow> k x w')"

definition is_aborted :: "pyexc \<Rightarrow> bool" where
  "is_aborted e = (case e of SwapAborted _ \<Rightarrow> True | _ \<Rightarrow> False)"

definition is_insufficient :: "pyexc \<Rightarrow> bool" where
  "is_insufficient e = (case e of InsufficientFunds _ _ \<Rightarrow> True | _ \<Rightarrow> False)"

definition is_broadcast_error :: "pyexc \<Rightarrow> bool" where
  "is_broadcast_error e = (case e of BroadcastError _ \<Rightarrow> True | _ \<Rightarrow> is_http_error e)"

definition txid_text :: "string option \<Rightarrow> string" where
  "txid_text t = (case t of None \<Rightarrow> ''None'' | Some s \<Rightarrow> s)"

text \<open>Without \<open>--yes\<close> the answer must be \<open>yes\<close>, up to blanks around it.\<close>

definition confirmed :: "cli_args \<Rightarrow> ('n, bool) cli" where
  "confirmed args =
     (if a_yes args then return_io True
      else bind_io (input_line ([CHR 0x0A] @ ''Broadcast the swap shown above? type '' @ [CHR 0x27] @ ''yes'' @ [CHR 0x27] @ '': ''))
        (\<lambda>answer. return_io (strip answer = ''yes'')))"

definition quote_expired :: "int option \<Rightarrow> ('n, bool) cli" where
  "quote_expired expiry =
     (case expiry of None \<Rightarrow> return_io False | Some e \<Rightarrow> bind_io read_clock (\<lambda>t. return_io (of_int e \<le> t)))"

definition broadcast_now ::
    "(pyexc \<Rightarrow> ('n, int) cli) \<Rightarrow> ('b, 'p) prepared \<Rightarrow> ('n, 'b, 'p, 'raw) source_adapter \<Rightarrow> ('n, int) cli" where
  "broadcast_now failed prepared adapter w =
     (case on_net (execute_swap prepared adapter True) w of
        (Inl e, w') \<Rightarrow> if is_broadcast_error e then failed e w' else (Inl e, w')
      | (Inr result, w') \<Rightarrow>
          bind_io (say_all
            [Out ([CHR 0x0A] @ ''BROADCAST txid: '' @ txid_text (sr_txid result)),
             Out (''track: cryptoswap-wallet status '' @ txid_text (sr_txid result))]) (\<lambda>_. return_io 0) w')"

definition confirm_and_execute ::
    "cli_args \<Rightarrow> ('p \<Rightarrow> int option) \<Rightarrow> ('n, 'b, 'p, 'raw) source_adapter \<Rightarrow> ('b, 'p) prepared \<Rightarrow> ('n, int) cli" where
  "confirm_and_execute args expiry_of adapter prepared =
     (if pr_problems prepared \<noteq> [] then
        bind_io (say_all (Err ''VERIFY GATE FAILED - not safe to broadcast:''
            # map (ErrProblem ''  - '') (pr_problems prepared))) (\<lambda>_. return_io 1)
      else if \<not> a_confirm args then
        leave (Out ([CHR 0x0A] @ ''DRY RUN - verified OK, not broadcast. Re-run with --confirm to send.'')) 0
      else
        bind_io (confirmed args) (\<lambda>ok.
          if \<not> ok then leave (Out ''aborted, not broadcast.'') 0
          else
            bind_io (quote_expired (expiry_of (pr_plan prepared))) (\<lambda>late.
              if late then leave (Err ''ABORTED: quote expired while confirming; re-run.'') 1
              else broadcast_now (\<lambda>e. leave (ErrExc ''BROADCAST FAILED: '' e []) 1) prepared adapter)))"

text \<open>\<open>getattr(prepared.plan, "expiry", None)\<close>.\<close>

fun btc_expiry :: "btc_plan \<Rightarrow> int option" where
  "btc_expiry (BtcSwapPlan p) = Some (sp_expiry p)"
| "btc_expiry (BtcSendPlan p) = None"

fun eth_expiry :: "'k eth_plan \<Rightarrow> int option" where
  "eth_expiry (EthSwap p) = Some (esp_expiry p)"
| "eth_expiry (EthTokenSwap b) = Some (etb_expiry b)"
| "eth_expiry (EthSend p) = None"
| "eth_expiry (EthTokenSend p) = None"

fun tron_expiry :: "tron_plan \<Rightarrow> int option" where
  "tron_expiry (TronSwap p) = Some (tsp_expiry p)"
| "tron_expiry (TronTokenSwap p) = Some (ttsp_expiry p)"
| "tron_expiry (TronSend p) = None"
| "tron_expiry (TronTokenSend p) = None"

section \<open>Shared steps\<close>

definition shown_amount :: "nat \<Rightarrow> int \<Rightarrow> int \<Rightarrow> string res" where
  "shown_amount digits n unit = bind_res (py_truediv n unit) (\<lambda>x. Inr (fmt_fixed digits x))"

text \<open>\<open>f"expect:  {out:.8f} ..."\<close> and the other lines that every swap prints.\<close>

definition quote_of :: "('b, 'p) prepared \<Rightarrow> swap_quote res" where
  "quote_of p = (case pr_quote p of None \<Rightarrow> Inl (OtherError ''AttributeError'') | Some q \<Rightarrow> Inr q)"

definition memo_text :: "string option \<Rightarrow> string" where
  "memo_text m = (case m of None \<Rightarrow> ''None'' | Some s \<Rightarrow> s)"

definition select_for ::
    "('n, 'bk, 'btx, 'ek, 'tk, 'ttx) cli_libs \<Rightarrow> cli_args \<Rightarrow> swap_request \<Rightarrow> ('n, backend) cli" where
  "select_for cx args rq =
     select_backend cx args (rq_from_asset rq) (rq_to_asset rq) (rq_amount rq) (Some (rq_destination rq))
       (Some (a_tolerance_bps args))"

definition prepare_with ::
    "('n, 'bk, 'btx, 'ek, 'tk, 'ttx) cli_libs \<Rightarrow> cli_args \<Rightarrow> backend \<Rightarrow> ('n, 'b, 'p, 'raw) source_adapter \<Rightarrow>
     swap_request \<Rightarrow> ('n, ('b, 'p) prepared) cli" where
  "prepare_with cx args b adapter rq =
     bind_io clock_int (\<lambda>now.
       on_net (prepare_swap (thorchain_of (cx_get cx) (be_client b)) adapter rq now (a_tolerance_bps args)
         (a_stream_interval args) (a_stream_quantity args)))"

definition prepare_lp_with ::
    "('n, 'bk, 'btx, 'ek, 'tk, 'ttx) cli_libs \<Rightarrow> backend \<Rightarrow> ('n, 'b, 'p, 'raw) source_adapter \<Rightarrow> string \<Rightarrow>
     int option \<Rightarrow> ('n, ('b, 'p) prepared) cli" where
  "prepare_lp_with cx b adapter memo amount =
     bind_io clock_int (\<lambda>now.
       on_net (prepare_liquidity (thorchain_of (cx_get cx) (be_client b)) adapter memo amount now))"

definition liquidity_client :: "cli_args \<Rightarrow> ('n, backend) cli" where
  "liquidity_client args = bind_io get_environ (\<lambda>env. lift_io (get_backend env (a_backend args)))"

definition need_dest :: "string option \<Rightarrow> (string \<Rightarrow> ('n, int) cli) \<Rightarrow> ('n, int) cli" where
  "need_dest dest k =
     (case dest of
        None \<Rightarrow> leave (Err ''a --dest address is required for this destination'') 2
      | Some d \<Rightarrow> k d)"

text \<open>The request of a swap; \<open>ASSET[args.to_]\<close> may raise.\<close>

definition request_for :: "cli_args \<Rightarrow> string \<Rightarrow> int \<Rightarrow> string \<Rightarrow> swap_request res" where
  "request_for args from_asset amount dest =
     bind_res (asset_of (a_to args)) (\<lambda>to_asset.
       Inr \<lparr>rq_from_asset = from_asset, rq_to_asset = to_asset, rq_amount = amount, rq_destination = dest\<rparr>)"

section \<open>Bitcoin\<close>

definition scan_net ::
    "('n, 'bk, 'btx, 'ek, 'tk, 'ttx) cli_libs \<Rightarrow> btc_adapter \<Rightarrow> string \<Rightarrow> ('n, address_info scan_record list) pyio" where
  "scan_net cx ad mnemonic w =
     (case scan_account (cx_scan_fuel cx) (btc_derive_address (cx_btc cx) ad mnemonic)
             (fetch_address_info (cx_get cx) ad) ai_has_history BTC_ACCOUNT DEFAULT_GAP_LIMIT [0, 1]
             DEFAULT_WINDOW w of
        None \<Rightarrow> (Inl (OutOfModel ''scan fuel''), w)
      | Some r \<Rightarrow> r)"

definition record_utxos ::
    "('n, 'bk, 'btx, 'ek, 'tk, 'ttx) cli_libs \<Rightarrow> btc_adapter \<Rightarrow> address_info scan_record \<Rightarrow> ('n, utxo list) pyio" where
  "record_utxos cx ad r =
     (case r of (path, address, info) \<Rightarrow>
        if 0 < ai_confirmed info then
          bind_io (fetch_utxos (cx_get cx) ad address) (\<lambda>us.
            return_io (map (\<lambda>u. u\<lparr>utxo_path := Some path\<rparr>) us))
        else return_io [])"

definition wallet_utxos ::
    "('n, 'bk, 'btx, 'ek, 'tk, 'ttx) cli_libs \<Rightarrow> btc_adapter \<Rightarrow> string \<Rightarrow> ('n, utxo list) pyio" where
  "wallet_utxos cx ad mnemonic =
     bind_io (scan_net cx ad mnemonic) (\<lambda>records.
     bind_io (map_io (record_utxos cx ad) records) (\<lambda>uss. return_io (concat uss)))"

text \<open>The coins, the change address and the fee rate with which every BTC handler starts.\<close>

definition btc_funds ::
    "('n, 'bk, 'btx, 'ek, 'tk, 'ttx) cli_libs \<Rightarrow> btc_adapter \<Rightarrow> string \<Rightarrow> string \<Rightarrow>
     (utxo list \<Rightarrow> string \<Rightarrow> rat \<Rightarrow> ('n, int) cli) \<Rightarrow> ('n, int) cli" where
  "btc_funds cx ad mnemonic none_found k =
     bind_io (on_net (wallet_utxos cx ad mnemonic)) (\<lambda>utxos.
       if utxos = [] then leave (Err none_found) 1
       else
         bind_io (lift_io (btc_derive_address (cx_btc cx) ad mnemonic BTC_CHANGE_PATH)) (\<lambda>change_address.
         bind_io (on_net (fetch_fee_rate (cx_get cx) ad 6)) (\<lambda>fee_rate.
           k utxos change_address fee_rate)))"

definition NO_UTXOS :: string where
  "NO_UTXOS = ''no confirmed UTXOs found for this wallet''"

definition btc_sweep :: "utxo list \<Rightarrow> rat \<Rightarrow> int \<Rightarrow> int res" where
  "btc_sweep utxos fee_rate memo_len =
     bind_res (sweep_amount (sum_list (map utxo_value utxos)) (int (length utxos)) fee_rate memo_len DUST_P2WPKH)
       (\<lambda>(amount, fee). Inr amount)"

definition btc_kwargs_for :: "cli_args \<Rightarrow> string \<Rightarrow> utxo list \<Rightarrow> rat \<Rightarrow> string \<Rightarrow> bool \<Rightarrow> btc_kwargs" where
  "btc_kwargs_for args mnemonic utxos fee_rate change_address sweep =
     \<lparr>bk_mnemonic = mnemonic, bk_utxos = utxos, bk_fee_rate = fee_rate, bk_change_address = change_address,
      bk_max_fee = a_max_fee args, bk_sweep = sweep\<rparr>"

definition btc_amount :: "cli_args \<Rightarrow> utxo list \<Rightarrow> rat \<Rightarrow> int \<Rightarrow> int res" where
  "btc_amount args utxos fee_rate memo_len =
     (if a_amount args = MaxAmount then btc_sweep utxos fee_rate memo_len else amount_units (a_amount args))"

definition report_btc_swap ::
    "('n, 'bk, 'btx, 'ek, 'tk, 'ttx) cli_libs \<Rightarrow> cli_args \<Rightarrow> backend \<Rightarrow> int \<Rightarrow> rat \<Rightarrow> string \<Rightarrow>
     (('bk, 'btx) btc_built, btc_plan) prepared \<Rightarrow> ('n, unit) cli" where
  "report_btc_swap cx args b amount fee_rate dest p =
     bind_io (lift_io (quote_of p)) (\<lambda>q.
     bind_io (lift_io (units_text (q_expected_amount_out q))) (\<lambda>out.
     bind_io (say_all
       [Out (''via:     '' @ be_name b), Out (''send:    '' @ str_int amount @ '' sats to '' @ q_inbound_address q),
        Out (''expect:  '' @ out @ '' '' @ a_to args @ '' -> '' @ dest), Out (''memo:    '' @ memo_text (q_memo q))])
       (\<lambda>_.
     bind_io (print_swap_costs cx q (a_from args) (a_to args) amount (a_price_check args)) (\<lambda>_.
       say (OutFloat (''inbound: '' @ str_int (bt_fee (pr_built p)) @ '' sats on BTC @ '') fee_rate '' sat/vB'')))))"

definition swap_from_btc :: "('n, 'bk, 'btx, 'ek, 'tk, 'ttx) cli_libs \<Rightarrow> cli_args \<Rightarrow> ('n, int) cli" where
  "swap_from_btc cx args =
     bind_io (load_mnemonic cx args) (\<lambda>(mnemonic, pw).
     bind_io (lift_io (resolve_destination cx args (Some mnemonic) pw)) (\<lambda>dest0.
     need_dest dest0 (\<lambda>dest.
     bind_io (cli_btc args pw) (\<lambda>ad.
     closing ''BTC'' (btc_funds cx ad mnemonic NO_UTXOS (\<lambda>utxos change_address fee_rate.
     or_abort (\<lambda>e. a_amount args = MaxAmount \<and> is_insufficient e)
         (lift_io (btc_amount args utxos fee_rate (int OP_RETURN_MAX_BYTES))) (\<lambda>amount.
     bind_io (lift_io (request_for args ''BTC.BTC'' amount dest)) (\<lambda>rq.
     or_abort is_aborted (select_for cx args rq) (\<lambda>b.
     closing (be_name b) (
       let adapter = btc_source (cx_btc cx) (cx_post_raw cx) ad
             (btc_kwargs_for args mnemonic utxos fee_rate change_address (a_amount args = MaxAmount))
       in or_abort (\<lambda>e. is_aborted e \<or> is_insufficient e) (prepare_with cx args b adapter rq) (\<lambda>p.
          bind_io (report_btc_swap cx args b amount fee_rate dest p) (\<lambda>_.
            confirm_and_execute args btc_expiry adapter p))))))))))))"

definition send_btc :: "('n, 'bk, 'btx, 'ek, 'tk, 'ttx) cli_libs \<Rightarrow> cli_args \<Rightarrow> ('n, int) cli" where
  "send_btc cx args =
     bind_io (load_mnemonic cx args) (\<lambda>(mnemonic, pw).
     bind_io (cli_btc args pw) (\<lambda>ad.
     closing ''BTC'' (btc_funds cx ad mnemonic NO_UTXOS (\<lambda>utxos change_address fee_rate.
       let kw = btc_kwargs_for args mnemonic utxos fee_rate change_address (a_amount args = MaxAmount)
       in or_abort is_insufficient
            (bind_io (lift_io (btc_amount args utxos fee_rate 0)) (\<lambda>amount.
             bind_io clock_int (\<lambda>_.
             bind_io (lift_io (btc_build_and_verify_send (cx_btc cx) ad kw (a_address args) amount)) (\<lambda>p.
               return_io (amount, p))))) (\<lambda>(amount, p).
          bind_io (say_all
            [Out (''send:    '' @ str_int amount @ '' sats to '' @ a_address args),
             OutFloat (''btc fee: '' @ str_int (bt_fee (pr_built p)) @ '' sats @ '') fee_rate '' sat/vB'']) (\<lambda>_.
            confirm_and_execute args btc_expiry (btc_source (cx_btc cx) (cx_post_raw cx) ad kw) p))))))"

section \<open>Ethereum\<close>

fun eth_built_fee :: "'k eth_any_built \<Rightarrow> int" where
  "eth_built_fee (NativeBuilt b) = native_fee b"
| "eth_built_fee (TokenBuilt b) = token_fee b"

fun eth_tx_count :: "'k eth_any_built \<Rightarrow> nat" where
  "eth_tx_count (NativeBuilt b) = 1"
| "eth_tx_count (TokenBuilt b) = length (token_txs b)"

text \<open>The sender's address, and the nonce and the fees of its next transaction.\<close>

definition eth_start ::
    "('n, 'bk, 'btx, 'ek, 'tk, 'ttx) cli_libs \<Rightarrow> cli_args \<Rightarrow> eth_adapter \<Rightarrow> string \<Rightarrow> ('n, string \<times> eth_fees) cli" where
  "eth_start cx args ad mnemonic =
     bind_io (lift_io (eth_derive_address (cx_eth cx) ad mnemonic DEFAULT_ETH_DERIVATION)) (\<lambda>address.
     bind_io (on_net (get_nonce (cx_post_json cx) ad address)) (\<lambda>nonce.
     bind_io (on_net (fetch_fees (cx_post_json cx) ad)) (\<lambda>(max_fee, tip).
       return_io (address, \<lparr>ef_nonce = nonce, ef_gas = a_eth_gas args, ef_max_fee_per_gas = max_fee,
         ef_max_priority_fee_per_gas = tip, ef_max_fee_wei = ETH_MAX_FEE_WEI, ef_mnemonic = mnemonic\<rparr>))))"

definition eth_token_sweep ::
    "('n, 'bk, 'btx, 'ek, 'tk, 'ttx) cli_libs \<Rightarrow> eth_adapter \<Rightarrow> string \<Rightarrow> string \<Rightarrow> ('n, int) pyio" where
  "eth_token_sweep cx ad asset address =
     bind_io (lift_io (asset_contract asset)) (\<lambda>token.
     bind_io (fetch_token_balance (cx_eth cx) (cx_post_json cx) ad token address) (\<lambda>bal.
     bind_io (token_decimals (cx_post_json cx) ad token) (\<lambda>decimals.
       lift_io (token_sweep_amount bal (nat decimals)))))"

definition eth_amount ::
    "('n, 'bk, 'btx, 'ek, 'tk, 'ttx) cli_libs \<Rightarrow> cli_args \<Rightarrow> eth_adapter \<Rightarrow> string \<Rightarrow> string \<Rightarrow> int \<Rightarrow> int \<Rightarrow>
     ('n, int) pyio" where
  "eth_amount cx args ad asset address gas max_fee =
     (if a_amount args \<noteq> MaxAmount then lift_io (amount_units (a_amount args))
      else if is_token_asset asset then eth_token_sweep cx ad asset address
      else bind_io (fetch_eth_balance (cx_post_json cx) ad address) (\<lambda>bal.
             lift_io (eth_sweep_amount bal gas max_fee)))"

definition report_eth_swap ::
    "('n, 'bk, 'btx, 'ek, 'tk, 'ttx) cli_libs \<Rightarrow> cli_args \<Rightarrow> backend \<Rightarrow> int \<Rightarrow> string \<Rightarrow> 'ek eth_prepared \<Rightarrow>
     ('n, unit) cli" where
  "report_eth_swap cx args b amount dest p =
     bind_io (lift_io (quote_of p)) (\<lambda>q.
     bind_io (lift_io (units_text amount)) (\<lambda>amount_in.
     bind_io (lift_io (units_text (q_expected_amount_out q))) (\<lambda>out.
     bind_io (lift_io (shown_amount 6 (eth_built_fee (pr_built p)) (10 ^ 18))) (\<lambda>max_fee_eth.
     bind_io (say_all
       [Out (''via:     '' @ be_name b),
        Out (''send:    '' @ amount_in @ '' '' @ a_from args @ '' to '' @ q_inbound_address q),
        Out (''expect:  '' @ out @ '' '' @ a_to args @ '' -> '' @ dest), Out (''memo:    '' @ memo_text (q_memo q))])
       (\<lambda>_.
     bind_io (print_swap_costs cx q (a_from args) (a_to args) amount (a_price_check args)) (\<lambda>_.
       say (Out (''inbound: '' @ max_fee_eth @ '' ETH max ('' @ str_nat (eth_tx_count (pr_built p)) @ '' tx)'')))))))) "

definition warn_if :: "bool \<Rightarrow> string \<Rightarrow> string list \<Rightarrow> ('n, unit) cli" where
  "warn_if c header bullets = (if c then warn header bullets else return_io ())"

definition swap_from_eth :: "('n, 'bk, 'btx, 'ek, 'tk, 'ttx) cli_libs \<Rightarrow> cli_args \<Rightarrow> ('n, int) cli" where
  "swap_from_eth cx args =
     bind_io (load_mnemonic cx args) (\<lambda>(mnemonic, pw).
     bind_io (lift_io (resolve_destination cx args (Some mnemonic) pw)) (\<lambda>dest0.
     need_dest dest0 (\<lambda>dest.
     bind_io (lift_io (asset_of (a_from args))) (\<lambda>from_asset.
     bind_io (warn_if (is_token_asset from_asset) ''token source - 2 transactions (approve + deposit):''
         [''if the deposit fails after the approve, an exact-amount allowance to the router remains'']) (\<lambda>_.
     bind_io (cli_eth args pw) (\<lambda>ad.
     closing ''ETH'' (
     bind_io (eth_start cx args ad mnemonic) (\<lambda>(address, f).
     or_abort (\<lambda>e. a_amount args = MaxAmount \<and> is_insufficient e)
         (on_net (eth_amount cx args ad from_asset address (a_eth_gas args) (ef_max_fee_per_gas f))) (\<lambda>amount.
     bind_io (lift_io (request_for args from_asset amount dest)) (\<lambda>rq.
     or_abort is_aborted (select_for cx args rq) (\<lambda>b.
     closing (be_name b) (
       let adapter = eth_source (cx_eth cx) (cx_post_json cx) ad f
       in or_abort is_aborted (prepare_with cx args b adapter rq) (\<lambda>p.
          bind_io (report_eth_swap cx args b amount dest p) (\<lambda>_.
            confirm_and_execute args eth_expiry adapter p))))))))))))))"

text \<open>The recipient of a send is checked before anything else.\<close>

definition checked_recipient :: "string \<Rightarrow> cli_args \<Rightarrow> ('n, int) cli \<Rightarrow> ('n, int) cli" where
  "checked_recipient chain args k =
     (case validate_destination_address chain (a_address args) of
        Some problem \<Rightarrow> leave (ErrAddress ''recipient: '' problem) 2
      | None \<Rightarrow> k)"

definition send_eth :: "('n, 'bk, 'btx, 'ek, 'tk, 'ttx) cli_libs \<Rightarrow> cli_args \<Rightarrow> ('n, int) cli" where
  "send_eth cx args =
     bind_io (lift_io (asset_of (a_asset args))) (\<lambda>asset.
     checked_recipient ''ETH'' args (
     bind_io (load_mnemonic cx args) (\<lambda>(mnemonic, pw).
     bind_io (cli_eth args pw) (\<lambda>ad.
     closing ''ETH'' (
     bind_io (eth_start cx args ad mnemonic) (\<lambda>(address, f).
     or_abort is_insufficient
         (on_net (eth_amount cx args ad asset address NATIVE_SEND_GAS (ef_max_fee_per_gas f))) (\<lambda>amount.
     bind_io (on_net (eth_build_and_verify_send (cx_eth cx) (cx_post_json cx) ad f (a_address args) amount asset
         DEFAULT_ETH_DERIVATION)) (\<lambda>p.
     bind_io (lift_io (units_text amount)) (\<lambda>amount_in.
     bind_io (say (Out (''send:    '' @ amount_in @ '' '' @ a_asset args @ '' to '' @ a_address args))) (\<lambda>_.
     bind_io (lift_io (shown_amount 6 (eth_built_fee (pr_built p)) (10 ^ 18))) (\<lambda>fee.
     bind_io (say (Out (''max fee: '' @ fee @ '' ETH''))) (\<lambda>_.
       confirm_and_execute args eth_expiry (eth_source (cx_eth cx) (cx_post_json cx) ad f) p))))))))))))"

section \<open>TRON\<close>

definition tron_token_sweep ::
    "('n, 'bk, 'btx, 'ek, 'tk, 'ttx) cli_libs \<Rightarrow> tron_adapter \<Rightarrow> string \<Rightarrow> string \<Rightarrow> ('n, int) pyio" where
  "tron_token_sweep cx ad asset mnemonic =
     bind_io (lift_io (token_contract_and_decimals asset)) (\<lambda>(contract, decimals).
     bind_io (lift_io (tron_derive_address (cx_tron cx) ad mnemonic DEFAULT_TRON_DERIVATION)) (\<lambda>address.
     bind_io (fetch_tron_token_balance (cx_tron cx) (cx_post_json cx) ad contract address) (\<lambda>bal.
       lift_io (token_sweep_amount bal (nat decimals)))))"

definition tron_amount ::
    "('n, 'bk, 'btx, 'ek, 'tk, 'ttx) cli_libs \<Rightarrow> cli_args \<Rightarrow> tron_adapter \<Rightarrow> string \<Rightarrow> string \<Rightarrow> ('n, int) pyio" where
  "tron_amount cx args ad asset mnemonic =
     (if a_amount args = MaxAmount then tron_token_sweep cx ad asset mnemonic
      else lift_io (amount_units (a_amount args)))"

fun plan_sun :: "tron_plan \<Rightarrow> int res" where
  "plan_sun (TronSwap p) = Inr (tsp_amount_sun p)"
| "plan_sun (TronSend p) = Inr (ts_amount_sun p)"
| "plan_sun _ = Inl (OtherError ''AttributeError'')"

fun plan_vault :: "tron_plan \<Rightarrow> string res" where
  "plan_vault (TronSwap p) = Inr (tsp_inbound_address p)"
| "plan_vault (TronTokenSwap p) = Inr (ttsp_inbound_address p)"
| "plan_vault _ = Inl (OtherError ''AttributeError'')"

definition tron_send_line :: "cli_args \<Rightarrow> string \<Rightarrow> int \<Rightarrow> string \<Rightarrow> tron_plan \<Rightarrow> event res" where
  "tron_send_line args from_asset amount vault plan =
     (if is_token_asset from_asset then
        bind_res (shown_amount 6 amount THORCHAIN_UNIT) (\<lambda>t.
          Inr (Out (''send:    '' @ t @ '' '' @ a_from args @ '' to '' @ vault)))
      else bind_res (plan_sun plan) (\<lambda>sun. Inr (Out (''send:    '' @ str_int sun @ '' sun to '' @ vault))))"

definition report_tron_swap ::
    "('n, 'bk, 'btx, 'ek, 'tk, 'ttx) cli_libs \<Rightarrow> cli_args \<Rightarrow> string \<Rightarrow> backend \<Rightarrow> int \<Rightarrow> string \<Rightarrow>
     ('tk, 'ttx) tron_prepared \<Rightarrow> ('n, unit) cli" where
  "report_tron_swap cx args from_asset b amount dest p =
     bind_io (lift_io (quote_of p)) (\<lambda>q.
     bind_io (lift_io (units_text (q_expected_amount_out q))) (\<lambda>out.
     bind_io (say (Out (''via:     '' @ be_name b))) (\<lambda>_.
     bind_io (lift_io (tron_send_line args from_asset amount (q_inbound_address q) (pr_plan p))) (\<lambda>line.
     bind_io (say_all
       [line, Out (''expect:  '' @ out @ '' '' @ a_to args @ '' -> '' @ dest),
        Out (''memo:    '' @ memo_text (q_memo q))]) (\<lambda>_.
     bind_io (print_swap_costs cx q (a_from args) (a_to args) amount (a_price_check args)) (\<lambda>_.
       say_all
         [Out ''inbound: paid from spare TRX (bandwidth/energy), NOT the sent amount'',
          Out ''         -> keep some TRX headroom below your balance''])))))) "

definition swap_from_tron :: "('n, 'bk, 'btx, 'ek, 'tk, 'ttx) cli_libs \<Rightarrow> cli_args \<Rightarrow> ('n, int) cli" where
  "swap_from_tron cx args =
     bind_io (lift_io (asset_of (a_from args))) (\<lambda>from_asset.
     if a_amount args = MaxAmount \<and> \<not> is_token_asset from_asset then
       leave (Err ''--amount max is not supported for native TRX yet'') 2
     else
     bind_io (warn_if (is_token_asset from_asset)
         ''TRC-20 source - the transfer burns TRX for energy (~15 TRX cap), separate from the USDT sent:''
         [''keep spare TRX in the account, and note TRON deposits are routerless and unrefundable if the memo/vault is wrong (the verify gate checks both)''])
       (\<lambda>_.
     bind_io (load_mnemonic cx args) (\<lambda>(mnemonic, pw).
     bind_io (lift_io (resolve_destination cx args (Some mnemonic) pw)) (\<lambda>dest0.
     need_dest dest0 (\<lambda>dest.
     bind_io (cli_tron args pw) (\<lambda>ad.
     closing ''TRON'' (
     or_abort (\<lambda>e. a_amount args = MaxAmount \<and> is_insufficient e)
         (on_net (tron_amount cx args ad from_asset mnemonic)) (\<lambda>amount.
     bind_io (lift_io (request_for args from_asset amount dest)) (\<lambda>rq.
       let adapter = tron_source (cx_tron cx) ad mnemonic
       in or_abort (\<lambda>e. is_aborted e \<or> is_value_error e)
            (bind_io (select_for cx args rq) (\<lambda>b.
             bind_io (closing (be_name b) (prepare_with cx args b adapter rq)) (\<lambda>p. return_io (b, p)))) (\<lambda>(b, p).
          bind_io (report_tron_swap cx args from_asset b amount dest p) (\<lambda>_.
            confirm_and_execute args tron_expiry adapter p)))))))))))"

definition send_tron :: "('n, 'bk, 'btx, 'ek, 'tk, 'ttx) cli_libs \<Rightarrow> cli_args \<Rightarrow> ('n, int) cli" where
  "send_tron cx args =
     bind_io (lift_io (asset_of (a_asset args))) (\<lambda>asset.
     checked_recipient ''TRON'' args (
     if a_amount args = MaxAmount \<and> \<not> is_token_asset asset then
       leave (Err ''--amount max is not supported for native TRX send'') 2
     else
     bind_io (load_mnemonic cx args) (\<lambda>(mnemonic, pw).
     bind_io (cli_tron args pw) (\<lambda>ad.
     closing ''TRON'' (
     or_abort (\<lambda>e. a_amount args = MaxAmount \<and> is_insufficient e)
         (on_net (tron_amount cx args ad asset mnemonic)) (\<lambda>amount.
     bind_io (warn_if (is_token_asset asset)
         ''TRC-20 send - the transfer burns TRX for energy (~15 TRX cap), separate from the tokens sent:''
         [''keep spare TRX in the account'']) (\<lambda>_.
     bind_io (on_net (tron_build_and_verify_send (cx_tron cx) ad mnemonic (a_address args) amount asset)) (\<lambda>p.
     bind_io (lift_io (units_text amount)) (\<lambda>amount_in.
     bind_io (say (Out (''send:    '' @ amount_in @ '' '' @ a_asset args @ '' to '' @ a_address args))) (\<lambda>_.
       confirm_and_execute args tron_expiry (tron_source (cx_tron cx) ad mnemonic) p))))))))))"

section \<open>Liquidity\<close>

fun btc_lp_plan :: "btc_plan \<Rightarrow> swap_plan res" where
  "btc_lp_plan (BtcSwapPlan p) = Inr p"
| "btc_lp_plan _ = Inl (OtherError ''AttributeError'')"

fun eth_lp_plan :: "'k eth_plan \<Rightarrow> eth_swap_plan res" where
  "eth_lp_plan (EthSwap p) = Inr p"
| "eth_lp_plan _ = Inl (OtherError ''AttributeError'')"

definition NO_BTC :: string where
  "NO_BTC = ''no confirmed BTC (add needs funds; withdraw needs a little BTC in-wallet for the trigger tx)''"

definition swept_or :: "bool \<Rightarrow> ('n, int) pyio \<Rightarrow> int option \<Rightarrow> ('n, int option) pyio" where
  "swept_or sweep m amount = (if sweep then bind_io m (\<lambda>a. return_io (Some a)) else return_io amount)"

definition liquidity_btc ::
    "('n, 'bk, 'btx, 'ek, 'tk, 'ttx) cli_libs \<Rightarrow> cli_args \<Rightarrow> string \<Rightarrow> int option \<Rightarrow> bool \<Rightarrow> ('n, int) cli" where
  "liquidity_btc cx args memo amount0 sweep =
     bind_io (load_mnemonic cx args) (\<lambda>(mnemonic, pw).
     bind_io (cli_btc args pw) (\<lambda>ad.
     closing ''BTC'' (
     bind_io (liquidity_client args) (\<lambda>b.
     closing (be_name b) (
     btc_funds cx ad mnemonic NO_BTC (\<lambda>utxos change_address fee_rate.
     or_abort is_insufficient
         (on_net (swept_or sweep (lift_io (btc_sweep utxos fee_rate (int (length (utf8_encode memo))))) amount0)) (\<lambda>amount.
       let adapter = btc_source (cx_btc cx) (cx_post_raw cx) ad
             (btc_kwargs_for args mnemonic utxos fee_rate change_address sweep)
       in or_abort (\<lambda>e. is_aborted e \<or> is_insufficient e) (prepare_lp_with cx b adapter memo amount) (\<lambda>p.
          bind_io (lift_io (btc_lp_plan (pr_plan p))) (\<lambda>plan.
          bind_io (say_all
            [Out (''send:    '' @ str_int (sp_amount plan) @ '' sats to '' @ sp_inbound_address plan),
             Out (''memo:    '' @ memo),
             OutFloat (''btc fee: '' @ str_int (bt_fee (pr_built p)) @ '' sats @ '') fee_rate '' sat/vB'']) (\<lambda>_.
            confirm_and_execute args btc_expiry adapter p)))))))))) "

definition liquidity_eth ::
    "('n, 'bk, 'btx, 'ek, 'tk, 'ttx) cli_libs \<Rightarrow> cli_args \<Rightarrow> string \<Rightarrow> int option \<Rightarrow> bool \<Rightarrow> ('n, int) cli" where
  "liquidity_eth cx args memo amount0 sweep =
     bind_io (load_mnemonic cx args) (\<lambda>(mnemonic, pw).
     bind_io (cli_eth args pw) (\<lambda>ad.
     closing ''ETH'' (
     bind_io (liquidity_client args) (\<lambda>b.
     closing (be_name b) (
     bind_io (eth_start cx args ad mnemonic) (\<lambda>(address, f).
     or_abort is_insufficient
         (on_net (swept_or sweep
           (bind_io (fetch_eth_balance (cx_post_json cx) ad address) (\<lambda>bal.
              lift_io (eth_sweep_amount bal (a_eth_gas args) (ef_max_fee_per_gas f)))) amount0)) (\<lambda>amount.
       let adapter = eth_source (cx_eth cx) (cx_post_json cx) ad f
       in or_abort is_aborted (prepare_lp_with cx b adapter memo amount) (\<lambda>p.
          bind_io (lift_io (eth_lp_plan (pr_plan p))) (\<lambda>plan.
          bind_io (lift_io (shown_amount 8 (esp_amount_wei plan) (10 ^ 18))) (\<lambda>eth_amt.
          bind_io (say_all [Out (''send:    '' @ eth_amt @ '' ETH to '' @ esp_inbound_address plan), Out (''memo:    '' @ memo)])
            (\<lambda>_.
          bind_io (lift_io (shown_amount 6 (eth_built_fee (pr_built p)) (10 ^ 18))) (\<lambda>fee.
          bind_io (say (Out (''max fee: '' @ fee @ '' ETH''))) (\<lambda>_.
            confirm_and_execute args eth_expiry adapter p))))))))))))) "

definition liquidity_tron ::
    "('n, 'bk, 'btx, 'ek, 'tk, 'ttx) cli_libs \<Rightarrow> cli_args \<Rightarrow> string \<Rightarrow> int option \<Rightarrow> bool \<Rightarrow> ('n, int) cli" where
  "liquidity_tron cx args memo amount sweep =
     (if sweep then leave (Err ''--amount max is not supported for TRON liquidity yet'') 2
      else
        bind_io (load_mnemonic cx args) (\<lambda>(mnemonic, pw).
        bind_io (cli_tron args pw) (\<lambda>ad.
        closing ''TRON'' (
        bind_io (liquidity_client args) (\<lambda>b.
        closing (be_name b) (
          let adapter = tron_source (cx_tron cx) ad mnemonic
          in or_abort (\<lambda>e. is_aborted e \<or> is_value_error e) (prepare_lp_with cx b adapter memo amount) (\<lambda>p.
             bind_io (lift_io (plan_vault (pr_plan p))) (\<lambda>vault.
             bind_io (lift_io (plan_sun (pr_plan p))) (\<lambda>sun.
             bind_io (say_all
               [Out (''send:    '' @ str_int sun @ '' sun to '' @ vault), Out (''memo:    '' @ memo),
                Out ''trx fee: paid from spare TRX/bandwidth, NOT the sent amount'',
                Out ''         -> keep some TRX headroom below your balance (~1 TRX)'']) (\<lambda>_.
               confirm_and_execute args tron_expiry adapter p))))))))))"

definition liquidity :: "('n, 'bk, 'btx, 'ek, 'tk, 'ttx) cli_libs \<Rightarrow> cli_args \<Rightarrow> string \<Rightarrow> int option \<Rightarrow> bool \<Rightarrow> ('n, int) cli" where
  "liquidity cx args memo amount sweep =
     bind_io (warn ''only add liquidity that you can afford to lose, risks include:''
       [''experimental feature - bugs may cause lost funds'',
        ''you'' @ [CHR 0x27] @ ''re exposed to RUNE/CACAO volatility'',
        ''volatility may cause arbitrageurs to eat your funds'',
        ''for small amounts, the networking fees will probably outsize any win'']) (\<lambda>_.
     bind_io (lift_io (asset_of (a_asset args))) (\<lambda>asset.
       if is_token_asset asset then leave (Err ''liquidity for tokens is not supported yet'') 2
       else if asset_chain asset = ''BTC'' then liquidity_btc cx args memo amount sweep
       else if asset_chain asset = ''ETH'' then liquidity_eth cx args memo amount sweep
       else if asset_chain asset = ''TRON'' then liquidity_tron cx args memo amount sweep
       else leave (Err (''liquidity on '' @ asset_chain asset @ '' is not implemented'')) 2))"

section \<open>Commands\<close>

definition cmd_add_liquidity :: "('n, 'bk, 'btx, 'ek, 'tk, 'ttx) cli_libs \<Rightarrow> cli_args \<Rightarrow> ('n, int) cli" where
  "cmd_add_liquidity cx args =
     bind_io (lift_io (asset_of (a_asset args))) (\<lambda>pool.
       if a_amount args = MaxAmount then liquidity cx args (add_liquidity_memo pool) None True
       else bind_io (lift_io (amount_units (a_amount args))) (\<lambda>amount.
              liquidity cx args (add_liquidity_memo pool) (Some amount) False))"

definition cmd_withdraw_liquidity :: "('n, 'bk, 'btx, 'ek, 'tk, 'ttx) cli_libs \<Rightarrow> cli_args \<Rightarrow> ('n, int) cli" where
  "cmd_withdraw_liquidity cx args =
     bind_io (lift_io (asset_of (a_asset args))) (\<lambda>pool.
     bind_io (lift_io (withdraw_liquidity_memo pool (a_bps args))) (\<lambda>memo. liquidity cx args memo None False))"

definition cmd_swap :: "('n, 'bk, 'btx, 'ek, 'tk, 'ttx) cli_libs \<Rightarrow> cli_args \<Rightarrow> ('n, int) cli" where
  "cmd_swap cx args =
     bind_io (lift_io (asset_of (a_from args))) (\<lambda>asset.
       if asset_chain asset = ''BTC'' then swap_from_btc cx args
       else if asset_chain asset = ''ETH'' then swap_from_eth cx args
       else if asset_chain asset = ''TRON'' then swap_from_tron cx args
       else leave (Err (''swap source '' @ a_from args @ '' is not implemented yet'')) 2)"

definition cmd_send :: "('n, 'bk, 'btx, 'ek, 'tk, 'ttx) cli_libs \<Rightarrow> cli_args \<Rightarrow> ('n, int) cli" where
  "cmd_send cx args =
     bind_io (lift_io (asset_of (a_asset args))) (\<lambda>asset.
       if asset_chain asset = ''BTC'' then send_btc cx args
       else if asset_chain asset = ''ETH'' then send_eth cx args
       else if asset_chain asset = ''TRON'' then send_tron cx args
       else leave (Err (''send for '' @ a_asset args @ '' is not implemented yet'')) 2)"

end
