(* ===== verification/CliBalance.thy ===== *)
theory CliBalance
  imports CliKeys CliSwap
begin

text \<open>
  The \<open>balance\<close> command with the token and liquidity lines it prints for each chain, and the
  dispatch from the parsed command to its handler. Of \<open>argparse\<close> only the result is modelled:
  the command that was chosen and its arguments.
\<close>

section \<open>What balance asks of an adapter\<close>

record 'n wallet_view =
  wv_chain :: string
  wv_asset :: string
  wv_balance :: "string \<Rightarrow> ('n, balance_report) pyio"
  wv_tokens :: "(string \<Rightarrow> ('n, balance_report list) pyio) option"

definition btc_balance_net ::
    "('n, 'bk, 'btx, 'ek, 'tk, 'ttx) cli_libs \<Rightarrow> btc_adapter \<Rightarrow> string \<Rightarrow> ('n, balance_report) pyio" where
  "btc_balance_net cx ad mnemonic w =
     (case btc_wallet_balance (cx_scan_fuel cx) (cx_btc cx) (cx_get cx) ad mnemonic ACCOUNT w of
        None \<Rightarrow> (Inl (OutOfModel ''scan fuel''), w)
      | Some r \<Rightarrow> r)"

definition eth_view :: "('n, 'bk, 'btx, 'ek, 'tk, 'ttx) cli_libs \<Rightarrow> eth_adapter \<Rightarrow> 'n wallet_view" where
  "eth_view cx ad =
     \<lparr>wv_chain = ea_chain ad, wv_asset = ea_asset ad,
      wv_balance = eth_wallet_balance (cx_eth cx) (cx_post_json cx) ad,
      wv_tokens = Some (eth_token_balances (cx_eth cx) (cx_post_json cx) ad)\<rparr>"

definition wallet_adapters ::
    "('n, 'bk, 'btx, 'ek, 'tk, 'ttx) cli_libs \<Rightarrow> cli_args \<Rightarrow> string \<Rightarrow> ('n, 'n wallet_view list) cli" where
  "wallet_adapters cx args pw =
     bind_io (cli_btc args pw) (\<lambda>btc.
     bind_io (cli_eth args pw) (\<lambda>eth.
     bind_io (cli_tron args pw) (\<lambda>tron.
     bind_io (cli_bsc args pw) (\<lambda>bsc.
       return_io
         [\<lparr>wv_chain = ''BTC'', wv_asset = ''BTC.BTC'', wv_balance = btc_balance_net cx btc, wv_tokens = None\<rparr>,
          eth_view cx eth,
          \<lparr>wv_chain = ''TRON'', wv_asset = ''TRON.TRX'',
           wv_balance = tron_wallet_balance (cx_tron cx) (cx_post_json cx) tron,
           wv_tokens = Some (tron_token_balances (cx_tron cx) (cx_post_json cx) tron)\<rparr>,
          eth_view cx bsc]))))"

text \<open>The exceptions that leave one chain out of the report.\<close>

definition is_report_error :: "pyexc \<Rightarrow> bool" where
  "is_report_error e =
     (is_http_error e \<or> is_runtime_error e \<or> is_value_error e
      \<or> (case e of KeyError _ \<Rightarrow> True | IndexError \<Rightarrow> True | _ \<Rightarrow> False))"

fun say_reports :: "balance_report list \<Rightarrow> ('n, unit) cli" where
  "say_reports [] = return_io ()"
| "say_reports (r # rs) =
     bind_io (lift_io (balance_line r)) (\<lambda>line. bind_io (say (Out line)) (\<lambda>_. say_reports rs))"

definition report_token_balances :: "'n wallet_view \<Rightarrow> string \<Rightarrow> ('n, unit) cli" where
  "report_token_balances v mnemonic =
     (case wv_tokens v of
        None \<Rightarrow> return_io ()
      | Some ask \<Rightarrow>
          bind_io
            (try_io (bind_io (on_net (ask mnemonic)) (\<lambda>rs. return_io rs))
               (\<lambda>e. if is_report_error e
                 then bind_io (say (ErrExc (wv_chain v @ '': token balances unavailable ('') e '')'')) (\<lambda>_. return_io [])
                 else raise_io e))
            say_reports)"

section \<open>Liquidity positions\<close>

definition fetch_price ::
    "('n, 'bk, 'btx, 'ek, 'tk, 'ttx) cli_libs \<Rightarrow> backend \<Rightarrow> string \<Rightarrow> ('n, rat option) cli" where
  "fetch_price cx b asset =
     try_io
       (bind_io (on_net (pool_depth_of (cx_get cx) (be_client b) asset)) (\<lambda>d.
          lift_io (map_sum id Some (asset_per_protocol d))))
       (\<lambda>e. if is_http_error e then return_io None else raise_io e)"

definition protocol_name :: "backend \<Rightarrow> string" where
  "protocol_name b = (if be_name b = ''maya'' then ''CACAO'' else ''RUNE'')"

text \<open>\<open>price\<close> is \<open>None\<close> until the first position asked for it.\<close>

fun report_positions ::
    "('n, 'bk, 'btx, 'ek, 'tk, 'ttx) cli_libs \<Rightarrow> backend \<Rightarrow> string \<Rightarrow> rat option option \<Rightarrow> string list \<Rightarrow>
     ('n, unit) cli" where
  "report_positions cx b asset price [] = return_io ()"
| "report_positions cx b asset price (address # rest) = (\<lambda>w.
     case on_net (liquidity_provider (cx_get cx) (be_client b) asset address) w of
       (Inl e, w') \<Rightarrow>
         if is_http_error e
         then say (ErrExc (be_name b @ '' '' @ asset @ '': LP lookup failed ('') e '')'') w'
         else (Inl e, w')
     | (Inr None, w') \<Rightarrow> report_positions cx b asset price rest w'
     | (Inr (Some position), w') \<Rightarrow>
         bind_io (case price of Some p \<Rightarrow> return_io p | None \<Rightarrow> fetch_price cx b asset) (\<lambda>p.
         bind_io (lift_io (lp_format position (be_name b) (protocol_name b) p)) (\<lambda>line.
         bind_io (say (Out line)) (\<lambda>_. report_positions cx b asset (Some p) rest))) w')"

fun report_liquidity ::
    "('n, 'bk, 'btx, 'ek, 'tk, 'ttx) cli_libs \<Rightarrow> backend list \<Rightarrow> string \<Rightarrow> string list \<Rightarrow> ('n, unit) cli" where
  "report_liquidity cx [] asset addresses = return_io ()"
| "report_liquidity cx (b # bs) asset addresses =
     bind_io (report_positions cx b asset None addresses) (\<lambda>_. report_liquidity cx bs asset addresses)"

section \<open>The command\<close>

definition report_chain ::
    "('n, 'bk, 'btx, 'ek, 'tk, 'ttx) cli_libs \<Rightarrow> backend list \<Rightarrow> string \<Rightarrow> 'n wallet_view \<Rightarrow> ('n, unit) cli" where
  "report_chain cx backends mnemonic v w =
     (case on_net (wv_balance v mnemonic) w of
        (Inl e, w') \<Rightarrow>
          if is_report_error e then say (ErrExc (wv_chain v @ '': balance unavailable ('') e '')'') w'
          else (Inl e, w')
      | (Inr report, w') \<Rightarrow>
          bind_io (lift_io (balance_line report)) (\<lambda>line.
          bind_io (say (Out line)) (\<lambda>_.
          bind_io (report_liquidity cx backends (wv_asset v) (br_addresses report)) (\<lambda>_.
            report_token_balances v mnemonic))) w')"

fun report_chains ::
    "('n, 'bk, 'btx, 'ek, 'tk, 'ttx) cli_libs \<Rightarrow> backend list \<Rightarrow> string \<Rightarrow> 'n wallet_view list \<Rightarrow> ('n, unit) cli" where
  "report_chains cx backends mnemonic [] = return_io ()"
| "report_chains cx backends mnemonic (v # vs) =
     bind_io (closing (wv_chain v) (report_chain cx backends mnemonic v)) (\<lambda>_.
       report_chains cx backends mnemonic vs)"

definition cmd_balance :: "('n, 'bk, 'btx, 'ek, 'tk, 'ttx) cli_libs \<Rightarrow> cli_args \<Rightarrow> ('n, int) cli" where
  "cmd_balance cx args =
     bind_io (say (Err ''checking balances (the BTC address scan can take ~10s)...'')) (\<lambda>_.
     bind_io (load_mnemonic cx args) (\<lambda>(mnemonic, pw).
     bind_io get_environ (\<lambda>env.
       let backends = default_backends env
       in closing_all backends
            (bind_io (wallet_adapters cx args pw) (\<lambda>views.
             bind_io (report_chains cx backends mnemonic views) (\<lambda>_. return_io 0))))))"

section \<open>Dispatch\<close>

datatype command = Init | AddHd | AddRaw | ListKeys | ShowSeed | Address | Balance | Quote | Swap
  | AddLiquidity | WithdrawLiquidity | Send | Status

text \<open>\<open>set_defaults(func=...)\<close> of each subparser; without a command the help is printed.\<close>

fun handler_of ::
    "command \<Rightarrow> ('n, 'bk, 'btx, 'ek, 'tk, 'ttx) cli_libs \<Rightarrow> cli_args \<Rightarrow> ('n, int) cli" where
  "handler_of Init = cmd_init"
| "handler_of AddHd = cmd_add_hd"
| "handler_of AddRaw = cmd_add_raw"
| "handler_of ListKeys = cmd_list"
| "handler_of ShowSeed = cmd_show_seed"
| "handler_of Address = cmd_address"
| "handler_of Balance = cmd_balance"
| "handler_of Quote = cmd_quote"
| "handler_of Swap = cmd_swap"
| "handler_of AddLiquidity = cmd_add_liquidity"
| "handler_of WithdrawLiquidity = cmd_withdraw_liquidity"
| "handler_of Send = cmd_send"
| "handler_of Status = cmd_status"

definition main_command ::
    "('n, 'bk, 'btx, 'ek, 'tk, 'ttx) cli_libs \<Rightarrow> (command \<times> cli_args) option \<Rightarrow> ('n, int) cli" where
  "main_command cx parsed =
     (case parsed of
        None \<Rightarrow> leave (Out ''help'') 1
      | Some (c, args) \<Rightarrow> handler_of c cx args)"

end
