(* ===== verification/Reads.thy ===== *)
theory Reads
  imports Backends Btc Eth Tron Pricefeed
begin

text \<open>
  Which operations only read the network. \<open>sent\<close> is any part of the network's state, in
  particular the transactions it has been handed; a library that does not touch it with a GET
  request, with a call other than \<open>eth_sendRawTransaction\<close>, or while it builds a TRON transaction
  does not touch it through any operation of the wallet except the adapters' broadcasts.
\<close>

definition reads_get :: "('n \<Rightarrow> 's) \<Rightarrow> 'n http_get \<Rightarrow> bool" where
  "reads_get sent get \<longleftrightarrow> (\<forall>url params headers. keeps sent (get url params headers))"

definition submits :: "json \<Rightarrow> bool" where
  "submits body \<longleftrightarrow> (\<exists>params. body = rpc_body ''eth_sendRawTransaction'' params)"

definition reads_post :: "('n \<Rightarrow> 's) \<Rightarrow> 'n json_post \<Rightarrow> bool" where
  "reads_post sent post \<longleftrightarrow> (\<forall>url body. \<not> submits body \<longrightarrow> keeps sent (post url body))"

definition builds_only :: "('n \<Rightarrow> 's) \<Rightarrow> ('n, 'k, 'tx) tronlib \<Rightarrow> bool" where
  "builds_only sent lib \<longleftrightarrow>
     (\<forall>url owner to sun memo. keeps sent (trl_transfer lib url owner to sun memo))
     \<and> (\<forall>url owner token to n fee memo. keeps sent (trl_trigger lib url owner token to n fee memo))"

lemma reads_getD: "reads_get sent get \<Longrightarrow> keeps sent (get url params headers)"
  by (simp add: reads_get_def)

lemma reads_postD: "reads_post sent post \<Longrightarrow> \<not> submits body \<Longrightarrow> keeps sent (post url body)"
  by (simp add: reads_post_def)

lemma builds_onlyD [keeps_intros]:
  "builds_only sent lib \<Longrightarrow> keeps sent (trl_transfer lib url owner to sun memo)"
  "builds_only sent lib \<Longrightarrow> keeps sent (trl_trigger lib url owner token to n fee memo)"
  by (simp_all add: builds_only_def)

section \<open>Nodes and backends\<close>

lemma keeps_fetch [keeps_intros]: "reads_get sent get \<Longrightarrow> keeps sent (fetch get c path params)"
  by (simp add: fetch_def reads_getD)

lemma keeps_thorchain [keeps_intros]:
  "reads_get sent get \<Longrightarrow> keeps sent (inbound_addresses get c)"
  "reads_get sent get \<Longrightarrow> keeps sent (tx_status get c txid)"
  "reads_get sent get \<Longrightarrow> keeps sent (liquidity_provider get c pool address)"
  "reads_get sent get \<Longrightarrow> keeps sent (pool_depth_of get c asset)"
  "reads_get sent get \<Longrightarrow> keeps sent (mimir get c)"
  "reads_get sent get \<Longrightarrow> keeps sent (quote_swap get c from_asset to_asset amount destination interval quantity tol)"
  by (auto simp: inbound_addresses_def tx_status_def liquidity_provider_def pool_depth_of_def mimir_def
      quote_swap_def intro!: keeps_intros)

lemma keeps_gather_loop: "(\<And>b. keeps sent (ask b)) \<Longrightarrow> keeps sent (gather_loop ask amount bs)"
proof (induction bs)
  case Nil
  then show ?case by (simp add: keeps_def)
next
  case (Cons b bs)
  then have "keeps sent (ask b)" and "keeps sent (gather_loop ask amount bs)" by auto
  then show ?case
    unfolding keeps_def by (auto split: prod.split sum.split) (metis snd_conv)+
qed

lemma keeps_gather [keeps_intros]:
  "reads_get sent get \<Longrightarrow> keeps sent (gather_quotes get bs from_asset to_asset amount destination tol interval quantity)"
  unfolding gather_quotes_def
  by (rule keeps_gather_loop) (auto simp: quote_from_def intro!: keeps_intros)

lemma keeps_spot [keeps_intros]: "reads_get sent get \<Longrightarrow> keeps sent (feed_spot get base ids vs)"
  by (auto simp: feed_spot_def intro!: keeps_intros reads_getD)

section \<open>Preparing swaps and deposits\<close>

definition adapter_reads :: "('n \<Rightarrow> 's) \<Rightarrow> ('n, 'b, 'p, 'raw) source_adapter \<Rightarrow> bool" where
  "adapter_reads sent ad \<longleftrightarrow>
     (\<forall>q rq now. keeps sent (ad_build_and_verify ad q rq now))
     \<and> (\<forall>vault memo amount now. keeps sent (ad_build_and_verify_deposit ad vault memo amount now))"

lemma adapter_readsD [keeps_intros]:
  "adapter_reads sent ad \<Longrightarrow> keeps sent (ad_build_and_verify ad q rq now)"
  "adapter_reads sent ad \<Longrightarrow> keeps sent (ad_build_and_verify_deposit ad vault memo amount now)"
  by (simp_all add: adapter_reads_def)

lemma keeps_quoted [keeps_intros]:
  "reads_get sent get \<Longrightarrow> keeps sent (quoted (thorchain_of get c) rq tol interval quantity)"
  by (auto simp: quoted_def thorchain_of_def intro!: keeps_intros split: pyexc.split)

lemma keeps_lp_open [keeps_intros]: "reads_get sent get \<Longrightarrow> keeps sent (check_lp_open (thorchain_of get c) memo)"
  by (auto simp: check_lp_open_def thorchain_of_def intro!: keeps_intros)

lemma keeps_prepare [keeps_intros]:
  "reads_get sent get \<Longrightarrow> adapter_reads sent ad \<Longrightarrow>
   keeps sent (prepare_swap (thorchain_of get c) ad rq now tol interval quantity)"
  "reads_get sent get \<Longrightarrow> adapter_reads sent ad \<Longrightarrow>
   keeps sent (prepare_liquidity (thorchain_of get c) ad memo amount now)"
  by (auto simp: prepare_swap_def prepare_liquidity_def intro!: keeps_intros)
    (auto simp: thorchain_of_def intro!: keeps_intros)

section \<open>Adapters\<close>

lemma keeps_esplora_get [keeps_intros]: "reads_get sent get \<Longrightarrow> keeps sent (esplora_get get ad path)"
  by (auto simp: esplora_get_def intro!: keeps_intros reads_getD)

lemma keeps_esplora [keeps_intros]:
  "reads_get sent get \<Longrightarrow> keeps sent (fetch_address_info get ad address)"
  "reads_get sent get \<Longrightarrow> keeps sent (fetch_utxos get ad address)"
  "reads_get sent get \<Longrightarrow> keeps sent (fetch_fee_rate get ad blocks)"
  by (auto simp: fetch_address_info_def fetch_utxos_def fetch_fee_rate_def intro!: keeps_intros)

lemma keeps_scan_window [keeps_intros]:
  "(\<And>a. keeps sent (probe a)) \<Longrightarrow> keeps sent (scan_window derive probe account branch index window)"
  by (auto simp: scan_window_def intro!: keeps_intros)

lemma keeps_scan_branch:
  assumes "\<And>a. keeps sent (probe a)"
  shows "scan_branch fuel derive probe hist account branch gap_limit window gap index found w = Some (r, w') \<Longrightarrow>
    sent w' = sent w"
proof (induction fuel arbitrary: gap index found w)
  case 0
  then show ?case by (subst (asm) scan_branch.simps) (auto split: if_splits)
next
  case (Suc fuel)
  have k: "scan_window derive probe account branch index window w = (x, w1) \<Longrightarrow> sent w1 = sent w" for x w1
    by (rule keepsD [OF keeps_scan_window]) (rule assms)
  show ?case
  proof (cases "gap < gap_limit")
    case False
    with Suc.prems show ?thesis by (subst (asm) scan_branch.simps) simp
  next
    case True
    obtain x w1 where x: "scan_window derive probe account branch index window w = (x, w1)" by fastforce
    from k [OF x] show ?thesis
      using Suc.prems True x Suc.IH [where w = w1]
      by (subst (asm) scan_branch.simps) (auto split: sum.splits prod.splits)
  qed
qed

lemma keeps_scan_branches:
  assumes "\<And>a. keeps sent (probe a)"
  shows "scan_branches fuel derive probe hist account gap_limit window bs found w = Some (r, w') \<Longrightarrow> sent w' = sent w"
proof (induction bs arbitrary: found w)
  case (Cons b bs)
  have k: "scan_branch fuel derive probe hist account b gap_limit window 0 0 found w = Some (x, w1) \<Longrightarrow> sent w1 = sent w"
    for x w1 by (rule keeps_scan_branch) (rule assms)
  show ?case
    using Cons.prems Cons.IH k by (fastforce split: option.splits prod.splits sum.splits)
qed simp

lemma keeps_scan_account:
  assumes "\<And>a. keeps sent (probe a)"
    "scan_account fuel derive probe hist account gap_limit bs window w = Some (r, w')"
  shows "sent w' = sent w"
  using assms(2) unfolding scan_account_def by (rule keeps_scan_branches [rotated]) (rule assms(1))

lemma btc_source_reads: "adapter_reads sent (btc_source lib post ad kw)"
  by (auto simp: adapter_reads_def btc_source_def intro!: keeps_intros)

lemma keeps_rpc [keeps_intros]:
  "reads_post sent post \<Longrightarrow> meth \<noteq> ''eth_sendRawTransaction'' \<Longrightarrow> keeps sent (eth_rpc post ad meth params)"
  "reads_post sent post \<Longrightarrow> meth \<noteq> ''eth_sendRawTransaction'' \<Longrightarrow> keeps sent (rpc_int post ad meth params)"
  by (auto simp: eth_rpc_def rpc_int_def submits_def rpc_body_def intro!: keeps_intros reads_postD)

lemma keeps_eth [keeps_intros]:
  "reads_post sent post \<Longrightarrow> keeps sent (get_nonce post ad address)"
  "reads_post sent post \<Longrightarrow> keeps sent (fetch_eth_balance post ad address)"
  "reads_post sent post \<Longrightarrow> keeps sent (fetch_fees post ad)"
  "reads_post sent post \<Longrightarrow> keeps sent (token_decimals post ad token)"
  "reads_post sent post \<Longrightarrow> keeps sent (fetch_token_balance lib post ad token address)"
  by (auto simp: get_nonce_def fetch_eth_balance_def fetch_fees_def token_decimals_def
      fetch_token_decimals_def fetch_token_balance_def intro!: keeps_intros)

lemma keeps_eth_reports [keeps_intros]:
  "reads_post sent post \<Longrightarrow> keeps sent (eth_wallet_balance lib post ad mnemonic)"
  "reads_post sent post \<Longrightarrow> keeps sent (eth_token_balances lib post ad mnemonic)"
  by (auto simp: eth_wallet_balance_def eth_token_balances_def intro!: keeps_intros)

lemma keeps_eth_send [keeps_intros]:
  "reads_post sent post \<Longrightarrow> keeps sent (eth_build_and_verify_send lib post ad f recipient amount asset path)"
  by (auto simp: eth_build_and_verify_send_def eth_build_token_send_def intro!: keeps_intros)

lemma eth_source_reads: "reads_post sent post \<Longrightarrow> adapter_reads sent (eth_source lib post ad f)"
  by (auto simp: adapter_reads_def eth_source_def eth_build_and_verify_def intro!: keeps_intros)

lemma keeps_tron_call:
  "reads_post sent post \<Longrightarrow> map_of body ''jsonrpc'' = None \<Longrightarrow> keeps sent (tron_call post ad route body)"
  by (auto simp: tron_call_def submits_def rpc_body_def intro!: keeps_intros reads_postD)

lemma keeps_tron [keeps_intros]:
  "reads_post sent post \<Longrightarrow> keeps sent (tron_wallet_balance lib post ad mnemonic)"
  "reads_post sent post \<Longrightarrow> keeps sent (fetch_tron_token_balance lib post ad contract address)"
  by (auto simp: tron_wallet_balance_def fetch_tron_balance_def fetch_tron_token_balance_def
      intro!: keeps_intros keeps_tron_call)

lemma keeps_tron_tokens [keeps_intros]:
  "reads_post sent post \<Longrightarrow> keeps sent (tron_token_balances lib post ad mnemonic)"
  by (auto simp: tron_token_balances_def intro!: keeps_intros)

lemma keeps_tron_build [keeps_intros]:
  "builds_only sent lib \<Longrightarrow> keeps sent (build_unsigned_transfer lib ad mnemonic to sun memo path)"
  "builds_only sent lib \<Longrightarrow> keeps sent (build_unsigned_trc20_transfer lib ad mnemonic token to n memo fee path)"
  by (auto simp: build_unsigned_transfer_def build_unsigned_trc20_transfer_def intro!: keeps_intros)

lemma keeps_tron_send [keeps_intros]:
  "builds_only sent lib \<Longrightarrow> keeps sent (tron_build_and_verify_send lib ad mnemonic recipient amount asset)"
  by (auto simp: tron_build_and_verify_send_def tron_build_token_send_def tron_build_native_send_def
      intro!: keeps_intros)

lemma tron_source_reads: "builds_only sent lib \<Longrightarrow> adapter_reads sent (tron_source lib ad mnemonic)"
  by (auto simp: adapter_reads_def tron_source_def tron_build_and_verify_def tron_build_token_def
      tron_build_native_def tron_build_and_verify_deposit_def intro!: keeps_intros)

end
