(* ===== verification/CliSafety.thy ===== *)
theory CliSafety
  imports CliBalance Reads
begin

text \<open>
  Consent: no command hands a transaction to the network unless the user asked for it on the
  command line and confirmed it, and what is handed over has passed its verify gate and has not
  expired. The proof is compositional: every step before the confirmation leaves the part of the
  network that holds the submitted transactions, and the answers still to be typed, as they are
  (\<open>keeps\<close>); a handler that ends in the confirmation is \<open>guarded\<close> by it.
\<close>

section \<open>Steps that submit nothing\<close>

definition view :: "('n \<Rightarrow> 's) \<Rightarrow> 'n machine \<Rightarrow> 's \<times> string list" where
  "view sent w = (sent (m_net w), m_answers w)"

lemma keeps_pair [keeps_intros]: "keeps f (Pair x)"
  by (simp add: keeps_def)

lemma keeps_machine [keeps_intros]:
  "keeps (view sent) (say e)"
  "keeps (view sent) get_environ"
  "keeps (view sent) (getpass prompt)"
  "keeps (view sent) read_clock"
  "keeps (view sent) (on_os m)"
  "keeps (view sent) (path_exists path)"
  by (auto simp: keeps_def view_def say_def get_environ_def getpass_def read_clock_def on_os_def
      path_exists_def Let_def split: list.split prod.split)

lemma keeps_on_net [keeps_intros]: "keeps sent m \<Longrightarrow> keeps (view sent) (on_net m)"
  unfolding keeps_def by (auto simp: view_def on_net_def split: prod.split) (metis snd_conv)

lemma keeps_closing [keeps_intros]:
  "keeps (view sent) m \<Longrightarrow> keeps (view sent) (closing name m)"
  "keeps (view sent) m \<Longrightarrow> keeps (view sent) (closing_all bs m)"
  by (auto simp: closing_def closing_all_def view_def intro!: keeps_finally)

lemma keeps_say_all [keeps_intros]: "keeps (view sent) (say_all es)"
  by (induction es) (auto intro!: keeps_intros)

lemma keeps_leave [keeps_intros]: "keeps (view sent) (leave e rc)"
  by (auto simp: leave_def intro!: keeps_intros)

lemma keeps_warn [keeps_intros]: "keeps (view sent) (warn h bs)" "keeps (view sent) (warn_if c h bs)"
  by (auto simp: warn_def warn_if_def intro!: keeps_intros)

lemma keeps_config [keeps_intros]:
  "keeps (view sent) (keystore_path args)"
  "keeps (view sent) (passphrase_prompt c)"
  "keeps (view sent) (cli_btc args pw)"
  "keeps (view sent) (cli_eth args pw)"
  "keeps (view sent) (cli_tron args pw)"
  "keeps (view sent) (cli_bsc args pw)"
  "keeps (view sent) (backends_for args)"
  "keeps (view sent) (liquidity_client args)"
  "keeps (view sent) clock_int"
  by (auto simp: keystore_path_def passphrase_prompt_def cli_btc_def cli_eth_def cli_tron_def cli_bsc_def
      backends_for_def liquidity_client_def clock_int_def intro!: keeps_intros)

lemma keeps_mnemonic [keeps_intros]:
  "keeps (view sent) (open_keystore cx args)"
  "keeps (view sent) (load_mnemonic cx args)"
  by (auto simp: open_keystore_def load_mnemonic_def intro!: keeps_intros)

definition reads_only :: "('n \<Rightarrow> 's) \<Rightarrow> ('n, 'bk, 'btx, 'ek, 'tk, 'ttx) cli_libs \<Rightarrow> bool" where
  "reads_only sent cx \<longleftrightarrow>
     reads_get sent (cx_get cx) \<and> reads_post sent (cx_post_json cx) \<and> builds_only sent (cx_tron cx)"

lemma reads_onlyD [intro]:
  "reads_only sent cx \<Longrightarrow> reads_get sent (cx_get cx)"
  "reads_only sent cx \<Longrightarrow> reads_post sent (cx_post_json cx)"
  "reads_only sent cx \<Longrightarrow> builds_only sent (cx_tron cx)"
  by (simp_all add: reads_only_def)

section \<open>The keystore commands and the reports\<close>

lemma keeps_list_case [keeps_intros]:
  "keeps f m \<Longrightarrow> (\<And>x xs. keeps f (g x xs)) \<Longrightarrow> keeps f (case ys of [] \<Rightarrow> m | x # xs \<Rightarrow> g x xs)"
  by (cases ys) simp_all

lemma keeps_keys:
  "keeps (view sent) (cmd_init cx args)"
  "keeps (view sent) (cmd_add_hd cx args)"
  "keeps (view sent) (cmd_add_raw cx args)"
  "keeps (view sent) (cmd_show_seed cx args)"
  "keeps (view sent) (cmd_list cx args)"
  "keeps (view sent) (cmd_address cx args)"
  by (auto simp: cmd_init_def cmd_add_hd_def cmd_add_raw_def cmd_show_seed_def cmd_list_def cmd_address_def
      save_keystore_def new_mnemonic_def show_generated_def intro!: keeps_intros)

lemma keeps_costs [keeps_intros]:
  "reads_only sent cx \<Longrightarrow> keeps (view sent) (market_comparison cx from_key to_key n out)"
  "reads_only sent cx \<Longrightarrow> keeps (view sent) (print_swap_costs cx q from_key to_key n c)"
  by (auto simp: print_swap_costs_def market_comparison_def market_lookup_def intro!: keeps_intros)

lemma keeps_select [keeps_intros]:
  "reads_only sent cx \<Longrightarrow> keeps (view sent) (select_backend cx args from_asset to_asset n dest tol)"
  "reads_only sent cx \<Longrightarrow> keeps (view sent) (select_for cx args rq)"
  by (auto simp: select_for_def select_backend_def close_backends_def routing_note_def intro!: keeps_intros)

lemma keeps_offers [keeps_intros]: "keeps (view sent) (say_offers b rs)"
  by (induction rs) (auto intro!: keeps_intros)

lemma keeps_quote:
  "reads_only sent cx \<Longrightarrow> keeps (view sent) (cmd_quote cx args)"
  by (auto simp: cmd_quote_def quote_all_def quote_mnemonic_def intro!: keeps_intros)

lemma keeps_status_loop [keeps_intros]:
  "reads_only sent cx \<Longrightarrow> keeps (view sent) (status_loop cx args n status bs)"
  by (induction bs arbitrary: status) (auto simp: ask_status_def intro!: keeps_intros)

lemma keeps_status: "reads_only sent cx \<Longrightarrow> keeps (view sent) (cmd_status cx args)"
  by (auto simp: cmd_status_def intro!: keeps_intros)

lemma keeps_reports [keeps_intros]: "keeps (view sent) (say_reports rs)"
  by (induction rs) (auto intro!: keeps_intros)

text \<open>A step on the network whose failure is reported in a line instead of raised.\<close>

lemma keeps_on_net_cases:
  assumes "keeps sent m" "\<And>e. keeps (view sent) (h e)" "\<And>x. keeps (view sent) (g x)"
  shows "keeps (view sent) (\<lambda>w. case on_net m w of (Inl e, w') \<Rightarrow> h e w' | (Inr x, w') \<Rightarrow> g x w')"
  using keeps_on_net [OF assms(1)] assms(2,3) unfolding keeps_def
  by (auto split: prod.split sum.split) (metis snd_conv)+

lemma keeps_positions [keeps_intros]:
  assumes "reads_only sent cx"
  shows "keeps (view sent) (report_positions cx b asset price addresses)"
proof (induction addresses arbitrary: price)
  case Nil
  then show ?case by (auto intro!: keeps_intros)
next
  case (Cons address rest)
  have e: "report_positions cx b asset price (address # rest) = (\<lambda>w.
     case on_net (liquidity_provider (cx_get cx) (be_client b) asset address) w of
       (Inl e, w') \<Rightarrow>
         (if is_http_error e then say (ErrExc (be_name b @ '' '' @ asset @ '': LP lookup failed ('') e '')'')
          else raise_io e) w'
     | (Inr found, w') \<Rightarrow>
         (case found of None \<Rightarrow> report_positions cx b asset price rest
          | Some position \<Rightarrow>
         bind_io (case price of Some p \<Rightarrow> return_io p | None \<Rightarrow> fetch_price cx b asset) (\<lambda>p.
         bind_io (lift_io (lp_format position (be_name b) (protocol_name b) p)) (\<lambda>line.
         bind_io (say (Out line)) (\<lambda>_. report_positions cx b asset (Some p) rest)))) w')"
    by (rule ext) (auto split: prod.split sum.split option.split)
  show ?case unfolding e
    by (rule keeps_on_net_cases) (use assms Cons.IH in \<open>auto simp: fetch_price_def intro!: keeps_intros\<close>)
qed

lemma keeps_liquidity_report [keeps_intros]:
  "reads_only sent cx \<Longrightarrow> keeps (view sent) (report_liquidity cx bs asset addresses)"
  by (induction bs) (auto intro!: keeps_intros)

definition view_reads :: "('n \<Rightarrow> 's) \<Rightarrow> 'n wallet_view \<Rightarrow> bool" where
  "view_reads sent v \<longleftrightarrow>
     (\<forall>m. keeps sent (wv_balance v m)) \<and> (\<forall>ask m. wv_tokens v = Some ask \<longrightarrow> keeps sent (ask m))"

lemma keeps_tokens [keeps_intros]: "view_reads sent v \<Longrightarrow> keeps (view sent) (report_token_balances v m)"
  by (auto simp: report_token_balances_def view_reads_def intro!: keeps_intros split: option.split)

lemma keeps_chain: "reads_only sent cx \<Longrightarrow> view_reads sent v \<Longrightarrow> keeps (view sent) (report_chain cx bs m v)"
proof -
  assume r: "reads_only sent cx" "view_reads sent v"
  have e: "report_chain cx bs m v = (\<lambda>w. case on_net (wv_balance v m) w of
        (Inl e, w') \<Rightarrow>
          (if is_report_error e then say (ErrExc (wv_chain v @ '': balance unavailable ('') e '')'') else raise_io e) w'
      | (Inr report, w') \<Rightarrow>
          bind_io (lift_io (balance_line report)) (\<lambda>line.
          bind_io (say (Out line)) (\<lambda>_.
          bind_io (report_liquidity cx bs (wv_asset v) (br_addresses report)) (\<lambda>_.
            report_token_balances v m))) w')"
    by (rule ext) (auto simp: report_chain_def split: prod.split sum.split)
  have "keeps sent (wv_balance v m)" using r(2) by (simp add: view_reads_def)
  then show ?thesis unfolding e
    by (rule keeps_on_net_cases) (use r in \<open>auto intro!: keeps_intros\<close>)
qed

lemma keeps_chains: "reads_only sent cx \<Longrightarrow> \<forall>v \<in> set vs. view_reads sent v \<Longrightarrow> keeps (view sent) (report_chains cx bs m vs)"
  by (induction vs) (auto intro!: keeps_intros keeps_chain)

lemma btc_balance_reads: "reads_get sent (cx_get cx) \<Longrightarrow> keeps sent (btc_balance_net cx ad m)"
  unfolding keeps_def btc_balance_net_def btc_wallet_balance_def
  by (auto split: option.split prod.split sum.split dest!: keeps_scan_account [rotated] intro!: keeps_intros)

lemma keeps_balance: "reads_only sent cx \<Longrightarrow> keeps (view sent) (cmd_balance cx args)"
proof -
  assume r: "reads_only sent cx"
  have "keeps (view sent) (bind_io (wallet_adapters cx args pw) (\<lambda>views.
      bind_io (report_chains cx bs m views) (\<lambda>_. return_io 0)))" for pw bs m
    unfolding wallet_adapters_def bind_io_assoc using r
    by (auto simp: view_reads_def eth_view_def intro!: keeps_intros keeps_chain btc_balance_reads)
  note k = this
  show ?thesis unfolding cmd_balance_def Let_def
    by (rule k keeps_bind keeps_machine keeps_mnemonic keeps_prod keeps_closing)+
qed

section \<open>Handlers that end in the confirmation\<close>

definition consent :: "cli_args \<Rightarrow> string list \<Rightarrow> bool" where
  "consent args answers \<longleftrightarrow>
     a_confirm args \<and> (a_yes args \<or> (\<exists>a rest. answers = a # rest \<and> strip a = ''yes''))"

definition guarded :: "('n \<Rightarrow> 's) \<Rightarrow> cli_args \<Rightarrow> ('n, 'a) cli \<Rightarrow> bool" where
  "guarded sent args m \<longleftrightarrow>
     (\<forall>w. \<not> consent args (m_answers w) \<longrightarrow> sent (m_net (snd (m w))) = sent (m_net w))"

named_theorems guarded_intros "a handler submits nothing without consent"

lemma guarded_keeps: "keeps (view sent) m \<Longrightarrow> guarded sent args m"
  by (auto simp: guarded_def keeps_def view_def)

lemma guarded_bind [guarded_intros]:
  assumes "keeps (view sent) m" "\<And>x. guarded sent args (k x)"
  shows "guarded sent args (bind_io m k)"
proof -
  have "sent (m_net (snd (bind_io m k w))) = sent (m_net w)" if "\<not> consent args (m_answers w)" for w
  proof -
    obtain r w1 where m: "m w = (r, w1)" by fastforce
    then have v: "sent (m_net w1) = sent (m_net w)" "m_answers w1 = m_answers w"
      using keepsD [OF assms(1) m] by (simp_all add: view_def)
    show ?thesis
    proof (cases r)
      case (Inl e)
      with m v show ?thesis by (simp add: bind_io_def)
    next
      case (Inr x)
      with m v that assms(2) [of x] show ?thesis by (simp add: bind_io_def guarded_def)
    qed
  qed
  then show ?thesis by (simp add: guarded_def)
qed

lemma guarded_or_abort [guarded_intros]:
  assumes "keeps (view sent) m" "\<And>x. guarded sent args (k x)"
  shows "guarded sent args (or_abort c m k)"
proof -
  have "or_abort c m k = (\<lambda>w. bind_io
      (try_io (bind_io m (\<lambda>x. return_io (Some x)))
        (\<lambda>e. if c e then bind_io (say (ErrExc ''ABORTED: '' e [])) (\<lambda>_. return_io None) else raise_io e))
      (\<lambda>y. case y of None \<Rightarrow> return_io 1 | Some x \<Rightarrow> k x) w)"
    by (rule ext) (auto simp: or_abort_def bind_io_def try_io_def leave_def say_def split: prod.split sum.split)
  moreover have "guarded sent args (case y of None \<Rightarrow> return_io 1 | Some x \<Rightarrow> k x)" for y
    using assms(2) by (cases y) (auto intro!: guarded_keeps keeps_intros)
  ultimately show ?thesis
    using assms(1) by (auto intro!: guarded_bind keeps_intros)
qed

lemma guarded_closing [guarded_intros]: "guarded sent args m \<Longrightarrow> guarded sent args (closing name m)"
  by (auto simp: guarded_def closing_def finally_io_def split: prod.split)

lemma guarded_leave [guarded_intros]: "guarded sent args (leave e rc)"
  by (intro guarded_keeps keeps_intros)

lemma guarded_if [guarded_intros]:
  "(b \<Longrightarrow> guarded sent args m) \<Longrightarrow> (\<not> b \<Longrightarrow> guarded sent args n) \<Longrightarrow> guarded sent args (if b then m else n)"
  by simp

lemma guarded_let [guarded_intros]: "(\<And>x. x = v \<Longrightarrow> guarded sent args (g x)) \<Longrightarrow> guarded sent args (let x = v in g x)"
  by (simp add: Let_def)

lemma guarded_prod [guarded_intros]: "(\<And>a b. guarded sent args (g a b)) \<Longrightarrow> guarded sent args (case p of (a, b) \<Rightarrow> g a b)"
  by (cases p) simp

lemma guarded_need_dest [guarded_intros]: "(\<And>d. guarded sent args (k d)) \<Longrightarrow> guarded sent args (need_dest dest k)"
  by (cases dest) (auto simp: need_dest_def intro!: guarded_intros)

lemma guarded_recipient [guarded_intros]: "guarded sent args k \<Longrightarrow> guarded sent args (checked_recipient chain args' k)"
  by (auto simp: checked_recipient_def intro!: guarded_intros split: option.split)

text \<open>The confirmation itself: whatever it submits was asked for, verified and in time.\<close>

definition in_time :: "int option \<Rightarrow> 'n machine \<Rightarrow> bool" where
  "in_time expiry w \<longleftrightarrow> (case expiry of None \<Rightarrow> True | Some e \<Rightarrow> m_clock w (m_ticks w) < of_int e)"

lemma confirm_touches_net:
  assumes "m_net (snd (confirm_and_execute args expiry_of ad p w)) \<noteq> m_net w"
  shows "pr_problems p = [] \<and> consent args (m_answers w) \<and> in_time (expiry_of (pr_plan p)) w"
proof -
  have say_net: "m_net (snd (say_all es w)) = m_net w" for es and w :: "'a machine"
    by (induction es arbitrary: w) (simp_all add: bind_io_def say_def)
  have say_done: "m_net (snd (bind_io (say_all es) (\<lambda>_. return_io rc) w)) = m_net w" for es rc
    using say_net [of es w] by (cases "say_all es w") (auto simp: bind_io_def split: sum.split)
  have g: "pr_problems p = []"
    using assms by (cases "pr_problems p = []") (simp_all add: confirm_and_execute_def say_done del: say_all.simps)
  moreover have c: "a_confirm args"
    using assms g by (auto simp: confirm_and_execute_def leave_def bind_io_def say_def split: if_splits)
  moreover have y: "a_yes args \<or> (\<exists>a rest. m_answers w = a # rest \<and> strip a = ''yes'')"
    using assms g c
    by (cases "m_answers w")
      (auto simp: confirm_and_execute_def confirmed_def input_line_def Let_def leave_def bind_io_def say_def split: if_splits)
  moreover have "in_time (expiry_of (pr_plan p)) w"
  proof (rule ccontr)
    assume late: "\<not> in_time (expiry_of (pr_plan p)) w"
    then obtain e where e: "expiry_of (pr_plan p) = Some e" "of_int e \<le> m_clock w (m_ticks w)"
      by (auto simp: in_time_def split: option.splits)
    have "m_net (snd (confirm_and_execute args expiry_of ad p w)) = m_net w"
      using g c y e
      by (cases "m_answers w")
        (auto simp: confirm_and_execute_def confirmed_def input_line_def quote_expired_def read_clock_def
          Let_def leave_def bind_io_def say_def)
    with assms show False by simp
  qed
  ultimately show ?thesis by (simp add: consent_def)
qed

lemma confirm_runs:
  assumes "pr_problems p = []" "consent args (m_answers w)" "in_time (expiry_of (pr_plan p)) w"
  shows "\<exists>w2. confirm_and_execute args expiry_of ad p w
      = broadcast_now (\<lambda>e. leave (ErrExc ''BROADCAST FAILED: '' e []) 1) p ad w2 \<and> m_net w2 = m_net w"
proof -
  have "\<exists>w1. confirmed args w = (Inr True, w1) \<and> m_net w1 = m_net w
      \<and> m_clock w1 = m_clock w \<and> m_ticks w1 = m_ticks w"
    using assms(2) by (auto simp: consent_def confirmed_def input_line_def Let_def bind_io_def)
  then obtain w1 where c: "confirmed args w = (Inr True, w1)" "m_net w1 = m_net w"
    and clock: "m_clock w1 = m_clock w" "m_ticks w1 = m_ticks w" by blast
  have "\<exists>w2. quote_expired (expiry_of (pr_plan p)) w1 = (Inr False, w2) \<and> m_net w2 = m_net w"
    using assms(3) c(2) clock
    by (auto simp: quote_expired_def in_time_def read_clock_def bind_io_def split: option.splits)
  then obtain w2 where q: "quote_expired (expiry_of (pr_plan p)) w1 = (Inr False, w2)" "m_net w2 = m_net w" by blast
  have "a_confirm args" using assms(2) by (simp add: consent_def)
  then have "confirm_and_execute args expiry_of ad p w
      = broadcast_now (\<lambda>e. leave (ErrExc ''BROADCAST FAILED: '' e []) 1) p ad w2"
    using assms(1) c(1) q(1) by (simp add: confirm_and_execute_def bind_io_def)
  with q(2) show ?thesis by blast
qed

lemma guarded_confirm [guarded_intros]: "guarded sent args (confirm_and_execute args expiry_of ad p)"
  unfolding guarded_def using confirm_touches_net by metis

section \<open>Every command\<close>

lemma keeps_utxos [keeps_intros]:
  assumes "reads_only sent cx"
  shows "keeps sent (wallet_utxos cx ad mnemonic)"
proof -
  have "keeps sent (scan_net cx ad mnemonic)"
    unfolding keeps_def scan_net_def
    using keeps_scan_account [where sent = sent and probe = "fetch_address_info (cx_get cx) ad"] assms
    by (auto split: option.split intro!: keeps_intros) (metis keeps_esplora(1) keeps_scan_account prod.collapse reads_onlyD(1))
  then show ?thesis
    using assms by (auto simp: wallet_utxos_def record_utxos_def intro!: keeps_intros)
qed

lemma guarded_funds [guarded_intros]:
  "reads_only sent cx \<Longrightarrow> (\<And>us change rate. guarded sent args (k us change rate)) \<Longrightarrow>
   guarded sent args (btc_funds cx ad mnemonic none_found k)"
  by (auto simp: btc_funds_def intro!: guarded_intros keeps_intros)

lemma keeps_prepare_with [keeps_intros]:
  "reads_only sent cx \<Longrightarrow> adapter_reads sent ad \<Longrightarrow> keeps (view sent) (prepare_with cx args b ad rq)"
  "reads_only sent cx \<Longrightarrow> adapter_reads sent ad \<Longrightarrow> keeps (view sent) (prepare_lp_with cx b ad memo amount)"
  by (auto simp: prepare_with_def prepare_lp_with_def intro!: keeps_intros)

lemma keeps_start [keeps_intros]: "reads_only sent cx \<Longrightarrow> keeps (view sent) (eth_start cx args ad mnemonic)"
  by (auto simp: eth_start_def intro!: keeps_intros)

lemma keeps_amounts [keeps_intros]:
  "reads_only sent cx \<Longrightarrow> keeps sent (eth_amount cx args ad asset address gas max_fee)"
  "reads_only sent cx \<Longrightarrow> keeps sent (tron_amount cx args tad asset mnemonic)"
  "keeps sent m \<Longrightarrow> keeps sent (swept_or sweep m amount)"
  by (auto simp: eth_amount_def eth_token_sweep_def tron_amount_def tron_token_sweep_def swept_or_def
      intro!: keeps_intros)

lemma keeps_swap_reports [keeps_intros]:
  "reads_only sent cx \<Longrightarrow> keeps (view sent) (report_btc_swap cx args b amount rate dest p)"
  "reads_only sent cx \<Longrightarrow> keeps (view sent) (report_eth_swap cx args b amount dest p')"
  "reads_only sent cx \<Longrightarrow> keeps (view sent) (report_tron_swap cx args from_asset b amount dest p'')"
  by (auto simp: report_btc_swap_def report_eth_swap_def report_tron_swap_def intro!: keeps_intros
      simp del: say_all.simps)

lemma source_reads [keeps_intros]:
  "adapter_reads sent (btc_source lib post ad kw)"
  "reads_only sent cx \<Longrightarrow> adapter_reads sent (eth_source elib (cx_post_json cx) ead f)"
  "reads_only sent cx \<Longrightarrow> adapter_reads sent (tron_source (cx_tron cx) tad mnemonic)"
  by (auto intro!: btc_source_reads eth_source_reads tron_source_reads)

lemma guarded_swaps [guarded_intros]:
  "reads_only sent cx \<Longrightarrow> guarded sent args (swap_from_btc cx args)"
  "reads_only sent cx \<Longrightarrow> guarded sent args (swap_from_eth cx args)"
  "reads_only sent cx \<Longrightarrow> guarded sent args (swap_from_tron cx args)"
  by (auto simp: swap_from_btc_def swap_from_eth_def swap_from_tron_def Let_def
      intro!: guarded_intros keeps_intros)

lemma guarded_sends [guarded_intros]:
  "reads_only sent cx \<Longrightarrow> guarded sent args (send_btc cx args)"
  "reads_only sent cx \<Longrightarrow> guarded sent args (send_eth cx args)"
  "reads_only sent cx \<Longrightarrow> guarded sent args (send_tron cx args)"
  by (auto simp: send_btc_def send_eth_def send_tron_def Let_def intro!: guarded_intros keeps_intros)

lemma guarded_liquidity [guarded_intros]:
  "reads_only sent cx \<Longrightarrow> guarded sent args (liquidity_btc cx args memo amount sweep)"
  "reads_only sent cx \<Longrightarrow> guarded sent args (liquidity_eth cx args memo amount sweep)"
  "reads_only sent cx \<Longrightarrow> guarded sent args (liquidity_tron cx args memo amount sweep)"
  "reads_only sent cx \<Longrightarrow> guarded sent args (liquidity cx args memo amount sweep)"
  by (auto simp: liquidity_btc_def liquidity_eth_def liquidity_tron_def liquidity_def Let_def
      intro!: guarded_intros keeps_intros)

lemma guarded_commands:
  "reads_only sent cx \<Longrightarrow> guarded sent args (cmd_swap cx args)"
  "reads_only sent cx \<Longrightarrow> guarded sent args (cmd_send cx args)"
  "reads_only sent cx \<Longrightarrow> guarded sent args (cmd_add_liquidity cx args)"
  "reads_only sent cx \<Longrightarrow> guarded sent args (cmd_withdraw_liquidity cx args)"
  by (auto simp: cmd_swap_def cmd_send_def cmd_add_liquidity_def cmd_withdraw_liquidity_def
      intro!: guarded_intros keeps_intros)

lemma every_command_guarded: "reads_only sent cx \<Longrightarrow> guarded sent args (handler_of c cx args)"
  by (cases c)
    (auto intro!: guarded_commands guarded_keeps [OF keeps_keys(1)] guarded_keeps [OF keeps_keys(2)]
      guarded_keeps [OF keeps_keys(3)] guarded_keeps [OF keeps_keys(4)] guarded_keeps [OF keeps_keys(5)]
      guarded_keeps [OF keeps_keys(6)] guarded_keeps [OF keeps_balance] guarded_keeps [OF keeps_quote]
      guarded_keeps [OF keeps_status])

section \<open>Properties\<close>

text \<open>C2. Whatever command is run, with whatever arguments and however it ends, nothing is handed to
  the network unless the command line said \<open>--confirm\<close> and, without \<open>--yes\<close>, the answer typed at the
  prompt was \<open>yes\<close>. (The network is any state that GET requests, calls other than
  \<open>eth_sendRawTransaction\<close> and the building of a TRON transaction leave alone.)\<close>

theorem nothing_sent_without_consent:
  assumes "reads_only sent cx" "\<not> consent args (m_answers w)"
  shows "sent (m_net (snd (main_command cx (Some (c, args)) w))) = sent (m_net w)"
  using every_command_guarded [OF assms(1)] assms(2) by (simp add: main_command_def guarded_def)

lemma example_reads_only: "reads_only id example_libs"
  by (auto simp: reads_only_def reads_get_def reads_post_def builds_only_def example_libs_def
      example_tronlib_def intro!: keeps_intros)

theorem nothing_sent_without_consent_witness:
  "m_net (snd (main_command example_libs (Some (Swap, example_args)) (example_machine example_os))) = []
    \<and> \<not> consent (example_args\<lparr>a_confirm := True\<rparr>) [''no'']"
proof -
  have "\<not> consent example_args (m_answers (example_machine example_os))"
    by (simp add: consent_def example_args_def)
  from nothing_sent_without_consent [OF example_reads_only this, of Swap] show ?thesis
    by (simp add: example_machine_def consent_def example_args_def strip_def is_space_def)
qed

text \<open>C12. The confirmation step hands a transaction to the network only when the verify gate found no
  problem, the user consented, and a quote with an expiry had not expired after the answer was
  given.\<close>

theorem broadcast_needs_verified_consent:
  assumes "m_net (snd (confirm_and_execute args expiry_of ad p w)) \<noteq> m_net w"
  shows "pr_problems p = [] \<and> consent args (m_answers w) \<and> in_time (expiry_of (pr_plan p)) w"
  using assms by (rule confirm_touches_net)

definition noting_adapter :: "(nat list, nat, unit, nat) source_adapter" where
  "noting_adapter = example_adapter\<lparr>ad_sign := \<lambda>b. return_io [b], ad_broadcast := \<lambda>raws w. (Inr ''tx'', raws @ w)\<rparr>"

theorem broadcast_needs_verified_consent_witness:
  "let args = example_args\<lparr>a_confirm := True, a_yes := True\<rparr>; w = example_machine example_os;
       p = example_prepared []
   in m_net (snd (confirm_and_execute args (\<lambda>_. Some 1800000000) noting_adapter p w)) \<noteq> m_net w
      \<and> in_time (Some 1800000000) w"
proof -
  let ?args = "example_args\<lparr>a_confirm := True, a_yes := True\<rparr>" and ?w = "example_machine example_os"
    and ?p = "example_prepared []"
  have "m_net (snd (confirm_and_execute ?args (\<lambda>_. Some 1800000000) noting_adapter ?p ?w)) \<noteq> m_net ?w"
    by (simp add: confirm_and_execute_def example_prepared_def confirmed_def quote_expired_def read_clock_def
        broadcast_now_def on_net_def execute_swap_def prepared_safe_def noting_adapter_def example_machine_def
        bind_io_def say_def)
  from broadcast_needs_verified_consent [OF this] this show ?thesis by (simp add: Let_def)
qed

text \<open>C13. And it does happen: a verified transaction to which the user consents in time is signed and
  broadcast, exactly once, the transaction id is shown and the command succeeds.\<close>

theorem consented_broadcast_happens:
  assumes "pr_problems p = []" "consent args (m_answers w)" "in_time (expiry_of (pr_plan p)) w"
    "ad_sign ad (pr_built p) (m_net w) = (Inr raws, n1)" "ad_broadcast ad raws n1 = (Inr txid, n2)"
  shows "\<exists>w'. confirm_and_execute args expiry_of ad p w = (Inr 0, w') \<and> m_net w' = n2
    \<and> Out ([CHR 0x0A] @ ''BROADCAST txid: '' @ txid) \<in> set (m_trace w')"
proof -
  have run: "execute_swap p ad True (m_net w)
      = (Inr \<lparr>sr_prepared = p, sr_txid = Some txid, sr_broadcast = True\<rparr>, n2)"
    using assms(1,4,5) by (simp add: execute_swap_def prepared_safe_def bind_io_def)
  from confirm_runs [where expiry_of = expiry_of and ad = ad, OF assms(1-3)] obtain w2 where
    w2: "confirm_and_execute args expiry_of ad p w
      = broadcast_now (\<lambda>e. leave (ErrExc ''BROADCAST FAILED: '' e []) 1) p ad w2" "m_net w2 = m_net w" by blast
  have "broadcast_now (\<lambda>e. leave (ErrExc ''BROADCAST FAILED: '' e []) 1) p ad w2 = bind_io (say_all
      [Out ([CHR 0x0A] @ ''BROADCAST txid: '' @ txid), Out (''track: cryptoswap-wallet status '' @ txid)])
      (\<lambda>_. return_io 0) (w2\<lparr>m_net := n2\<rparr>)"
    using run w2(2) by (simp add: broadcast_now_def on_net_def txid_text_def)
  with w2(1) show ?thesis by (simp add: bind_io_def say_def)
qed

theorem consented_broadcast_happens_witness:
  "\<exists>w'. confirm_and_execute (example_args\<lparr>a_confirm := True\<rparr>) (\<lambda>_. None) noting_adapter (example_prepared [])
     ((example_machine example_os)\<lparr>m_answers := ['' yes '']\<rparr>) = (Inr 0, w')
   \<and> m_net w' = [pr_built (example_prepared [])]"
proof -
  let ?args = "example_args\<lparr>a_confirm := True\<rparr>" and ?w = "(example_machine example_os)\<lparr>m_answers := ['' yes '']\<rparr>"
  have s: "strip '' yes '' = ''yes''" by code_simp
  have c: "consent ?args (m_answers ?w)" using s by (simp add: consent_def)
  have p: "pr_problems (example_prepared []) = []" by (simp add: example_prepared_def)
  have t: "in_time ((\<lambda>_. None) (pr_plan (example_prepared []))) ?w" by (simp add: in_time_def)
  have g: "ad_sign noting_adapter (pr_built (example_prepared [])) (m_net ?w)
      = (Inr [pr_built (example_prepared [])], [])"
    by (simp add: noting_adapter_def example_machine_def)
  have b: "ad_broadcast noting_adapter [pr_built (example_prepared [])] []
      = (Inr ''tx'', [pr_built (example_prepared [])])"
    by (simp add: noting_adapter_def)
  from consented_broadcast_happens [OF p c t g b] show ?thesis by blast
qed

end
