(* ===== verification/Handover.thy ===== *)
theory Handover
  imports CliSafety
begin

text \<open>
  A calculus for runs that submit something. Such a run is followed back through a handler to the
  steps that led to it, by one rule for each way in which the handlers combine steps. What the
  rules keep track of is the place of a step in the run: nothing has been submitted before it, the
  environment is the one of the start, and the lines that were printed since the start are still
  there at the end. So what is found at the end of the trail is the one step that submits, in the
  very state in which it runs.
\<close>

section \<open>What is printed stays printed\<close>

named_theorems grows_intros "a step only adds to what was printed"

text \<open>\<open>later s w\<close>: the machine \<open>w\<close> may come after \<open>s\<close> in a run.\<close>

definition later :: "'n machine \<Rightarrow> 'n machine \<Rightarrow> bool" where
  "later s w \<longleftrightarrow> prefix (m_trace s) (m_trace w) \<and> m_env w = m_env s"

lemma later_refl [simp]: "later s s"
  by (simp add: later_def)

lemma later_trans [trans]: "later s w \<Longrightarrow> later w v \<Longrightarrow> later s v"
  by (auto simp: later_def intro: prefix_order.trans)

text \<open>What was printed between the two.\<close>

definition new_lines :: "'n machine \<Rightarrow> 'n machine \<Rightarrow> event set" where
  "new_lines s w = set (drop (length (m_trace s)) (m_trace w))"

lemma new_lines_before: "later s w \<Longrightarrow> later w v \<Longrightarrow> new_lines s w \<subseteq> new_lines s v"
  by (auto simp: later_def prefix_def new_lines_def)

lemma new_lines_after: "later s w \<Longrightarrow> later w v \<Longrightarrow> new_lines w v \<subseteq> new_lines s v"
  by (auto simp: later_def prefix_def new_lines_def)

lemma new_lines_said: "m_trace v = m_trace w @ es \<Longrightarrow> new_lines w v = set es"
  by (simp add: new_lines_def)

definition grows :: "('n, 'a) cli \<Rightarrow> bool" where
  "grows m \<longleftrightarrow> (\<forall>w. later w (snd (m w)))"

lemma growsD: "grows m \<Longrightarrow> m w = (r, w') \<Longrightarrow> later w w'"
  unfolding grows_def by (metis snd_conv)

lemma grows_pure [grows_intros]:
  "grows (return_io x)" "grows (raise_io e)" "grows (lift_io r)" "grows (Pair y)"
  by (simp_all add: grows_def)

lemma grows_machine [grows_intros]:
  "grows (say e)" "grows (on_net m)" "grows (on_os m')" "grows get_environ" "grows (getpass prompt)"
  "grows (input_line prompt)" "grows read_clock"
  by (auto simp: grows_def later_def say_def on_net_def on_os_def get_environ_def getpass_def input_line_def
      read_clock_def Let_def split: prod.split list.split)

lemma grows_bind [grows_intros]:
  assumes "grows m" "\<And>x. grows (k x)"
  shows "grows (bind_io m k)"
  unfolding grows_def
proof
  fix w
  obtain r w1 where m: "m w = (r, w1)" by fastforce
  note p = growsD [OF assms(1) m]
  show "later w (snd (bind_io m k w))"
    using m p assms(2) unfolding grows_def
    by (cases r) (auto simp: bind_io_def intro: later_trans)
qed

lemma grows_try [grows_intros]:
  assumes "grows m" "\<And>e. grows (h e)"
  shows "grows (try_io m h)"
  unfolding grows_def
proof
  fix w
  obtain r w1 where m: "m w = (r, w1)" by fastforce
  note p = growsD [OF assms(1) m]
  show "later w (snd (try_io m h w))"
    using m p assms(2) unfolding grows_def
    by (cases r) (auto simp: try_io_def intro: later_trans)
qed

lemma later_printed: "later s w \<Longrightarrow> later s (w\<lparr>m_trace := m_trace w @ es\<rparr>)"
  by (auto simp: later_def prefix_def)

lemma grows_closing [grows_intros]: "grows m \<Longrightarrow> grows (closing name m)"
  unfolding grows_def closing_def finally_io_def
  by (auto split: prod.split) (metis later_printed snd_conv)

lemma grows_cases [grows_intros]:
  "(b \<Longrightarrow> grows m) \<Longrightarrow> (\<not> b \<Longrightarrow> grows n) \<Longrightarrow> grows (if b then m else n)"
  "(\<And>a c. grows (g a c)) \<Longrightarrow> grows (case p of (a, c) \<Rightarrow> g a c)"
  "grows m \<Longrightarrow> (\<And>x. grows (f x)) \<Longrightarrow> grows (case y of None \<Rightarrow> m | Some x \<Rightarrow> f x)"
  by (auto split: prod.split option.split)

lemma grows_say_all [grows_intros]: "grows (say_all es)"
  by (induction es) (auto intro!: grows_intros)

lemma grows_leave [grows_intros]: "grows (leave e rc)"
  by (auto simp: leave_def intro!: grows_intros)

lemma grows_warn [grows_intros]: "grows (warn h bs)" "grows (warn_if c h bs)"
  by (auto simp: warn_def warn_if_def intro!: grows_intros simp del: say_all.simps)

lemma grows_config [grows_intros]:
  "grows (load_mnemonic cx args)" "grows (cli_btc args pw)" "grows (cli_eth args pw)" "grows (cli_tron args pw)"
  "grows (liquidity_client args)" "grows (backends_for args)" "grows clock_int"
  by (auto simp: load_mnemonic_def open_keystore_def keystore_path_def passphrase_prompt_def cli_btc_def cli_eth_def
      cli_tron_def liquidity_client_def backends_for_def clock_int_def intro!: grows_intros)

lemma grows_prepare [grows_intros]:
  "grows (prepare_with cx args b ad rq)" "grows (prepare_lp_with cx b ad memo amount)" "grows (eth_start cx args ead m)"
  by (auto simp: prepare_with_def prepare_lp_with_def eth_start_def intro!: grows_intros)

lemma grows_select [grows_intros]: "grows (select_for cx args rq)"
  by (auto simp: select_for_def select_backend_def close_backends_def routing_note_def intro!: grows_intros)

lemma grows_costs [grows_intros]: "grows (print_swap_costs cx q from_key to_key n c)"
  unfolding print_swap_costs_def market_comparison_def market_lookup_def
  by (auto intro!: grows_intros split: option.split)

lemma grows_broadcast [grows_intros]: "(\<And>e. grows (failed e)) \<Longrightarrow> grows (broadcast_now failed p ad)"
proof -
  assume failed: "\<And>e. grows (failed e)"
  have "broadcast_now failed p ad = bind_io
      (try_io (bind_io (on_net (execute_swap p ad True)) (\<lambda>r. return_io (Inr r)))
        (\<lambda>e. if is_broadcast_error e then return_io (Inl e) else raise_io e))
      (\<lambda>x. case x of Inl e \<Rightarrow> failed e
        | Inr result \<Rightarrow> bind_io (say_all
            [Out ([CHR 0x0A] @ ''BROADCAST txid: '' @ txid_text (sr_txid result)),
             Out (''track: cryptoswap-wallet status '' @ txid_text (sr_txid result))]) (\<lambda>_. return_io 0))"
    by (rule ext) (auto simp: broadcast_now_def bind_io_def try_io_def split: prod.split sum.split)
  then show ?thesis
    using failed by (auto intro!: grows_intros split: sum.split simp del: say_all.simps)
qed

lemma grows_confirm [grows_intros]: "grows (confirm_and_execute args expiry_of ad p)"
  by (auto simp: confirm_and_execute_def confirmed_def quote_expired_def intro!: grows_intros
      split: option.splits simp del: say_all.simps)

lemma grows_reports [grows_intros]:
  "grows (report_btc_swap cx args b amount rate dest p)" "grows (report_eth_swap cx args b amount dest p')"
  "grows (report_tron_swap cx args asset b amount dest p'')"
  by (auto simp: report_btc_swap_def report_eth_swap_def report_tron_swap_def intro!: grows_intros
      simp del: say_all.simps)

lemma bind_io_InrE:
  assumes "bind_io m f w = (Inr y, w'')"
  obtains x w' where "m w = (Inr x, w')" "f x w' = (Inr y, w'')"
  using assms by (auto simp: bind_io_eq_Inr)

lemma say_all_said: "\<exists>w1. say_all es w = (Inr (), w1) \<and> m_trace w1 = m_trace w @ es \<and> m_net w1 = m_net w \<and> m_env w1 = m_env w"
proof (induction es arbitrary: w)
  case (Cons e es)
  from Cons.IH [of "w\<lparr>m_trace := m_trace w @ [e]\<rparr>"] show ?case by (auto simp: bind_io_def say_def)
qed simp

lemma said_before:
  assumes "bind_io (say_all es) (\<lambda>_. m) w = (r, w')" "grows m"
  shows "set es \<subseteq> new_lines w w'"
proof -
  from say_all_said [of es w] obtain w1 where
    w1: "say_all es w = (Inr (), w1)" "m_trace w1 = m_trace w @ es" "m_env w1 = m_env w" by blast
  then have "later w w1" by (simp add: later_def)
  moreover have "later w1 w'" using assms w1(1) growsD [OF assms(2), of w1] by (auto simp: bind_io_def)
  ultimately show ?thesis using new_lines_before new_lines_said [OF w1(2)] by blast
qed

section \<open>Runs that submit something\<close>

text \<open>\<open>quiet sent s w\<close>: the machine \<open>w\<close> comes after \<open>s\<close> and nothing has been submitted in between.\<close>

definition quiet :: "('n \<Rightarrow> 's) \<Rightarrow> 'n machine \<Rightarrow> 'n machine \<Rightarrow> bool" where
  "quiet sent s w \<longleftrightarrow> sent (m_net w) = sent (m_net s) \<and> later s w"

lemma quiet_refl [simp]: "quiet sent s s"
  by (simp add: quiet_def)

lemma quiet_step:
  assumes "quiet sent s w" "keeps (view sent) m" "grows m" "m w = (r, w')"
  shows "quiet sent s w'" "later w w'"
  using assms keepsD [OF assms(2,4)] growsD [OF assms(3,4)] by (auto simp: quiet_def view_def intro: later_trans)

text \<open>\<open>hands sent s e m w\<close>: in a run from \<open>s\<close> that ends in \<open>e\<close>, the step \<open>m\<close> is taken in \<open>w\<close>, after
  nothing was submitted, it submits something, and nothing touches the network after it.\<close>

definition hands :: "('n \<Rightarrow> 's) \<Rightarrow> 'n machine \<Rightarrow> 'n machine \<Rightarrow> ('n, 'a) cli \<Rightarrow> 'n machine \<Rightarrow> bool" where
  "hands sent s e m w \<longleftrightarrow>
     quiet sent s w \<and> sent (m_net (snd (m w))) \<noteq> sent (m_net w)
     \<and> m_net e = m_net (snd (m w)) \<and> prefix (m_trace (snd (m w))) (m_trace e)"

lemma hands_start: "m w = (r, w') \<Longrightarrow> sent (m_net w') \<noteq> sent (m_net w) \<Longrightarrow> hands sent w w' m w"
  by (simp add: hands_def)

lemma hands_quiet: "hands sent s e m w \<Longrightarrow> quiet sent s w"
  by (simp add: hands_def)

lemma hands_not_keeps: "keeps (view sent) m \<Longrightarrow> \<not> hands sent s e m w"
  by (auto simp: hands_def keeps_def view_def)

lemma hands_leave [simp]: "\<not> hands sent s e (leave ev rc) w"
  by (intro hands_not_keeps keeps_intros)

text \<open>Each rule returns the result of the step, the place of the step and the rest of the run.\<close>

lemma hands_bind:
  assumes "hands sent s e (bind_io m k) w" "keeps (view sent) m" "grows m"
  obtains x w1 where "m w = (Inr x, w1)" "quiet sent s w" "later w w1" "hands sent s e (k x) w1"
proof -
  obtain r w1 where m: "m w = (r, w1)" by fastforce
  have q: "quiet sent s w" using assms(1) by (rule hands_quiet)
  note st = quiet_step [OF q assms(2,3) m]
  with m q assms(1) that show ?thesis
    by (cases r) (auto simp: hands_def bind_io_def quiet_def)
qed

lemma hands_bind_unit:
  assumes "hands sent s e (bind_io m k) w" "keeps (view sent) m" "grows m"
  obtains w1 where "m w = (Inr (), w1)" "quiet sent s w" "later w w1" "hands sent s e (k ()) w1"
  using hands_bind [OF assms] by (metis (full_types) old.unit.exhaust)

lemma hands_lift:
  assumes "hands sent s e (bind_io (lift_io r) k) w"
  obtains x where "r = Inr x" "hands sent s e (k x) w"
  using assms by (cases r) (auto simp: hands_def bind_io_def)

lemma hands_or_abort:
  assumes "hands sent s e (or_abort c m k) w" "keeps (view sent) m" "grows m"
  obtains x w1 where "m w = (Inr x, w1)" "quiet sent s w" "later w w1" "hands sent s e (k x) w1"
proof -
  obtain r w1 where m: "m w = (r, w1)" by fastforce
  have q: "quiet sent s w" using assms(1) by (rule hands_quiet)
  note st = quiet_step [OF q assms(2,3) m]
  with m q assms(1) that show ?thesis
    by (cases r) (auto simp: hands_def or_abort_def leave_def bind_io_def say_def quiet_def split: if_splits)
qed

lemma hands_closing: "hands sent s e (closing name m) w \<Longrightarrow> hands sent s e m w"
  by (auto simp: hands_def closing_def finally_io_def dest: append_prefixD split: prod.splits)

lemma hands_unless:
  "hands sent s e (if b then leave ev rc else m) w \<Longrightarrow> \<not> b \<and> hands sent s e m w"
  by (cases b) auto

lemma warn_if_run: "warn_if c h bs w = (x, w') \<Longrightarrow> w' = w\<lparr>m_trace := m_trace w'\<rparr>"
proof -
  have "snd (say_all es w) = w\<lparr>m_trace := m_trace (snd (say_all es w))\<rparr>" for es and w :: "'n machine"
  proof (induction es arbitrary: w)
    case (Cons e es)
    from Cons.IH [of "w\<lparr>m_trace := m_trace w @ [e]\<rparr>"] show ?case by (simp add: bind_io_def say_def)
  qed simp
  from this [of "Err h # map (\<lambda>b. Err (''  - '' @ b)) bs" w]
  show "warn_if c h bs w = (x, w') \<Longrightarrow> w' = w\<lparr>m_trace := m_trace w'\<rparr>"
    by (auto simp: warn_if_def warn_def split: if_splits)
qed

lemma hands_need_dest:
  assumes "hands sent s e (need_dest dest k) w"
  obtains d where "dest = Some d" "hands sent s e (k d) w"
  using assms by (cases dest) (auto simp: need_dest_def)

lemma hands_funds:
  assumes "hands sent s e (btc_funds cx ad mnemonic none_found k) w" "reads_only sent cx"
  obtains utxos change rate w1 where
    "btc_derive_address (cx_btc cx) ad mnemonic BTC_CHANGE_PATH = Inr change"
    "hands sent s e (k utxos change rate) w1"
  using assms unfolding btc_funds_def
  by (auto elim!: hands_bind [OF _ keeps_on_net grows_machine(2)] hands_lift split: if_splits
      intro: that intro!: keeps_intros)

text \<open>
  What the confirmation submits is what one \<open>execute_swap\<close> submits of the prepared transaction: it
  runs on the network as it is when the confirmation starts, with nothing submitted before, and
  the network is left as it leaves it.
\<close>

definition handed ::
    "('n \<Rightarrow> 's) \<Rightarrow> 'n machine \<Rightarrow> 'n machine \<Rightarrow> 'n machine \<Rightarrow> ('n, 'b, 'p, 'raw) source_adapter \<Rightarrow> ('b, 'p) prepared \<Rightarrow> bool" where
  "handed sent s c e ad p \<longleftrightarrow>
     quiet sent s c \<and> prefix (m_trace c) (m_trace e) \<and> prepared_safe p
     \<and> m_net e = snd (execute_swap p ad True (m_net c))"

lemma hands_confirm:
  assumes "hands sent s e (confirm_and_execute args expiry_of ad p) w"
  shows "handed sent s w e ad p"
proof -
  have c: "m_net (snd (confirm_and_execute args expiry_of ad p w)) \<noteq> m_net w"
    using assms by (auto simp: hands_def)
  note t = confirm_touches_net [OF c]
  have "prefix (m_trace w) (m_trace e)"
    using assms grows_confirm [of args expiry_of ad p] unfolding hands_def grows_def later_def
    by (blast intro: prefix_order.trans)
  moreover have "m_net e = snd (execute_swap p ad True (m_net w))"
  proof -
    from t have "pr_problems p = []" "consent args (m_answers w)" "in_time (expiry_of (pr_plan p)) w" by blast+
    from confirm_runs [where expiry_of = expiry_of and ad = ad, OF this] obtain w2 where
      "confirm_and_execute args expiry_of ad p w
        = broadcast_now (\<lambda>e. leave (ErrExc ''BROADCAST FAILED: '' e []) 1) p ad w2" "m_net w2 = m_net w" by blast
    with assms show ?thesis
      by (auto simp: hands_def broadcast_now_def on_net_def leave_def bind_io_def say_def split: prod.split sum.split)
  qed
  ultimately show ?thesis using t hands_quiet [OF assms] by (auto simp: handed_def prepared_safe_def)
qed

lemma handedD: "handed sent s c e ad p \<Longrightarrow> prepared_safe p"
  by (simp add: handed_def)

lemma hands_said:
  assumes "hands sent s e (bind_io (say_all es) (\<lambda>_. m)) w"
  obtains w1 where "set es \<union> new_lines s w \<subseteq> new_lines s w1" "hands sent s e m w1"
proof -
  from say_all_said [of es w] obtain w1 where
    w1: "say_all es w = (Inr (), w1)" "m_trace w1 = m_trace w @ es" "m_net w1 = m_net w" "m_env w1 = m_env w" by blast
  have q: "quiet sent s w" using assms by (rule hands_quiet)
  have l: "later w w1" using w1 by (simp add: later_def)
  with q w1 assms have h: "hands sent s e m w1"
    by (auto simp: hands_def bind_io_def quiet_def intro: later_trans)
  have "set es \<union> new_lines s w \<subseteq> new_lines s w1"
    using new_lines_before [OF _ l] new_lines_after [OF _ l] q new_lines_said [OF w1(2)] by (simp add: quiet_def)
  with h that show ?thesis by blast
qed

lemma say_all_one: "say e = say_all [e]"
  by (rule ext) (simp add: bind_io_def say_def return_io_def)

lemma hands_said_one:
  assumes "hands sent s e (bind_io (say ev) (\<lambda>_. m)) w"
  obtains w1 where "ev \<in> new_lines s w1" "new_lines s w \<subseteq> new_lines s w1" "hands sent s e m w1"
proof -
  from hands_said [OF assms [unfolded say_all_one]] obtain w1 where
    "set [ev] \<union> new_lines s w \<subseteq> new_lines s w1" "hands sent s e m w1" .
  then show ?thesis by (intro that [of w1]) auto
qed

lemma hands_checked:
  assumes "hands sent s e (checked_recipient chain args k) w"
  shows "validate_destination_address chain (a_address args) = None \<and> hands sent s e k w"
  using assms by (auto simp: checked_recipient_def split: option.splits)

lemma hands_prod:
  assumes "hands sent s e (case x of (a, b) \<Rightarrow> k a b) w"
  obtains a b where "x = (a, b)" "hands sent s e (k a b) w"
  using assms by (cases x) simp

section \<open>The network that was chosen\<close>

text \<open>One of the default networks for \<open>--backend auto\<close>, else the one that was named.\<close>

definition chosen_backend :: "environ \<Rightarrow> cli_args \<Rightarrow> backend \<Rightarrow> bool" where
  "chosen_backend env args b \<longleftrightarrow>
     (if a_backend args = ''auto'' then b \<in> set (default_backends env) else get_backend env (a_backend args) = Inr b)"

lemma first_max_in: "first_max key m xs \<Longrightarrow> m \<in> set xs"
  by (auto simp: first_max_def)

lemma best_quote_member: "best_quote results = Inr r \<Longrightarrow> r \<in> set results"
proof (cases results)
  case (Cons x xs)
  assume "best_quote results = Inr r"
  with Cons have "r = max_by (\<lambda>pair. q_expected_amount_out (snd pair)) x xs" by (simp add: best_quote_def)
  with first_max_in [OF max_by_first_max [of "\<lambda>pair. q_expected_amount_out (snd pair)" x xs]] Cons show ?thesis
    by (simp only:)
qed (simp add: best_quote_def)

lemma select_for_chosen:
  assumes "select_for cx args rq w = (Inr b, w')"
  shows "chosen_backend (m_env w) args b"
proof -
  from assms obtain bs w1 where bs: "backends_for args w = (Inr bs, w1)"
    and k: "length bs = 1 \<and> b = hd bs \<or> b \<in> set bs"
    unfolding select_for_def select_backend_def
    apply -
    apply (erule bind_io_InrE)
    apply (auto simp: bind_io_eq_Inr on_net_def gather_quotes_def dest!: best_quote_member gather_loop_eligible
        split: if_splits prod.splits)
    done
  from k have "b \<in> set bs" by (cases bs) auto
  with bs show ?thesis
    by (cases "get_backend (m_env w) (a_backend args)")
      (auto simp: backends_for_def get_environ_def chosen_backend_def bind_io_eq_Inr split: if_splits)
qed

end
