(* ===== verification/CliExample.thy ===== *)
theory CliExample
  imports CliSafety
begin

text \<open>
  A small world in which a swap, a send and a withdrawal from TRON really happen: a keystore that was saved under the
  passphrase of the environment, a node that lists one chain and quotes every request, and the
  example library of \<open>Tron\<close>, whose broadcast is recorded. It models no code of the wallet; the
  witnesses of the properties about whole commands run in it.
\<close>

definition live_dest :: string where
  "live_dest = ''bc1qw508d6qejxtdg4y5r3zarvary0c5xw7kv8f3t4''"

definition live_quote :: swap_quote where
  "live_quote = (let q = example_quote\<lparr>q_inbound_address := ''Tvault'', q_memo := Some (''=:BTC.BTC:'' @ live_dest),
     q_expiry := 1800000000\<rparr> in q\<lparr>q_raw := quote_json q\<rparr>)"

definition live_response :: "json \<Rightarrow> response" where
  "live_response j = \<lparr>resp_status = 200, resp_text = [], resp_json = Inr j, resp_raise = Inr ()\<rparr>"

definition live_get :: "nat list http_get" where
  "live_get url params headers = return_io (live_response
     (if params = [] then JArr [JObj [(''chain'', JStr ''TRON''), (''address'', JStr ''Tvault''), (''dust_threshold'', JInt 1000)]]
      else JObj (quote_json live_quote)))"

definition live_libs ::
    "(nat list, string, lib_output list \<times> bool list, string, string, tron_raw) cli_libs" where
  "live_libs = example_libs\<lparr>cx_get := live_get\<rparr>"

definition live_args :: cli_args where
  "live_args = example_args\<lparr>a_from := ''TRX'', a_to := ''BTC'', a_asset := ''TRX'',
     a_amount := Amount \<lparr>dec_neg = False, dec_coeff = 5, dec_exp = -4\<rparr>, a_dest := Some live_dest,
     a_bps := 5000, a_address := ''TR7NHqjeKQxGTCi8q8ZY4pL8otSzgjLj6t'', a_backend := ''thorchain'', a_price_check := False,
     a_confirm := True, a_yes := True\<rparr>"

lemma live_args_simps:
  "a_from live_args = ''TRX''" "a_to live_args = ''BTC''" "a_asset live_args = ''TRX''"
  "a_amount live_args = Amount \<lparr>dec_neg = False, dec_coeff = 5, dec_exp = -4\<rparr>"
  "a_dest live_args = Some live_dest" "a_backend live_args = ''thorchain''" "a_price_check live_args = False"
  "a_confirm live_args = True" "a_yes live_args = True" "a_key live_args = None"
  "a_address live_args = ''TR7NHqjeKQxGTCi8q8ZY4pL8otSzgjLj6t''"
  "a_stream_interval live_args = None" "a_stream_quantity live_args = None" "a_tolerance_bps live_args = 300"
  "a_tron_api live_args = None" "a_bps live_args = 5000" "a_keystore live_args = Some ''k''"
  by (simp_all add: live_args_def example_args_def)

lemma live_amount: "amount_units (a_amount live_args) = Inr 50000"
  by (simp add: live_args_simps base_units_def times_unit_def dec_fix_def dec_len_def str_nat_eval PREC_def EMAX_def
        adjusted_def half_even_def Let_def integral_value_def)

lemma live_resolve: "resolve_destination live_libs live_args m pw = Inr (Some live_dest)"
proof -
  obtain d where d: "live_dest = CHR ''b'' # d" by (simp add: live_dest_def)
  have "derivable_chain ''BTC'' = Inr ''BTC''" by code_simp
  moreover have "validate_destination_address ''BTC'' live_dest = None" by code_simp
  ultimately show ?thesis by (simp add: resolve_destination_def live_args_simps d)
qed

lemma live_asset: "asset_of ''TRX'' = Inr ''TRON.TRX''" "asset_of ''BTC'' = Inr ''BTC.BTC''"
  "asset_chain ''TRON.TRX'' = ''TRON''" "\<not> is_token_asset ''TRON.TRX''"
  by (simp add: asset_of_def ASSET_def, simp add: asset_of_def ASSET_def, code_simp, simp add: is_token_asset_def)

definition live_request :: swap_request where
  "live_request = \<lparr>rq_from_asset = ''TRON.TRX'', rq_to_asset = ''BTC.BTC'', rq_amount = 50000, rq_destination = live_dest\<rparr>"

lemma live_request_for: "request_for live_args ''TRON.TRX'' 50000 live_dest = Inr live_request"
  by (simp add: request_for_def live_args_simps live_asset live_request_def)

lemma live_quoted:
  "quote_swap live_get c f t n (Some d) i k tol w = (Inr live_quote, w)"
proof -
  let ?q = "example_quote\<lparr>q_inbound_address := ''Tvault'', q_memo := Some (''=:BTC.BTC:'' @ live_dest),
     q_expiry := 1800000000\<rparr>"
  have "list_all is_amount (quote_amounts ?q)"
    by (simp add: example_quote_def quote_amounts_def fee_amounts_def is_amount_def)
  from quote_json_parses [OF this] have "parse_quote (quote_json ?q) = Inr live_quote"
    by (simp add: live_quote_def Let_def)
  moreover have "quote_json live_quote = quote_json ?q" by (simp add: live_quote_def Let_def quote_json_def)
  ultimately show ?thesis
    by (simp add: quote_swap_def fetch_def live_get_def live_response_def quote_params_def read_quote_def
        as_dict_def bind_io_def)
qed

lemma live_table: "\<exists>s. inbound_addresses live_get c w = (Inr [(''TRON'', s)], w) \<and> tradable s \<and> cs_address s = ''Tvault''
    \<and> cs_dust_threshold s = 1000"
proof -
  let ?e = "[(''chain'', JStr ''TRON''), (''address'', JStr ''Tvault''), (''dust_threshold'', JInt 1000)]"
  have "\<exists>s. parse_chain_status ?e = Inr s \<and> cs_chain s = ''TRON'' \<and> tradable s \<and> cs_address s = ''Tvault'' \<and> cs_dust_threshold s = 1000"
    by (simp add: parse_chain_status_def dict_access tradable_def get_flag_def)
  then show ?thesis
    by (auto simp: inbound_addresses_def fetch_def live_get_def live_response_def checked_json_def
        parse_inbound_addresses_def as_list_def bind_io_def)
qed


definition live_env :: environ where
  "live_env = [''CRYPTOSWAP_WALLET_PASSPHRASE'' \<mapsto> ''pw'', ''CRYPTOSWAP_WALLET_KEYSTORE'' \<mapsto> ''k'']"

definition live_machine :: "os_world \<Rightarrow> nat list machine" where
  "live_machine os = \<lparr>m_os = os, m_net = [], m_env = live_env,
     m_secrets = [], m_answers = [], m_clock = (\<lambda>i. 1700000000), m_ticks = 0, m_trace = []\<rparr>"

lemma live_keystore:
  obtains os where "\<And>args t. a_keystore args = None \<or> a_keystore args = Some ''k'' \<Longrightarrow> a_key args = None \<Longrightarrow>
    load_mnemonic live_libs args ((live_machine os)\<lparr>m_trace := t\<rparr>)
      = (Inr (''abandon art'', ''pw''), (live_machine os)\<lparr>m_trace := t\<rparr>)"
proof -
  from example_save [of example_os "''k''" example_keystore "''pw''" DEFAULT_N] obtain os where
    s: "keystore_save example_cryptolib example_keystore ''k'' ''pw'' DEFAULT_N example_os = (Inr (), os)"
    by (auto simp: example_os_def free_name_def)
  have amount: "is_amount DEFAULT_N" by (simp add: is_amount_def DEFAULT_N_def)
  have "stored live_libs ''k'' ''pw'' example_keystore ((live_machine os)\<lparr>m_trace := t\<rparr>)" for t
    using save_then_load [OF example_crypt_ok s built_ok [OF example_keystore_built] amount]
    by (simp add: stored_def live_libs_def example_libs_def live_machine_def example_os_def)
  moreover have "settles args ''k'' ''pw'' ((live_machine os)\<lparr>m_trace := t\<rparr>)"
    if "a_keystore args = None \<or> a_keystore args = Some ''k''" for args t
    using that by (auto simp: settles_def live_machine_def live_env_def configured_def env_or_def str_or_def expand_user_def)
  ultimately have "open_keystore live_libs args ((live_machine os)\<lparr>m_trace := t\<rparr>)
      = (Inr example_keystore, (live_machine os)\<lparr>m_trace := t\<rparr>)"
    if "a_keystore args = None \<or> a_keystore args = Some ''k''" for args t
    using that by (blast intro: stored_open)
  with that [of os] show ?thesis
    by (simp add: load_mnemonic_def bind_io_def selected_key_def example_keystore_def)
qed

lemma live_args_keystore:
  obtains os where "\<And>t. load_mnemonic live_libs live_args ((live_machine os)\<lparr>m_trace := t\<rparr>)
    = (Inr (''abandon art'', ''pw''), (live_machine os)\<lparr>m_trace := t\<rparr>)"
  using live_keystore live_args_simps(10,17) by metis

lemma live_build:
  "\<exists>p. tron_build_and_verify example_tronlib ad m live_quote live_request 1700000000 w = (Inr p, w)
     \<and> prepared_safe p \<and> pr_quote p = Some live_quote \<and> tron_expiry (pr_plan p) = Some 1800000000
     \<and> plan_sun (pr_plan p) = Inr 500"
proof -
  have q: "q_inbound_address live_quote = ''Tvault''" "quote_memo live_quote = ''=:BTC.BTC:'' @ live_dest"
    "q_expiry live_quote = 1800000000"
    by (simp_all add: live_quote_def Let_def quote_memo_def)
  have m: "memo_pays_destination live_dest (''=:BTC.BTC:'' @ live_dest)" by code_simp
  have "\<exists>p. tron_build_and_verify example_tronlib ad m live_quote live_request 1700000000 w = (Inr p, w)
      \<and> pr_quote p = Some live_quote \<and> tron_expiry (pr_plan p) = Some 1800000000 \<and> plan_sun (pr_plan p) = Inr 500"
    using example_tronlib_ok
    by (simp add: tron_build_and_verify_def live_request_def to_sun_def THORCHAIN_UNITS_PER_SUN_def
      tron_build_native_def build_unsigned_transfer_def tron_key_def bind_io_def q(1,3))
     (simp add: example_tronlib_def native_fields_def first_contract_def str_item_def item_def as_int_def
      memo_of_spelled spells_memo_def memo_arg_def tron_gate_def)
  then obtain p where p: "tron_build_and_verify example_tronlib ad m live_quote live_request 1700000000 w = (Inr p, w)"
    "pr_quote p = Some live_quote" "tron_expiry (pr_plan p) = Some 1800000000" "plan_sun (pr_plan p) = Inr 500" by blast
  have "prepared_safe p"
    using tron_build_and_verify_safe [OF p(1)] tron_build_carries [OF example_tronlib_ok p(1)] m
    by (simp add: q live_request_def)
  with p show ?thesis by blast
qed


lemma live_prepare:
  assumes "m_clock w = (\<lambda>i. 1700000000)"
  obtains p where
    "prepare_with live_libs live_args b (tron_source example_tronlib ad m) live_request w
      = (Inr p, w\<lparr>m_ticks := m_ticks w + 1\<rparr>)"
    "prepared_safe p" "pr_quote p = Some live_quote" "tron_expiry (pr_plan p) = Some 1800000000"
    "plan_sun (pr_plan p) = Inr 500"
proof -
  obtain p where p: "tron_build_and_verify example_tronlib ad m live_quote live_request 1700000000 (m_net w) = (Inr p, m_net w)"
    "prepared_safe p" "pr_quote p = Some live_quote" "tron_expiry (pr_plan p) = Some 1800000000"
    "plan_sun (pr_plan p) = Inr 500"
    using live_build by blast
  obtain s where s: "inbound_addresses live_get (be_client b) (m_net w) = (Inr [(''TRON'', s)], m_net w)" "tradable s"
    using live_table by blast
  have q: "q_recommended_min_amount_in live_quote = 10000" "q_memo live_quote = Some (''=:BTC.BTC:'' @ live_dest)"
    by (simp_all add: live_quote_def Let_def example_quote_def)
  have "prepare_swap (thorchain_of live_get (be_client b)) (tron_source example_tronlib ad m) live_request
      1700000000 300 None None (m_net w) = (Inr p, m_net w)"
    using p(1) s q
    by (simp add: prepare_swap_Inr quoted_Inr thorchain_of_def tron_source_def live_quoted asked_tolerance_def)
      (simp add: live_request_def)
  moreover have "clock_int w = (Inr 1700000000, w\<lparr>m_ticks := m_ticks w + 1\<rparr>)"
    using assms by (simp add: clock_int_def read_clock_def bind_io_def trunc_def)
  ultimately have "prepare_with live_libs live_args b (tron_source example_tronlib ad m) live_request w
      = (Inr p, w\<lparr>m_ticks := m_ticks w + 1\<rparr>)"
    by (simp add: prepare_with_def bind_io_def on_net_def live_libs_def live_args_simps)
  with p(2-5) that show ?thesis by blast
qed

lemma live_backend:
  obtains b where "\<And>rq w. m_env w = live_env \<Longrightarrow> select_for live_libs live_args rq w = (Inr b, w)"
    "\<And>w :: nat list machine. m_env w = live_env \<Longrightarrow> liquidity_client live_args w = (Inr b, w)"
proof -
  have "\<exists>b. get_backend live_env ''thorchain'' = Inr b"
    by (simp add: get_backend_def default_backends_def live_env_def)
  then obtain b where b: "get_backend live_env ''thorchain'' = Inr b" by blast
  have s: "select_for live_libs live_args rq w = (Inr b, w)"
    if "m_env w = live_env" for rq and w :: "nat list machine"
  proof -
    have one: "backends_for live_args w = (Inr [b], w)"
      by (simp add: backends_for_def bind_io_def get_environ_def that live_args_simps b)
    show ?thesis
      unfolding select_for_def select_backend_def by (subst bind_io_def) (simp only: one prod.case sum.case, simp)
  qed
  have l: "liquidity_client live_args w = (Inr b, w)"
    if "m_env w = live_env" for w :: "nat list machine"
    by (simp add: liquidity_client_def bind_io_def get_environ_def that live_args_simps b)
  from that [OF s l] show ?thesis .
qed

text \<open>A step that only prints.\<close>

definition just_says :: "(nat list, unit) cli \<Rightarrow> bool" where
  "just_says m \<longleftrightarrow> (\<forall>w. \<exists>t. m w = (Inr (), w\<lparr>m_trace := t\<rparr>))"

lemma just_says_bind:
  assumes "just_says m" "just_says (k ())"
  shows "just_says (bind_io m k)"
  unfolding just_says_def
proof
  fix w
  obtain t where "m w = (Inr (), w\<lparr>m_trace := t\<rparr>)" using assms(1) by (auto simp: just_says_def)
  moreover obtain t' where "k () (w\<lparr>m_trace := t\<rparr>) = (Inr (), w\<lparr>m_trace := t\<rparr>\<lparr>m_trace := t'\<rparr>)"
    using assms(2) unfolding just_says_def by blast
  ultimately show "\<exists>t. bind_io m k w = (Inr (), w\<lparr>m_trace := t\<rparr>)" by (auto simp: bind_io_def)
qed

lemma just_says_lift: "r = Inr x \<Longrightarrow> just_says (k x) \<Longrightarrow> just_says (bind_io (lift_io r) k)"
  by (simp add: just_says_def bind_io_def)

lemma just_says_return: "just_says (return_io ())"
proof -
  have "w = w\<lparr>m_trace := m_trace w\<rparr>" for w :: "nat list machine" by simp
  then show ?thesis unfolding just_says_def return_io_app by metis
qed

lemma just_says_nothing: "just_says (Pair (Inr ()))"
  using just_says_return by (simp add: return_io_def)

lemma just_says_say: "just_says (say e)"
  by (auto simp: just_says_def say_def)

lemma just_says_all: "just_says (say_all es)"
proof (induction es)
  case Nil
  show ?case unfolding say_all.simps by (rule just_says_return)
next
  case (Cons e es)
  then show ?case unfolding say_all.simps by (intro just_says_bind just_says_say)
qed

lemma live_report:
  assumes "pr_quote p = Some live_quote" "plan_sun (pr_plan p) = Inr 500"
  shows "just_says (report_tron_swap live_libs live_args ''TRON.TRX'' b 50000 dest p)"
proof -
  have f: "q_fees live_quote = q_fees example_quote" "q_expected_amount_out live_quote = 149000000"
    "q_streaming_swap_blocks live_quote = 0"
    by (simp_all add: live_quote_def Let_def example_quote_def)
  have out: "units_text 149000000 = Inr (shown_units 149000000)" by (rule units_text_exact) simp
  have "\<exists>lines. breakdown (q_fees example_quote) ''BTC'' = Inr lines"
    by (simp add: breakdown_def example_quote_def units_text_exact)
  then obtain lines where b: "breakdown (q_fees example_quote) ''BTC'' = Inr lines" by blast
  have "just_says (print_swap_costs live_libs live_quote (a_from live_args) (a_to live_args) 50000 (a_price_check live_args))"
    unfolding print_swap_costs_def live_args_simps f if_False
    by (intro just_says_bind just_says_lift [OF b] just_says_lift [of "stream_line live_quote" "[]"]
        just_says_say just_says_all just_says_return)
      (simp add: stream_line_def f)
  then show ?thesis
    unfolding report_tron_swap_def
    by (intro just_says_bind just_says_lift [of _ live_quote] just_says_lift [of _ "shown_units 149000000"]
        just_says_lift [of _ "Out (''send:    '' @ str_int 500 @ '' sun to '' @ q_inbound_address live_quote)"]
        just_says_say just_says_all)
      (simp_all add: quote_of_def assms f out tron_send_line_def live_asset)
qed

lemma closing_just:
  assumes "m w = (Inr x, w1)"
  shows "\<exists>t. closing name m w = (Inr x, w1\<lparr>m_trace := t\<rparr>)"
  using assms by (auto simp: closing_def finally_io_def say_def)

lemma or_abort_Inr: "m w = (Inr x, w1) \<Longrightarrow> or_abort c m k w = k x w1"
  by (simp add: or_abort_def)

lemma bind_Inr: "m w = (Inr x, w1) \<Longrightarrow> bind_io m k w = k x w1"
  by (simp add: bind_io_def)

lemma closing_net: "m_net (snd (closing name m w)) = m_net (snd (m w))"
  by (auto simp: closing_def finally_io_def say_def split: prod.split sum.split)

lemma live_broadcast:
  assumes "prepared_safe p" "in_time (tron_expiry (pr_plan p)) w" "m_net w = []" "a_confirm args" "a_yes args"
  shows "m_net (snd (confirm_and_execute args tron_expiry (tron_source example_tronlib ad m) p w)) = [1]"
proof -
  have "pr_problems p = []" "consent args (m_answers w)"
    using assms(1,4,5) by (auto simp: prepared_safe_def consent_def)
  from confirm_runs [where expiry_of = tron_expiry, OF this assms(2)] obtain w3 where
    "confirm_and_execute args tron_expiry (tron_source example_tronlib ad m) p w
      = broadcast_now (\<lambda>e. leave (ErrExc ''BROADCAST FAILED: '' e []) 1) p (tron_source example_tronlib ad m) w3"
    "m_net w3 = m_net w" by blast
  moreover have "\<exists>r. execute_swap p (tron_source example_tronlib ad m) True [] = (Inr r, [1])"
    using assms(1) by (simp add: execute_swap_def prepared_safe_def tron_source_def tron_sign_def tron_broadcast_def
        example_tronlib_def bind_io_def)
  ultimately show ?thesis using assms(3)
    by (auto simp: broadcast_now_def on_net_def bind_io_def say_def)
qed

text \<open>The swap runs to its broadcast: the network of this world ends with the broadcast noted.\<close>

lemma live_swap:
  obtains os where "m_net (snd (cmd_swap live_libs live_args (live_machine os))) = [1]"
proof -
  obtain os where "\<And>t. load_mnemonic live_libs live_args ((live_machine os)\<lparr>m_trace := t\<rparr>)
    = (Inr (''abandon art'', ''pw''), (live_machine os)\<lparr>m_trace := t\<rparr>)"
    by (rule live_args_keystore) blast
  from this [of "[]"] have key: "load_mnemonic live_libs live_args (live_machine os)
    = (Inr (''abandon art'', ''pw''), live_machine os)" by (simp add: live_machine_def)
  let ?w = "live_machine os"
  have env: "m_env ?w = live_env" and clock: "m_clock ?w = (\<lambda>i. 1700000000)" and net: "m_net ?w = []"
    by (simp_all add: live_machine_def)
  obtain b where b: "select_for live_libs live_args rq ?w = (Inr b, ?w)" for rq
    using live_backend env by metis
  define ad where "ad = tron_adapter (configured None live_env ''CRYPTOSWAP_WALLET_TRON_API'' DEFAULT_TRON_API) ''pw''"
  have ad: "cli_tron live_args ''pw'' ?w = (Inr ad, ?w)"
    by (simp add: cli_tron_def bind_io_def get_environ_def env live_args_simps ad_def)
  have cx: "cx_tron live_libs = example_tronlib" by (simp add: live_libs_def example_libs_def)
  obtain p where p: "prepare_with live_libs live_args b (tron_source example_tronlib ad ''abandon art'') live_request ?w
      = (Inr p, ?w\<lparr>m_ticks := m_ticks ?w + 1\<rparr>)"
    "prepared_safe p" "pr_quote p = Some live_quote" "tron_expiry (pr_plan p) = Some 1800000000"
    "plan_sun (pr_plan p) = Inr 500"
    using live_prepare [OF clock] by blast
  obtain t where c: "closing (be_name b) (prepare_with live_libs live_args b
      (tron_source example_tronlib ad ''abandon art'') live_request) ?w
      = (Inr p, ?w\<lparr>m_ticks := m_ticks ?w + 1\<rparr>\<lparr>m_trace := t\<rparr>)"
    using closing_just [of "prepare_with live_libs live_args b (tron_source example_tronlib ad ''abandon art'') live_request"
        ?w p "?w\<lparr>m_ticks := m_ticks ?w + 1\<rparr>" "be_name b", OF p(1)] by blast
  let ?w1 = "?w\<lparr>m_ticks := m_ticks ?w + 1\<rparr>\<lparr>m_trace := t\<rparr>"
  obtain t2 where r: "report_tron_swap live_libs live_args ''TRON.TRX'' b 50000 live_dest p ?w1
      = (Inr (), ?w1\<lparr>m_trace := t2\<rparr>)"
    using live_report [OF p(3,5), of b live_dest] unfolding just_says_def by blast
  let ?w2 = "?w1\<lparr>m_trace := t2\<rparr>"
  have e: "m_net (snd (confirm_and_execute live_args tron_expiry (tron_source example_tronlib ad ''abandon art'') p ?w2)) = [1]"
    by (rule live_broadcast) (use p(2,4) clock net in \<open>simp_all add: in_time_def live_args_simps\<close>)
  have sel: "bind_io (select_for live_libs live_args live_request) (\<lambda>b.
       bind_io (closing (be_name b) (prepare_with live_libs live_args b (tron_source example_tronlib ad ''abandon art'') live_request))
         (\<lambda>p. return_io (b, p))) ?w = (Inr (b, p), ?w1)"
    proof -
    have step1: "bind_io (select_for live_libs live_args live_request) k ?w = k b ?w" for k
      by (rule bind_Inr, rule b)
    have step2: "bind_io (closing (be_name b) (prepare_with live_libs live_args b (tron_source example_tronlib ad ''abandon art'') live_request)) k ?w = k p ?w1"
      for k
      by (rule bind_Inr, rule c)
    show ?thesis by (simp only: step1 step2 return_io_app)
  qed
  have amount: "on_net (tron_amount live_libs live_args ad ''TRON.TRX'' ''abandon art'') ?w = (Inr 50000, ?w)"
    using live_amount unfolding live_args_simps by (simp add: tron_amount_def live_args_simps on_net_def)
  have step: "or_abort g (on_net (tron_amount live_libs live_args ad ''TRON.TRX'' ''abandon art'')) k ?w = k 50000 ?w" for g k
    by (rule or_abort_Inr, rule amount)
  have steps: "or_abort g (bind_io (select_for live_libs live_args live_request) (\<lambda>b.
       bind_io (closing (be_name b) (prepare_with live_libs live_args b (tron_source example_tronlib ad ''abandon art'') live_request))
         (\<lambda>p. return_io (b, p)))) k ?w = k (b, p) ?w1" for g k
    by (rule or_abort_Inr, rule sel)
  have said: "bind_io (report_tron_swap live_libs live_args ''TRON.TRX'' b 50000 live_dest p) k ?w1 = k () ?w2" for k
    by (rule bind_Inr, rule r)
  have wallet: "m_net (snd (closing ''TRON'' (
     or_abort (\<lambda>e. a_amount live_args = MaxAmount \<and> is_insufficient e)
         (on_net (tron_amount live_libs live_args ad ''TRON.TRX'' ''abandon art'')) (\<lambda>amount.
     bind_io (lift_io (request_for live_args ''TRON.TRX'' amount live_dest)) (\<lambda>rq.
       let adapter = tron_source (cx_tron live_libs) ad ''abandon art''
       in or_abort (\<lambda>e. is_aborted e \<or> is_value_error e)
            (bind_io (select_for live_libs live_args rq) (\<lambda>b.
             bind_io (closing (be_name b) (prepare_with live_libs live_args b adapter rq)) (\<lambda>p. return_io (b, p)))) (\<lambda>(b, p).
          bind_io (report_tron_swap live_libs live_args ''TRON.TRX'' b amount live_dest p) (\<lambda>_.
            confirm_and_execute live_args tron_expiry adapter p))))) ?w)) = [1]"
    unfolding closing_net step live_request_for bind_io_lift sum.case Let_def cx
      steps prod.case said by (rule e)
  have opened: "bind_io (load_mnemonic live_libs live_args) k ?w = k (''abandon art'', ''pw'') ?w" for k
    by (rule bind_Inr, rule key)
  have made: "bind_io (cli_tron live_args ''pw'') k ?w = k ad ?w" for k
    by (rule bind_Inr, rule ad)
  have "m_net (snd (swap_from_tron live_libs live_args ?w)) = [1]"
    using wallet
    unfolding swap_from_tron_def live_args_simps live_asset bind_io_lift sum.case
    by (simp add: warn_if_def live_args_simps live_asset opened live_resolve need_dest_def made)
  then have "m_net (snd (cmd_swap live_libs live_args ?w)) = [1]"
    by (simp add: cmd_swap_def bind_io_def live_args_simps live_asset)
  with that show ?thesis .
qed

text \<open>A send to the address of the command line, from the same wallet.\<close>

lemma live_send_build:
  "\<exists>p. tron_build_and_verify_send example_tronlib ad m recipient 50000 ''TRON.TRX'' w = (Inr p, w)
     \<and> prepared_safe p \<and> tron_expiry (pr_plan p) = None"
  by (simp add: tron_build_and_verify_send_def tron_build_native_send_def build_unsigned_transfer_def tron_key_def
      to_sun_def THORCHAIN_UNITS_PER_SUN_def bind_io_def example_tronlib_def native_fields_def first_contract_def
      str_item_def item_def as_int_def memo_of_def memo_arg_def prepared_safe_def verify_tron_send_def expect_text_def expect_int_def expect_no_text_def)

definition live_payment :: "cli_args \<Rightarrow> bool" where
  "live_payment args \<longleftrightarrow>
     (a_keystore args = None \<or> a_keystore args = Some ''k'') \<and> a_key args = None \<and> a_tron_api args = None
     \<and> a_asset args = ''TRX'' \<and> a_amount args = Amount \<lparr>dec_neg = False, dec_coeff = 5, dec_exp = -4\<rparr>
     \<and> a_address args = ''TR7NHqjeKQxGTCi8q8ZY4pL8otSzgjLj6t'' \<and> a_confirm args \<and> a_yes args"

lemma live_payment_sends:
  assumes "\<And>t. load_mnemonic live_libs args ((live_machine os)\<lparr>m_trace := t\<rparr>)
      = (Inr (''abandon art'', ''pw''), (live_machine os)\<lparr>m_trace := t\<rparr>)"
    and "live_payment args"
  shows "m_net (snd (cmd_send live_libs args (live_machine os))) = [1]"
proof -
  from assms(2) have fields: "a_key args = None" "a_tron_api args = None" "a_asset args = ''TRX''"
    "a_address args = ''TR7NHqjeKQxGTCi8q8ZY4pL8otSzgjLj6t''" "a_confirm args" "a_yes args"
    "a_amount args = a_amount live_args" "a_amount args \<noteq> MaxAmount"
    by (simp_all add: live_payment_def live_args_simps)
  from assms(1) [of "[]"] have key: "load_mnemonic live_libs args (live_machine os)
    = (Inr (''abandon art'', ''pw''), live_machine os)" by (simp add: live_machine_def)
  let ?w = "live_machine os"
  have env: "m_env ?w = live_env" and clock: "m_clock ?w = (\<lambda>i. 1700000000)" and net: "m_net ?w = []"
    by (simp_all add: live_machine_def)
  define ad where "ad = tron_adapter (configured None live_env ''CRYPTOSWAP_WALLET_TRON_API'' DEFAULT_TRON_API) ''pw''"
  have ad: "cli_tron args ''pw'' ?w = (Inr ad, ?w)"
    by (simp add: cli_tron_def bind_io_def get_environ_def env fields ad_def)
  have cx: "cx_tron live_libs = example_tronlib" by (simp add: live_libs_def example_libs_def)
  obtain p where p: "tron_build_and_verify_send example_tronlib ad ''abandon art'' (a_address args) 50000 ''TRON.TRX'' (m_net ?w)
      = (Inr p, m_net ?w)" "prepared_safe p" "tron_expiry (pr_plan p) = None"
    using live_send_build by blast
  have valid: "validate_destination_address ''TRON'' (a_address args) = None"
    unfolding fields by code_simp
  have amount: "on_net (tron_amount live_libs args ad ''TRON.TRX'' ''abandon art'') ?w = (Inr 50000, ?w)"
    using live_amount fields(7,8) by (simp add: tron_amount_def on_net_def)
  have built: "on_net (tron_build_and_verify_send example_tronlib ad ''abandon art'' (a_address args) 50000 ''TRON.TRX'') ?w = (Inr p, ?w)"
    using p(1) by (simp add: on_net_def)
  have units: "units_text 50000 = Inr (shown_units 50000)" by (rule units_text_exact) simp
  define line where "line = Out (''send:    '' @ shown_units 50000 @ '' '' @ a_asset args @ '' to '' @ a_address args)"
  have e: "m_net (snd (confirm_and_execute args tron_expiry (tron_source example_tronlib ad ''abandon art'') p
      (?w\<lparr>m_trace := [line]\<rparr>))) = [1]"
    by (rule live_broadcast) (use p(2,3) clock net in \<open>simp_all add: in_time_def fields\<close>)
  have said: "bind_io (say ev) k ?w = k () (?w\<lparr>m_trace := [ev]\<rparr>)" for ev k
    by (simp add: bind_io_def say_def live_machine_def)
  have opened: "bind_io (load_mnemonic live_libs args) k ?w = k (''abandon art'', ''pw'') ?w" for k
    by (rule bind_Inr, rule key)
  have made: "bind_io (cli_tron args ''pw'') k ?w = k ad ?w" for k
    by (rule bind_Inr, rule ad)
  have step: "or_abort g (on_net (tron_amount live_libs args ad ''TRON.TRX'' ''abandon art'')) k ?w = k 50000 ?w" for g k
    by (rule or_abort_Inr, rule amount)
  have built_step: "bind_io (on_net (tron_build_and_verify_send example_tronlib ad ''abandon art'' (a_address args) 50000 ''TRON.TRX'')) k ?w
      = k p ?w" for k
    by (rule bind_Inr, rule built)
  have "m_net (snd (send_tron live_libs args ?w)) = [1]"
    using e unfolding send_tron_def live_asset fields(3) bind_io_lift sum.case checked_recipient_def valid option.case
    by (simp add: warn_if_def live_asset fields(8) opened made closing_net step cx built_step bind_io_lift units
        said line_def fields(3))
  then have "m_net (snd (cmd_send live_libs args ?w)) = [1]"
    by (simp add: cmd_send_def bind_io_def fields live_asset)
  then show ?thesis .
qed

lemma live_send:
  obtains os where "\<And>args. live_payment args \<Longrightarrow> m_net (snd (cmd_send live_libs args (live_machine os))) = [1]"
proof -
  obtain os where key: "\<And>args t. a_keystore args = None \<or> a_keystore args = Some ''k'' \<Longrightarrow> a_key args = None \<Longrightarrow>
    load_mnemonic live_libs args ((live_machine os)\<lparr>m_trace := t\<rparr>)
      = (Inr (''abandon art'', ''pw''), (live_machine os)\<lparr>m_trace := t\<rparr>)" by (rule live_keystore) blast
  have "m_net (snd (cmd_send live_libs args (live_machine os))) = [1]" if "live_payment args" for args
    by (rule live_payment_sends [OF key that]) (use that in \<open>simp_all add: live_payment_def\<close>)
  with that show ?thesis by blast
qed

lemma live_args_payment: "live_payment live_args"
  by (simp add: live_payment_def live_args_simps)

text \<open>A withdrawal: the deposit of the dust threshold with the memo of the share.\<close>

lemma live_deposit_build:
  assumes "memo_pays_destination [] memo" "memo \<noteq> []"
  shows "\<exists>p. tron_build_and_verify_deposit example_tronlib ad m vault memo 1000 now w = (Inr p, w)
     \<and> prepared_safe p \<and> tron_expiry (pr_plan p) = Some (now + 3600)
     \<and> plan_vault (pr_plan p) = Inr vault \<and> plan_sun (pr_plan p) = Inr 10"
proof -
  have spelled: "memo_of \<lparr>raw_contracts = cs, raw_memo_hex = Some (hex_of_bytes (utf8_encode memo))\<rparr> = Inr memo" for cs
    by (rule memo_of_spelled) (simp add: spells_memo_def memo_arg_def assms(2))
  have "\<exists>p. tron_build_and_verify_deposit example_tronlib ad m vault memo 1000 now w = (Inr p, w)
      \<and> native_fields example_tronlib (tb_tx (pr_built p)) = Inr (''TransferContract'', vault, 10, memo)
      \<and> tron_expiry (pr_plan p) = Some (now + 3600)
      \<and> plan_vault (pr_plan p) = Inr vault \<and> plan_sun (pr_plan p) = Inr 10"
    using assms(2)
    by (simp add: tron_build_and_verify_deposit_def to_sun_def THORCHAIN_UNITS_PER_SUN_def
      tron_build_native_def build_unsigned_transfer_def tron_key_def bind_io_def)
     (simp add: example_tronlib_def native_fields_def first_contract_def str_item_def item_def as_int_def
      spelled memo_arg_def tron_gate_def)
  then obtain p where p: "tron_build_and_verify_deposit example_tronlib ad m vault memo 1000 now w = (Inr p, w)"
    "native_fields example_tronlib (tb_tx (pr_built p)) = Inr (''TransferContract'', vault, 10, memo)"
    "tron_expiry (pr_plan p) = Some (now + 3600)" "plan_vault (pr_plan p) = Inr vault" "plan_sun (pr_plan p) = Inr 10"
    by blast
  from p(1) have "tron_build_native example_tronlib ad m vault 10 memo (now + 3600) [] now None w = (Inr p, w)"
    by (simp add: tron_build_and_verify_deposit_def to_sun_def THORCHAIN_UNITS_PER_SUN_def bind_io_def)
  from tron_build_native_safe [OF this] assms(1) p(2) have "prepared_safe p" by simp
  with p show ?thesis by blast
qed

lemma live_deposit:
  assumes "m_clock w = (\<lambda>i. 1700000000)" "prefix ''-'' memo" "memo_pays_destination [] memo"
  obtains p where
    "prepare_lp_with live_libs b (tron_source example_tronlib ad m) memo None w = (Inr p, w\<lparr>m_ticks := m_ticks w + 1\<rparr>)"
    "prepared_safe p" "tron_expiry (pr_plan p) = Some 1700003600"
    "plan_vault (pr_plan p) = Inr ''Tvault''" "plan_sun (pr_plan p) = Inr 10"
proof -
  have memo: "memo \<noteq> []" "\<not> prefix ''+'' memo" using assms(2) by (auto simp: prefix_def)
  from live_deposit_build [OF assms(3) memo(1), of ad m "''Tvault''" 1700000000 "m_net w"] obtain p where
    p: "tron_build_and_verify_deposit example_tronlib ad m ''Tvault'' memo 1000 1700000000 (m_net w) = (Inr p, m_net w)"
    "prepared_safe p" "tron_expiry (pr_plan p) = Some 1700003600"
    "plan_vault (pr_plan p) = Inr ''Tvault''" "plan_sun (pr_plan p) = Inr 10" by auto
  obtain s where s: "inbound_addresses live_get (be_client b) (m_net w) = (Inr [(''TRON'', s)], m_net w)" "tradable s"
    "cs_address s = ''Tvault''" "cs_dust_threshold s = 1000"
    using live_table by blast
  have "prepare_liquidity (thorchain_of live_get (be_client b)) (tron_source example_tronlib ad m) memo None
      1700000000 (m_net w) = (Inr p, m_net w)"
    using p(1) s memo
    by (simp add: prepare_liquidity_def bind_io_def thorchain_of_def tron_source_def tradable_status_def
        check_lp_open_def require_def)
  moreover have "clock_int w = (Inr 1700000000, w\<lparr>m_ticks := m_ticks w + 1\<rparr>)"
    using assms(1) by (simp add: clock_int_def read_clock_def bind_io_def trunc_def)
  ultimately have "prepare_lp_with live_libs b (tron_source example_tronlib ad m) memo None w
      = (Inr p, w\<lparr>m_ticks := m_ticks w + 1\<rparr>)"
    by (simp add: prepare_lp_with_def bind_io_def on_net_def live_libs_def)
  with p(2-5) that show ?thesis by blast
qed

lemma just_says_warn: "just_says (warn h bs)"
  unfolding warn_def by (rule just_says_all)

lemma live_withdraw:
  obtains os where "m_net (snd (cmd_withdraw_liquidity live_libs live_args (live_machine os))) = [1]"
proof -
  obtain os where key: "\<And>t. load_mnemonic live_libs live_args ((live_machine os)\<lparr>m_trace := t\<rparr>)
    = (Inr (''abandon art'', ''pw''), (live_machine os)\<lparr>m_trace := t\<rparr>)"
    by (rule live_args_keystore) blast
  define memo where "memo = ''-:TRON.TRX:'' @ str_int 5000"
  let ?w = "\<lambda>t. (live_machine os)\<lparr>m_trace := t\<rparr>"
  have env: "m_env (?w t) = live_env" and clock: "m_clock (?w t) = (\<lambda>i. 1700000000)" and net: "m_net (?w t) = []" for t
    by (simp_all add: live_machine_def)
  define ad where "ad = tron_adapter (configured None live_env ''CRYPTOSWAP_WALLET_TRON_API'' DEFAULT_TRON_API) ''pw''"
  have ad: "cli_tron live_args ''pw'' (?w t) = (Inr ad, ?w t)" for t
    by (simp add: cli_tron_def bind_io_def get_environ_def env [simplified] live_args_simps ad_def)
  obtain b where "liquidity_client live_args w = (Inr b, w)" if "m_env w = live_env" for w :: "nat list machine"
    using live_backend by metis
  with env have client: "liquidity_client live_args (?w t) = (Inr b, ?w t)" for t by blast
  let ?ts = "tron_source example_tronlib ad ''abandon art''"
  have "withdraw_liquidity_memo ''TRON.TRX'' 5000 = Inr memo"
    by (simp add: withdraw_liquidity_memo_def memo_def MAX_BASIS_POINTS_def)
  have cx: "cx_tron live_libs = example_tronlib" by (simp add: live_libs_def example_libs_def)
  have m: "prefix ''-'' memo" "memo_pays_destination [] memo" by (simp_all add: memo_def memo_pays_destination_def)
  have "m_net (snd (liquidity_tron live_libs live_args memo None False (?w t))) = [1]" for t
  proof -
    obtain p where p: "prepare_lp_with live_libs b ?ts memo None (?w t) = (Inr p, (?w t)\<lparr>m_ticks := m_ticks (?w t) + 1\<rparr>)"
      "prepared_safe p" "tron_expiry (pr_plan p) = Some 1700003600"
      "plan_vault (pr_plan p) = Inr ''Tvault''" "plan_sun (pr_plan p) = Inr 10"
      using live_deposit [OF clock m] by blast
    have prepared: "or_abort c (prepare_lp_with live_libs b ?ts memo None) k (?w t) = k p ((?w t)\<lparr>m_ticks := m_ticks (?w t) + 1\<rparr>)" for c k
      by (rule or_abort_Inr, rule p(1))
    have opened: "bind_io (load_mnemonic live_libs live_args) k (?w t) = k (''abandon art'', ''pw'') (?w t)" for k
      by (rule bind_Inr, rule key)
    have made: "bind_io (cli_tron live_args ''pw'') k (?w t) = k ad (?w t)" for k
      by (rule bind_Inr, rule ad)
    have chosen: "bind_io (liquidity_client live_args) k (?w t) = k b (?w t)" for k
      by (rule bind_Inr, rule client)
    define es where "es = [Out (''send:    '' @ str_int 10 @ '' sun to '' @ ''Tvault''), Out (''memo:    '' @ memo),
                Out ''trx fee: paid from spare TRX/bandwidth, NOT the sent amount'',
                Out ''         -> keep some TRX headroom below your balance (~1 TRX)'']"
    obtain t2 where r: "say_all es ((?w t)\<lparr>m_ticks := m_ticks (?w t) + 1\<rparr>) = (Inr (), (?w t)\<lparr>m_ticks := m_ticks (?w t) + 1\<rparr>\<lparr>m_trace := t2\<rparr>)"
      using just_says_all [of es] unfolding just_says_def by blast
    have said: "bind_io (say_all es) k ((?w t)\<lparr>m_ticks := m_ticks (?w t) + 1\<rparr>) = k () ((?w t)\<lparr>m_ticks := m_ticks (?w t) + 1\<rparr>\<lparr>m_trace := t2\<rparr>)" for k
      by (rule bind_Inr, rule r)
    show ?thesis
      unfolding liquidity_tron_def if_False opened prod.case made closing_net chosen Let_def cx prepared p(4,5) bind_io_lift sum.case
        es_def [symmetric] said
      by (rule live_broadcast) (use p(2,3) clock net in \<open>simp_all add: in_time_def live_args_simps\<close>)
  qed
  moreover obtain t where warned: "\<And>h bs (k :: unit \<Rightarrow> (nat list, int) cli). bind_io (warn h bs) k (live_machine os) = k () (?w (t h bs))"
  proof -
    have "\<forall>h bs. \<exists>t. warn h bs (live_machine os) = (Inr (), ?w t)"
      using just_says_warn unfolding just_says_def by blast
    then obtain t where "\<And>h bs. warn h bs (live_machine os) = (Inr (), ?w (t h bs))" by metis
    with that show ?thesis by (simp add: bind_io_def)
  qed
  ultimately have "m_net (snd (liquidity live_libs live_args memo None False (live_machine os))) = [1]"
    unfolding liquidity_def warned live_args_simps live_asset bind_io_lift sum.case by (simp add: live_asset)
  with \<open>withdraw_liquidity_memo ''TRON.TRX'' 5000 = Inr memo\<close>
  have "m_net (snd (cmd_withdraw_liquidity live_libs live_args (live_machine os))) = [1]"
    by (simp add: cmd_withdraw_liquidity_def bind_io_lift live_args_simps live_asset)
  with that show ?thesis .
qed

lemma live_reads_only: "reads_only id live_libs"
  by (auto simp: reads_only_def reads_get_def reads_post_def builds_only_def live_libs_def example_libs_def
      live_get_def example_tronlib_def intro!: keeps_intros)

end
