(* ===== verification/CliRequest.thy ===== *)
theory CliRequest
  imports Handover CliExample
begin

text \<open>
  What the swap command sends is what the command line asked for and what was shown: a run that
  submits something is followed back by the rules of \<open>Handover\<close> to the key, the destination, the
  amount, the chosen network, the prepared transaction and the lines that were printed before
  the confirmation.
\<close>

section \<open>What was asked and what was shown\<close>








section \<open>From the command to the network\<close>



















section \<open>Per chain\<close>





section \<open>Properties\<close>



end
