(* ===== verification/CliPayments.thy ===== *)
theory CliPayments
  imports CliRequest
begin

text \<open>
  What \<open>send\<close> hands to the network is what the command line asked for and what was printed: the
  calculus of \<open>Handover\<close> over the contract \<open>send_source\<close> of the adapters.
\<close>

section \<open>Sends\<close>









section \<open>Properties\<close>



end
