(* ===== verification/CliLiquidity.thy ===== *)
theory CliLiquidity
  imports CliPayments
begin

text \<open>
  What the two liquidity commands hand to the network is what the command line asked for and what
  was printed, over the contract \<open>planned_deposit_source\<close> of the adapters.
\<close>

section \<open>Liquidity runs\<close>












lemma source_chain [simp]:
  "ad_chain (btc_source lib post ad kw) = ''BTC''"
  "ad_chain (eth_source elib post' ead f) = ea_chain ead"
  "ad_chain (tron_source tlib tad mnemonic) = ''TRON''"
  by (simp_all add: btc_source_def eth_source_def tron_source_def)











section \<open>Properties\<close>



end
