(* ===== verification/ArgParser.thy ===== *)
theory ArgParser
  imports PyText Errors
begin

text \<open>
  What \<open>build_parser\<close> uses of Python's \<open>argparse\<close> (as in CPython 3.12): long options with their
  unambiguous abbreviations and \<open>--name=value\<close>, the short options \<open>-h\<close> and \<open>-V\<close>, options that
  take one value or none, at most one positional or a subcommand that takes the rest, required
  options and mutually exclusive ones. The arguments are classified first; then options and
  positionals are consumed from left to right, each acting on the namespace, a value of type
  \<open>'s\<close>. \<open>Exits\<close> is \<open>SystemExit\<close> after a help text (0) or a usage error (2); \<open>Raises\<close> is an
  exception of a conversion that \<open>argparse\<close> does not turn into a usage error.
\<close>

datatype stop = Exits int | Raises pyexc

type_synonym 'a parse = "stop + 'a"

datatype 's opt_action = Shows | Flag "'s \<Rightarrow> 's" | Store "string \<Rightarrow> 's \<Rightarrow> 's res"

record 's opt =
  op_names :: "string list"
  op_action :: "'s opt_action"
  op_required :: bool

datatype 's positional = One "string \<Rightarrow> 's \<Rightarrow> 's" | Rest "string list \<Rightarrow> 's \<Rightarrow> 's parse"

record 's arg_parser =
  ap_options :: "'s opt list"
  ap_positional :: "'s positional option"
  ap_exclusive :: "string list list"

text \<open>An option is known by its first name.\<close>

definition op_key :: "'s opt \<Rightarrow> string" where
  "op_key o' = hd (op_names o')"

definition takes_value :: "'s opt \<Rightarrow> bool" where
  "takes_value o' = (case op_action o' of Store g \<Rightarrow> True | _ \<Rightarrow> False)"

definition option_strings :: "'s opt list \<Rightarrow> (string \<times> 's opt) list" where
  "option_strings os = concat (map (\<lambda>o'. map (\<lambda>m. (m, o')) (op_names o')) os)"

section \<open>Classification\<close>

text \<open>An option with the spelling under which it was found and, when a value came with it, that
  value and whether \<open>=\<close> stood before it.\<close>

datatype 's tok = Operand | Dashes | Unknown | Known "'s opt" string "(bool \<times> string) option"

text \<open>\<open>s.partition(c)\<close>, the part after the separator only when there is one.\<close>

definition partition_at :: "char \<Rightarrow> string \<Rightarrow> string \<times> string option" where
  "partition_at c s = (takeWhile (\<lambda>x. x \<noteq> c) s, if c \<in> set s then Some (tl (dropWhile (\<lambda>x. x \<noteq> c) s)) else None)"

definition option_tuples :: "'s opt list \<Rightarrow> string \<Rightarrow> 's tok list" where
  "option_tuples os arg =
     (if prefix ''--'' arg then
        (case partition_at CHR ''='' arg of (stem, val) \<Rightarrow>
           map (\<lambda>(m, o'). Known o' m (map_option (Pair True) val))
             (filter (\<lambda>(m, o'). prefix stem m) (option_strings os)))
      else
        map (\<lambda>(m, o'). if m = take 2 arg then Known o' m (Some (False, drop 2 arg)) else Known o' m None)
          (filter (\<lambda>(m, o'). m = take 2 arg \<or> prefix arg m) (option_strings os)))"

definition ascii_digit :: "char \<Rightarrow> bool" where
  "ascii_digit c \<longleftrightarrow> c \<in> set ''0123456789''"

text \<open>\<open>'^-\d+$|^-\d*\.\d+$'\<close>, where the end anchor lets one newline follow.\<close>

definition negative_number :: "string \<Rightarrow> bool" where
  "negative_number arg =
     (let s = (if arg \<noteq> [] \<and> last arg = CHR 0x0A then butlast arg else arg)
      in prefix ''-'' s
         \<and> (case partition_at CHR ''.'' (tl s) of
              (a, None) \<Rightarrow> a \<noteq> [] \<and> list_all ascii_digit a
            | (a, Some b) \<Rightarrow> list_all ascii_digit a \<and> b \<noteq> [] \<and> list_all ascii_digit b))"

definition abbreviated :: "'s opt list \<Rightarrow> string \<Rightarrow> 's tok parse" where
  "abbreviated os arg =
     (case option_tuples os arg of
        [t] \<Rightarrow> Inr t
      | [] \<Rightarrow> Inr (if negative_number arg \<or> CHR '' '' \<in> set arg then Operand else Unknown)
      | _ \<Rightarrow> Inl (Exits 2))"

definition parse_optional :: "'s opt list \<Rightarrow> string \<Rightarrow> 's tok parse" where
  "parse_optional os arg =
     (if \<not> prefix ''-'' arg then Inr Operand
      else case map_of (option_strings os) arg of
        Some o' \<Rightarrow> Inr (Known o' arg None)
      | None \<Rightarrow>
          if length arg = 1 then Inr Operand
          else case partition_at CHR ''='' arg of (stem, val) \<Rightarrow>
            (case (val, map_of (option_strings os) stem) of
               (Some v, Some o') \<Rightarrow> Inr (Known o' stem (Some (True, v)))
             | _ \<Rightarrow> abbreviated os arg))"

fun classify :: "'s opt list \<Rightarrow> string list \<Rightarrow> (string \<times> 's tok) list parse" where
  "classify os [] = Inr []"
| "classify os (s # ss) =
     (if s = ''--'' then Inr ((s, Dashes) # map (\<lambda>x. (x, Operand)) ss)
      else bind_res (parse_optional os s) (\<lambda>t. bind_res (classify os ss) (\<lambda>ts. Inr ((s, t) # ts))))"

section \<open>Actions\<close>

text \<open>The namespace, the options seen so far, and the arguments nobody took.\<close>

record 's progress =
  pg_space :: 's
  pg_seen :: "string list"
  pg_extras :: "string list"

text \<open>An exception of a conversion is a usage error when it is an \<open>ArgumentTypeError\<close>, a
  \<open>TypeError\<close> or a \<open>ValueError\<close>.\<close>

definition is_argument_error :: "pyexc \<Rightarrow> bool" where
  "is_argument_error e =
     (case e of ValueError _ \<Rightarrow> True | OtherError s \<Rightarrow> s = ''ArgumentTypeError'' \<or> s = ''TypeError'' | _ \<Rightarrow> False)"

definition converted :: "'a res \<Rightarrow> 'a parse" where
  "converted r =
     (case r of Inl e \<Rightarrow> Inl (if is_argument_error e then Exits 2 else Raises e) | Inr x \<Rightarrow> Inr x)"

definition excluded :: "string list list \<Rightarrow> string list \<Rightarrow> string \<Rightarrow> bool" where
  "excluded groups seen key \<longleftrightarrow>
     (\<exists>g \<in> set groups. key \<in> set g \<and> (\<exists>k \<in> set g. k \<noteq> key \<and> k \<in> set seen))"

definition take_option :: "'s arg_parser \<Rightarrow> 's opt \<Rightarrow> string \<Rightarrow> 's progress \<Rightarrow> 's progress parse" where
  "take_option p o' v s =
     bind_res (case op_action o' of
         Shows \<Rightarrow> Inl (Exits 0)
       | Flag f \<Rightarrow> Inr (f (pg_space s))
       | Store g \<Rightarrow> converted (g v (pg_space s))) (\<lambda>space.
       if excluded (ap_exclusive p) (pg_seen s) (op_key o') then Inl (Exits 2)
       else Inr (s\<lparr>pg_space := space, pg_seen := op_key o' # pg_seen s\<rparr>))"

text \<open>\<open>-xyz\<close>: flags that stand in one argument, up to an option that takes the rest as its value or
  still waits for one; what no option is called is left over.\<close>

fun cluster ::
    "'s opt list \<Rightarrow> 's opt \<Rightarrow> string \<Rightarrow> bool \<Rightarrow> string \<Rightarrow> (('s opt \<times> string) list \<times> 's opt option \<times> string list) parse" where
  "cluster os o' name sep [] = (if takes_value o' then Inr ([(o', [])], None, []) else Inl (Exits 2))"
| "cluster os o' name sep (c # e) =
     (if takes_value o' then Inr ([(o', c # e)], None, [])
      else if prefix ''--'' name \<or> sep \<or> c = CHR ''-'' then Inl (Exits 2)
      else case map_of (option_strings os) [CHR ''-'', c] of
        None \<Rightarrow> Inr ([(o', [])], None, [CHR ''-'' # c # e])
      | Some next_opt \<Rightarrow>
          (case e of
             [] \<Rightarrow> Inr ([(o', [])], Some next_opt, [])
           | x # e' \<Rightarrow>
               bind_res (if x = CHR ''='' then cluster os next_opt [CHR ''-'', c] True e'
                         else cluster os next_opt [CHR ''-'', c] False e) (\<lambda>(taken, waiting, left).
                 Inr ((o', []) # taken, waiting, left))))"

fun take_all :: "'s arg_parser \<Rightarrow> ('s opt \<times> string) list \<Rightarrow> 's progress \<Rightarrow> 's progress parse" where
  "take_all p [] s = Inr s"
| "take_all p ((o', v) # ovs) s = bind_res (take_option p o' v s) (take_all p ovs)"

text \<open>An option that waits for its value takes the next argument.\<close>

definition with_value :: "'s opt \<Rightarrow> (string \<times> 's tok) list \<Rightarrow> (string \<times> (string \<times> 's tok) list) parse" where
  "with_value o' toks =
     (if takes_value o' then (case toks of (s, Operand) # rest \<Rightarrow> Inr (s, rest) | _ \<Rightarrow> Inl (Exits 2))
      else Inr ([], toks))"

definition consume_optional ::
    "'s arg_parser \<Rightarrow> string \<Rightarrow> 's tok \<Rightarrow> (string \<times> 's tok) list \<Rightarrow> 's progress \<Rightarrow>
     ('s progress \<times> (string \<times> 's tok) list) parse" where
  "consume_optional p arg t rest s =
     (case t of
        Known o' name (Some (sep, e)) \<Rightarrow>
          bind_res (cluster (ap_options p) o' name sep e) (\<lambda>(taken, waiting, left).
          bind_res (case waiting of None \<Rightarrow> Inr (taken, rest)
                      | Some w \<Rightarrow> bind_res (with_value w rest) (\<lambda>(v, rest'). Inr (taken @ [(w, v)], rest')))
            (\<lambda>(ovs, rest').
          bind_res (take_all p ovs (s\<lparr>pg_extras := pg_extras s @ left\<rparr>)) (\<lambda>s'. Inr (s', rest'))))
      | Known o' name None \<Rightarrow>
          bind_res (with_value o' rest) (\<lambda>(v, rest').
          bind_res (take_option p o' v s) (\<lambda>s'. Inr (s', rest')))
      | _ \<Rightarrow> Inr (s\<lparr>pg_extras := pg_extras s @ [arg]\<rparr>, rest))"

section \<open>Positionals\<close>

text \<open>How many arguments the positional takes, \<open>(-*A-*)\<close> or \<open>(-*A[-AO]*)\<close>; \<open>None\<close> for no match.\<close>

fun is_dashes :: "string \<times> 's tok \<Rightarrow> bool" where
  "is_dashes (s, Dashes) = True"
| "is_dashes _ = False"

fun is_option :: "string \<times> 's tok \<Rightarrow> bool" where
  "is_option (s, Unknown) = True"
| "is_option (s, Known o' m e) = True"
| "is_option _ = False"

definition positional_count :: "'s positional \<Rightarrow> (string \<times> 's tok) list \<Rightarrow> nat option" where
  "positional_count pos toks =
     (case dropWhile is_dashes toks of
        (s, Operand) # rest \<Rightarrow>
          (case pos of
             One f \<Rightarrow> Some (length (takeWhile is_dashes toks) + 1 + length (takeWhile is_dashes rest))
           | Rest g \<Rightarrow> Some (length toks))
      | _ \<Rightarrow> None)"

text \<open>A single positional drops one \<open>--\<close> that was matched with it.\<close>

definition take_positional :: "'s positional \<Rightarrow> string list \<Rightarrow> 's progress \<Rightarrow> 's progress parse" where
  "take_positional pos args s =
     (case pos of
        One f \<Rightarrow> (case remove1 ''--'' args of
            a # _ \<Rightarrow> Inr (s\<lparr>pg_space := f a (pg_space s)\<rparr>)
          | [] \<Rightarrow> Inr s)
      | Rest g \<Rightarrow> bind_res (g args (pg_space s)) (\<lambda>space. Inr (s\<lparr>pg_space := space\<rparr>)))"

definition consume_positional ::
    "'s positional option \<Rightarrow> (string \<times> 's tok) list \<Rightarrow> 's progress \<Rightarrow>
     ('s progress \<times> 's positional option \<times> (string \<times> 's tok) list) parse" where
  "consume_positional pos toks s =
     (case pos of
        None \<Rightarrow> Inr (s, None, toks)
      | Some q \<Rightarrow>
          (case positional_count q toks of
             None \<Rightarrow> Inr (s, pos, toks)
           | Some k \<Rightarrow>
               bind_res (take_positional q (map fst (take k toks)) s) (\<lambda>s'. Inr (s', None, drop k toks))))"

section \<open>The loop\<close>

lemma bind_res_cong [fundef_cong]:
  "m = m' \<Longrightarrow> (\<And>x. m' = Inr x \<Longrightarrow> f x = f' x) \<Longrightarrow> bind_res m f = bind_res m' f'"
  by (cases m') (simp_all add: bind_res_def)

lemma with_value_rest: "with_value o' toks = Inr (v, rest) \<Longrightarrow> length rest \<le> length toks"
  by (auto simp: with_value_def split: if_splits list.splits prod.splits tok.splits)

lemma consume_optional_rest: "consume_optional p arg t rest s = Inr (s', rest') \<Longrightarrow> length rest' \<le> length rest"
  by (auto simp: consume_optional_def bind_res_eq_Inr with_value_rest split: tok.splits option.splits)

lemma dropWhile_shorter: "dropWhile P xs = y # ys \<Longrightarrow> length ys < length xs"
  by (metis length_dropWhile_le Suc_le_eq length_Cons)

text \<open>Positionals and options alternately, until the last option string is passed.\<close>

function consume ::
    "'s arg_parser \<Rightarrow> 's positional option \<Rightarrow> (string \<times> 's tok) list \<Rightarrow> 's progress \<Rightarrow>
     ('s progress \<times> 's positional option) parse" where
  "consume p pos toks s =
     (if \<not> list_ex is_option toks then
        bind_res (consume_positional pos toks s) (\<lambda>(s', pos', rest).
          Inr (s'\<lparr>pg_extras := pg_extras s' @ map fst rest\<rparr>, pos'))
      else
        bind_res (if is_option (hd toks) then Inr (s, pos, toks) else consume_positional pos toks s)
          (\<lambda>(s', pos', rest).
        if length rest < length toks then consume p pos' rest s'
        else
          (case dropWhile (\<lambda>t. \<not> is_option t) toks of
             [] \<Rightarrow> Inr (s', pos')
           | (arg, t) # rest \<Rightarrow>
               bind_res (consume_optional p arg t rest
                   (s'\<lparr>pg_extras := pg_extras s' @ map fst (takeWhile (\<lambda>t. \<not> is_option t) toks)\<rparr>))
                 (\<lambda>(s'', rest'). consume p pos' rest' s''))))"
  by pat_completeness auto
termination
  apply (relation "measure (\<lambda>(p, pos, toks, s). length toks)")
  apply simp
  apply simp
  apply clarsimp
  apply (drule consume_optional_rest)
  apply (drule dropWhile_shorter)
  apply linarith
  done

declare consume.simps [simp del]

section \<open>A parser\<close>

definition missing :: "'s arg_parser \<Rightarrow> 's positional option \<Rightarrow> string list \<Rightarrow> bool" where
  "missing p pos seen \<longleftrightarrow>
     (\<exists>o' \<in> set (ap_options p). op_required o' \<and> op_key o' \<notin> set seen)
     \<or> (case pos of Some (One f) \<Rightarrow> True | _ \<Rightarrow> False)"

text \<open>\<open>parse_known_args\<close>: the namespace and what was left over.\<close>

definition parse_known :: "'s arg_parser \<Rightarrow> string list \<Rightarrow> 's \<Rightarrow> ('s \<times> string list) parse" where
  "parse_known p argv space =
     bind_res (classify (ap_options p) argv) (\<lambda>toks.
     bind_res (consume p (ap_positional p) toks \<lparr>pg_space = space, pg_seen = [], pg_extras = []\<rparr>) (\<lambda>(s, pos).
       if missing p pos (pg_seen s) then Inl (Exits 2) else Inr (pg_space s, pg_extras s)))"

section \<open>What a run can act on\<close>

text \<open>Options outside a set \<open>A\<close> are never taken when no argument names them in a way that could be:
  without a value, or with one that they accept.\<close>

definition shorts_in :: "'s opt list \<Rightarrow> 's opt set \<Rightarrow> bool" where
  "shorts_in os A \<longleftrightarrow> (\<forall>c o'. map_of (option_strings os) [CHR ''-'', c] = Some o' \<longrightarrow> o' \<in> A)"

fun tok_in :: "'s opt set \<Rightarrow> 's tok \<Rightarrow> bool" where
  "tok_in A (Known o' name None) = (o' \<in> A)"
| "tok_in A (Known o' name (Some e)) = (takes_value o' \<or> \<not> prefix ''--'' name \<longrightarrow> o' \<in> A)"
| "tok_in A _ = True"

lemma cluster_takes:
  assumes "cluster os o' name sep e = Inr (taken, waiting, left)" "shorts_in os A"
    "takes_value o' \<or> \<not> prefix ''--'' name \<longrightarrow> o' \<in> A"
  shows "fst ` set taken \<subseteq> A \<and> (\<forall>w. waiting = Some w \<longrightarrow> w \<in> A)"
  using assms
proof (induction os o' name sep e arbitrary: taken waiting left rule: cluster.induct)
  case (1 os o' name sep)
  then show ?case by (auto split: if_splits)
next
  case (2 os o' name sep c e)
  show ?case
  proof (cases "takes_value o' \<or> prefix ''--'' name \<or> sep \<or> c = CHR ''-''")
    case True
    with "2.prems" show ?thesis by (auto split: if_splits)
  next
    case False
    then have o': "o' \<in> A" using "2.prems"(3) by blast
    show ?thesis
    proof (cases "map_of (option_strings os) [CHR ''-'', c]")
      case None
      with False "2.prems" o' show ?thesis by auto
    next
      case (Some n)
      with "2.prems"(2) have n: "n \<in> A" by (auto simp: shorts_in_def)
      show ?thesis
      proof (cases e)
        case Nil
        with False Some "2.prems" o' n show ?thesis by auto
      next
        case (Cons x e')
        with False Some "2.prems"(1) obtain taken' where
          t: "taken = (o', []) # taken'"
          and r: "(if x = CHR ''='' then cluster os n [CHR ''-'', c] True e' else cluster os n [CHR ''-'', c] False e)
            = Inr (taken', waiting, left)"
          by (auto simp: bind_res_eq_Inr)
        have "fst ` set taken' \<subseteq> A \<and> (\<forall>w. waiting = Some w \<longrightarrow> w \<in> A)"
        proof (cases "x = CHR ''=''")
          case True
          with "2.IH"(1) [OF _ _ Some Cons] False r "2.prems"(2) n show ?thesis by auto
        next
          case neq: False
          with "2.IH"(2) [OF _ _ Some Cons] False r "2.prems"(2) n show ?thesis by auto
        qed
        with t o' show ?thesis by auto
      qed
    qed
  qed
qed

text \<open>A property of the progress, and of the positional that is still to come, that every option of
  \<open>A\<close> and the positional preserve.\<close>

definition preserved ::
    "'s arg_parser \<Rightarrow> 's opt set \<Rightarrow> string set \<Rightarrow> ('s positional option \<Rightarrow> 's progress \<Rightarrow> bool) \<Rightarrow> bool" where
  "preserved p A S P \<longleftrightarrow>
     (\<forall>pos s ex. P pos s \<longrightarrow> P pos (s\<lparr>pg_extras := ex\<rparr>))
     \<and> (\<forall>o' \<in> A. \<forall>pos v s s'. P pos s \<longrightarrow> take_option p o' v s = Inr s' \<longrightarrow> P pos s')
     \<and> (\<forall>q args s s'. ap_positional p = Some q \<longrightarrow> set args \<subseteq> S \<longrightarrow> P (Some q) s \<longrightarrow>
          take_positional q args s = Inr s' \<longrightarrow> P None s')"

lemma preservedD:
  assumes "preserved p A S P"
  shows "P pos s \<Longrightarrow> P pos (s\<lparr>pg_extras := ex\<rparr>)"
    and "P pos s \<Longrightarrow> o' \<in> A \<Longrightarrow> take_option p o' v s = Inr s' \<Longrightarrow> P pos s'"
    and "P (Some q) s \<Longrightarrow> ap_positional p = Some q \<Longrightarrow> set args \<subseteq> S \<Longrightarrow> take_positional q args s = Inr s' \<Longrightarrow>
      P None s'"
  using assms unfolding preserved_def by blast+

lemma take_all_inv:
  assumes "preserved p A S P" "P pos s" "fst ` set ovs \<subseteq> A" "take_all p ovs s = Inr s'"
  shows "P pos s'"
  using assms(2-4)
proof (induction ovs arbitrary: s)
  case (Cons ov ovs)
  obtain o' v where ov: "ov = (o', v)" by (cases ov)
  with Cons.prems(3) obtain s1 where s1: "take_option p o' v s = Inr s1" "take_all p ovs s1 = Inr s'"
    by (auto simp: bind_res_eq_Inr)
  have "o' \<in> A" using Cons.prems(2) ov by simp
  from Cons.IH [OF preservedD(2) [OF assms(1) Cons.prems(1) this s1(1)] _ s1(2)] Cons.prems(2)
  show ?case by simp
qed simp

lemma consume_optional_inv:
  assumes i: "preserved p A S P" "P pos s" and a: "tok_in A t" "shorts_in (ap_options p) A"
    and c: "consume_optional p arg t rest s = Inr (s', rest')"
  shows "P pos s' \<and> (\<exists>k. rest' = drop k rest)"
proof -
  have w: "with_value o' rest = Inr (v, rest') \<Longrightarrow> \<exists>k. rest' = drop k rest" for o' v
    by (auto simp: with_value_def split: if_splits list.splits prod.splits tok.splits
        intro: exI [of _ 0] exI [of _ "Suc 0"])
  have n: "\<exists>k. rest = drop k rest" by (rule exI [of _ 0]) simp
  show ?thesis
  proof (cases t)
    case (Known o' name e)
    show ?thesis
    proof (cases e)
      case None
      with c Known obtain v where v: "with_value o' rest = Inr (v, rest')" "take_option p o' v s = Inr s'"
        by (auto simp: consume_optional_def bind_res_eq_Inr)
      have "o' \<in> A" using a(1) Known None by simp
      from preservedD(2) [OF i(1) i(2) this v(2)] w [OF v(1)] show ?thesis by blast
    next
      case (Some se)
      obtain sep val where se: "se = (sep, val)" by (cases se)
      from c Known Some se obtain taken waiting left ovs where
        k: "cluster (ap_options p) o' name sep val = Inr (taken, waiting, left)"
        and o: "(case waiting of None \<Rightarrow> Inr (taken, rest)
           | Some w \<Rightarrow> bind_res (with_value w rest) (\<lambda>(v, rest'). Inr (taken @ [(w, v)], rest'))) = Inr (ovs, rest')"
        and t: "take_all p ovs (s\<lparr>pg_extras := pg_extras s @ left\<rparr>) = Inr s'"
        by (auto simp: consume_optional_def bind_res_eq_Inr)
      have "takes_value o' \<or> \<not> prefix ''--'' name \<longrightarrow> o' \<in> A" using a(1) Known Some by simp
      from cluster_takes [OF k a(2) this] have "fst ` set taken \<subseteq> A" "\<forall>w. waiting = Some w \<longrightarrow> w \<in> A" by blast+
      with o have "fst ` set ovs \<subseteq> A"
        by (cases waiting) (auto simp: bind_res_eq_Inr image_subset_iff)
      moreover from o have "\<exists>k. rest' = drop k rest"
        using w n by (cases waiting) (auto simp: bind_res_eq_Inr)
      ultimately have "fst ` set ovs \<subseteq> A" "\<exists>k. rest' = drop k rest" by blast+
      with take_all_inv [OF i(1) preservedD(1) [OF i(1) i(2)] _ t] show ?thesis by blast
    qed
  qed (use c n preservedD(1) [OF i(1) i(2)] in \<open>auto simp: consume_optional_def\<close>)
qed

lemma consume_positional_inv:
  assumes i: "preserved p A S P" "P pos s" and q: "pos = None \<or> pos = ap_positional p" "fst ` set toks \<subseteq> S"
    and c: "consume_positional pos toks s = Inr (s', pos', rest)"
  shows "P pos' s' \<and> (pos' = None \<or> pos' = ap_positional p) \<and> (\<exists>k. rest = drop k toks)"
proof (cases pos)
  case None
  with c i(2) show ?thesis by (auto simp: consume_positional_def intro: exI [of _ 0])
next
  case (Some r)
  then have ap: "ap_positional p = Some r" using q(1) by auto
  show ?thesis
  proof (cases "positional_count r toks")
    case None
    with c Some i(2) ap show ?thesis by (auto simp: consume_positional_def intro: exI [of _ 0])
  next
    case k: (Some k)
    with c Some have t: "take_positional r (map fst (take k toks)) s = Inr s'" "pos' = None" "rest = drop k toks"
      by (auto simp: consume_positional_def bind_res_eq_Inr)
    have "set (map fst (take k toks)) \<subseteq> S" using q(2) by (auto dest: in_set_takeD)
    from preservedD(3) [OF i(1) i(2) [unfolded Some] ap this t(1)] t show ?thesis by blast
  qed
qed

lemma consume_inv:
  assumes "preserved p A S P" "shorts_in (ap_options p) A" "consume p pos toks s = Inr (s', pos')"
    and "P pos s" "pos = None \<or> pos = ap_positional p" "fst ` set toks \<subseteq> S" "\<forall>t \<in> snd ` set toks. tok_in A t"
  shows "P pos' s'"
  using assms(3-)
proof (induction "length toks" arbitrary: pos toks s rule: less_induct)
  case less
  note inv = preservedD [OF assms(1)]
  have sub: "fst ` set (drop k ts) \<subseteq> S" "\<forall>t \<in> snd ` set (drop k ts). tok_in A t"
    if "fst ` set ts \<subseteq> S" "\<forall>t \<in> snd ` set ts. tok_in A t" for k ts
    using that by (auto dest: in_set_dropD)
  show ?case
  proof (cases "list_ex is_option toks")
    case False
    with less.prems(1) obtain s1 rest where
      "consume_positional pos toks s = Inr (s1, pos', rest)" "s' = s1\<lparr>pg_extras := pg_extras s1 @ map fst rest\<rparr>"
      by (subst (asm) consume.simps) (auto simp: bind_res_eq_Inr)
    with consume_positional_inv [OF assms(1) less.prems(2-4)] inv(1) show ?thesis by blast
  next
    case True
    with less.prems(1) obtain s1 pos1 rest where
      f: "(if is_option (hd toks) then Inr (s, pos, toks) else consume_positional pos toks s) = Inr (s1, pos1, rest)"
      and g: "(if length rest < length toks then consume p pos1 rest s1
        else case dropWhile (\<lambda>t. \<not> is_option t) toks of
             [] \<Rightarrow> Inr (s1, pos1)
           | (arg, t) # rest \<Rightarrow>
               bind_res (consume_optional p arg t rest
                   (s1\<lparr>pg_extras := pg_extras s1 @ map fst (takeWhile (\<lambda>t. \<not> is_option t) toks)\<rparr>))
                 (\<lambda>(s'', rest'). consume p pos1 rest' s'')) = Inr (s', pos')"
      by (subst (asm) consume.simps) (auto simp: bind_res_eq_Inr)
    have one: "P pos1 s1 \<and> (pos1 = None \<or> pos1 = ap_positional p) \<and> (\<exists>k. rest = drop k toks)"
    proof (cases "is_option (hd toks)")
      case True
      with f less.prems show ?thesis by (auto intro: exI [of _ 0])
    next
      case False
      with f have "consume_positional pos toks s = Inr (s1, pos1, rest)" by simp
      from consume_positional_inv [OF assms(1) less.prems(2-4) this] show ?thesis .
    qed
    show ?thesis
    proof (cases "length rest < length toks")
      case shorter: True
      with g have "consume p pos1 rest s1 = Inr (s', pos')" by simp
      with less.hyps [OF shorter] one sub [OF less.prems(4,5)] show ?thesis by blast
    next
      case False
      show ?thesis
      proof (cases "dropWhile (\<lambda>t. \<not> is_option t) toks")
        case Nil
        with False g one show ?thesis by auto
      next
        case (Cons at rest0)
        obtain arg t where at: "at = (arg, t)" by (cases at)
        with False g Cons obtain s2 rest' where
          o: "consume_optional p arg t rest0
                 (s1\<lparr>pg_extras := pg_extras s1 @ map fst (takeWhile (\<lambda>t. \<not> is_option t) toks)\<rparr>) = Inr (s2, rest')"
          and l: "consume p pos1 rest' s2 = Inr (s', pos')"
          by (auto simp: bind_res_eq_Inr)
        have d: "(arg, t) # rest0 = drop (length (takeWhile (\<lambda>t. \<not> is_option t) toks)) toks"
          using Cons at by (simp add: dropWhile_eq_drop)
        have t: "tok_in A t" and r: "fst ` set rest0 \<subseteq> S" "\<forall>t \<in> snd ` set rest0. tok_in A t"
          using sub [OF less.prems(4,5), of "length (takeWhile (\<lambda>t. \<not> is_option t) toks)"] unfolding d [symmetric] by auto
        from consume_optional_inv [OF assms(1) inv(1) t assms(2) o] one obtain k where
          p: "P pos1 s2" "rest' = drop k rest0" by blast
        have "length rest' < length toks"
          using dropWhile_shorter [OF Cons] p(2) by simp
        from less.hyps [OF this l p(1) _ _ _] one sub [OF r, of k] p(2) show ?thesis by blast
      qed
    qed
  qed
qed

lemma classify_strings: "classify os argv = Inr toks \<Longrightarrow> map fst toks = argv"
proof (induction argv arbitrary: toks)
  case (Cons a argv)
  show ?case
  proof (cases "a = ''--''")
    case True
    with Cons.prems show ?thesis by (auto simp: comp_def)
  next
    case False
    with Cons.prems obtain t ts where "classify os argv = Inr ts" "toks = (a, t) # ts"
      by (auto simp: bind_res_eq_Inr)
    with Cons.IH show ?thesis by simp
  qed
qed simp

lemma parse_known_inv:
  assumes "parse_known p argv space = Inr (space', left)" "preserved p A (set argv) P" "shorts_in (ap_options p) A"
    and "\<And>toks. classify (ap_options p) argv = Inr toks \<Longrightarrow> \<forall>t \<in> snd ` set toks. tok_in A t"
    and "P (ap_positional p) \<lparr>pg_space = space, pg_seen = [], pg_extras = []\<rparr>"
  obtains s pos where "P pos s" "pg_space s = space'" "\<not> missing p pos (pg_seen s)"
proof -
  from assms(1) obtain toks s pos where t: "classify (ap_options p) argv = Inr toks"
    and c: "consume p (ap_positional p) toks \<lparr>pg_space = space, pg_seen = [], pg_extras = []\<rparr> = Inr (s, pos)"
    and m: "\<not> missing p pos (pg_seen s)" "pg_space s = space'"
    by (auto simp: parse_known_def bind_res_eq_Inr split: if_splits)
  have "fst ` set toks \<subseteq> set argv"
    using classify_strings [OF t] by (metis list.set_map order_refl)
  from consume_inv [OF assms(2,3) c assms(5) _ this assms(4) [OF t]] m that show ?thesis by blast
qed

lemma classify_known:
  "classify os argv = Inr toks \<Longrightarrow> (s, Known o' name ex) \<in> set toks \<Longrightarrow>
     s \<in> set argv \<and> s \<noteq> ''--'' \<and> parse_optional os s = Inr (Known o' name ex)"
proof (induction argv arbitrary: toks)
  case (Cons a argv)
  show ?case
  proof (cases "a = ''--''")
    case True
    with Cons.prems show ?thesis by auto
  next
    case False
    with Cons.prems(1) obtain t ts where "parse_optional os a = Inr t" "classify os argv = Inr ts" "toks = (a, t) # ts"
      by (auto simp: bind_res_eq_Inr)
    with Cons.IH [of ts] Cons.prems(2) False show ?thesis by auto
  qed
qed simp

lemma option_tuples_known:
  assumes "Known o' name ex \<in> set (option_tuples os s)"
  shows "(name, o') \<in> set (option_strings os) \<and> (ex = None \<longrightarrow> prefix s name)"
proof (cases "prefix ''--'' s")
  case True
  obtain stem val where p: "partition_at CHR ''='' s = (stem, val)" by fastforce
  then have "stem = s" if "val = None"
    using that by (auto simp: partition_at_def takeWhile_eq_all_conv split: if_splits)
  with assms True p show ?thesis
    by (auto simp: option_tuples_def)
next
  case False
  with assms show ?thesis by (auto simp: option_tuples_def split: if_splits)
qed

lemma parse_optional_known:
  assumes "parse_optional os s = Inr (Known o' name ex)"
  shows "(name, o') \<in> set (option_strings os) \<and> (ex = None \<longrightarrow> s = name \<or> prefix s name \<and> 2 \<le> length s)"
proof (cases "map_of (option_strings os) s")
  case (Some o2)
  with assms show ?thesis by (auto simp: parse_optional_def dest: map_of_SomeD split: if_splits)
next
  case None
  have l: "prefix ''-'' s" "length s \<noteq> 1" using assms None by (auto simp: parse_optional_def split: if_splits)
  then have "2 \<le> length s" by (cases s) (auto simp: Suc_le_eq)
  obtain stem val where p: "partition_at CHR ''='' s = (stem, val)" by fastforce
  show ?thesis
  proof (cases "\<exists>v o2. val = Some v \<and> map_of (option_strings os) stem = Some o2")
    case True
    with assms None l p show ?thesis by (auto simp: parse_optional_def dest: map_of_SomeD)
  next
    case False
    with assms None l p have "abbreviated os s = Inr (Known o' name ex)"
      by (auto simp: parse_optional_def split: option.splits)
    then have "option_tuples os s = [Known o' name ex]"
      by (auto simp: abbreviated_def split: list.splits if_splits)
    with option_tuples_known [of o' name ex os s] \<open>2 \<le> length s\<close> show ?thesis by simp
  qed
qed

lemma option_strings_in: "(m, o') \<in> set (option_strings os) \<longleftrightarrow> o' \<in> set os \<and> m \<in> set (op_names o')"
  by (auto simp: option_strings_def)

lemma classify_in:
  assumes "classify os argv = Inr toks"
  shows "\<forall>t \<in> snd ` set toks. tok_in (set os) t"
proof
  fix t assume "t \<in> snd ` set toks"
  then obtain s where s: "(s, t) \<in> set toks" by auto
  show "tok_in (set os) t"
  proof (cases t)
    case (Known o' name ex)
    with classify_known [OF assms] s have "parse_optional os s = Inr (Known o' name ex)" by blast
    then have "o' \<in> set os" using parse_optional_known option_strings_in by fastforce
    then show ?thesis using Known by (cases ex) simp_all
  qed simp_all
qed

lemma shorts_in_all: "shorts_in os (set os)"
  unfolding shorts_in_def by (auto dest!: map_of_SomeD simp: option_strings_in)

section \<open>Options that are spelled out\<close>

text \<open>A long option or an abbreviation that only one long option begins with.\<close>

definition spells :: "'s opt list \<Rightarrow> string \<Rightarrow> 's opt \<Rightarrow> bool" where
  "spells os n o' \<longleftrightarrow> (\<exists>x r. n = ''--'' @ x # r) \<and> CHR ''='' \<notin> set n
     \<and> (map_of (option_strings os) n = Some o'
        \<or> map_of (option_strings os) n = None \<and> (\<exists>m. filter (\<lambda>(m, o2). prefix n m) (option_strings os) = [(m, o')]))"

text \<open>\<open>--name=value\<close>, or \<open>--name\<close> for a flag.\<close>

fun spelled :: "string \<times> 's opt \<times> string \<Rightarrow> string" where
  "spelled (n, o', v) = (if takes_value o' then n @ ''='' @ v else n)"

fun given :: "string \<times> 's opt \<times> string \<Rightarrow> 's opt \<times> string" where
  "given (n, o', v) = (o', if takes_value o' then v else [])"

fun known_as :: "string \<times> 's opt \<times> string \<Rightarrow> string \<times> 's tok \<Rightarrow> bool" where
  "known_as (n, o', v) (s, t) =
     (s = spelled (n, o', v) \<and> (\<exists>m. t = Known o' m (if takes_value o' then Some (True, v) else None)))"

definition plain_names :: "'s opt list \<Rightarrow> bool" where
  "plain_names os \<longleftrightarrow> (\<forall>m \<in> fst ` set (option_strings os). CHR ''='' \<notin> set m)"

lemma partition_at_sep: "c \<notin> set a \<Longrightarrow> partition_at c (a @ c # b) = (a, Some b)"
  by (induction a) (auto simp: partition_at_def)

lemma partition_at_none: "c \<notin> set a \<Longrightarrow> partition_at c a = (a, None)"
  by (auto simp: partition_at_def takeWhile_eq_all_conv)

lemma parse_spelled:
  assumes "plain_names os" "spells os n o'"
  shows "\<exists>m. parse_optional os (spelled (n, o', v)) = Inr (Known o' m (if takes_value o' then Some (True, v) else None))"
proof -
  from assms(2) obtain x r where n: "n = ''--'' @ x # r" "CHR ''='' \<notin> set n" by (auto simp: spells_def)
  have len: "prefix ''--'' (n @ e)" "prefix ''-'' (n @ e)" "length (n @ e) \<noteq> 1" for e using n(1) by auto
  have tuples: "option_tuples os (n @ e) = map (\<lambda>(m, o'). Known o' m (map_option (Pair True) val))
             (filter (\<lambda>(m, o'). prefix n m) (option_strings os))"
    if "partition_at CHR ''='' (n @ e) = (n, val)" for e val
    using len that by (simp add: option_tuples_def)
  show ?thesis
  proof (cases "takes_value o'")
    case True
    have p: "partition_at CHR ''='' (n @ ''='' @ v) = (n, Some v)" using partition_at_sep [OF n(2)] by simp
    have no: "map_of (option_strings os) (n @ ''='' @ v) = None"
      using assms(1) unfolding plain_names_def map_of_eq_None_iff by force
    show ?thesis
    proof (cases "map_of (option_strings os) n")
      case (Some o2)
      then have "o2 = o'" using assms(2) by (auto simp: spells_def)
      with Some True p no len [of "''='' @ v"] show ?thesis by (simp add: parse_optional_def)
    next
      case None
      then obtain m where "filter (\<lambda>(m, o2). prefix n m) (option_strings os) = [(m, o')]"
        using assms(2) by (auto simp: spells_def)
      with tuples [OF p] have "abbreviated os (n @ ''='' @ v) = Inr (Known o' m (Some (True, v)))"
        by (simp add: abbreviated_def)
      with None True p no len [of "''='' @ v"] show ?thesis by (simp add: parse_optional_def)
    qed
  next
    case False
    have p: "partition_at CHR ''='' (n @ []) = (n, None)" using partition_at_none [OF n(2)] by simp
    show ?thesis
    proof (cases "map_of (option_strings os) n")
      case (Some o2)
      then have "o2 = o'" using assms(2) by (auto simp: spells_def)
      with Some False len [of "[]"] show ?thesis by (simp add: parse_optional_def)
    next
      case None
      then obtain m where "filter (\<lambda>(m, o2). prefix n m) (option_strings os) = [(m, o')]"
        using assms(2) by (auto simp: spells_def)
      with tuples [OF p] have "abbreviated os n = Inr (Known o' m None)"
        by (simp add: abbreviated_def)
      with None False p len [of "[]"] show ?thesis by (simp add: parse_optional_def)
    qed
  qed
qed

lemma spelled_not_dashes:
  assumes "spells os n o'"
  shows "spelled (n, o', v) \<noteq> ''--'' \<and> prefix ''--'' (spelled (n, o', v))"
  using assms by (auto simp: spells_def)

lemma classify_spelled_then:
  assumes "plain_names os" "\<forall>(n, o', v) \<in> set xs. spells os n o'" "classify os rest = Inr ts"
  shows "\<exists>toks. classify os (map spelled xs @ rest) = Inr (toks @ ts) \<and> list_all2 known_as xs toks"
  using assms(2)
proof (induction xs)
  case Nil
  then show ?case using assms(3) by simp
next
  case (Cons x xs)
  obtain n o' v where x: "x = (n, o', v)" by (cases x)
  with Cons.prems have s: "spells os n o'" by simp
  from parse_spelled [OF assms(1) s, of v] obtain m where
    "parse_optional os (spelled x) = Inr (Known o' m (if takes_value o' then Some (True, v) else None))"
    unfolding x by blast
  moreover from Cons obtain toks where
    "classify os (map spelled xs @ rest) = Inr (toks @ ts)" "list_all2 known_as xs toks" by auto
  moreover have "spelled x \<noteq> ''--''" using spelled_not_dashes [OF s] x by blast
  ultimately show ?case
    by (intro exI [of _ "(spelled x, Known o' m (if takes_value o' then Some (True, v) else None)) # toks"])
      (auto simp: x simp del: spelled.simps)
qed

lemma classify_spelled:
  assumes "plain_names os" "\<forall>(n, o', v) \<in> set xs. spells os n o'"
  shows "\<exists>toks. classify os (map spelled xs) = Inr toks \<and> list_all2 known_as xs toks"
  using classify_spelled_then [OF assms, of "[]"] by simp

lemma take_option_extras: "take_option p o' v s = Inr s' \<Longrightarrow> pg_extras s' = pg_extras s"
  by (auto simp: take_option_def bind_res_eq_Inr split: if_splits)

lemma take_all_extras: "take_all p ovs s = Inr s' \<Longrightarrow> pg_extras s' = pg_extras s"
  by (induction p ovs s rule: take_all.induct) (auto simp: bind_res_eq_Inr take_option_extras)

lemma consume_nothing: "consume p pos [] s = Inr (s, pos)"
  by (subst consume.simps) (auto simp: consume_positional_def positional_count_def split: option.split)

lemma consume_known_then:
  assumes "list_all2 known_as xs toks"
  shows "consume p pos (toks @ rest) s = bind_res (take_all p (map given xs) s) (consume p pos rest)"
  using assms
proof (induction xs toks arbitrary: s rule: list_all2_induct)
  case Nil
  then show ?case by simp
next
  case (Cons x xs tk toks)
  obtain n o' v where x: "x = (n, o', v)" by (cases x)
  obtain arg t where tk: "tk = (arg, t)" by (cases tk)
  with Cons.hyps x obtain m where t: "t = Known o' m (if takes_value o' then Some (True, v) else None)" by auto
  have o: "consume_optional p arg t ts s
    = bind_res (take_option p o' (if takes_value o' then v else []) s) (\<lambda>s'. Inr (s', ts))" for ts
  proof (cases "takes_value o'")
    case True
    then have "cluster (ap_options p) o' m True v = Inr ([(o', v)], None, [])" by (cases v) simp_all
    with True t show ?thesis by (simp add: consume_optional_def bind_res_assoc)
  next
    case False
    with t show ?thesis by (simp add: consume_optional_def with_value_def)
  qed
  have "is_option tk" using t tk by simp
  then have "consume p pos ((tk # toks) @ rest) s
      = bind_res (consume_optional p arg t (toks @ rest) s) (\<lambda>(s'', rest'). consume p pos rest' s'')"
    by (subst consume.simps) (simp add: tk)
  also have "\<dots> = bind_res (take_option p o' (if takes_value o' then v else []) s) (consume p pos (toks @ rest))"
    unfolding o bind_res_assoc by simp
  finally show ?case
    unfolding Cons.IH [THEN ext] by (simp add: x bind_res_assoc)
qed

lemma consume_known:
  assumes "list_all2 known_as xs toks"
  shows "consume p pos toks s = bind_res (take_all p (map given xs) s) (\<lambda>s'. Inr (s', pos))"
  using consume_known_then [OF assms, of p pos "[]" s] by (simp add: consume_nothing [THEN ext])

text \<open>The parse as one pass over the options in their order, each of them acting once.\<close>

definition run_options :: "'s arg_parser \<Rightarrow> string option \<Rightarrow> ('s opt \<times> string) list \<Rightarrow> 's \<Rightarrow> 's parse" where
  "run_options p pos ovs space =
     bind_res (take_all p ovs
         \<lparr>pg_space = (case (ap_positional p, pos) of (Some (One f), Some a) \<Rightarrow> f a space | _ \<Rightarrow> space),
          pg_seen = [], pg_extras = []\<rparr>) (\<lambda>s.
       if \<exists>o' \<in> set (ap_options p). op_required o' \<and> op_key o' \<notin> set (pg_seen s) then Inl (Exits 2)
       else Inr (pg_space s))"

definition takes_positional :: "'s arg_parser \<Rightarrow> string option \<Rightarrow> bool" where
  "takes_positional p pos \<longleftrightarrow>
     (case ap_positional p of None \<Rightarrow> pos = None | Some (One f) \<Rightarrow> (\<exists>a. pos = Some a \<and> \<not> prefix ''-'' a) | _ \<Rightarrow> False)"

lemma parse_known_spelled:
  assumes "plain_names (ap_options p)" "\<forall>(n, o', v) \<in> set xs. spells (ap_options p) n o'" "takes_positional p pos"
  shows "parse_known p (case_option [] (\<lambda>a. [a]) pos @ map spelled xs) space
    = bind_res (run_options p pos (map given xs) space) (\<lambda>space'. Inr (space', []))"
proof -
  from classify_spelled [OF assms(1,2)] obtain toks where
    t: "classify (ap_options p) (map spelled xs) = Inr toks" and k: "list_all2 known_as xs toks" by blast
  show ?thesis
  proof (cases "ap_positional p")
    case None
    with assms(3) have "pos = None" by (simp add: takes_positional_def)
    with None t consume_known [OF k] show ?thesis
      by (auto simp: parse_known_def run_options_def missing_def bind_res_assoc bind_res_def dest: take_all_extras
          split: sum.split)
  next
    case (Some q)
    with assms(3) obtain f a where q: "q = One f" and a: "pos = Some a" "\<not> prefix ''-'' a"
      by (auto simp: takes_positional_def split: positional.splits)
    have c: "classify (ap_options p) (a # map spelled xs) = Inr ((a, Operand) # toks)"
      using a(2) t by (auto simp: parse_optional_def)
    have dash: "dropWhile is_dashes toks = toks"
      using k by (cases toks) (auto simp: list_all2_Cons2)
    then have d: "takeWhile is_dashes toks = []" by (metis append_same_eq append_self_conv2 takeWhile_dropWhile_id)
    have r: "remove1 ''--'' [a] = [a]" using a(2) by auto
    have one: "consume_positional (Some (One f)) ((a, Operand) # toks) s = Inr (s\<lparr>pg_space := f a (pg_space s)\<rparr>, None, toks)" for s
      using r by (simp add: consume_positional_def positional_count_def d take_positional_def)
    have ex: "consume p (Some (One f)) ((a, Operand) # toks) \<lparr>pg_space = space, pg_seen = [], pg_extras = []\<rparr>
        = consume p None toks \<lparr>pg_space = f a space, pg_seen = [], pg_extras = []\<rparr>"
    proof (cases "list_ex is_option toks")
      case True
      then show ?thesis by (subst consume.simps) (simp add: one)
    next
      case False
      moreover have "toks = []"
        using k False by (cases toks) (auto simp: list_all2_Cons2)
      ultimately show ?thesis
        using one [of "\<lparr>pg_space = space, pg_seen = [], pg_extras = []\<rparr>"]
        by (subst consume.simps) (simp add: consume_nothing)
    qed
    show ?thesis
      using Some q a(1) c ex consume_known [OF k, of p None]
      by (auto simp: parse_known_def run_options_def missing_def bind_res_assoc bind_res_def dest: take_all_extras
          split: sum.split)
  qed
qed

end
