(* ===== verification/CliParser.thy ===== *)
theory CliParser
  imports ArgParser CliBalance
begin

text \<open>
  The option tables of \<open>build_parser\<close> in \<open>cli.py\<close>, and \<open>main\<close> from the arguments of the process to
  the exit code. The namespace is the record \<open>cli_args\<close>; its fields start with the defaults of the
  tables, and those that a command does not define with the default of the \<open>getattr\<close> that reads
  them.
\<close>

section \<open>Kinds of options\<close>

definition option_of :: "string list \<Rightarrow> 's opt_action \<Rightarrow> bool \<Rightarrow> 's opt" where
  "option_of names action required = \<lparr>op_names = names, op_action = action, op_required = required\<rparr>"

definition text_option :: "string \<Rightarrow> (string \<Rightarrow> 's \<Rightarrow> 's) \<Rightarrow> 's opt" where
  "text_option name upd = option_of [name] (Store (\<lambda>v s. Inr (upd v s))) False"

definition choice_option :: "string \<Rightarrow> string list \<Rightarrow> (string \<Rightarrow> 's \<Rightarrow> 's) \<Rightarrow> 's opt" where
  "choice_option name choices upd =
     option_of [name] (Store (\<lambda>v s. if v \<in> set choices then Inr (upd v s) else bad_argument)) False"

definition flag_option :: "string \<Rightarrow> ('s \<Rightarrow> 's) \<Rightarrow> 's opt" where
  "flag_option name upd = option_of [name] (Flag upd) False"

definition typed_option :: "string \<Rightarrow> (string \<Rightarrow> 'v res) \<Rightarrow> ('v \<Rightarrow> 's \<Rightarrow> 's) \<Rightarrow> 's opt" where
  "typed_option name conv upd = option_of [name] (Store (\<lambda>v s. bind_res (conv v) (\<lambda>x. Inr (upd x s)))) False"

definition required :: "'s opt \<Rightarrow> 's opt" where
  "required o' = o'\<lparr>op_required := True\<rparr>"

text \<open>\<open>type=int\<close>.\<close>

definition int_type :: "string \<Rightarrow> int res" where
  "int_type s = (case parse_int s of None \<Rightarrow> Inl (ValueError ''int'') | Some n \<Rightarrow> Inr n)"

definition shows_option :: "string list \<Rightarrow> 's opt" where
  "shows_option names = option_of names Shows False"

definition asset_keys :: "string list" where
  "asset_keys = map fst ASSET"

definition sub_parser :: "cli_args opt list \<Rightarrow> cli_args arg_parser" where
  "sub_parser options = \<lparr>ap_options = shows_option [''-h'', ''--help''] # options, ap_positional = None, ap_exclusive = []\<rparr>"

section \<open>Groups of options\<close>

definition key_option :: "cli_args opt" where
  "key_option = text_option ''--key'' (\<lambda>v a. a\<lparr>a_key := Some v\<rparr>)"

definition amount_option :: "cli_args opt" where
  "amount_option = required (typed_option ''--amount'' parse_amount (\<lambda>x a. a\<lparr>a_amount := x\<rparr>))"

definition asset_option :: "cli_args opt" where
  "asset_option = choice_option ''--asset'' asset_keys (\<lambda>v a. a\<lparr>a_asset := v\<rparr>)"

definition backend_option :: "string list \<Rightarrow> cli_args opt" where
  "backend_option choices = choice_option ''--backend'' choices (\<lambda>v a. a\<lparr>a_backend := v\<rparr>)"

definition confirm_options :: "cli_args opt list" where
  "confirm_options =
     [flag_option ''--confirm'' (\<lambda>a. a\<lparr>a_confirm := True\<rparr>), flag_option ''--yes'' (\<lambda>a. a\<lparr>a_yes := True\<rparr>),
      typed_option ''--max-fee'' int_type (\<lambda>n a. a\<lparr>a_max_fee := n\<rparr>),
      text_option ''--eth-rpc'' (\<lambda>v a. a\<lparr>a_eth_rpc := Some v\<rparr>)]"

definition eth_gas_option :: "cli_args opt" where
  "eth_gas_option = typed_option ''--eth-gas'' int_type (\<lambda>n a. a\<lparr>a_eth_gas := n\<rparr>)"

definition tron_api_option :: "cli_args opt" where
  "tron_api_option = text_option ''--tron-api'' (\<lambda>v a. a\<lparr>a_tron_api := Some v\<rparr>)"

definition add_swap_args :: "cli_args opt list" where
  "add_swap_args =
     [choice_option ''--from'' asset_keys (\<lambda>v a. a\<lparr>a_from := v\<rparr>),
      choice_option ''--to'' asset_keys (\<lambda>v a. a\<lparr>a_to := v\<rparr>),
      amount_option,
      text_option ''--dest'' (\<lambda>v a. a\<lparr>a_dest := Some v\<rparr>),
      key_option,
      backend_option [''thorchain'', ''maya'', ''auto''],
      flag_option ''--price-check'' (\<lambda>a. a\<lparr>a_price_check := True\<rparr>),
      flag_option ''--no-price-check'' (\<lambda>a. a\<lparr>a_price_check := False\<rparr>),
      typed_option ''--stream-interval'' nonneg_int (\<lambda>n a. a\<lparr>a_stream_interval := Some n\<rparr>),
      typed_option ''--stream-quantity'' nonneg_int (\<lambda>n a. a\<lparr>a_stream_quantity := Some n\<rparr>)]"

definition add_broadcast_args :: "cli_args opt list" where
  "add_broadcast_args = key_option # confirm_options @ [eth_gas_option]"

definition add_liquidity_backend_arg :: "cli_args opt" where
  "add_liquidity_backend_arg = backend_option [''thorchain'', ''maya'']"

section \<open>The subcommands\<close>

definition init_parser :: "cli_args arg_parser" where
  "init_parser = sub_parser [flag_option ''--force'' (\<lambda>a. a\<lparr>a_force := True\<rparr>)]"

definition add_hd_parser :: "cli_args arg_parser" where
  "add_hd_parser =
     (sub_parser
       [required (text_option ''--label'' (\<lambda>v a. a\<lparr>a_label := v\<rparr>)),
        text_option ''--mnemonic'' (\<lambda>v a. a\<lparr>a_mnemonic := Some v\<rparr>),
        flag_option ''--generate'' (\<lambda>a. a\<lparr>a_generate := True\<rparr>),
        text_option ''--bip39-passphrase'' (\<lambda>v a. a\<lparr>a_bip39_passphrase := Some v\<rparr>)])
     \<lparr>ap_exclusive := [[''--mnemonic'', ''--generate'']]\<rparr>"

definition add_raw_parser :: "cli_args arg_parser" where
  "add_raw_parser = sub_parser
     [required (text_option ''--label'' (\<lambda>v a. a\<lparr>a_label := v\<rparr>)),
      required (text_option ''--chain'' (\<lambda>v a. a\<lparr>a_chain := v\<rparr>)),
      text_option ''--secret'' (\<lambda>v a. a\<lparr>a_secret := Some v\<rparr>)]"

definition list_parser :: "cli_args arg_parser" where
  "list_parser = sub_parser []"

definition show_seed_parser :: "cli_args arg_parser" where
  "show_seed_parser = sub_parser [key_option]"

definition address_parser :: "cli_args arg_parser" where
  "address_parser = sub_parser [key_option]"

definition balance_parser :: "cli_args arg_parser" where
  "balance_parser = sub_parser
     [key_option, text_option ''--eth-rpc'' (\<lambda>v a. a\<lparr>a_eth_rpc := Some v\<rparr>), tron_api_option,
      text_option ''--bsc-rpc'' (\<lambda>v a. a\<lparr>a_bsc_rpc := Some v\<rparr>)]"

definition quote_parser :: "cli_args arg_parser" where
  "quote_parser = sub_parser add_swap_args"

definition swap_parser :: "cli_args arg_parser" where
  "swap_parser = sub_parser (add_swap_args @ confirm_options @
     [eth_gas_option, typed_option ''--tolerance-bps'' int_type (\<lambda>n a. a\<lparr>a_tolerance_bps := n\<rparr>)])"

definition add_liquidity_parser :: "cli_args arg_parser" where
  "add_liquidity_parser = sub_parser
     ([required asset_option, amount_option, add_liquidity_backend_arg] @ add_broadcast_args)"

definition withdraw_liquidity_parser :: "cli_args arg_parser" where
  "withdraw_liquidity_parser = sub_parser
     ([required asset_option, typed_option ''--bps'' int_type (\<lambda>n a. a\<lparr>a_bps := n\<rparr>), add_liquidity_backend_arg]
      @ add_broadcast_args)"

definition send_parser :: "cli_args arg_parser" where
  "send_parser =
     (sub_parser ([asset_option, amount_option, key_option] @ confirm_options @ [tron_api_option]))
     \<lparr>ap_positional := Some (One (\<lambda>v a. a\<lparr>a_address := v\<rparr>))\<rparr>"

definition status_parser :: "cli_args arg_parser" where
  "status_parser = (sub_parser [backend_option [''thorchain'', ''maya'', ''auto'']])
     \<lparr>ap_positional := Some (One (\<lambda>v a. a\<lparr>a_txid := v\<rparr>))\<rparr>"

text \<open>The commands with their tables and their default for \<open>--backend\<close>.\<close>

definition subcommands :: "(string \<times> command \<times> cli_args arg_parser \<times> string) list" where
  "subcommands =
     [(''init'', Init, init_parser, ''thorchain''), (''add-hd'', AddHd, add_hd_parser, ''thorchain''),
      (''add-raw'', AddRaw, add_raw_parser, ''thorchain''), (''list'', ListKeys, list_parser, ''thorchain''),
      (''show-seed'', ShowSeed, show_seed_parser, ''thorchain''), (''address'', Address, address_parser, ''thorchain''),
      (''balance'', Balance, balance_parser, ''thorchain''), (''quote'', Quote, quote_parser, ''auto''),
      (''swap'', Swap, swap_parser, ''auto''), (''add-liquidity'', AddLiquidity, add_liquidity_parser, ''thorchain''),
      (''withdraw-liquidity'', WithdrawLiquidity, withdraw_liquidity_parser, ''thorchain''),
      (''send'', Send, send_parser, ''thorchain''), (''status'', Status, status_parser, ''auto'')]"

definition initial_args :: cli_args where
  "initial_args =
     \<lparr>a_keystore = None, a_esplora = None, a_eth_rpc = None, a_tron_api = None, a_bsc_rpc = None, a_key = None,
      a_force = False, a_label = [], a_mnemonic = None, a_generate = False, a_bip39_passphrase = None,
      a_chain = [], a_secret = None, a_from = ''BTC'', a_to = ''ETH'', a_asset = ''BTC'', a_amount = MaxAmount,
      a_dest = None, a_address = [], a_backend = ''thorchain'', a_price_check = True, a_stream_interval = None,
      a_stream_quantity = None, a_confirm = False, a_yes = False, a_max_fee = 50000, a_eth_gas = 60000,
      a_tolerance_bps = DEFAULT_TOLERANCE_BPS, a_bps = 10000, a_txid = []\<rparr>"

section \<open>The main parser\<close>

text \<open>The namespace of the main parser: the command, once known, and the arguments that its parser left.\<close>

record main_space =
  ms_args :: cli_args
  ms_command :: "command option"
  ms_unrecognized :: "string list"

definition run_subcommand :: "string list \<Rightarrow> main_space \<Rightarrow> main_space parse" where
  "run_subcommand argv m =
     (case argv of
        [] \<Rightarrow> Inr m
      | name # rest \<Rightarrow>
          (case map_of subcommands name of
             None \<Rightarrow> Inl (Exits 2)
           | Some (c, p, backend) \<Rightarrow>
               bind_res (parse_known p rest ((ms_args m)\<lparr>a_backend := backend\<rparr>)) (\<lambda>(args, left).
                 Inr (m\<lparr>ms_args := args, ms_command := Some c, ms_unrecognized := left\<rparr>))))"

definition main_parser :: "main_space arg_parser" where
  "main_parser =
     \<lparr>ap_options =
        [shows_option [''-h'', ''--help''], shows_option [''--version'', ''-V''],
         text_option ''--keystore'' (\<lambda>v m. m\<lparr>ms_args := (ms_args m)\<lparr>a_keystore := Some v\<rparr>\<rparr>),
         text_option ''--esplora'' (\<lambda>v m. m\<lparr>ms_args := (ms_args m)\<lparr>a_esplora := Some v\<rparr>\<rparr>)],
      ap_positional = Some (Rest run_subcommand), ap_exclusive = []\<rparr>"

text \<open>\<open>parse_args\<close>: what nobody recognized is a usage error.\<close>

definition parse_args :: "string list \<Rightarrow> (command \<times> cli_args) option parse" where
  "parse_args argv =
     bind_res (parse_known main_parser argv \<lparr>ms_args = initial_args, ms_command = None, ms_unrecognized = []\<rparr>)
       (\<lambda>(m, left).
         if left @ ms_unrecognized m \<noteq> [] then Inl (Exits 2)
         else Inr (map_option (\<lambda>c. (c, ms_args m)) (ms_command m)))"

text \<open>\<open>main\<close>; \<open>completion\<close> is the hook of \<open>argcomplete\<close>, which runs only when its variable is set. The exit
  code of a \<open>SystemExit\<close> of the parser is the one that is returned here.\<close>

definition cli_main ::
    "('n, 'bk, 'btx, 'ek, 'tk, 'ttx) cli_libs \<Rightarrow> ('n, unit) cli \<Rightarrow> string list \<Rightarrow> ('n, int) cli" where
  "cli_main cx completion argv =
     bind_io get_environ (\<lambda>env.
     bind_io (if env ''_ARGCOMPLETE'' \<noteq> None then completion else return_io ()) (\<lambda>_.
       case parse_args argv of
         Inl (Exits rc) \<Rightarrow> leave (if rc = 0 then Out ''help'' else Err ''usage'') rc
       | Inl (Raises e) \<Rightarrow> raise_io e
       | Inr parsed \<Rightarrow> main_command cx parsed))"


section \<open>What an option does\<close>

definition effect :: "'s opt \<Rightarrow> string \<Rightarrow> 's \<Rightarrow> 's option" where
  "effect o' v a =
     (case op_action o' of
        Shows \<Rightarrow> None
      | Flag f \<Rightarrow> Some (f a)
      | Store g \<Rightarrow> (case g v a of Inl e \<Rightarrow> None | Inr a' \<Rightarrow> Some a'))"

lemma option_kinds [simp]:
  "op_key (text_option name upd) = name"
  "op_key (choice_option name choices upd) = name"
  "op_key (flag_option name flg) = name"
  "op_key (typed_option name conv updx) = name"
  "op_key (shows_option (name # names)) = name"
  "op_key (required o') = op_key o'"
  "op_names (text_option name upd) = [name]"
  "op_names (choice_option name choices upd) = [name]"
  "op_names (flag_option name flg) = [name]"
  "op_names (typed_option name conv updx) = [name]"
  "op_names (shows_option names') = names'"
  "op_names (required o') = op_names o'"
  "takes_value (text_option name upd)"
  "takes_value (choice_option name choices upd)"
  "\<not> takes_value (flag_option name flg)"
  "takes_value (typed_option name conv updx)"
  "\<not> takes_value (shows_option names')"
  "takes_value (required o') = takes_value o'"
  "op_required (required o')"
  "\<not> op_required (text_option name upd)"
  "\<not> op_required (choice_option name choices upd)"
  "\<not> op_required (flag_option name flg)"
  "\<not> op_required (typed_option name conv updx)"
  "\<not> op_required (shows_option names')"
  by (simp_all add: op_key_def takes_value_def text_option_def choice_option_def flag_option_def typed_option_def
      shows_option_def required_def option_of_def)

lemma effects [simp]:
  "effect (text_option name upd) v a = Some (upd v a)"
  "effect (choice_option name choices upd) v a = (if v \<in> set choices then Some (upd v a) else None)"
  "effect (flag_option name flg) v a = Some (flg a)"
  "effect (typed_option name conv updx) v a = (case conv v of Inl e \<Rightarrow> None | Inr x \<Rightarrow> Some (updx x a))"
  "effect (shows_option names') v a = None"
  "effect (required o') v a = effect o' v a"
  by (simp_all add: effect_def text_option_def choice_option_def flag_option_def typed_option_def bad_argument_def
      shows_option_def required_def option_of_def bind_res_def split: sum.split)

lemma take_option_effect:
  "take_option p o' v s = Inr s' \<longleftrightarrow>
     (\<exists>a. effect o' v (pg_space s) = Some a \<and> \<not> excluded (ap_exclusive p) (pg_seen s) (op_key o')
        \<and> s' = s\<lparr>pg_space := a, pg_seen := op_key o' # pg_seen s\<rparr>)"
  by (auto simp: take_option_def effect_def converted_def bind_res_eq_Inr split: opt_action.splits sum.splits)

lemma take_option_plain:
  assumes "ap_exclusive p = []" "effect o' v (pg_space s) \<noteq> None"
  shows "take_option p o' v s
    = Inr (s\<lparr>pg_space := the (effect o' v (pg_space s)), pg_seen := op_key o' # pg_seen s\<rparr>)"
  using assms by (auto simp: take_option_effect excluded_def)

text \<open>A property of the options seen and the namespace that an option leaves true.\<close>

definition acts :: "string list list \<Rightarrow> (string list \<Rightarrow> 's \<Rightarrow> bool) \<Rightarrow> 's opt \<Rightarrow> bool" where
  "acts groups I o' \<longleftrightarrow>
     (\<forall>seen a v a'. I seen a \<longrightarrow> \<not> excluded groups seen (op_key o') \<longrightarrow> effect o' v a = Some a' \<longrightarrow>
        I (op_key o' # seen) a')"

definition acts_positional :: "(string list \<Rightarrow> 's \<Rightarrow> bool) \<Rightarrow> 's positional option \<Rightarrow> bool" where
  "acts_positional I pos \<longleftrightarrow>
     (case pos of None \<Rightarrow> True | Some (One f) \<Rightarrow> \<forall>seen a v. I seen a \<longrightarrow> I seen (f v a) | _ \<Rightarrow> False)"

lemma parse_known_acts:
  assumes "parse_known p argv space = Inr (space', left)" "shorts_in (ap_options p) A"
    and "\<And>toks. classify (ap_options p) argv = Inr toks \<Longrightarrow> \<forall>t \<in> snd ` set toks. tok_in A t"
    and "\<forall>o' \<in> A. acts (ap_exclusive p) I o'" "acts_positional I (ap_positional p)" "I [] space"
  obtains seen where "I seen space'" "\<forall>o' \<in> set (ap_options p). op_required o' \<longrightarrow> op_key o' \<in> set seen"
proof -
  have "preserved p A (set argv) (\<lambda>pos s. I (pg_seen s) (pg_space s))"
    unfolding preserved_def
  proof (intro conjI allI impI ballI)
    fix o' v s s' assume o: "o' \<in> A" "I (pg_seen s) (pg_space s)" "take_option p o' v s = Inr s'"
    with assms(4) show "I (pg_seen s') (pg_space s')"
      by (auto simp: take_option_effect acts_def)
  next
    fix q args s s'
    assume "ap_positional p = Some q" "I (pg_seen s) (pg_space s)" "take_positional q args s = Inr s'"
    with assms(5) show "I (pg_seen s') (pg_space s')"
      by (auto simp: acts_positional_def take_positional_def split: positional.splits list.splits)
  qed simp_all
  from parse_known_inv [OF assms(1) this assms(2,3)] assms(6) obtain pos and s :: "'a progress" where
    "I (pg_seen s) (pg_space s)" "pg_space s = space'" "\<not> missing p pos (pg_seen s)" by auto
  with that [of "pg_seen s"] show ?thesis by (auto simp: missing_def)
qed

lemmas parsers =
  init_parser_def add_hd_parser_def add_raw_parser_def list_parser_def show_seed_parser_def address_parser_def
  balance_parser_def quote_parser_def swap_parser_def add_liquidity_parser_def withdraw_liquidity_parser_def
  send_parser_def status_parser_def sub_parser_def add_swap_args_def add_broadcast_args_def
  add_liquidity_backend_arg_def confirm_options_def key_option_def amount_option_def asset_option_def
  backend_option_def eth_gas_option_def tron_api_option_def

text \<open>What holds of every command's table holds of each of them.\<close>

lemma every_parser:
  assumes "(name, c, p, backend) \<in> set subcommands"
    and "Q Init init_parser ''thorchain''" "Q AddHd add_hd_parser ''thorchain''" "Q AddRaw add_raw_parser ''thorchain''"
    "Q ListKeys list_parser ''thorchain''" "Q ShowSeed show_seed_parser ''thorchain''"
    "Q Address address_parser ''thorchain''" "Q Balance balance_parser ''thorchain''"
    "Q Quote quote_parser ''auto''" "Q Swap swap_parser ''auto''"
    "Q AddLiquidity add_liquidity_parser ''thorchain''" "Q WithdrawLiquidity withdraw_liquidity_parser ''thorchain''"
    "Q Send send_parser ''thorchain''" "Q Status status_parser ''auto''"
  shows "Q c p backend"
  using assms by (auto simp: subcommands_def)

section \<open>The main parser\<close>

text \<open>A parse that ends in a command ran the parser of that command, on arguments of the command line
  and a namespace in which only the two options of the main parser are set.\<close>

lemma run_subcommand_parses:
  assumes "run_subcommand argv m = Inr m'"
  shows "m' = m \<or> (\<exists>name rest c p backend left args.
    argv = name # rest \<and> (name, c, p, backend) \<in> set subcommands
      \<and> parse_known p rest ((ms_args m)\<lparr>a_backend := backend\<rparr>) = Inr (args, left)
      \<and> m' = m\<lparr>ms_args := args, ms_command := Some c, ms_unrecognized := left\<rparr>)"
proof (cases argv)
  case Nil
  with assms show ?thesis by (simp add: run_subcommand_def)
next
  case (Cons name rest)
  with assms obtain c p backend args left where
    "map_of subcommands name = Some (c, p, backend)"
    "parse_known p rest ((ms_args m)\<lparr>a_backend := backend\<rparr>) = Inr (args, left)"
    "m' = m\<lparr>ms_args := args, ms_command := Some c, ms_unrecognized := left\<rparr>"
    by (auto simp: run_subcommand_def bind_res_eq_Inr split: option.splits)
  with Cons map_of_SomeD [of subcommands name] show ?thesis by blast
qed

definition main_options_keep :: "(cli_args \<Rightarrow> bool) \<Rightarrow> bool" where
  "main_options_keep J \<longleftrightarrow> (\<forall>a x. J a \<longrightarrow> J (a\<lparr>a_keystore := x\<rparr>) \<and> J (a\<lparr>a_esplora := x\<rparr>))"

lemma main_option_acts:
  assumes "o' \<in> set (ap_options main_parser)" "take_option main_parser o' v s = Inr s'"
    "\<And>c. main_options_keep (J c)" "J (ms_command (pg_space s)) (ms_args (pg_space s))"
  shows "J (ms_command (pg_space s')) (ms_args (pg_space s'))
    \<and> ms_command (pg_space s') = ms_command (pg_space s)"
  using assms by (auto simp: main_parser_def take_option_effect main_options_keep_def)

lemma parse_args_inv:
  assumes "parse_args argv = Inr (Some (c, args))" "\<And>c. main_options_keep (J c)" "J None initial_args"
    and sub: "\<And>name c p backend rest a args left.
      (name, c, p, backend) \<in> set subcommands \<Longrightarrow> set rest \<subseteq> set argv \<Longrightarrow> J None a \<Longrightarrow>
      parse_known p rest (a\<lparr>a_backend := backend\<rparr>) = Inr (args, left) \<Longrightarrow> J (Some c) args"
  shows "J (Some c) args"
proof -
  from assms(1) obtain m left where
    m: "parse_known main_parser argv \<lparr>ms_args = initial_args, ms_command = None, ms_unrecognized = []\<rparr> = Inr (m, left)"
      "ms_command m = Some c" "ms_args m = args"
    by (auto simp: parse_args_def bind_res_eq_Inr split: if_splits)
  let ?P = "\<lambda>pos s. J (ms_command (pg_space s)) (ms_args (pg_space s))
    \<and> (pos \<noteq> None \<longrightarrow> ms_command (pg_space s) = None)"
  have options: "?P pos s'"
    if "o' \<in> set (ap_options main_parser)" "?P pos s" "take_option main_parser o' v s = Inr s'" for o' pos v s s'
    using main_option_acts [of o' v s s' J] assms(2) that by auto
  have positional: "?P None s'"
    if q: "ap_positional main_parser = Some q" and as: "set as \<subseteq> set argv" and s: "?P (Some q) s"
      and t: "take_positional q as s = Inr s'" for q as s s'
  proof -
    from q t have r: "run_subcommand as (pg_space s) = Inr (pg_space s')"
      by (auto simp: main_parser_def take_positional_def bind_res_eq_Inr)
    from s have n: "ms_command (pg_space s) = None" "J None (ms_args (pg_space s))" by auto
    from run_subcommand_parses [OF r] show "?P None s'"
    proof (elim disjE exE conjE)
      assume "pg_space s' = pg_space s"
      with n show ?thesis by simp
    next
      fix name rest c p backend left args
      assume "as = name # rest" "(name, c, p, backend) \<in> set subcommands"
        "parse_known p rest ((ms_args (pg_space s))\<lparr>a_backend := backend\<rparr>) = Inr (args, left)"
        "pg_space s' = (pg_space s)\<lparr>ms_args := args, ms_command := Some c, ms_unrecognized := left\<rparr>"
      with sub [of name c p backend rest, OF _ _ n(2)] as show ?thesis by auto
    qed
  qed
  have "preserved main_parser (set (ap_options main_parser)) (set argv) ?P"
    unfolding preserved_def using options positional by simp blast
  then show ?thesis
    by (rule parse_known_inv [OF m(1) _ shorts_in_all]) (erule classify_in, use assms(3) m in auto)
qed


section \<open>Command lines that are spelled out\<close>

text \<open>Two options of the main parser never begin with the same long prefix, so it refuses none.\<close>

lemma main_strings:
  "map fst (option_strings (ap_options main_parser))
     = [''-h'', ''--help'', ''--version'', ''-V'', ''--keystore'', ''--esplora'']"
  by (simp add: main_parser_def option_strings_def)

lemma main_reads_long:
  assumes "x \<noteq> CHR ''=''"
  shows "\<exists>t. parse_optional (ap_options main_parser) (''--'' @ x # r) = Inr t"
proof -
  let ?os = "ap_options main_parser" and ?arg = "''--'' @ x # r"
  obtain val where p: "partition_at CHR ''='' ?arg = (''--'' @ x # takeWhile (\<lambda>c. c \<noteq> CHR ''='') r, val)"
    using assms by (simp add: partition_at_def)
  define r' where "r' = takeWhile (\<lambda>c. c \<noteq> CHR ''='') r"
  have "filter (\<lambda>(m, o'). prefix (''--'' @ x # r') m) (option_strings ?os) = []
      \<or> (\<exists>t. filter (\<lambda>(m, o'). prefix (''--'' @ x # r') m) (option_strings ?os) = [t])"
    by (auto simp: main_parser_def option_strings_def)
  then have "(\<exists>t. option_tuples ?os ?arg = [t]) \<or> option_tuples ?os ?arg = []"
    using p by (auto simp: option_tuples_def r'_def)
  then have "\<exists>t. abbreviated ?os ?arg = Inr t"
    by (auto simp: abbreviated_def)
  then show ?thesis using p by (auto simp: parse_optional_def split: option.split)
qed

lemma main_reads_spelled:
  assumes "\<forall>(n, o', v) \<in> set xs. spells os n o'"
  shows "\<exists>toks. classify (ap_options main_parser) (map spelled xs) = Inr toks"
  using assms
proof (induction xs)
  case (Cons y xs)
  obtain n o' v where y: "y = (n, o', v)" by (cases y)
  with Cons.prems have "spells os n o'" by simp
  then obtain x r where n: "n = ''--'' @ x # r" "x \<noteq> CHR ''=''" by (auto simp: spells_def)
  then have "spelled y = ''--'' @ x # (if takes_value o' then r @ ''='' @ v else r)" by (simp add: y)
  moreover obtain t where "parse_optional (ap_options main_parser)
      (''--'' @ x # (if takes_value o' then r @ ''='' @ v else r)) = Inr t"
    using main_reads_long [OF n(2)] by blast
  ultimately show ?case using Cons by (auto simp del: spelled.simps)
qed simp

lemma plain_names_each: "plain_names os \<longleftrightarrow> (\<forall>o' \<in> set os. \<forall>m \<in> set (op_names o'). CHR ''='' \<notin> set m)"
  by (force simp: plain_names_def option_strings_def)

text \<open>The options of the main parser come first; the command gets everything behind its name.\<close>

lemma main_options_first:
  assumes "\<not> prefix ''-'' name" "classify (ap_options main_parser) rest = Inr toks"
    and "\<forall>(n, o', v) \<in> set ms. spells (ap_options main_parser) n o'"
    and "take_all main_parser (map given ms) \<lparr>pg_space = m, pg_seen = [], pg_extras = []\<rparr> = Inr s"
  shows "parse_known main_parser (map spelled ms @ name # rest) m
    = bind_res (run_subcommand (name # rest) (pg_space s)) (\<lambda>m'. Inr (m', []))"
proof -
  have c: "classify (ap_options main_parser) (name # rest) = Inr ((name, Operand) # toks)"
    using assms(1,2) by (auto simp: parse_optional_def)
  have plain: "plain_names (ap_options main_parser)"
    by (simp add: plain_names_each main_parser_def)
  from classify_spelled_then [OF plain assms(3) c] obtain mt where
    mt: "classify (ap_options main_parser) (map spelled ms @ name # rest) = Inr (mt @ (name, Operand) # toks)"
    and k: "list_all2 known_as ms mt" by blast
  have t: "map fst toks = rest" using classify_strings [OF assms(2)] .
  have pos: "ap_positional main_parser = Some (Rest run_subcommand)" by (simp add: main_parser_def)
  have req: "missing main_parser None seen = False" for seen
    by (simp add: missing_def main_parser_def text_option_def shows_option_def option_of_def)
  have ex: "pg_extras s = []" using take_all_extras [OF assms(4)] by simp
  have "consume_positional (Some (Rest run_subcommand)) ((name, Operand) # toks) s
      = bind_res (run_subcommand (name # rest) (pg_space s)) (\<lambda>m'. Inr (s\<lparr>pg_space := m'\<rparr>, None, []))"
    by (simp add: consume_positional_def positional_count_def take_positional_def t bind_res_assoc)
  then have "consume main_parser (Some (Rest run_subcommand)) ((name, Operand) # toks) s
      = bind_res (run_subcommand (name # rest) (pg_space s)) (\<lambda>m'. Inr (s\<lparr>pg_space := m'\<rparr>, None))"
    by (subst consume.simps) (simp add: bind_res_assoc consume_nothing)
  then show ?thesis
    unfolding parse_known_def mt pos by (simp add: consume_known_then [OF k] assms(4) bind_res_assoc req ex)
qed

lemma main_hands_over:
  assumes "\<not> prefix ''-'' name" "classify (ap_options main_parser) rest = Inr toks"
  shows "parse_known main_parser (name # rest) m = bind_res (run_subcommand (name # rest) m) (\<lambda>m'. Inr (m', []))"
  using main_options_first [OF assms, of "[]"] by simp

lemma plain_tables:
  assumes "(name, c, p, backend) \<in> set subcommands"
  shows "plain_names (ap_options p)"
  by (rule every_parser [OF assms]) (simp_all add: plain_names_each parsers)

lemma subcommand_names:
  "map fst subcommands =
     [''init'', ''add-hd'', ''add-raw'', ''list'', ''show-seed'', ''address'', ''balance'', ''quote'', ''swap'',
      ''add-liquidity'', ''withdraw-liquidity'', ''send'', ''status'']"
  by (simp add: subcommands_def)

lemma subcommand_found:
  assumes "(name, c, p, backend) \<in> set subcommands"
  shows "map_of subcommands name = Some (c, p, backend) \<and> \<not> prefix ''-'' name"
proof -
  have "distinct (map fst subcommands)" "list_all (\<lambda>n. \<not> prefix ''-'' n) (map fst subcommands)"
    unfolding subcommand_names by simp_all
  with assms show ?thesis
    by (auto simp: list_all_iff intro: map_of_is_SomeI)
qed

text \<open>Behind its name, a command's parser sees the rest of the line as it is.\<close>

lemma command_parses:
  assumes "(name, c, p, backend) \<in> set subcommands" "classify (ap_options main_parser) rest = Inr toks"
  shows "parse_args (name # rest)
    = bind_res (parse_known p rest (initial_args\<lparr>a_backend := backend\<rparr>)) (\<lambda>(args, left).
        if left \<noteq> [] then Inl (Exits 2) else Inr (Some (c, args)))"
  using main_hands_over [OF _ assms(2)] subcommand_found [OF assms(1)]
  by (auto simp: parse_args_def run_subcommand_def bind_res_assoc intro!: arg_cong [of _ _ "bind_res _"])

lemma main_reads_line:
  assumes "takes_positional p pos" "\<forall>(n, o', v) \<in> set xs. spells os n o'"
  shows "\<exists>toks. classify (ap_options main_parser) (case_option [] (\<lambda>a. [a]) pos @ map spelled xs) = Inr toks"
proof -
  from main_reads_spelled [OF assms(2)] obtain toks where
    t: "classify (ap_options main_parser) (map spelled xs) = Inr toks" by blast
  show ?thesis
  proof (cases pos)
    case (Some a)
    with assms(1) have "\<not> prefix ''-'' a"
      by (auto simp: takes_positional_def split: option.splits positional.splits)
    with Some t show ?thesis by (auto simp: parse_optional_def)
  qed (use t in simp)
qed

text \<open>An amount whose product with the unit exceeds the exponents of the decimal context is no usage
  error: \<open>decimal.Overflow\<close> is none of the exceptions that \<open>argparse\<close> expects from a conversion.\<close>

lemma huge_amount_raises:
  "parse_args [''quote'', ''--amount=1e999999''] = Inl (Raises (OtherError ''decimal.Overflow''))"
proof -
  let ?xs = "[(''--amount'', amount_option, ''1e999999'')]"
  have c: "(''quote'', Quote, quote_parser, ''auto'') \<in> set subcommands" by (simp add: subcommands_def)
  have s: "\<forall>(n, o', v) \<in> set ?xs. spells (ap_options quote_parser) n o'"
    by (simp add: spells_def parsers option_strings_def)
  have t: "takes_positional quote_parser None" by (simp add: takes_positional_def parsers)
  have "take_option p amount_option ''1e999999'' q = Inl (Raises (OtherError ''decimal.Overflow''))"
    for p :: "cli_args arg_parser" and q
    by (simp add: take_option_def amount_option_def required_def typed_option_def option_of_def converted_def
        is_argument_error_def huge_amount)
  then have "run_options quote_parser None (map given ?xs) a = Inl (Raises (OtherError ''decimal.Overflow''))" for a
    by (simp add: run_options_def amount_option_def)
  moreover from main_reads_line [OF t s] obtain toks where
    "classify (ap_options main_parser) (case_option [] (\<lambda>a. [a]) None @ map spelled ?xs) = Inr toks" by blast
  from command_parses [OF c this] parse_known_spelled [OF plain_tables [OF c] s t]
  have "parse_args (''quote'' # case_option [] (\<lambda>a. [a]) None @ map spelled ?xs)
    = bind_res (run_options quote_parser None (map given ?xs) (initial_args\<lparr>a_backend := ''auto''\<rparr>))
        (\<lambda>args. Inr (Some (Quote, args)))"
    by (simp add: bind_res_assoc)
  moreover have "takes_value amount_option" by (simp add: amount_option_def)
  ultimately show ?thesis by simp
qed

section \<open>Lines of long options\<close>

text \<open>A command line that names its options by a long name, or by any abbreviation that only one of
  the command's options begins with, parses to what the options do one after the other on the
  command's defaults: the main parser hands everything after the command over untouched, and the
  only refusals left are a value that an option refuses, an option excluded by an earlier one, and
  a required option that is missing.\<close>

lemma spelled_command_parses:
  assumes "(name, c, p, backend) \<in> set subcommands" "\<forall>(n, o', v) \<in> set xs. spells (ap_options p) n o'"
    "takes_positional p pos"
  shows "parse_args (name # case_option [] (\<lambda>a. [a]) pos @ map spelled xs)
    = bind_res (run_options p pos (map given xs) (initial_args\<lparr>a_backend := backend\<rparr>)) (\<lambda>args. Inr (Some (c, args)))"
proof -
  from main_reads_line [OF assms(3,2)] obtain toks where
    "classify (ap_options main_parser) (case_option [] (\<lambda>a. [a]) pos @ map spelled xs) = Inr toks" by blast
  from command_parses [OF assms(1) this] parse_known_spelled [OF plain_tables [OF assms(1)] assms(2,3)]
  show ?thesis by (simp add: bind_res_assoc)
qed

lemma abbreviated_quote:
  "parse_args [''quote'', ''--am=max'', ''--no''] =
     Inr (Some (Quote, initial_args\<lparr>a_backend := ''auto'', a_amount := MaxAmount, a_price_check := False\<rparr>))"
proof -
  let ?no = "flag_option ''--no-price-check'' (\<lambda>a. a\<lparr>a_price_check := False\<rparr>)"
  let ?xs = "[(''--am'', amount_option, ''max''), (''--no'', ?no, [])]"
  have c: "(''quote'', Quote, quote_parser, ''auto'') \<in> set subcommands" by (simp add: subcommands_def)
  have s: "\<forall>(n, o', v) \<in> set ?xs. spells (ap_options quote_parser) n o'"
    by (simp add: spells_def parsers option_strings_def)
  have t: "takes_positional quote_parser None" by (simp add: takes_positional_def parsers)
  have max: "parse_amount ''max'' = Inr MaxAmount" by code_simp
  have p: "ap_exclusive quote_parser = []" "ap_positional quote_parser = None" "takes_value amount_option"
    "\<forall>o' \<in> set (ap_options quote_parser). op_required o' \<longrightarrow> op_key o' = ''--amount''"
    and o: "op_key amount_option = ''--amount''"
      "effect amount_option ''max'' a = Some (a\<lparr>a_amount := MaxAmount\<rparr>)" for a
    by (simp_all add: parsers max)
  have "run_options quote_parser None (map given ?xs) (initial_args\<lparr>a_backend := ''auto''\<rparr>)
    = Inr (initial_args\<lparr>a_backend := ''auto'', a_amount := MaxAmount, a_price_check := False\<rparr>)"
    using p o by (simp add: run_options_def take_option_plain)
  with spelled_command_parses [OF c s t] p(3) show ?thesis by simp
qed

end
