(* ===== verification/CliArguments.thy ===== *)
theory CliArguments
  imports CliParser CliExample
begin

text \<open>
  What the command line of the process can make the commands do: without \<open>--confirm\<close> nothing is sent,
  whatever else is on it, and the namespace that a command is run with is well formed. Each is an
  invariant of the options of the tables, carried through the loop of the parser.
\<close>

section \<open>Command lines without a confirmation\<close>

text \<open>What \<open>argparse\<close> takes for \<open>--confirm\<close>: the option and the abbreviations that no other option shares.\<close>

definition says_confirm :: "string \<Rightarrow> bool" where
  "says_confirm a \<longleftrightarrow> prefix ''--c'' a \<and> prefix a ''--confirm''"

definition confirm_table :: "cli_args arg_parser \<Rightarrow> bool" where
  "confirm_table p \<longleftrightarrow>
     shorts_in (ap_options p) {o'. op_key o' \<noteq> ''--confirm''}
     \<and> (\<forall>o' \<in> set (ap_options p).
          if op_key o' = ''--confirm'' then op_names o' = [''--confirm''] \<and> \<not> takes_value o'
          else acts (ap_exclusive p) (\<lambda>seen a. \<not> a_confirm a) o')
     \<and> acts_positional (\<lambda>seen a. \<not> a_confirm a) (ap_positional p)"

lemma confirm_tables:
  assumes "(name, c, p, backend) \<in> set subcommands"
  shows "confirm_table p"
  using assms
  apply (rule every_parser)
  apply (simp_all add: confirm_table_def parsers shorts_in_def option_strings_def acts_def acts_positional_def split: sum.splits)
  done


lemma quiet_tokens:
  assumes "classify os argv = Inr toks" "\<forall>a \<in> set argv. \<not> says_confirm a"
    "\<forall>o' \<in> set os. op_key o' = ''--confirm'' \<longrightarrow> op_names o' = [''--confirm''] \<and> \<not> takes_value o'"
  shows "\<forall>t \<in> snd ` set toks. tok_in {o' \<in> set os. op_key o' \<noteq> ''--confirm''} t"
proof
  fix t assume "t \<in> snd ` set toks"
  then obtain s where s: "(s, t) \<in> set toks" by auto
  show "tok_in {o' \<in> set os. op_key o' \<noteq> ''--confirm''} t"
  proof (cases t)
    case (Known o' name ex)
    with classify_known [OF assms(1)] s have k: "s \<in> set argv" "s \<noteq> ''--''"
      "parse_optional os s = Inr (Known o' name ex)" by blast+
    from parse_optional_known [OF k(3)] have o': "o' \<in> set os" "name \<in> set (op_names o')"
      "ex = None \<longrightarrow> s = name \<or> prefix s name \<and> 2 \<le> length s"
      by (auto simp: option_strings_in)
    have "ex = None \<longrightarrow> name = ''--confirm'' \<longrightarrow> says_confirm s"
    proof (intro impI)
      assume "ex = None" "name = ''--confirm''"
      with o'(3) have "prefix s ''--confirm''" "2 \<le> length s" by auto
      with k(2) show "says_confirm s"
        by (cases s rule: list.exhaust; cases "tl s"; cases "tl (tl s)") (auto simp: says_confirm_def)
    qed
    with assms(2,3) k(1) o' have "op_key o' = ''--confirm'' \<longrightarrow> ex \<noteq> None \<and> \<not> takes_value o' \<and> prefix ''--'' name"
      by auto
    with o'(1) Known show ?thesis by (cases ex) auto
  qed simp_all
qed

lemma quiet_command:
  assumes "(name, c, p, backend) \<in> set subcommands" "parse_known p argv a = Inr (args, left)"
    "\<forall>x \<in> set argv. \<not> says_confirm x" "\<not> a_confirm a"
  shows "\<not> a_confirm args"
proof -
  note t = confirm_tables [OF assms(1), unfolded confirm_table_def]
  let ?A = "{o' \<in> set (ap_options p). op_key o' \<noteq> ''--confirm''}"
  have "shorts_in (ap_options p) ?A"
    using t shorts_in_all [of "ap_options p"] by (simp add: shorts_in_def)
  moreover have "\<forall>o' \<in> ?A. acts (ap_exclusive p) (\<lambda>seen a. \<not> a_confirm a) o'" using t by auto
  moreover have "\<forall>u \<in> snd ` set toks. tok_in ?A u" if "classify (ap_options p) argv = Inr toks" for toks
    using quiet_tokens [OF that assms(3)] t by (metis (no_types, lifting))
  ultimately obtain seen :: "string list" where "\<not> a_confirm args"
    using parse_known_acts [OF assms(2), of ?A "\<lambda>seen a. \<not> a_confirm a"] t assms(4) by auto
  then show ?thesis .
qed

lemma quiet_parse:
  assumes "parse_args argv = Inr (Some (c, args))" "\<forall>x \<in> set argv. \<not> says_confirm x"
  shows "\<not> a_confirm args"
proof (rule parse_args_inv [OF assms(1), of "\<lambda>c a. \<not> a_confirm a"])
  fix name c p backend rest a args left
  assume "(name, c, p, backend) \<in> set subcommands" "set rest \<subseteq> set argv" "\<not> a_confirm a"
    "parse_known p rest (a\<lparr>a_backend := backend\<rparr>) = Inr (args, left)"
  with quiet_command [of name c p backend rest "a\<lparr>a_backend := backend\<rparr>"] assms(2) show "\<not> a_confirm args" by auto
qed (simp_all add: main_options_keep_def initial_args_def)

text \<open>The commands that may send, and that the others do not.\<close>

definition sends :: "command \<Rightarrow> bool" where
  "sends c \<longleftrightarrow> c \<in> {Swap, Send, AddLiquidity, WithdrawLiquidity}"

lemma silent_command: "reads_only sent cx \<Longrightarrow> \<not> sends c \<Longrightarrow> keeps (view sent) (handler_of c cx args)"
  by (cases c) (auto simp: sends_def intro: keeps_keys keeps_balance keeps_quote keeps_status)

lemma command_sends:
  assumes "reads_only sent cx" "sent (m_net (snd (handler_of c cx args w))) \<noteq> sent (m_net w)"
  shows "sends c \<and> consent args (m_answers w)"
  using silent_command [OF assms(1), of c args] every_command_guarded [OF assms(1), of args c] assms(2)
  by (auto simp: keeps_def view_def guarded_def)

text \<open>A run of \<open>main\<close> that sends is the run of a command's handler.\<close>

lemma main_sends:
  assumes "keeps (view sent) completion" "cli_main cx completion argv w = (r, w')"
    "sent (m_net w') \<noteq> sent (m_net w)"
  obtains c args w1 where "parse_args argv = Inr (Some (c, args))" "view sent w1 = view sent w"
    "handler_of c cx args w1 = (r, w')"
proof -
  obtain q w1 where q: "(if m_env w ''_ARGCOMPLETE'' \<noteq> None then completion else return_io ()) w = (q, w1)"
    by fastforce
  then have v: "view sent w1 = view sent w"
    using assms(1) by (auto simp: keeps_def return_io_def split: if_splits) (metis snd_conv)+
  have quiet: "sent (m_net (snd (leave e rc w1))) = sent (m_net w1)" for e and rc :: int
    using keeps_leave [of sent e rc] by (auto simp: keeps_def view_def)
  from q assms(2) have "(case q of Inl e \<Rightarrow> (Inl e, w1) | Inr u \<Rightarrow>
      (case parse_args argv of
         Inl (Exits rc) \<Rightarrow> leave (if rc = 0 then Out ''help'' else Err ''usage'') rc
       | Inl (Raises e) \<Rightarrow> raise_io e
       | Inr parsed \<Rightarrow> main_command cx parsed) w1) = (r, w')"
    by (auto simp: cli_main_def bind_io_def get_environ_def split: sum.splits)
  with assms(3) v quiet that show ?thesis
    by (cases q; cases "parse_args argv")
      (auto simp: view_def main_command_def raise_io_def split: stop.splits option.splits, (metis snd_conv)+)
qed

section \<open>What a parsed command line holds\<close>

definition named_assets :: "cli_args \<Rightarrow> bool" where
  "named_assets a \<longleftrightarrow> a_from a \<in> set asset_keys \<and> a_to a \<in> set asset_keys \<and> a_asset a \<in> set asset_keys"

definition valid_stream :: "cli_args \<Rightarrow> bool" where
  "valid_stream a \<longleftrightarrow>
     (\<forall>n. a_stream_interval a = Some n \<longrightarrow> 0 \<le> n) \<and> (\<forall>n. a_stream_quantity a = Some n \<longrightarrow> 0 \<le> n)"

definition read_amount :: "string list \<Rightarrow> cli_args \<Rightarrow> bool" where
  "read_amount seen a \<longleftrightarrow> (''--amount'' \<in> set seen \<longrightarrow> (\<exists>v. parse_amount v = Inr (a_amount a)))"

definition one_seed :: "string list \<Rightarrow> cli_args \<Rightarrow> bool" where
  "one_seed seen a \<longleftrightarrow>
     (a_mnemonic a \<noteq> None \<longrightarrow> ''--mnemonic'' \<in> set seen) \<and> (a_generate a \<longrightarrow> ''--generate'' \<in> set seen)
     \<and> \<not> (''--mnemonic'' \<in> set seen \<and> ''--generate'' \<in> set seen)"

definition backends_of :: "command \<Rightarrow> string list" where
  "backends_of c =
     (if c \<in> {Quote, Swap, Status} then [''thorchain'', ''maya'', ''auto'']
      else if c \<in> {AddLiquidity, WithdrawLiquidity} then [''thorchain'', ''maya'']
      else [''thorchain''])"

definition takes_amount :: "command \<Rightarrow> bool" where
  "takes_amount c \<longleftrightarrow> c \<in> {Quote, Swap, AddLiquidity, Send}"

lemma nonneg_int_result: "nonneg_int s = Inr n \<Longrightarrow> 0 \<le> n"
  by (auto simp: nonneg_int_def bad_argument_def split: option.splits if_splits)

definition tabled :: "command \<Rightarrow> string list \<Rightarrow> cli_args \<Rightarrow> bool" where
  "tabled c seen a \<longleftrightarrow>
     named_assets a \<and> valid_stream a \<and> read_amount seen a \<and> one_seed seen a \<and> a_backend a \<in> set (backends_of c)"

lemmas tabled_simps = tabled_def named_assets_def valid_stream_def read_amount_def one_seed_def

text \<open>Most options set none of the fields that these speak of.\<close>

definition neutral :: "cli_args opt \<Rightarrow> bool" where
  "neutral o' \<longleftrightarrow> op_key o' \<notin> {''--amount'', ''--mnemonic'', ''--generate''}
     \<and> (\<forall>v a a'. effect o' v a = Some a' \<longrightarrow>
          a_from a' = a_from a \<and> a_to a' = a_to a \<and> a_asset a' = a_asset a \<and> a_amount a' = a_amount a
          \<and> a_stream_interval a' = a_stream_interval a \<and> a_stream_quantity a' = a_stream_quantity a
          \<and> a_mnemonic a' = a_mnemonic a \<and> a_generate a' = a_generate a \<and> a_backend a' = a_backend a)"

lemma neutral_acts: "neutral o' \<Longrightarrow> acts groups (tabled c) o'"
  by (auto simp: neutral_def acts_def tabled_simps)

lemma option_acts [simp]:
  "acts groups (tabled c) (choice_option ''--from'' asset_keys (\<lambda>v a. a\<lparr>a_from := v\<rparr>))"
  "acts groups (tabled c) (choice_option ''--to'' asset_keys (\<lambda>v a. a\<lparr>a_to := v\<rparr>))"
  "acts groups (tabled c) asset_option"
  "acts groups (tabled c) amount_option"
  "acts groups (tabled c) (typed_option ''--stream-interval'' nonneg_int (\<lambda>n a. a\<lparr>a_stream_interval := Some n\<rparr>))"
  "acts groups (tabled c) (typed_option ''--stream-quantity'' nonneg_int (\<lambda>n a. a\<lparr>a_stream_quantity := Some n\<rparr>))"
  by (auto simp: acts_def tabled_simps asset_option_def amount_option_def dest: nonneg_int_result split: sum.splits)

lemma seed_option_acts [simp]:
  "acts [[''--mnemonic'', ''--generate'']] (tabled c) (text_option ''--mnemonic'' (\<lambda>v a. a\<lparr>a_mnemonic := Some v\<rparr>))"
  "acts [[''--mnemonic'', ''--generate'']] (tabled c) (flag_option ''--generate'' (\<lambda>a. a\<lparr>a_generate := True\<rparr>))"
  by (auto simp: acts_def tabled_simps excluded_def)

lemma backend_option_acts [simp]:
  "set choices \<subseteq> set (backends_of c) \<Longrightarrow> acts groups (tabled c) (backend_option choices)"
  by (auto simp: acts_def tabled_simps backend_option_def)

lemma required_acts [simp]: "acts groups I (required o') = acts groups I o'"
  by (simp add: acts_def)

definition tables_hold :: "command \<Rightarrow> cli_args arg_parser \<Rightarrow> string \<Rightarrow> bool" where
  "tables_hold c p backend \<longleftrightarrow>
     acts_positional (tabled c) (ap_positional p)
     \<and> (\<forall>o' \<in> set (ap_options p). acts (ap_exclusive p) (tabled c) o')
     \<and> (takes_amount c \<longrightarrow> (\<exists>o' \<in> set (ap_options p). op_required o' \<and> op_key o' = ''--amount''))
     \<and> backend \<in> set (backends_of c)"

lemma neutral_kinds:
  "neutral (shows_option [''-h'', ''--help''])"
  "neutral key_option" "neutral eth_gas_option" "neutral tron_api_option"
  "neutral (flag_option ''--force'' (\<lambda>a. a\<lparr>a_force := True\<rparr>))"
  "neutral (text_option ''--label'' (\<lambda>v a. a\<lparr>a_label := v\<rparr>))"
  "neutral (text_option ''--bip39-passphrase'' (\<lambda>v a. a\<lparr>a_bip39_passphrase := Some v\<rparr>))"
  "neutral (text_option ''--chain'' (\<lambda>v a. a\<lparr>a_chain := v\<rparr>))"
  "neutral (text_option ''--secret'' (\<lambda>v a. a\<lparr>a_secret := Some v\<rparr>))"
  "neutral (text_option ''--eth-rpc'' (\<lambda>v a. a\<lparr>a_eth_rpc := Some v\<rparr>))"
  "neutral (text_option ''--bsc-rpc'' (\<lambda>v a. a\<lparr>a_bsc_rpc := Some v\<rparr>))"
  "neutral (text_option ''--dest'' (\<lambda>v a. a\<lparr>a_dest := Some v\<rparr>))"
  "neutral (flag_option ''--price-check'' (\<lambda>a. a\<lparr>a_price_check := True\<rparr>))"
  "neutral (flag_option ''--no-price-check'' (\<lambda>a. a\<lparr>a_price_check := False\<rparr>))"
  "neutral (typed_option ''--tolerance-bps'' int_type (\<lambda>n a. a\<lparr>a_tolerance_bps := n\<rparr>))"
  "neutral (typed_option ''--bps'' int_type (\<lambda>n a. a\<lparr>a_bps := n\<rparr>))"
  by (simp_all add: neutral_def key_option_def eth_gas_option_def tron_api_option_def split: sum.split)

lemma neutral_confirm: "o' \<in> set confirm_options \<Longrightarrow> neutral o'"
  by (auto simp: confirm_options_def neutral_def split: sum.splits)

lemma amount_required [simp]: "op_required amount_option" "op_key amount_option = ''--amount''"
  by (simp_all add: amount_option_def)

lemma tables_hold_all:
  assumes "(name, c, p, backend) \<in> set subcommands"
  shows "tables_hold c p backend"
proof -
  note n = neutral_kinds [THEN neutral_acts] neutral_confirm [THEN neutral_acts]
  show ?thesis
    by (rule every_parser [OF assms])
      (simp_all add: tables_hold_def acts_positional_def takes_amount_def backends_of_def n tabled_simps
        init_parser_def add_hd_parser_def add_raw_parser_def list_parser_def show_seed_parser_def address_parser_def
        balance_parser_def quote_parser_def swap_parser_def add_liquidity_parser_def withdraw_liquidity_parser_def
        send_parser_def status_parser_def sub_parser_def add_swap_args_def add_broadcast_args_def
        add_liquidity_backend_arg_def)
qed

definition parsed_well :: "command \<Rightarrow> cli_args \<Rightarrow> bool" where
  "parsed_well c a \<longleftrightarrow>
     named_assets a \<and> valid_stream a \<and> a_backend a \<in> set (backends_of c)
     \<and> (takes_amount c \<longrightarrow> a_amount a = MaxAmount \<or> (\<exists>d n. a_amount a = Amount d \<and> base_units d = Inr n \<and> 1 \<le> n))
     \<and> \<not> (a_mnemonic a \<noteq> None \<and> a_generate a)"

lemma parsed_command:
  assumes "(name, c, p, backend) \<in> set subcommands" "parse_known p argv (a\<lparr>a_backend := backend\<rparr>) = Inr (args, left)"
    "named_assets a" "valid_stream a" "a_mnemonic a = None" "\<not> a_generate a"
  shows "parsed_well c args"
proof -
  note t = tables_hold_all [OF assms(1), unfolded tables_hold_def]
  have "tabled c [] (a\<lparr>a_backend := backend\<rparr>)"
    using assms(3-) t by (simp add: tabled_simps)
  with parse_known_acts [OF assms(2) shorts_in_all classify_in [of _ argv], of "tabled c"] t
  obtain seen where s: "tabled c seen args" "\<forall>o' \<in> set (ap_options p). op_required o' \<longrightarrow> op_key o' \<in> set seen"
    by auto
  have "\<exists>v. parse_amount v = Inr (a_amount args)" if "takes_amount c"
    using s t that by (auto simp: tabled_def read_amount_def)
  with accepted_amount have "takes_amount c \<longrightarrow> a_amount args = MaxAmount
      \<or> (\<exists>d n. a_amount args = Amount d \<and> base_units d = Inr n \<and> 1 \<le> n)"
    by (metis cli_amount.exhaust)
  with s(1) show ?thesis by (auto simp: parsed_well_def tabled_def one_seed_def)
qed

section \<open>Properties\<close>

text \<open>C3. Whatever the process sends, the user asked for: when the network differs after a run from
  the raw arguments to the exit code, the command line parsed to one of the four commands that
  pay, one of its arguments is \<open>--confirm\<close> or an abbreviation of it, and without \<open>--yes\<close> the answer
  typed at the prompt was \<open>yes\<close>. (\<open>argparse\<close> takes an unambiguous prefix for the option, and no
  other spelling.)\<close>

theorem sent_only_on_request:
  assumes "reads_only sent cx" "keeps (view sent) completion"
    "cli_main cx completion argv w = (r, w')" "sent (m_net w') \<noteq> sent (m_net w)"
  shows "\<exists>c args. parse_args argv = Inr (Some (c, args)) \<and> c \<in> {Swap, Send, AddLiquidity, WithdrawLiquidity}
    \<and> consent args (m_answers w) \<and> (\<exists>a \<in> set argv. prefix ''--c'' a \<and> prefix a ''--confirm'')"
proof -
  from main_sends [OF assms(2-4)] obtain c args w1 where
    p: "parse_args argv = Inr (Some (c, args))" "view sent w1 = view sent w" "handler_of c cx args w1 = (r, w')" .
  with command_sends [OF assms(1), of c args w1] assms(4) have "sends c \<and> consent args (m_answers w)"
    by (auto simp: view_def)
  moreover from this quiet_parse [OF p(1)] have "\<exists>a \<in> set argv. says_confirm a" by (auto simp: consent_def)
  ultimately show ?thesis using p(1) unfolding sends_def says_confirm_def by blast
qed

lemma accepted_live: "parse_amount ''0.0005'' = Inr (Amount \<lparr>dec_neg = False, dec_coeff = 5, dec_exp = -4\<rparr>)"
proof -
  have l: "lower ''0.0005'' \<noteq> ''max''" by code_simp
  have t: "decimal_of_text ''0.0005'' = Some (DFinite \<lparr>dec_neg = False, dec_coeff = 5, dec_exp = -4\<rparr>)" by code_simp
  show ?thesis
    by (simp add: parse_amount_def t l times_unit_def dec_fix_def dec_len_def str_nat_eval PREC_def EMAX_def
        adjusted_def Let_def dec_less_one_def del: lower_Cons)
qed

lemma live_line_parses:
  "\<exists>args. parse_args [''send'', ''TR7NHqjeKQxGTCi8q8ZY4pL8otSzgjLj6t'', ''--asset=TRX'', ''--amount=0.0005'', ''--yes'', ''--confirm'']
     = Inr (Some (Send, args)) \<and> live_payment args"
proof -
  let ?yes = "flag_option ''--yes'' (\<lambda>a. a\<lparr>a_yes := True\<rparr>)"
    and ?confirm = "flag_option ''--confirm'' (\<lambda>a. a\<lparr>a_confirm := True\<rparr>)"
    and ?to = "Some ''TR7NHqjeKQxGTCi8q8ZY4pL8otSzgjLj6t''"
  let ?xs = "[(''--asset'', asset_option, ''TRX''), (''--amount'', amount_option, ''0.0005''),
    (''--yes'', ?yes, []), (''--confirm'', ?confirm, [])]"
  have c: "(''send'', Send, send_parser, ''thorchain'') \<in> set subcommands" by (simp add: subcommands_def)
  have s: "\<forall>(n, o', v) \<in> set ?xs. spells (ap_options send_parser) n o'"
    by (simp add: spells_def parsers option_strings_def)
  have t: "takes_positional send_parser ?to" by (simp add: takes_positional_def parsers)
  have p: "ap_exclusive send_parser = []" "ap_positional send_parser = Some (One (\<lambda>v a. a\<lparr>a_address := v\<rparr>))"
    "\<forall>o' \<in> set (ap_options send_parser). op_required o' \<longrightarrow> op_key o' = ''--amount''"
    by (simp_all add: parsers)
  have o: "takes_value asset_option" "effect asset_option ''TRX'' a = Some (a\<lparr>a_asset := ''TRX''\<rparr>)"
    "takes_value amount_option"
    "effect amount_option ''0.0005'' a = Some (a\<lparr>a_amount := Amount \<lparr>dec_neg = False, dec_coeff = 5, dec_exp = -4\<rparr>\<rparr>)" for a
    by (simp_all add: asset_option_def amount_option_def accepted_live asset_keys_def ASSET_def)
  obtain args where "run_options send_parser ?to (map given ?xs) (initial_args\<lparr>a_backend := ''thorchain''\<rparr>) = Inr args"
    "live_payment args"
    using p o by (simp add: run_options_def take_option_plain live_payment_def initial_args_def)
  moreover from main_reads_line [OF t s] obtain toks where
    "classify (ap_options main_parser) (case_option [] (\<lambda>a. [a]) ?to @ map spelled ?xs) = Inr toks" by blast
  from command_parses [OF c this] parse_known_spelled [OF plain_tables [OF c] s t]
  have "parse_args (''send'' # case_option [] (\<lambda>a. [a]) ?to @ map spelled ?xs)
    = bind_res (run_options send_parser ?to (map given ?xs) (initial_args\<lparr>a_backend := ''thorchain''\<rparr>))
        (\<lambda>args. Inr (Some (Send, args)))"
    by (simp add: bind_res_assoc)
  ultimately show ?thesis using o(1,3) by simp
qed

theorem sent_only_on_request_witness:
  "\<exists>os args. let line = [''send'', ''TR7NHqjeKQxGTCi8q8ZY4pL8otSzgjLj6t'', ''--asset=TRX'', ''--amount=0.0005'', ''--yes'', ''--confirm'']
     in m_net (snd (cli_main live_libs (return_io ()) line (live_machine os))) = [1]
        \<and> parse_args line = Inr (Some (Send, args)) \<and> consent args []"
proof -
  let ?line = "[''send'', ''TR7NHqjeKQxGTCi8q8ZY4pL8otSzgjLj6t'', ''--asset=TRX'', ''--amount=0.0005'', ''--yes'', ''--confirm'']"
  obtain args where a: "parse_args ?line = Inr (Some (Send, args))" "live_payment args"
    using live_line_parses by blast
  obtain os where "m_net (snd (cmd_send live_libs args (live_machine os))) = [1]"
    by (rule live_send) (use a(2) in blast)
  moreover have "m_env (live_machine os) ''_ARGCOMPLETE'' = None" by (simp add: live_machine_def live_env_def)
  ultimately have n: "m_net (snd (cli_main live_libs (return_io ()) ?line (live_machine os))) = [1]"
    using a(1) by (simp add: cli_main_def bind_io_def get_environ_def main_command_def del: prefix_def)
  obtain r w' where c: "cli_main live_libs (return_io ()) ?line (live_machine os) = (r, w')" by fastforce
  have k: "keeps (view id) (return_io () :: (nat list, unit) cli)" by (rule keeps_return)
  have "id (m_net w') \<noteq> id (m_net (live_machine os))" using n c by (simp add: live_machine_def)
  from sent_only_on_request [OF live_reads_only k c this] a(1) have "consent args (m_answers (live_machine os))" by auto
  then have "consent args []" by (simp add: live_machine_def)
  with n a(1) show ?thesis unfolding Let_def by blast
qed

text \<open>C19. The namespace that a command is run with is well formed: the assets are known ones, the
  backend is among the command's choices, the streaming values are not negative, the amount that
  the command needs was given and is \<open>max\<close> or at least one base unit, and no key is both generated
  and typed in.\<close>

theorem parsed_args_well_formed:
  assumes "parse_args argv = Inr (Some (c, args))"
  shows "set [a_from args, a_to args, a_asset args] \<subseteq> set asset_keys
    \<and> a_backend args \<in> set (backends_of c)
    \<and> (\<forall>n. a_stream_interval args = Some n \<longrightarrow> 0 \<le> n) \<and> (\<forall>n. a_stream_quantity args = Some n \<longrightarrow> 0 \<le> n)
    \<and> (takes_amount c \<longrightarrow> a_amount args = MaxAmount
         \<or> (\<exists>d n. a_amount args = Amount d \<and> base_units d = Inr n \<and> 1 \<le> n))
    \<and> \<not> (a_mnemonic args \<noteq> None \<and> a_generate args)"
proof -
  let ?J = "\<lambda>c a. case c of
      None \<Rightarrow> named_assets a \<and> valid_stream a \<and> a_mnemonic a = None \<and> \<not> a_generate a
    | Some c \<Rightarrow> parsed_well c a"
  have "?J (Some c) args"
  proof (rule parse_args_inv [OF assms, of ?J])
    fix name c p backend rest a args left
    assume "(name, c, p, backend) \<in> set subcommands" "?J None a"
      "parse_known p rest (a\<lparr>a_backend := backend\<rparr>) = Inr (args, left)"
    with parsed_command [of name c p backend rest a] show "?J (Some c) args" by simp
  next
    show "?J None initial_args"
      by (simp add: initial_args_def named_assets_def valid_stream_def asset_keys_def ASSET_def)
  qed (auto simp: main_options_keep_def parsed_well_def named_assets_def valid_stream_def split: option.split)
  then show ?thesis by (simp add: parsed_well_def named_assets_def valid_stream_def)
qed

theorem parsed_args_well_formed_witness:
  "\<exists>args. parse_args [''add-liquidity'', ''--asset'', ''ETH'', ''--am'', ''max'', ''--backend=maya'', ''--conf'']
       = Inr (Some (AddLiquidity, args))
     \<and> a_asset args \<in> set asset_keys \<and> a_backend args \<in> {''thorchain'', ''maya''} \<and> a_confirm args"
proof -
  let ?args = "initial_args\<lparr>a_asset := ''ETH'', a_backend := ''maya'', a_amount := MaxAmount, a_confirm := True\<rparr>"
  have "parse_args [''add-liquidity'', ''--asset'', ''ETH'', ''--am'', ''max'', ''--backend=maya'', ''--conf'']
      = Inr (Some (AddLiquidity, ?args))"
    by code_simp
  with parsed_args_well_formed [OF this] show ?thesis
    by (intro exI [of _ ?args]) (simp add: backends_of_def)
qed

end
