(* ===== verification/CliLine.thy ===== *)
theory CliLine
  imports CliParser
begin

text \<open>
  Command lines as the usage text documents them, written down once more without the option tables:
  the names of the commands and of their options, their defaults and the fields that they set. A
  namespace is printed as a command line, and \<open>parse_args\<close> reads it back.
\<close>

section \<open>Pieces of a command line\<close>

text \<open>An option that is there or not, with the change that it is to make either way.\<close>

type_synonym 's piece = "bool \<times> string \<times> 's opt \<times> string \<times> ('s \<Rightarrow> 's)"

fun piece_text :: "'s piece \<Rightarrow> string list" where
  "piece_text (b, n, o', v, f) = (if b then [spelled (n, o', v)] else [])"

fun piece_option :: "'s piece \<Rightarrow> (string \<times> 's opt \<times> string) list" where
  "piece_option (b, n, o', v, f) = (if b then [(n, o', v)] else [])"

fun pieces_act :: "'s piece list \<Rightarrow> 's \<Rightarrow> bool" where
  "pieces_act [] a = True"
| "pieces_act ((b, n, o', v, f) # ps) a \<longleftrightarrow>
     (if b then effect o' (if takes_value o' then v else []) a = Some (f a) else f a = a) \<and> pieces_act ps (f a)"

fun pieces_result :: "'s piece list \<Rightarrow> 's \<Rightarrow> 's" where
  "pieces_result [] a = a"
| "pieces_result ((b, n, o', v, f) # ps) a = pieces_result ps (f a)"

fun shown_keys :: "'s piece list \<Rightarrow> string set" where
  "shown_keys [] = {}"
| "shown_keys ((b, n, o', v, f) # ps) = {k. b \<and> k = op_key o'} \<union> shown_keys ps"

definition compatible :: "string list list \<Rightarrow> string set \<Rightarrow> bool" where
  "compatible groups K \<longleftrightarrow> (\<forall>g \<in> set groups. \<forall>k \<in> set g. \<forall>l \<in> set g. k \<in> K \<longrightarrow> l \<in> K \<longrightarrow> k = l)"

lemma piece_texts: "concat (map piece_text ps) = map spelled (concat (map piece_option ps))"
proof (induction ps)
  case (Cons q ps)
  then show ?case by (cases q) (auto simp del: spelled.simps)
qed simp

lemma take_pieces:
  assumes "pieces_act ps (pg_space s)" "compatible (ap_exclusive p) (shown_keys ps \<union> set (pg_seen s))"
  shows "\<exists>s'. take_all p (map given (concat (map piece_option ps))) s = Inr s'
    \<and> pg_space s' = pieces_result ps (pg_space s) \<and> set (pg_seen s') = shown_keys ps \<union> set (pg_seen s)"
  using assms
proof (induction ps arbitrary: s)
  case (Cons q ps)
  obtain b n o' v f where q: "q = (b, n, o', v, f)" by (cases q)
  show ?case
  proof (cases b)
    case True
    let ?s = "s\<lparr>pg_space := f (pg_space s), pg_seen := op_key o' # pg_seen s\<rparr>"
    have "\<not> excluded (ap_exclusive p) (pg_seen s) (op_key o')"
      using Cons.prems(2) True unfolding q compatible_def excluded_def by simp blast
    then have "take_option p o' (if takes_value o' then v else []) s = Inr ?s"
      using Cons.prems(1) True q by (simp add: take_option_effect)
    moreover have "shown_keys ps \<union> set (pg_seen ?s) = shown_keys (q # ps) \<union> set (pg_seen s)"
      using True q by auto
    with Cons.prems(2) have "compatible (ap_exclusive p) (shown_keys ps \<union> set (pg_seen ?s))" by simp
    with Cons.IH [of ?s] Cons.prems(1) True q obtain s' where
      "take_all p (map given (concat (map piece_option ps))) ?s = Inr s'"
      "pg_space s' = pieces_result ps (f (pg_space s))" "set (pg_seen s') = shown_keys ps \<union> set (pg_seen ?s)" by auto
    ultimately show ?thesis using True q by auto
  next
    case False
    with Cons.prems(1) q have "f (pg_space s) = pg_space s" "pieces_act ps (pg_space s)" by auto
    with Cons.IH [of s] Cons.prems(2) False q show ?thesis by simp
  qed
qed simp


definition main_pieces :: "cli_args \<Rightarrow> main_space piece list" where
  "main_pieces args =
     [(a_keystore args \<noteq> None, ''--keystore'',
       text_option ''--keystore'' (\<lambda>v m. m\<lparr>ms_args := (ms_args m)\<lparr>a_keystore := Some v\<rparr>\<rparr>), the (a_keystore args),
       \<lambda>m. m\<lparr>ms_args := (ms_args m)\<lparr>a_keystore := a_keystore args\<rparr>\<rparr>),
      (a_esplora args \<noteq> None, ''--esplora'',
       text_option ''--esplora'' (\<lambda>v m. m\<lparr>ms_args := (ms_args m)\<lparr>a_esplora := Some v\<rparr>\<rparr>), the (a_esplora args),
       \<lambda>m. m\<lparr>ms_args := (ms_args m)\<lparr>a_esplora := a_esplora args\<rparr>\<rparr>)]"

definition command_start :: "'s arg_parser \<Rightarrow> string option \<Rightarrow> 's \<Rightarrow> 's" where
  "command_start p pos space = (case (ap_positional p, pos) of (Some (One f), Some a) \<Rightarrow> f a space | _ \<Rightarrow> space)"

lemma main_pieces_taken:
  obtains s where "take_all main_parser (map given (concat (map piece_option (main_pieces args))))
      \<lparr>pg_space = \<lparr>ms_args = initial_args, ms_command = None, ms_unrecognized = []\<rparr>, pg_seen = [], pg_extras = []\<rparr> = Inr s"
    "pg_space s = \<lparr>ms_args = initial_args\<lparr>a_keystore := a_keystore args, a_esplora := a_esplora args\<rparr>,
      ms_command = None, ms_unrecognized = []\<rparr>"
proof -
  let ?m = "\<lparr>ms_args = initial_args, ms_command = None, ms_unrecognized = []\<rparr>"
  let ?s = "\<lparr>pg_space = ?m, pg_seen = [], pg_extras = []\<rparr>"
  have "pieces_act (main_pieces args) (pg_space ?s)"
    by (auto simp: main_pieces_def initial_args_def)
  moreover have "compatible (ap_exclusive main_parser) (shown_keys (main_pieces args) \<union> set (pg_seen ?s))"
    by (simp add: compatible_def main_parser_def)
  ultimately obtain s where "take_all main_parser (map given (concat (map piece_option (main_pieces args)))) ?s = Inr s"
    "pg_space s = pieces_result (main_pieces args) ?m" using take_pieces [of "main_pieces args" ?s main_parser] by auto
  then show ?thesis using that by (simp add: main_pieces_def)
qed

lemma pieces_spelled:
  "\<forall>(b, n, o', v, f) \<in> set ps. spells os n o' \<Longrightarrow> \<forall>(n, o', v) \<in> set (concat (map piece_option ps)). spells os n o'"
  by (fastforce split: if_splits)

lemma main_pieces_spelled:
  "\<forall>(n, o', v) \<in> set (concat (map piece_option (main_pieces args))). spells (ap_options main_parser) n o'"
  by (rule pieces_spelled) (simp add: main_pieces_def spells_def main_parser_def option_strings_def)

lemma pieces_parse:
  assumes c: "(name, c, p, backend) \<in> set subcommands" and pos: "takes_positional p pos"
    and sp: "\<forall>(b, n, o', v, f) \<in> set ps. spells (ap_options p) n o'"
    and ex: "compatible (ap_exclusive p) (shown_keys ps)"
    and req: "\<forall>o' \<in> set (ap_options p). op_required o' \<longrightarrow> op_key o' \<in> shown_keys ps"
    and run: "pieces_act ps (command_start p pos
      (initial_args\<lparr>a_keystore := a_keystore args, a_esplora := a_esplora args, a_backend := backend\<rparr>))"
  shows "parse_args (concat (map piece_text (main_pieces args)) @ name # case_option [] (\<lambda>a. [a]) pos @ concat (map piece_text ps))
    = Inr (Some (c, pieces_result ps (command_start p pos
        (initial_args\<lparr>a_keystore := a_keystore args, a_esplora := a_esplora args, a_backend := backend\<rparr>))))"
proof -
  let ?xs = "concat (map piece_option ps)" and ?rest = "case_option [] (\<lambda>a. [a]) pos @ concat (map piece_text ps)"
    and ?a = "initial_args\<lparr>a_keystore := a_keystore args, a_esplora := a_esplora args, a_backend := backend\<rparr>"
  have xs: "\<forall>(n, o', v) \<in> set ?xs. spells (ap_options p) n o'"
    using sp by (rule pieces_spelled)
  from main_reads_line [OF pos xs] obtain toks where
    t: "classify (ap_options main_parser) ?rest = Inr toks" unfolding piece_texts by blast
  obtain s where s: "take_all main_parser (map given (concat (map piece_option (main_pieces args))))
      \<lparr>pg_space = \<lparr>ms_args = initial_args, ms_command = None, ms_unrecognized = []\<rparr>, pg_seen = [], pg_extras = []\<rparr> = Inr s"
    "pg_space s = \<lparr>ms_args = initial_args\<lparr>a_keystore := a_keystore args, a_esplora := a_esplora args\<rparr>,
      ms_command = None, ms_unrecognized = []\<rparr>" by (rule main_pieces_taken)
  let ?s0 = "\<lparr>pg_space = command_start p pos ?a, pg_seen = [], pg_extras = []\<rparr>"
  from take_pieces [of ps ?s0 p] run ex obtain s' where
    "take_all p (map given ?xs) ?s0 = Inr s'" "pg_space s' = pieces_result ps (command_start p pos ?a)"
    "set (pg_seen s') = shown_keys ps" by auto
  with req have "run_options p pos (map given ?xs) ?a = Inr (pieces_result ps (command_start p pos ?a))"
    by (simp add: run_options_def command_start_def)
  with parse_known_spelled [OF plain_tables [OF c] xs pos]
  have k: "parse_known p ?rest ?a = Inr (pieces_result ps (command_start p pos ?a), [])"
    by (simp add: piece_texts)
  have n: "map_of subcommands name = Some (c, p, backend)" "\<not> prefix ''-'' name"
    using subcommand_found [OF c] by auto
  have "run_subcommand (name # ?rest) (pg_space s) = Inr ((pg_space s)\<lparr>ms_args := pieces_result ps (command_start p pos ?a),
      ms_command := Some c, ms_unrecognized := []\<rparr>)"
    using k by (simp add: run_subcommand_def n(1) s(2))
  with main_options_first [OF n(2) t main_pieces_spelled s(1)]
  show ?thesis by (simp add: parse_args_def piece_texts)
qed


section \<open>The command line of a namespace\<close>

definition text_arg :: "string \<Rightarrow> string option \<Rightarrow> string list" where
  "text_arg name x = (case x of None \<Rightarrow> [] | Some v \<Rightarrow> [name @ ''='' @ v])"

definition int_arg :: "string \<Rightarrow> int option \<Rightarrow> string list" where
  "int_arg name x = text_arg name (map_option str_int x)"

definition flag_arg :: "string \<Rightarrow> bool \<Rightarrow> string list" where
  "flag_arg name b = (if b then [name] else [])"

text \<open>A field with a default is left out where it has it, unless everything is to be said.\<close>

definition unless :: "bool \<Rightarrow> 'v \<Rightarrow> 'v \<Rightarrow> 'v option" where
  "unless full d v = (if full \<or> v \<noteq> d then Some v else None)"

fun command_name :: "command \<Rightarrow> string" where
  "command_name Init = ''init''"
| "command_name AddHd = ''add-hd''"
| "command_name AddRaw = ''add-raw''"
| "command_name ListKeys = ''list''"
| "command_name ShowSeed = ''show-seed''"
| "command_name Address = ''address''"
| "command_name Balance = ''balance''"
| "command_name Quote = ''quote''"
| "command_name Swap = ''swap''"
| "command_name AddLiquidity = ''add-liquidity''"
| "command_name WithdrawLiquidity = ''withdraw-liquidity''"
| "command_name Send = ''send''"
| "command_name Status = ''status''"

definition request_args :: "bool \<Rightarrow> string \<Rightarrow> cli_args \<Rightarrow> string list" where
  "request_args full amount args = concat
     [text_arg ''--from'' (unless full ''BTC'' (a_from args)), text_arg ''--to'' (unless full ''ETH'' (a_to args)),
      [''--amount='' @ amount], text_arg ''--dest'' (a_dest args), text_arg ''--key'' (a_key args),
      text_arg ''--backend'' (unless full ''auto'' (a_backend args)),
      flag_arg ''--price-check'' (full \<and> a_price_check args), flag_arg ''--no-price-check'' (\<not> a_price_check args),
      int_arg ''--stream-interval'' (a_stream_interval args), int_arg ''--stream-quantity'' (a_stream_quantity args)]"

definition consent_args :: "bool \<Rightarrow> cli_args \<Rightarrow> string list" where
  "consent_args full args = concat
     [flag_arg ''--confirm'' (a_confirm args), flag_arg ''--yes'' (a_yes args),
      int_arg ''--max-fee'' (unless full 50000 (a_max_fee args)), text_arg ''--eth-rpc'' (a_eth_rpc args)]"

definition broadcast_args :: "bool \<Rightarrow> cli_args \<Rightarrow> string list" where
  "broadcast_args full args = concat
     [text_arg ''--backend'' (unless full ''thorchain'' (a_backend args)), text_arg ''--key'' (a_key args),
      consent_args full args, int_arg ''--eth-gas'' (unless full 60000 (a_eth_gas args))]"

text \<open>What stands behind the name of the command; the amount is given by its text.\<close>

fun command_options :: "bool \<Rightarrow> command \<Rightarrow> string \<Rightarrow> cli_args \<Rightarrow> string list" where
  "command_options full Init amount args = flag_arg ''--force'' (a_force args)"
| "command_options full AddHd amount args = concat
     [[''--label='' @ a_label args], text_arg ''--mnemonic'' (a_mnemonic args), flag_arg ''--generate'' (a_generate args),
      text_arg ''--bip39-passphrase'' (a_bip39_passphrase args)]"
| "command_options full AddRaw amount args = concat
     [[''--label='' @ a_label args], [''--chain='' @ a_chain args], text_arg ''--secret'' (a_secret args)]"
| "command_options full ListKeys amount args = []"
| "command_options full ShowSeed amount args = text_arg ''--key'' (a_key args)"
| "command_options full Address amount args = text_arg ''--key'' (a_key args)"
| "command_options full Balance amount args = concat
     [text_arg ''--key'' (a_key args), text_arg ''--eth-rpc'' (a_eth_rpc args), text_arg ''--tron-api'' (a_tron_api args),
      text_arg ''--bsc-rpc'' (a_bsc_rpc args)]"
| "command_options full Quote amount args = request_args full amount args"
| "command_options full Swap amount args = concat
     [request_args full amount args, consent_args full args, int_arg ''--eth-gas'' (unless full 60000 (a_eth_gas args)),
      int_arg ''--tolerance-bps'' (unless full 300 (a_tolerance_bps args))]"
| "command_options full AddLiquidity amount args = concat
     [[''--asset='' @ a_asset args], [''--amount='' @ amount], broadcast_args full args]"
| "command_options full WithdrawLiquidity amount args = concat
     [[''--asset='' @ a_asset args], int_arg ''--bps'' (unless full 10000 (a_bps args)), broadcast_args full args]"
| "command_options full Send amount args = concat
     [[a_address args], text_arg ''--asset'' (unless full ''BTC'' (a_asset args)), [''--amount='' @ amount],
      text_arg ''--key'' (a_key args), consent_args full args, text_arg ''--tron-api'' (a_tron_api args)]"
| "command_options full Status amount args = concat
     [[a_txid args], text_arg ''--backend'' (unless full ''auto'' (a_backend args))]"

definition command_line :: "bool \<Rightarrow> command \<Rightarrow> string \<Rightarrow> cli_args \<Rightarrow> string list" where
  "command_line full c amount args = concat
     [text_arg ''--keystore'' (a_keystore args), text_arg ''--esplora'' (a_esplora args), [command_name c],
      command_options full c amount args]"

section \<open>The arguments of a command\<close>

text \<open>The namespace of a command that was given nothing, with the two options of every command.\<close>

definition blank :: "string \<Rightarrow> cli_args \<Rightarrow> cli_args" where
  "blank backend args =
     \<lparr>a_keystore = a_keystore args, a_esplora = a_esplora args, a_eth_rpc = None, a_tron_api = None, a_bsc_rpc = None,
      a_key = None, a_force = False, a_label = [], a_mnemonic = None, a_generate = False, a_bip39_passphrase = None,
      a_chain = [], a_secret = None, a_from = ''BTC'', a_to = ''ETH'', a_asset = ''BTC'', a_amount = MaxAmount,
      a_dest = None, a_address = [], a_backend = backend, a_price_check = True, a_stream_interval = None,
      a_stream_quantity = None, a_confirm = False, a_yes = False, a_max_fee = 50000, a_eth_gas = 60000,
      a_tolerance_bps = 300, a_bps = 10000, a_txid = []\<rparr>"

definition with_request :: "cli_args \<Rightarrow> cli_args \<Rightarrow> cli_args" where
  "with_request args a = a
     \<lparr>a_from := a_from args, a_to := a_to args, a_amount := a_amount args, a_dest := a_dest args, a_key := a_key args,
      a_backend := a_backend args, a_price_check := a_price_check args, a_stream_interval := a_stream_interval args,
      a_stream_quantity := a_stream_quantity args\<rparr>"

definition with_consent :: "cli_args \<Rightarrow> cli_args \<Rightarrow> cli_args" where
  "with_consent args a = a
     \<lparr>a_confirm := a_confirm args, a_yes := a_yes args, a_max_fee := a_max_fee args, a_eth_rpc := a_eth_rpc args\<rparr>"

definition with_deposit :: "cli_args \<Rightarrow> cli_args \<Rightarrow> cli_args" where
  "with_deposit args a = (with_consent args a)
     \<lparr>a_asset := a_asset args, a_backend := a_backend args, a_key := a_key args, a_eth_gas := a_eth_gas args\<rparr>"

fun command_args :: "command \<Rightarrow> cli_args \<Rightarrow> cli_args" where
  "command_args Init args = (blank ''thorchain'' args)\<lparr>a_force := a_force args\<rparr>"
| "command_args AddHd args = (blank ''thorchain'' args)
     \<lparr>a_label := a_label args, a_mnemonic := a_mnemonic args, a_generate := a_generate args,
      a_bip39_passphrase := a_bip39_passphrase args\<rparr>"
| "command_args AddRaw args = (blank ''thorchain'' args)
     \<lparr>a_label := a_label args, a_chain := a_chain args, a_secret := a_secret args\<rparr>"
| "command_args ListKeys args = blank ''thorchain'' args"
| "command_args ShowSeed args = (blank ''thorchain'' args)\<lparr>a_key := a_key args\<rparr>"
| "command_args Address args = (blank ''thorchain'' args)\<lparr>a_key := a_key args\<rparr>"
| "command_args Balance args = (blank ''thorchain'' args)
     \<lparr>a_key := a_key args, a_eth_rpc := a_eth_rpc args, a_tron_api := a_tron_api args, a_bsc_rpc := a_bsc_rpc args\<rparr>"
| "command_args Quote args = with_request args (blank ''auto'' args)"
| "command_args Swap args = (with_consent args (with_request args (blank ''auto'' args)))
     \<lparr>a_eth_gas := a_eth_gas args, a_tolerance_bps := a_tolerance_bps args\<rparr>"
| "command_args AddLiquidity args = (with_deposit args (blank ''thorchain'' args))\<lparr>a_amount := a_amount args\<rparr>"
| "command_args WithdrawLiquidity args = (with_deposit args (blank ''thorchain'' args))\<lparr>a_bps := a_bps args\<rparr>"
| "command_args Send args = (with_consent args (blank ''thorchain'' args))
     \<lparr>a_address := a_address args, a_asset := a_asset args, a_amount := a_amount args, a_key := a_key args,
      a_tron_api := a_tron_api args\<rparr>"
| "command_args Status args = (blank ''auto'' args)\<lparr>a_txid := a_txid args, a_backend := a_backend args\<rparr>"

text \<open>The values that an option takes.\<close>

definition asset_name :: "string \<Rightarrow> bool" where
  "asset_name v \<longleftrightarrow> v \<in> {''BTC'', ''ETH'', ''TRX'', ''USDT-TRON'', ''USDT-ETH'', ''USDC-ETH'', ''LTC'', ''DOGE'', ''BCH'', ''DASH''}"

definition writable :: "int \<Rightarrow> bool" where
  "writable n \<longleftrightarrow> length (str_nat (nat \<bar>n\<bar>)) \<le> 4300"

definition request_ok :: "string \<Rightarrow> cli_args \<Rightarrow> bool" where
  "request_ok amount args \<longleftrightarrow> asset_name (a_from args) \<and> asset_name (a_to args)
     \<and> parse_amount amount = Inr (a_amount args) \<and> a_backend args \<in> {''thorchain'', ''maya'', ''auto''}
     \<and> pred_option (\<lambda>n. 0 \<le> n \<and> writable n) (a_stream_interval args)
     \<and> pred_option (\<lambda>n. 0 \<le> n \<and> writable n) (a_stream_quantity args)"

definition deposit_ok :: "cli_args \<Rightarrow> bool" where
  "deposit_ok args \<longleftrightarrow> asset_name (a_asset args) \<and> a_backend args \<in> {''thorchain'', ''maya''}
     \<and> writable (a_max_fee args) \<and> writable (a_eth_gas args)"

fun command_ok :: "command \<Rightarrow> string \<Rightarrow> cli_args \<Rightarrow> bool" where
  "command_ok AddHd amount args \<longleftrightarrow> a_mnemonic args = None \<or> \<not> a_generate args"
| "command_ok Quote amount args \<longleftrightarrow> request_ok amount args"
| "command_ok Swap amount args \<longleftrightarrow> request_ok amount args \<and> writable (a_max_fee args) \<and> writable (a_eth_gas args)
     \<and> writable (a_tolerance_bps args)"
| "command_ok AddLiquidity amount args \<longleftrightarrow> parse_amount amount = Inr (a_amount args) \<and> deposit_ok args"
| "command_ok WithdrawLiquidity amount args \<longleftrightarrow> writable (a_bps args) \<and> deposit_ok args"
| "command_ok Send amount args \<longleftrightarrow> \<not> prefix ''-'' (a_address args) \<and> asset_name (a_asset args)
     \<and> parse_amount amount = Inr (a_amount args) \<and> writable (a_max_fee args)"
| "command_ok Status amount args \<longleftrightarrow> \<not> prefix ''-'' (a_txid args) \<and> a_backend args \<in> {''thorchain'', ''maya'', ''auto''}"
| "command_ok c amount args \<longleftrightarrow> True"


section \<open>The pieces of the line of a namespace\<close>

definition text_piece :: "'s opt \<Rightarrow> string option \<Rightarrow> ('s \<Rightarrow> 's) \<Rightarrow> 's piece" where
  "text_piece o' x f = (x \<noteq> None, op_key o', o', the x, f)"

definition flag_piece :: "'s opt \<Rightarrow> bool \<Rightarrow> ('s \<Rightarrow> 's) \<Rightarrow> 's piece" where
  "flag_piece o' b f = (b, op_key o', o', [], f)"

lemma piece_text_arg [simp]:
  "takes_value o' \<Longrightarrow> piece_text (text_piece o' x f) = text_arg (op_key o') x"
  "\<not> takes_value o' \<Longrightarrow> piece_text (flag_piece o' b f) = flag_arg (op_key o') b"
  by (auto simp: text_piece_def flag_piece_def text_arg_def flag_arg_def)

definition request_pieces :: "bool \<Rightarrow> string \<Rightarrow> cli_args \<Rightarrow> cli_args piece list" where
  "request_pieces full amount args =
     [text_piece (choice_option ''--from'' asset_keys (\<lambda>v a. a\<lparr>a_from := v\<rparr>)) (unless full ''BTC'' (a_from args))
        (\<lambda>a. a\<lparr>a_from := a_from args\<rparr>),
      text_piece (choice_option ''--to'' asset_keys (\<lambda>v a. a\<lparr>a_to := v\<rparr>)) (unless full ''ETH'' (a_to args))
        (\<lambda>a. a\<lparr>a_to := a_to args\<rparr>),
      text_piece amount_option (Some amount) (\<lambda>a. a\<lparr>a_amount := a_amount args\<rparr>),
      text_piece (text_option ''--dest'' (\<lambda>v a. a\<lparr>a_dest := Some v\<rparr>)) (a_dest args) (\<lambda>a. a\<lparr>a_dest := a_dest args\<rparr>),
      text_piece key_option (a_key args) (\<lambda>a. a\<lparr>a_key := a_key args\<rparr>),
      text_piece (backend_option [''thorchain'', ''maya'', ''auto'']) (unless full ''auto'' (a_backend args))
        (\<lambda>a. a\<lparr>a_backend := a_backend args\<rparr>),
      flag_piece (flag_option ''--price-check'' (\<lambda>a. a\<lparr>a_price_check := True\<rparr>)) (full \<and> a_price_check args) (\<lambda>a. a),
      flag_piece (flag_option ''--no-price-check'' (\<lambda>a. a\<lparr>a_price_check := False\<rparr>)) (\<not> a_price_check args)
        (\<lambda>a. a\<lparr>a_price_check := a_price_check args\<rparr>),
      text_piece (typed_option ''--stream-interval'' nonneg_int (\<lambda>n a. a\<lparr>a_stream_interval := Some n\<rparr>))
        (map_option str_int (a_stream_interval args)) (\<lambda>a. a\<lparr>a_stream_interval := a_stream_interval args\<rparr>),
      text_piece (typed_option ''--stream-quantity'' nonneg_int (\<lambda>n a. a\<lparr>a_stream_quantity := Some n\<rparr>))
        (map_option str_int (a_stream_quantity args)) (\<lambda>a. a\<lparr>a_stream_quantity := a_stream_quantity args\<rparr>)]"

definition consent_pieces :: "bool \<Rightarrow> cli_args \<Rightarrow> cli_args piece list" where
  "consent_pieces full args =
     [flag_piece (flag_option ''--confirm'' (\<lambda>a. a\<lparr>a_confirm := True\<rparr>)) (a_confirm args)
        (\<lambda>a. a\<lparr>a_confirm := a_confirm args\<rparr>),
      flag_piece (flag_option ''--yes'' (\<lambda>a. a\<lparr>a_yes := True\<rparr>)) (a_yes args) (\<lambda>a. a\<lparr>a_yes := a_yes args\<rparr>),
      text_piece (typed_option ''--max-fee'' int_type (\<lambda>n a. a\<lparr>a_max_fee := n\<rparr>))
        (map_option str_int (unless full 50000 (a_max_fee args))) (\<lambda>a. a\<lparr>a_max_fee := a_max_fee args\<rparr>),
      text_piece (text_option ''--eth-rpc'' (\<lambda>v a. a\<lparr>a_eth_rpc := Some v\<rparr>)) (a_eth_rpc args)
        (\<lambda>a. a\<lparr>a_eth_rpc := a_eth_rpc args\<rparr>)]"

definition gas_piece :: "bool \<Rightarrow> cli_args \<Rightarrow> cli_args piece" where
  "gas_piece full args = text_piece eth_gas_option (map_option str_int (unless full 60000 (a_eth_gas args)))
     (\<lambda>a. a\<lparr>a_eth_gas := a_eth_gas args\<rparr>)"

definition broadcast_pieces :: "bool \<Rightarrow> cli_args \<Rightarrow> cli_args piece list" where
  "broadcast_pieces full args =
     [text_piece add_liquidity_backend_arg (unless full ''thorchain'' (a_backend args)) (\<lambda>a. a\<lparr>a_backend := a_backend args\<rparr>),
      text_piece key_option (a_key args) (\<lambda>a. a\<lparr>a_key := a_key args\<rparr>)]
     @ consent_pieces full args @ [gas_piece full args]"

definition label_piece :: "cli_args \<Rightarrow> cli_args piece" where
  "label_piece args = text_piece (required (text_option ''--label'' (\<lambda>v a. a\<lparr>a_label := v\<rparr>))) (Some (a_label args))
     (\<lambda>a. a\<lparr>a_label := a_label args\<rparr>)"

fun command_pieces :: "bool \<Rightarrow> command \<Rightarrow> string \<Rightarrow> cli_args \<Rightarrow> cli_args piece list" where
  "command_pieces full Init amount args =
     [flag_piece (flag_option ''--force'' (\<lambda>a. a\<lparr>a_force := True\<rparr>)) (a_force args) (\<lambda>a. a\<lparr>a_force := a_force args\<rparr>)]"
| "command_pieces full AddHd amount args =
     [label_piece args,
      text_piece (text_option ''--mnemonic'' (\<lambda>v a. a\<lparr>a_mnemonic := Some v\<rparr>)) (a_mnemonic args)
        (\<lambda>a. a\<lparr>a_mnemonic := a_mnemonic args\<rparr>),
      flag_piece (flag_option ''--generate'' (\<lambda>a. a\<lparr>a_generate := True\<rparr>)) (a_generate args)
        (\<lambda>a. a\<lparr>a_generate := a_generate args\<rparr>),
      text_piece (text_option ''--bip39-passphrase'' (\<lambda>v a. a\<lparr>a_bip39_passphrase := Some v\<rparr>)) (a_bip39_passphrase args)
        (\<lambda>a. a\<lparr>a_bip39_passphrase := a_bip39_passphrase args\<rparr>)]"
| "command_pieces full AddRaw amount args =
     [label_piece args,
      text_piece (required (text_option ''--chain'' (\<lambda>v a. a\<lparr>a_chain := v\<rparr>))) (Some (a_chain args))
        (\<lambda>a. a\<lparr>a_chain := a_chain args\<rparr>),
      text_piece (text_option ''--secret'' (\<lambda>v a. a\<lparr>a_secret := Some v\<rparr>)) (a_secret args)
        (\<lambda>a. a\<lparr>a_secret := a_secret args\<rparr>)]"
| "command_pieces full ListKeys amount args = []"
| "command_pieces full ShowSeed amount args = [text_piece key_option (a_key args) (\<lambda>a. a\<lparr>a_key := a_key args\<rparr>)]"
| "command_pieces full Address amount args = [text_piece key_option (a_key args) (\<lambda>a. a\<lparr>a_key := a_key args\<rparr>)]"
| "command_pieces full Balance amount args =
     [text_piece key_option (a_key args) (\<lambda>a. a\<lparr>a_key := a_key args\<rparr>),
      text_piece (text_option ''--eth-rpc'' (\<lambda>v a. a\<lparr>a_eth_rpc := Some v\<rparr>)) (a_eth_rpc args)
        (\<lambda>a. a\<lparr>a_eth_rpc := a_eth_rpc args\<rparr>),
      text_piece tron_api_option (a_tron_api args) (\<lambda>a. a\<lparr>a_tron_api := a_tron_api args\<rparr>),
      text_piece (text_option ''--bsc-rpc'' (\<lambda>v a. a\<lparr>a_bsc_rpc := Some v\<rparr>)) (a_bsc_rpc args)
        (\<lambda>a. a\<lparr>a_bsc_rpc := a_bsc_rpc args\<rparr>)]"
| "command_pieces full Quote amount args = request_pieces full amount args"
| "command_pieces full Swap amount args = request_pieces full amount args @ consent_pieces full args @
     [gas_piece full args,
      text_piece (typed_option ''--tolerance-bps'' int_type (\<lambda>n a. a\<lparr>a_tolerance_bps := n\<rparr>))
        (map_option str_int (unless full 300 (a_tolerance_bps args))) (\<lambda>a. a\<lparr>a_tolerance_bps := a_tolerance_bps args\<rparr>)]"
| "command_pieces full AddLiquidity amount args =
     [text_piece (required asset_option) (Some (a_asset args)) (\<lambda>a. a\<lparr>a_asset := a_asset args\<rparr>),
      text_piece amount_option (Some amount) (\<lambda>a. a\<lparr>a_amount := a_amount args\<rparr>)] @ broadcast_pieces full args"
| "command_pieces full WithdrawLiquidity amount args =
     [text_piece (required asset_option) (Some (a_asset args)) (\<lambda>a. a\<lparr>a_asset := a_asset args\<rparr>),
      text_piece (typed_option ''--bps'' int_type (\<lambda>n a. a\<lparr>a_bps := n\<rparr>))
        (map_option str_int (unless full 10000 (a_bps args))) (\<lambda>a. a\<lparr>a_bps := a_bps args\<rparr>)] @ broadcast_pieces full args"
| "command_pieces full Send amount args =
     [text_piece asset_option (unless full ''BTC'' (a_asset args)) (\<lambda>a. a\<lparr>a_asset := a_asset args\<rparr>),
      text_piece amount_option (Some amount) (\<lambda>a. a\<lparr>a_amount := a_amount args\<rparr>),
      text_piece key_option (a_key args) (\<lambda>a. a\<lparr>a_key := a_key args\<rparr>)] @ consent_pieces full args @
     [text_piece tron_api_option (a_tron_api args) (\<lambda>a. a\<lparr>a_tron_api := a_tron_api args\<rparr>)]"
| "command_pieces full Status amount args =
     [text_piece (backend_option [''thorchain'', ''maya'', ''auto'']) (unless full ''auto'' (a_backend args))
        (\<lambda>a. a\<lparr>a_backend := a_backend args\<rparr>)]"

fun command_operand :: "command \<Rightarrow> cli_args \<Rightarrow> string option" where
  "command_operand Send args = Some (a_address args)"
| "command_operand Status args = Some (a_txid args)"
| "command_operand c args = None"

fun command_table :: "command \<Rightarrow> cli_args arg_parser" where
  "command_table Init = init_parser"
| "command_table AddHd = add_hd_parser"
| "command_table AddRaw = add_raw_parser"
| "command_table ListKeys = list_parser"
| "command_table ShowSeed = show_seed_parser"
| "command_table Address = address_parser"
| "command_table Balance = balance_parser"
| "command_table Quote = quote_parser"
| "command_table Swap = swap_parser"
| "command_table AddLiquidity = add_liquidity_parser"
| "command_table WithdrawLiquidity = withdraw_liquidity_parser"
| "command_table Send = send_parser"
| "command_table Status = status_parser"

definition command_backend :: "command \<Rightarrow> string" where
  "command_backend c = (if c \<in> {Quote, Swap, Status} then ''auto'' else ''thorchain'')"

lemma command_listed: "(command_name c, c, command_table c, command_backend c) \<in> set subcommands"
  by (cases c) (simp_all add: subcommands_def command_backend_def)

lemmas piece_groups = request_pieces_def consent_pieces_def gas_piece_def broadcast_pieces_def label_piece_def

lemma option_groups [simp]:
  "op_key amount_option = ''--amount''" "takes_value amount_option"
  "op_key key_option = ''--key''" "takes_value key_option"
  "op_key asset_option = ''--asset''" "takes_value asset_option"
  "op_key (backend_option choices) = ''--backend''" "takes_value (backend_option choices)"
  "op_key add_liquidity_backend_arg = ''--backend''" "takes_value add_liquidity_backend_arg"
  "op_key eth_gas_option = ''--eth-gas''" "takes_value eth_gas_option"
  "op_key tron_api_option = ''--tron-api''" "takes_value tron_api_option"
  by (simp_all add: amount_option_def key_option_def asset_option_def backend_option_def add_liquidity_backend_arg_def
      eth_gas_option_def tron_api_option_def)

lemma command_options_pieces:
  "command_options full c amount args
     = case_option [] (\<lambda>a. [a]) (command_operand c args) @ concat (map piece_text (command_pieces full c amount args))"
  by (cases c) (simp_all add: piece_groups request_args_def consent_args_def broadcast_args_def int_arg_def text_arg_def [of _ "Some _"])

lemma main_pieces_text:
  "concat (map piece_text (main_pieces args)) = text_arg ''--keystore'' (a_keystore args) @ text_arg ''--esplora'' (a_esplora args)"
  by (auto simp: main_pieces_def text_arg_def)

lemma command_takes_operand: "command_ok c amount args \<Longrightarrow> takes_positional (command_table c) (command_operand c args)"
  by (cases c) (simp_all add: takes_positional_def parsers)

lemma command_pieces_compatible:
  "command_ok c amount args \<Longrightarrow> compatible (ap_exclusive (command_table c)) (shown_keys (command_pieces full c amount args))"
  by (cases c) (auto simp: parsers compatible_def piece_groups text_piece_def flag_piece_def)

lemma command_pieces_required:
  "\<forall>o' \<in> set (ap_options (command_table c)). op_required o' \<longrightarrow> op_key o' \<in> shown_keys (command_pieces full c amount args)"
  by (cases c) (simp_all add: parsers piece_groups text_piece_def flag_piece_def)


lemma command_pieces_spelled:
  "\<forall>(b, n, o', v, f) \<in> set (command_pieces full c amount args). spells (ap_options (command_table c)) n o'"
  by (cases c) (simp_all add: parsers piece_groups text_piece_def flag_piece_def spells_def option_strings_def)

lemma written_ints:
  "writable n \<Longrightarrow> int_type (str_int n) = Inr n"
  "writable n \<Longrightarrow> 0 \<le> n \<Longrightarrow> nonneg_int (str_int n) = Inr n"
  by (simp_all add: writable_def int_type_def nonneg_int_def parse_int_str_int)

lemma piece_acts:
  "pieces_act (text_piece o' x f # ps) a \<longleftrightarrow>
     (case x of None \<Rightarrow> f a = a | Some v \<Rightarrow> effect o' (if takes_value o' then v else []) a = Some (f a)) \<and> pieces_act ps (f a)"
  "pieces_act (flag_piece o' b f # ps) a \<longleftrightarrow>
     (if b then effect o' (if takes_value o' then [] else []) a = Some (f a) else f a = a) \<and> pieces_act ps (f a)"
  "pieces_result (text_piece o' x f # ps) a = pieces_result ps (f a)"
  "pieces_result (flag_piece o' b f # ps) a = pieces_result ps (f a)"
  by (auto simp: text_piece_def flag_piece_def split: option.split)

lemma asset_keys_literal: "v \<in> set asset_keys \<longleftrightarrow> asset_name v"
  by (auto simp: asset_keys_def ASSET_def asset_name_def)

abbreviation command_begin :: "command \<Rightarrow> cli_args \<Rightarrow> cli_args" where
  "command_begin c args \<equiv> command_start (command_table c) (command_operand c args)
     (initial_args\<lparr>a_keystore := a_keystore args, a_esplora := a_esplora args, a_backend := command_backend c\<rparr>)"

lemma blank_initial:
  "initial_args\<lparr>a_keystore := a_keystore args, a_esplora := a_esplora args, a_backend := backend\<rparr> = blank backend args"
  by (simp add: initial_args_def blank_def DEFAULT_TOLERANCE_BPS_def)

lemma command_pieces_result:
  "pieces_result (command_pieces full c amount args) (command_begin c args) = command_args c args"
  unfolding blank_initial
  by (cases c) (simp_all add: piece_groups piece_acts command_start_def parsers command_backend_def
      with_request_def with_consent_def with_deposit_def blank_def)


lemma pieces_act_append:
  "pieces_act (ps @ qs) a \<longleftrightarrow> pieces_act ps a \<and> pieces_act qs (pieces_result ps a)"
  by (induction ps a rule: pieces_act.induct) auto

lemma text_acts:
  assumes "takes_value o'" "\<And>v. x = Some v \<Longrightarrow> effect o' v a = Some (f a)" "x = None \<Longrightarrow> f a = a" "pieces_act ps (f a)"
  shows "pieces_act (text_piece o' x f # ps) a"
  using assms by (simp add: piece_acts split: option.split)

lemma flag_acts:
  assumes "b \<Longrightarrow> effect o' [] a = Some (f a)" "\<not> b \<Longrightarrow> f a = a" "pieces_act ps (f a)"
  shows "pieces_act (flag_piece o' b f # ps) a"
  using assms by (simp add: piece_acts)

lemma unless_simps:
  "unless full d v = Some w \<longleftrightarrow> (full \<or> v \<noteq> d) \<and> w = v"
  "unless full d v = None \<longleftrightarrow> \<not> full \<and> v = d"
  by (auto simp: unless_def)

lemmas value_kinds = amount_option_def key_option_def asset_option_def backend_option_def add_liquidity_backend_arg_def
  eth_gas_option_def tron_api_option_def

lemma command_acts:
  assumes "command_ok c amount args"
  shows "pieces_act (command_pieces full c amount args) (command_begin c args)"
proof -
  have "command_start (command_table c) (command_operand c args) (blank (command_backend c) args)
    = (if c = Send then (blank ''thorchain'' args)\<lparr>a_address := a_address args\<rparr>
       else if c = Status then (blank ''auto'' args)\<lparr>a_txid := a_txid args\<rparr> else blank (command_backend c) args)"
    by (cases c) (simp_all add: command_start_def parsers command_backend_def)
  moreover have "pieces_act (command_pieces full c amount args)
      (if c = Send then (blank ''thorchain'' args)\<lparr>a_address := a_address args\<rparr>
       else if c = Status then (blank ''auto'' args)\<lparr>a_txid := a_txid args\<rparr> else blank (command_backend c) args)"
    using assms
    apply (cases c; simp only: command_pieces.simps piece_groups append.simps command.simps if_True if_False
        command_backend_def insert_iff empty_iff simp_thms; (intro text_acts flag_acts)?)
    apply (simp_all add: blank_def unless_simps request_ok_def deposit_ok_def asset_keys_literal value_kinds label_piece_def written_ints)
    apply (auto simp: written_ints pred_option_def)
    done
  ultimately show ?thesis unfolding blank_initial by simp
qed


section \<open>Properties\<close>

text \<open>C29. A command line reads back as the arguments that it was written for. For each of the thirteen
  commands the line spells out the name of the command and of the options, whether only what differs
  from the documented defaults or everything; what is read is that command, its own options with the
  values given and nothing else but the documented defaults: no confirmation that was not asked for,
  no backend but the one that was named, and the options of no other command. It needs values that
  the options take: known assets and networks, an amount that denotes the one to be sent, stream
  parameters that are not negative, integers of at most 4300 digits, operands without a leading
  dash, and not both a mnemonic and \<open>--generate\<close>.\<close>

theorem command_line_reads_back:
  assumes "command_ok c amount args"
  shows "parse_args (command_line full c amount args) = Inr (Some (c, command_args c args))"
  using pieces_parse [OF command_listed command_takes_operand [OF assms] command_pieces_spelled
      command_pieces_compatible [OF assms] command_pieces_required command_acts [OF assms]]
  by (simp add: command_pieces_result main_pieces_text command_line_def command_options_pieces)

theorem command_line_reads_back_witness:
  "parse_args [''--keystore=k.json'', ''swap'', ''--from=ETH'', ''--to=BTC'', ''--amount=max'', ''--dest=bc1q'',
      ''--no-price-check'', ''--yes'', ''--max-fee=70000'']
    = Inr (Some (Swap, (blank ''auto'' initial_args)\<lparr>a_keystore := Some ''k.json'', a_from := ''ETH'', a_to := ''BTC'',
        a_dest := Some ''bc1q'', a_price_check := False, a_yes := True, a_max_fee := 70000\<rparr>))"
proof -
  let ?args = "(blank ''auto'' initial_args)\<lparr>a_keystore := Some ''k.json'', a_from := ''ETH'', a_to := ''BTC'',
        a_dest := Some ''bc1q'', a_price_check := False, a_yes := True, a_max_fee := 70000\<rparr>"
  have max: "parse_amount ''max'' = Inr MaxAmount" by code_simp
  have int: "str_int 70000 = ''70000''" "writable 70000" "writable 60000" "writable 300"
    by (simp_all add: writable_def str_int_def str_nat_eval)
  have "command_ok Swap ''max'' ?args"
    using max int by (simp add: blank_def initial_args_def request_ok_def asset_name_def)
  from command_line_reads_back [OF this, of False] int(1) show ?thesis
    by (simp add: command_line_def request_args_def consent_args_def text_arg_def int_arg_def flag_arg_def unless_def
        with_request_def with_consent_def blank_def initial_args_def)
qed

end
