(* ===== verification/Spec2Isabelle.thy ===== *)
theory Spec2Isabelle
  imports Backends Addresses Btc Eth Tron CliLiquidity CliArguments CliLine
begin

text \<open>
  A verification development for \<open>cryptoswap-wallet\<close>, a command-line wallet that swaps between
  chains through THORChain and Maya. All paths below are under \<open>src/cryptoswap_wallet/\<close>.

  The program. \<open>main\<close> of \<open>cli.py\<close> parses the command line with the tables of \<open>build_parser\<close> and runs
  the handler of the command, which opens the encrypted keystore (\<open>keystore.py\<close>), takes the
  mnemonic of the selected key, and builds the adapter of the source chain (\<open>chains/btc.py\<close>,
  \<open>chains/eth.py\<close> with its subclass \<open>chains/bsc.py\<close>, \<open>chains/tron.py\<close>). The wallet's Bitcoin
  coins are found by a gap-limit scan (\<open>chains/scan.py\<close>). \<open>backends.py\<close> asks the networks for
  quotes and picks the best; \<open>swap.py\<close> fetches the quote of the chosen network through the REST
  client of \<open>thorchain.py\<close>, checks it and hands it to the adapter, which builds an unsigned
  transaction and runs it through a gate of \<open>verify.py\<close>. The gate compares every field that was
  built with a plan made from the quote and reports each difference. \<open>cli.py\<close> prints the costs,
  with a comparison to the spot price of \<open>pricefeed.py\<close>, asks for confirmation, and
  \<open>execute_swap\<close> signs and broadcasts what passed.

  The theories, each with the code that it models:

  \<^item> \<open>Prelude\<close>, \<open>Errors\<close>: Python calls that raise (a sum type), calls that act on the world (state
    passing), what a call leaves unchanged (\<open>keeps\<close>), the exceptions and the lines of a gate report.
  \<^item> \<open>PyText\<close>, \<open>PyCodec\<close>, \<open>Float64\<close>, \<open>Json\<close>, \<open>JsonText\<close>, \<open>Base64\<close>, \<open>Base58\<close>, \<open>DecimalAmount\<close>: what
    the program uses of Python: text and bytes, number and UTF-8 conversions, binary64 floats,
    JSON values, JSON text, base64, base58 with a checksum (\<open>base58check_encode\<close> of
    \<open>chains/tron.py\<close>), and decimals with the amounts of the command line (\<open>_amount\<close>,
    \<open>_base_units\<close>).
  \<^item> \<open>Coins\<close>: \<open>chains/coins.py\<close>; \<open>Verify\<close>: \<open>verify.py\<close>; \<open>Thorchain\<close>: \<open>thorchain.py\<close>; \<open>Net\<close>: \<open>net.py\<close>,
    for one thread and for the threads of a scan that share a client, and the balance line of
    \<open>chains/base.py\<close>; \<open>Swap\<close>: \<open>swap.py\<close> and \<open>liquidity.py\<close>; \<open>Backends\<close>:
    \<open>backends.py\<close>; \<open>Addresses\<close>: \<open>addresses.py\<close>; \<open>Scan\<close>: \<open>chains/scan.py\<close>; \<open>Pricefeed\<close>:
    \<open>pricefeed.py\<close>.
  \<^item> \<open>Btc\<close>, \<open>Eth\<close>, \<open>Tron\<close>: the adapters, \<open>chains/bsc.py\<close> inside \<open>Eth\<close>. An adapter is the record
    \<open>source_adapter\<close> of the operations that \<open>swap.py\<close> calls; \<open>btc_source\<close>, \<open>eth_source\<close>,
    \<open>bsc_source\<close> and \<open>tron_source\<close> fill it in. \<open>SampleCodec\<close> is material for witnesses only.
  \<^item> \<open>AtomicFile\<close>, \<open>Keystore\<close>: \<open>keystore.py\<close>. The disk maps names to files that know which of
    their bytes have reached the medium.
  \<^item> \<open>CliWorld\<close>: the machine the commands run in (files, network, environment variables, typed
    answers, clock, and the trace of what was printed) and the configuration helpers of \<open>cli.py\<close>;
    \<open>CliKeys\<close>: the key commands; \<open>CliRoute\<close>: destination, backend choice, cost report, \<open>quote\<close> and
    \<open>status\<close>; \<open>CliSwap\<close>: \<open>swap\<close>, \<open>send\<close> and the liquidity commands; \<open>CliBalance\<close>: \<open>balance\<close> and
    the dispatch of \<open>main\<close>; \<open>Reads\<close>, \<open>CliSafety\<close>: what may reach the network, and when;
    \<open>Handover\<close>: rules that follow a run that submitted something back through its handler, with the
    place of every step in the run: what was submitted and printed before it (\<open>hands\<close>, \<open>handed\<close>,
    \<open>new_lines\<close>);
    \<open>CliRequest\<close>, \<open>CliPayments\<close>, \<open>CliLiquidity\<close>: that what \<open>swap\<close>, \<open>send\<close> and the liquidity commands
    submit is what was asked for and shown; \<open>CliExample\<close>: a world for the witnesses of these.
  \<^item> \<open>ArgParser\<close>: what \<open>build_parser\<close> uses of \<open>argparse\<close>, as in CPython 3.12: the classification of the
    arguments, abbreviations, values, clusters of short options, positionals, required and
    exclusive options. \<open>CliParser\<close>: the tables of \<open>build_parser\<close> (\<open>_add_swap_args\<close> and its
    companions, one \<open>*_parser\<close> per subcommand) and \<open>main\<close> as \<open>cli_main\<close>, from the arguments of the
    process to the exit code; \<open>CliArguments\<close>: what a command line can and cannot make it do;
    \<open>CliLine\<close>: the options and defaults of every command written down once more without the tables,
    as a printer of command lines that \<open>parse_args\<close> reads back.

  What the lemmas show. Each gate reports nothing exactly for the transactions of an independent
  predicate (\<open>*_gate_exact\<close>), and a passed Bitcoin swap loses only the planned amount and the burnt
  value. Each adapter's pipeline carries out a quote for this very request or sends nothing
  (\<open>*_pipeline_safe\<close>), and the transactions that the builders make do pass (\<open>btc_built_swap_passes\<close>,
  \<open>eth_token_swap_passes\<close>, \<open>tron_swap_passes\<close>), so that safety is not bought by refusing
  everything. Coin selection is sound, minimal and complete. The parsers read back every field
  and never invent a quote. No command submits anything without consent, what is submitted has
  passed its gate and is not expired, and what is consented to is submitted; from the
  raw arguments on, what a process submits comes from one of the four commands that pay, with
  \<open>--confirm\<close> on the command line, and a handler only ever runs on a well-formed namespace. From the command line
  to the network, what \<open>swap\<close>, \<open>send\<close>, \<open>add-liquidity\<close> and \<open>withdraw-liquidity\<close> submit has the assets,
  amount, destination and key of the arguments (\<open>*_what_was_shown\<close>): nothing is submitted before the
  confirmation starts, the lines that show it are printed by then, and the network is left as one
  execution of the prepared transaction leaves it. The amounts are exact but for the tokens of
  Ethereum, which have six decimals and are rounded down to them. Every backend is asked for its
  quote before the best is taken. A keystore is read back as it was saved, and a crash at any moment
  of the write leaves the old file or the new one; loading does not check that labels are distinct,
  which holds because adding does. One thread leaves no HTTP session open, but the threads of a scan
  race in \<open>_http\<close>: \<open>client_sessions\<close> bounds the sessions by the threads and exhibits the leak.
  Amounts are scaled exactly or refused. The interfaces are the locales
  \<open>verify_gate\<close> of \<open>Verify\<close>, \<open>swap_source\<close>, \<open>deposit_source\<close> and \<open>send_source\<close> of \<open>Swap\<close> with their
  extensions \<open>quoting_source\<close> and \<open>planned_deposit_source\<close>, and \<open>codec\<close> of \<open>Prelude\<close>; every one is interpreted on the definitions of the code.

  Bounds and fuel. The scan of \<open>Scan\<close> takes one unit of fuel per window of addresses:
  \<open>scan_finds_used\<close> gives the amount that is enough, and a command that runs out ends in the
  exception \<open>OutOfModel\<close>, which no code catches. The JSON reader takes fuel, one more than the
  length of the text, which no nesting can exceed. The loop of the argument parser needs none: every
  round consumes an argument. Satoshi and wei amounts are unbounded integers
  as in Python; bytes are \<open>8 word\<close>. Characters are the code points 0 to 255; infinities, NaN and
  the sign of zero of binary64 are left out.

  Parameters. Key derivation, transaction building and signing of \<open>bitcoinlib\<close>, \<open>eth-account\<close> and
  \<open>tronpy\<close>, keccak, SHA-256, the ABI codec, scrypt and AES-GCM, and the HTTP client are not in the
  repository: they are the fields of \<open>btclib\<close>, \<open>ethlib\<close>, \<open>tronlib\<close>, \<open>cryptolib\<close> and \<open>cli_libs\<close>. What
  the code relies on is stated where a property needs it (\<open>btclib_ok\<close>, \<open>abi_ok\<close>, \<open>tronlib_ok\<close>,
  \<open>crypt_ok\<close>, \<open>reads_only\<close>) and shown to hold of a concrete library in the witness.

  Not modelled. The texts of help, version and usage messages, and the shell completion of
  \<open>argcomplete\<close>, which is the parameter \<open>completion\<close> of \<open>cli_main\<close>. The thread pool
  of the scan: its results are consumed in the order of the addresses, and the commands probe them
  in that order here; the interleavings of its threads are modelled for the HTTP client alone.
  Negative decimals of a token, for which Python would compute with floats, end in \<open>OutOfModel\<close>. The
  names that \<open>mkstemp\<close> tries one after the other are a list in the world. The message texts of
  exceptions: their kinds and numbers are. \<open>_keyless_tron\<close>, a subclass of a client of \<open>tronpy\<close>, is
  part of \<open>tronlib\<close>. The directories of the keystore path.
\<close>

end
